(* ===== verification/Go_Prelude.thy ===== *)
theory Go_Prelude
  imports Main "HOL-Library.Word" "HOL-Library.Signed_Division" "HOL-Library.Multiset"
begin

text \<open>
  The part of the Go language and of its standard library that every component uses:
  machine integers with their wrap-around, instants and durations, the error values of
  \<^verbatim>\<open>internal/domain/errors.go\<close>, and the sorting routine of the \<^verbatim>\<open>sort\<close> and
  \<^verbatim>\<open>slices\<close> packages.  The collections of facts declared here (\<open>go_arith\<close>,
  \<open>go_time\<close>) carry the arithmetic of the component theories.
\<close>

named_theorems go_arith \<open>range and wrap-around facts on Go integers\<close>
named_theorems go_time \<open>definitions of durations\<close>

section \<open>Machine integers\<close>

text \<open>
  A Go \<^verbatim>\<open>int\<close> or \<^verbatim>\<open>int64\<close> is an integer in \<open>[-2^63, 2^63)\<close>, an \<^verbatim>\<open>int32\<close> one in
  \<open>[-2^31, 2^31)\<close>.  An arithmetic result is reduced by \<open>i64\<close> or \<open>i32\<close>, the two's
  complement wrap-around; division truncates towards zero (\<open>sdiv\<close>, \<open>smod\<close> of
  \<^verbatim>\<open>HOL-Library.Signed_Division\<close>).
\<close>

definition i64 :: "int \<Rightarrow> int" where
  "i64 x = (x + 2 ^ 63) mod 2 ^ 64 - 2 ^ 63"

definition i32 :: "int \<Rightarrow> int" where
  "i32 x = (x + 2 ^ 31) mod 2 ^ 32 - 2 ^ 31"

definition in_i64 :: "int \<Rightarrow> bool" where
  "in_i64 x \<longleftrightarrow> - (2 ^ 63) \<le> x \<and> x < 2 ^ 63"

definition in_i32 :: "int \<Rightarrow> bool" where
  "in_i32 x \<longleftrightarrow> - (2 ^ 31) \<le> x \<and> x < 2 ^ 31"

lemma i64_id [simp]: "in_i64 x \<Longrightarrow> i64 x = x"
  by (simp add: i64_def in_i64_def)

lemma i32_id [simp]: "in_i32 x \<Longrightarrow> i32 x = x"
  by (simp add: i32_def in_i32_def)

lemma in_i64_i64 [simp]: "in_i64 (i64 x)"
  by (simp add: i64_def in_i64_def pos_mod_bound [of "2 ^ 64", simplified])

lemma in_i32_i32 [simp]: "in_i32 (i32 x)"
  by (simp add: i32_def in_i32_def pos_mod_bound [of "2 ^ 32", simplified])

lemma in_i32_in_i64 [go_arith]: "in_i32 x \<Longrightarrow> in_i64 x"
  by (simp add: in_i32_def in_i64_def)

lemma in_i64_bounded [go_arith]: "- (2 ^ 62) \<le> x \<Longrightarrow> x \<le> 2 ^ 62 \<Longrightarrow> in_i64 x"
  by (simp add: in_i64_def)

lemma in_i64I: "- (2 ^ 63) \<le> x \<Longrightarrow> x < 2 ^ 63 \<Longrightarrow> in_i64 x"
  by (simp add: in_i64_def)

lemma sdiv_nonneg [go_arith]: "0 \<le> a \<Longrightarrow> 0 \<le> b \<Longrightarrow> (a :: int) sdiv b = a div b"
  by (cases "a = 0"; cases "b = 0") (auto simp: signed_divide_int_def sgn_if)

lemma smod_nonneg [go_arith]: "0 \<le> a \<Longrightarrow> 0 < b \<Longrightarrow> (a :: int) smod b = a mod b"
  by (cases "a = 0") (auto simp: signed_modulo_int_def sdiv_nonneg minus_div_mult_eq_mod)

lemma int_div_le [go_arith]: "0 \<le> a \<Longrightarrow> 0 < b \<Longrightarrow> (a :: int) div b \<le> a"
  using zdiv_mono2 [of a 1 b] by simp

section \<open>Instants and durations\<close>

text \<open>
  A \<^verbatim>\<open>time.Time\<close> is the number of nanoseconds since the zero instant (January 1 of year 1,
  UTC), so \<^verbatim>\<open>IsZero\<close> is equality with 0; \<^verbatim>\<open>UTC()\<close> changes the location only and is the
  identity on instants.  A \<^verbatim>\<open>time.Duration\<close> is a number of nanoseconds.
\<close>

type_synonym gtime = int
type_synonym duration = int

definition IsZero :: "gtime \<Rightarrow> bool" where
  "IsZero t \<longleftrightarrow> t = 0"

definition second :: duration where [go_time]: "second = 1000000000"
definition millisecond :: duration where [go_time]: "millisecond = 1000000"
definition minute :: duration where [go_time]: "minute = 60 * 1000000000"
definition hour :: duration where [go_time]: "hour = 3600 * 1000000000"

lemma duration_pos [simp]: "0 < second" "0 < millisecond" "0 < minute" "0 < hour"
  by (simp_all add: go_time)

section \<open>UUIDs\<close>

text \<open>
  A \<^verbatim>\<open>uuid.UUID\<close> is an array of 16 bytes.  The package \<^verbatim>\<open>github.com/google/uuid\<close> is not
  part of the repository: the outcome of \<^verbatim>\<open>uuid.NewV7()\<close> is an argument of the operations
  that call it (\<open>None\<close> where it returns an error), and \<^verbatim>\<open>Version\<close> and \<^verbatim>\<open>String\<close> are
  function parameters.
\<close>

type_synonym uuid = "128 word"

abbreviation uuid_Nil :: uuid where
  "uuid_Nil \<equiv> 0"

section \<open>Errors\<close>

text \<open>
  The sentinel errors of \<^verbatim>\<open>internal/domain/errors.go\<close>.  \<^verbatim>\<open>fmt.Errorf("%w: text", E)\<close> is
  \<open>Wrap E text\<close>, a sentinel returned as it is has the empty text, and an error without a
  sentinel is \<open>Plain text\<close>; \<^verbatim>\<open>errors.Is\<close> looks for the sentinel.
\<close>

datatype sentinel =
    ErrValidation | ErrNotFound | ErrConflict | ErrForbidden | ErrVersionConflict
  | ErrInvalidTransition | ErrCapacityUnavailable | ErrBudgetUnavailable | ErrRunTerminal
  | ErrRetryNotAllowed

datatype error = Wrap sentinel string | Plain string

abbreviation Sentinel :: "sentinel \<Rightarrow> error" where
  "Sentinel e \<equiv> Wrap e []"

fun errors_Is :: "error \<Rightarrow> sentinel \<Rightarrow> bool" where
  "errors_Is (Wrap e _) s = (e = s)"
| "errors_Is (Plain _) s = False"

type_synonym 'a result = "error + 'a"

text \<open>
  A method on a pointer receiver changes the receiver and returns an error or nil; its
  model maps the receiver to the error, if any, and the receiver afterwards.
\<close>

type_synonym 's receiver = "'s \<Rightarrow> error option \<times> 's"

section \<open>Sorting\<close>

text \<open>
  \<^verbatim>\<open>sort.Slice\<close> and \<^verbatim>\<open>slices.SortFunc\<close> take the comparison as an argument.  \<open>sort_by\<close> is
  insertion sort with that comparison; where the comparison is a strict weak order, as
  both packages require, its result is a sorted permutation, and where only equal
  elements are incomparable it is the only one.
\<close>

fun insert_by :: "('a \<Rightarrow> 'a \<Rightarrow> bool) \<Rightarrow> 'a \<Rightarrow> 'a list \<Rightarrow> 'a list" where
  "insert_by lt x [] = [x]"
| "insert_by lt x (y # ys) = (if lt y x then y # insert_by lt x ys else x # y # ys)"

fun sort_by :: "('a \<Rightarrow> 'a \<Rightarrow> bool) \<Rightarrow> 'a list \<Rightarrow> 'a list" where
  "sort_by lt [] = []"
| "sort_by lt (x # xs) = insert_by lt x (sort_by lt xs)"

lemma mset_insert_by [simp]: "mset (insert_by lt x ys) = add_mset x (mset ys)"
  by (induction ys) auto

lemma mset_sort_by [simp]: "mset (sort_by lt xs) = mset xs"
  by (induction xs) auto

lemma set_insert_by [simp]: "set (insert_by lt x ys) = insert x (set ys)"
  by (induction ys) auto

lemma set_sort_by [simp]: "set (sort_by lt xs) = set xs"
  by (induction xs) auto

lemma length_sort_by [simp]: "length (sort_by lt xs) = length xs"
  by (metis mset_sort_by size_mset)

lemma sort_by_Nil_iff [simp]: "sort_by lt xs = [] \<longleftrightarrow> xs = []"
  by (metis length_0_conv length_sort_by)

locale go_less =
  fixes lt :: "'a \<Rightarrow> 'a \<Rightarrow> bool"
  assumes lt_irrefl: "\<not> lt x x"
    and lt_trans: "lt x y \<Longrightarrow> lt y z \<Longrightarrow> lt x z"
    and incomparable_trans:
      "\<not> lt x y \<Longrightarrow> \<not> lt y x \<Longrightarrow> \<not> lt y z \<Longrightarrow> \<not> lt z y \<Longrightarrow> \<not> lt x z"
begin

lemma lt_asym: "lt x y \<Longrightarrow> \<not> lt y x"
  using lt_irrefl lt_trans by blast

lemma not_lt_trans: "\<not> lt y x \<Longrightarrow> \<not> lt z y \<Longrightarrow> \<not> lt z x"
  using lt_trans incomparable_trans by blast

lemma sorted_insert_by:
  "sorted_wrt (\<lambda>a b. \<not> lt b a) ys \<Longrightarrow> sorted_wrt (\<lambda>a b. \<not> lt b a) (insert_by lt x ys)"
proof (induction ys)
  case Nil
  then show ?case by simp
next
  case (Cons y ys)
  show ?case
  proof (cases "lt y x")
    case True
    with Cons show ?thesis by (auto dest: lt_asym)
  next
    case False
    with Cons.prems show ?thesis using not_lt_trans by fastforce
  qed
qed

lemma sorted_sort_by: "sorted_wrt (\<lambda>a b. \<not> lt b a) (sort_by lt xs)"
  by (induction xs) (auto intro: sorted_insert_by)

lemma sort_by_hd_least:
  assumes "sort_by lt xs = m # ms"
  shows "m \<in> set xs" and "x \<in> set xs \<Longrightarrow> \<not> lt x m"
proof -
  from assms have set: "set xs = insert m (set ms)"
    using set_sort_by [of lt xs] by simp
  then show "m \<in> set xs" by simp
  have "sorted_wrt (\<lambda>a b. \<not> lt b a) (m # ms)"
    using sorted_sort_by [of xs] assms by simp
  then show "\<not> lt x m" if "x \<in> set xs"
    using that set lt_irrefl by auto
qed

text \<open>What a limit cuts off comes after what it keeps.\<close>

lemma take_sort_by:
  assumes "y \<in> set (take n (filter P (sort_by lt xs)))" "x \<in> set xs" "P x" "lt x y"
  shows "x \<in> set (take n (filter P (sort_by lt xs)))"
proof -
  let ?l = "filter P (sort_by lt xs)"
  have "sorted_wrt (\<lambda>a b. \<not> lt b a) (take n ?l @ drop n ?l)"
    using sorted_wrt_filter [OF sorted_sort_by] by simp
  then have "\<forall>a \<in> set (take n ?l). \<forall>b \<in> set (drop n ?l). \<not> lt b a" unfolding sorted_wrt_append by blast
  then have "x \<notin> set (drop n ?l)" using assms(1,4) by blast
  moreover have "x \<in> set (take n ?l @ drop n ?l)" using assms(2,3) by simp
  ultimately show ?thesis unfolding set_append by blast
qed

lemma sort_by_last_greatest:
  assumes "xs \<noteq> []"
  shows "last (sort_by lt xs) \<in> set xs"
    and "x \<in> set xs \<Longrightarrow> \<not> lt (last (sort_by lt xs)) x"
proof -
  let ?ys = "sort_by lt xs"
  have ne: "?ys \<noteq> []" using assms by simp
  then show "last ?ys \<in> set xs" using last_in_set [OF ne] by simp
  have split: "?ys = butlast ?ys @ [last ?ys]" using ne by simp
  have "sorted_wrt (\<lambda>a b. \<not> lt b a) (butlast ?ys @ [last ?ys])"
    using sorted_sort_by [of xs] split by simp
  then have "\<forall>y \<in> set (butlast ?ys). \<not> lt (last ?ys) y"
    by (simp add: sorted_wrt_append)
  moreover have "set xs = insert (last ?ys) (set (butlast ?ys))"
    using split set_sort_by [of lt xs]
    by (metis Un_commute insert_is_Un list.set(1) list.simps(15) set_append)
  ultimately show "\<not> lt (last ?ys) x" if "x \<in> set xs"
    using that lt_irrefl by auto
qed

end

text \<open>Where incomparable elements are equal, the sorted permutation is unique.\<close>

locale go_total_less = go_less +
  assumes lt_total: "x \<noteq> y \<Longrightarrow> lt x y \<or> lt y x"
begin

lemma sorted_unique:
  "sorted_wrt (\<lambda>a b. \<not> lt b a) xs \<Longrightarrow> sorted_wrt (\<lambda>a b. \<not> lt b a) ys \<Longrightarrow>
    mset xs = mset ys \<Longrightarrow> xs = ys"
proof (induction xs arbitrary: ys)
  case Nil
  then show ?case by simp
next
  case (Cons x xs)
  then obtain y ys' where ys: "ys = y # ys'" by (cases ys) auto
  have "x \<in> set (y # ys')" "y \<in> set (x # xs)"
    using Cons.prems(3) ys by (metis list.set_intros(1) set_mset_mset)+
  then have "\<not> lt x y \<and> \<not> lt y x"
    using Cons.prems(1,2) ys lt_irrefl by auto
  then have "x = y" using lt_total by blast
  with Cons ys show ?case by simp
qed

lemma sort_by_unique:
  "mset ys = mset xs \<Longrightarrow> sorted_wrt (\<lambda>a b. \<not> lt b a) ys \<Longrightarrow> sort_by lt xs = ys"
  using sorted_unique [OF sorted_sort_by] by simp

lemma sort_by_mset_cong: "mset ys = mset xs \<Longrightarrow> sort_by lt ys = sort_by lt xs"
  by (rule sort_by_unique) (auto simp: sorted_sort_by)

end

section \<open>Loops over a slice with a map of the values already seen\<close>

text \<open>
  The recurring loop: a value fails the check if it is not valid or was seen before.
\<close>

fun unique_valid :: "('a \<Rightarrow> bool) \<Rightarrow> 'a set \<Rightarrow> 'a list \<Rightarrow> bool" where
  "unique_valid valid seen [] = True"
| "unique_valid valid seen (v # vs) =
     (if \<not> valid v \<or> v \<in> seen then False else unique_valid valid (insert v seen) vs)"

lemma unique_valid_iff:
  "unique_valid valid seen vs \<longleftrightarrow>
     (\<forall>v \<in> set vs. valid v) \<and> distinct vs \<and> set vs \<inter> seen = {}"
  by (induction vs arbitrary: seen) auto

section \<open>Lifecycles\<close>

text \<open>
  The contract of an aggregate with a status: a transition that is refused or fails leaves
  the aggregate unchanged, one that succeeds reaches its target, and a final status can
  only be asked for again.  \<open>apply_all\<close> runs a sequence of commands, ignoring the errors of
  those that fail, as independent callers do.
\<close>

fun apply_all :: "('c \<Rightarrow> 's receiver) \<Rightarrow> 'c list \<Rightarrow> 's \<Rightarrow> 's" where
  "apply_all f [] s = s"
| "apply_all f (c # cs) s = apply_all f cs (snd (f c s))"

locale lifecycle =
  fixes status :: "'s \<Rightarrow> 'st"
    and final :: "'st \<Rightarrow> bool"
    and can :: "'s \<Rightarrow> 'st \<Rightarrow> bool"
    and target :: "'c \<Rightarrow> 'st"
    and trans :: "'c \<Rightarrow> 's receiver"
  assumes refused: "\<not> can s (target c) \<Longrightarrow> \<exists>m. trans c s = (Some (Wrap ErrInvalidTransition m), s)"
    and same: "target c = status s \<Longrightarrow> trans c s = (None, s)"
    and failed_unchanged: "trans c s = (Some e, s') \<Longrightarrow> s' = s"
    and reaches: "trans c s = (None, s') \<Longrightarrow> status s' = target c"
    and final_stays: "final (status s) \<Longrightarrow> can s t \<Longrightarrow> t = status s"
begin

lemma final_absorbing: "final (status s) \<Longrightarrow> snd (trans c s) = s"
  by (metis final_stays refused same snd_conv)

lemma final_apply_all: "final (status s) \<Longrightarrow> apply_all trans cs s = s"
  by (induction cs) (auto simp: final_absorbing)

lemma accepted_can: "trans c s = (None, s') \<Longrightarrow> can s (target c)"
  using refused by fastforce

lemma idempotent: "trans c s = (None, s') \<Longrightarrow> trans c s' = (None, s')"
  using reaches same by metis

lemma apply_all_invariant:
  assumes step: "\<And>c s s'. P s \<Longrightarrow> trans c s = (None, s') \<Longrightarrow> P s'"
  shows "P s \<Longrightarrow> P (apply_all trans cs s)"
proof (induction cs arbitrary: s)
  case (Cons c cs)
  obtain e s' where t: "trans c s = (e, s')" by (cases "trans c s")
  then have "P s'" using Cons.prems step failed_unchanged by (cases e) blast+
  with Cons.IH t show ?case by simp
qed simp

end

end
