(* ===== verification/Go_Strings.thy ===== *)
theory Go_Strings
  imports Go_Prelude "HOL-Library.Sublist" "HOL-Library.Char_ord" "HOL-Library.List_Lexorder"
begin

text \<open>
  The functions of Go's \<^verbatim>\<open>strings\<close> and \<^verbatim>\<open>strconv\<close> packages the program calls.  A Go
  string is its sequence of bytes, so \<^verbatim>\<open>len\<close> is the length of the list, \<^verbatim>\<open><\<close> is the
  lexicographic order on bytes, and a Unicode character is its UTF-8 encoding.
\<close>

section \<open>TrimSpace\<close>

text \<open>The UTF-8 encodings of the characters with Unicode's White\_Space property.\<close>

definition space_encodings :: "string list" where
  "space_encodings =
    [[CHR 0x20], [CHR 0x09], [CHR 0x0A], [CHR 0x0B], [CHR 0x0C], [CHR 0x0D],
     [CHR 0xC2, CHR 0x85], [CHR 0xC2, CHR 0xA0], [CHR 0xE1, CHR 0x9A, CHR 0x80],
     [CHR 0xE2, CHR 0x80, CHR 0x80], [CHR 0xE2, CHR 0x80, CHR 0x81],
     [CHR 0xE2, CHR 0x80, CHR 0x82], [CHR 0xE2, CHR 0x80, CHR 0x83],
     [CHR 0xE2, CHR 0x80, CHR 0x84], [CHR 0xE2, CHR 0x80, CHR 0x85],
     [CHR 0xE2, CHR 0x80, CHR 0x86], [CHR 0xE2, CHR 0x80, CHR 0x87],
     [CHR 0xE2, CHR 0x80, CHR 0x88], [CHR 0xE2, CHR 0x80, CHR 0x89],
     [CHR 0xE2, CHR 0x80, CHR 0x8A], [CHR 0xE2, CHR 0x80, CHR 0xA8],
     [CHR 0xE2, CHR 0x80, CHR 0xA9], [CHR 0xE2, CHR 0x80, CHR 0xAF],
     [CHR 0xE2, CHR 0x81, CHR 0x9F], [CHR 0xE3, CHR 0x80, CHR 0x80]]"

text \<open>The length of the encoding the string starts with, 0 if it starts with none.\<close>

fun lead_length :: "string list \<Rightarrow> string \<Rightarrow> nat" where
  "lead_length [] s = 0"
| "lead_length (e # es) s =
     (if e \<noteq> [] \<and> take (length e) s = e then length e else lead_length es s)"

function trim_leading :: "string list \<Rightarrow> string \<Rightarrow> string" where
  "trim_leading es s =
     (if lead_length es s = 0 \<or> s = [] then s else trim_leading es (drop (lead_length es s) s))"
  by auto
termination
  by (relation "measure (\<lambda>(_, s). length s)") auto

declare trim_leading.simps [simp del]

definition TrimSpace :: "string \<Rightarrow> string" where
  "TrimSpace s =
     rev (trim_leading (map rev space_encodings) (rev (trim_leading space_encodings s)))"

lemma take_eq_iff_prefix: "take (length e) s = e \<longleftrightarrow> prefix e s"
  by (metis append_eq_conv_conj append_take_drop_id prefix_def)

lemma lead_length_0_iff:
  "lead_length es s = 0 \<longleftrightarrow> (\<forall>e \<in> set es. e \<noteq> [] \<longrightarrow> \<not> prefix e s)"
  by (induction es) (auto simp: take_eq_iff_prefix)

lemma lead_length_Nil [simp]: "lead_length es [] = 0"
  by (induction es) auto

lemma trim_leading_suffix: "suffix (trim_leading es s) s"
proof (induction es s rule: trim_leading.induct)
  case (1 es s)
  then show ?case
    by (subst trim_leading.simps)
      (auto intro: suffix_order.trans [OF _ suffix_drop])
qed

lemma trim_leading_done: "lead_length es (trim_leading es s) = 0"
proof (induction es s rule: trim_leading.induct)
  case (1 es s)
  then show ?case by (subst trim_leading.simps) auto
qed

lemma trim_leading_id: "lead_length es s = 0 \<Longrightarrow> trim_leading es s = s"
  by (subst trim_leading.simps) simp

lemma lead_length_prefix: "lead_length es s = 0 \<Longrightarrow> prefix t s \<Longrightarrow> lead_length es t = 0"
  unfolding lead_length_0_iff by (meson prefix_order.trans)

text \<open>A trimmed string starts and ends with no space, and trimming it again changes nothing.\<close>

lemma TrimSpace_lead [simp]: "lead_length space_encodings (TrimSpace s) = 0"
proof -
  let ?t = "trim_leading space_encodings s"
  have "prefix (TrimSpace s) ?t"
    unfolding TrimSpace_def by (metis rev_rev_ident suffix_to_prefix trim_leading_suffix)
  then show ?thesis by (rule lead_length_prefix [OF trim_leading_done])
qed

lemma TrimSpace_trail [simp]: "lead_length (map rev space_encodings) (rev (TrimSpace s)) = 0"
  unfolding TrimSpace_def by (simp add: trim_leading_done)

lemma TrimSpace_idem [simp]: "TrimSpace (TrimSpace s) = TrimSpace s"
  using trim_leading_id [OF TrimSpace_lead] trim_leading_id [OF TrimSpace_trail]
  by (simp add: TrimSpace_def [of "TrimSpace s"])

lemma TrimSpace_sublist: "sublist (TrimSpace s) s"
proof -
  have "prefix (TrimSpace s) (trim_leading space_encodings s)"
    unfolding TrimSpace_def by (metis rev_rev_ident suffix_to_prefix trim_leading_suffix)
  then show ?thesis
    using prefix_imp_sublist suffix_imp_sublist [OF trim_leading_suffix] by (meson sublist_order.order.trans)
qed

lemma TrimSpace_length: "length (TrimSpace s) \<le> length s"
  using TrimSpace_sublist by (rule sublist_length_le)

lemma TrimSpace_Nil [simp]: "TrimSpace [] = []"
  by (simp add: TrimSpace_def trim_leading.simps)

lemma TrimSpace_unchanged:
  "lead_length space_encodings s = 0 \<Longrightarrow> lead_length (map rev space_encodings) (rev s) = 0 \<Longrightarrow>
    TrimSpace s = s"
  by (simp add: TrimSpace_def trim_leading_id)

section \<open>Prefixes, substrings, splitting and replacement\<close>

definition HasPrefix :: "string \<Rightarrow> string \<Rightarrow> bool" where
  "HasPrefix s p \<longleftrightarrow> take (length p) s = p"

definition HasSuffix :: "string \<Rightarrow> string \<Rightarrow> bool" where
  "HasSuffix s p \<longleftrightarrow> HasPrefix (rev s) (rev p)"

fun Contains :: "string \<Rightarrow> string \<Rightarrow> bool" where
  "Contains [] sub = (sub = [])"
| "Contains (c # s) sub = (HasPrefix (c # s) sub \<or> Contains s sub)"

lemma HasPrefix_iff: "HasPrefix s p \<longleftrightarrow> prefix p s"
  by (simp add: HasPrefix_def take_eq_iff_prefix)

lemma HasSuffix_iff: "HasSuffix s p \<longleftrightarrow> suffix p s"
  by (simp add: HasSuffix_def HasPrefix_iff suffix_to_prefix)

lemma Contains_iff: "Contains s sub \<longleftrightarrow> sublist sub s"
  by (induction s) (auto simp: HasPrefix_iff sublist_Cons_right)

text \<open>
  \<^verbatim>\<open>strings.Split\<close> with a one-byte separator, and \<^verbatim>\<open>strings.ReplaceAll\<close> with a non-empty
  pattern: the leftmost occurrences are replaced, without overlap.
\<close>

fun Split1 :: "char \<Rightarrow> string \<Rightarrow> string list" where
  "Split1 d [] = [[]]"
| "Split1 d (c # s) =
     (if c = d then [] # Split1 d s
      else (case Split1 d s of [] \<Rightarrow> [[c]] | p # ps \<Rightarrow> (c # p) # ps))"

fun Join1 :: "char \<Rightarrow> string list \<Rightarrow> string" where
  "Join1 d [] = []"
| "Join1 d [p] = p"
| "Join1 d (p # ps) = p @ d # Join1 d ps"

lemma Split1_ne [simp]: "Split1 d s \<noteq> []"
  by (induction s) (auto split: list.splits)

lemma Join1_Split1: "Join1 d (Split1 d s) = s"
proof (induction s)
  case Nil
  then show ?case by simp
next
  case (Cons c s)
  obtain p ps where "Split1 d s = p # ps" by (meson Split1_ne list.exhaust)
  with Cons show ?case by (cases ps) auto
qed

lemma Split1_parts: "p \<in> set (Split1 d s) \<Longrightarrow> d \<notin> set p"
  by (induction s arbitrary: p) (fastforce split: if_splits list.splits)+

function ReplaceAll :: "string \<Rightarrow> string \<Rightarrow> string \<Rightarrow> string" where
  "ReplaceAll [] old new = []"
| "ReplaceAll (c # s) old new =
     (if old \<noteq> [] \<and> HasPrefix (c # s) old
      then new @ ReplaceAll (drop (length old) (c # s)) old new
      else c # ReplaceAll s old new)"
  by pat_completeness auto
termination
  by (relation "measure (\<lambda>(s, _, _). length s)")
    (auto simp: HasPrefix_def neq_Nil_conv)

lemma ReplaceAll_absent: "\<not> Contains s old \<Longrightarrow> ReplaceAll s old new = s"
  by (induction s old new rule: ReplaceAll.induct) auto

text \<open>\<^verbatim>\<open>strings.LastIndex\<close>, with \<open>None\<close> for -1.\<close>

definition LastIndex :: "string \<Rightarrow> string \<Rightarrow> nat option" where
  "LastIndex s sub =
    (case filter (\<lambda>i. HasPrefix (drop i s) sub) (rev [0..<Suc (length s)]) of
       [] \<Rightarrow> None | i # _ \<Rightarrow> Some i)"

section \<open>Letter case\<close>

text \<open>
  \<^verbatim>\<open>strings.ToLower\<close> on ASCII letters, together with the two non-ASCII characters whose
  lower case is ASCII: the Kelvin sign (E2 84 AA) and the dotted capital I (C4 B0, which
  \<^verbatim>\<open>unicode.ToLower\<close> maps to \<^verbatim>\<open>i\<close>).  The remaining non-ASCII letters stay non-ASCII and are
  kept; the callers compare the result with ASCII patterns only.
\<close>

definition lower_char :: "char \<Rightarrow> char" where
  "lower_char c = (if CHR ''A'' \<le> c \<and> c \<le> CHR ''Z'' then char_of (of_char c + 32 :: nat) else c)"

fun ToLower :: "string \<Rightarrow> string" where
  "ToLower (a # b # c # s) =
     (if a = CHR 0xE2 \<and> b = CHR 0x84 \<and> c = CHR 0xAA then CHR ''k'' # ToLower s
      else if a = CHR 0xC4 \<and> b = CHR 0xB0 then CHR ''i'' # ToLower (c # s)
      else lower_char a # ToLower (b # c # s))"
| "ToLower [a, b] =
     (if a = CHR 0xC4 \<and> b = CHR 0xB0 then [CHR ''i''] else [lower_char a, lower_char b])"
| "ToLower [a] = [lower_char a]"
| "ToLower [] = []"

section \<open>Decimal numbers\<close>

text \<open>\<^verbatim>\<open>strconv.Itoa\<close> and \<^verbatim>\<open>strconv.Atoi\<close> (decimal digits with an optional sign, in the range of int).\<close>

definition digit_char :: "nat \<Rightarrow> char" where
  "digit_char d = char_of (48 + d)"

fun nat_digits :: "nat \<Rightarrow> string" where
  "nat_digits n = (if n < 10 then [digit_char n] else nat_digits (n div 10) @ [digit_char (n mod 10)])"

declare nat_digits.simps [simp del]

definition Itoa :: "int \<Rightarrow> string" where
  "Itoa i = (if i < 0 then CHR ''-'' # nat_digits (nat (- i)) else nat_digits (nat i))"

definition digit_value :: "char \<Rightarrow> nat option" where
  "digit_value c = (let v = of_char c :: nat in if 48 \<le> v \<and> v \<le> 57 then Some (v - 48) else None)"

fun parse_digits :: "nat \<Rightarrow> string \<Rightarrow> nat option" where
  "parse_digits acc [] = Some acc"
| "parse_digits acc (c # s) =
     (case digit_value c of None \<Rightarrow> None | Some d \<Rightarrow> parse_digits (10 * acc + d) s)"

definition parse_unsigned :: "string \<Rightarrow> nat option" where
  "parse_unsigned s = (if s = [] then None else parse_digits 0 s)"

definition Atoi :: "string \<Rightarrow> int option" where
  "Atoi s =
    (let v = (case s of
        [] \<Rightarrow> None
      | c # t \<Rightarrow>
          (if c = CHR ''-'' then map_option (\<lambda>n. - int n) (parse_unsigned t)
           else if c = CHR ''+'' then map_option int (parse_unsigned t)
           else map_option int (parse_unsigned s)))
     in (case v of Some i \<Rightarrow> (if in_i64 i then Some i else None) | None \<Rightarrow> None))"

lemma digit_value_digit_char [simp]: "d < 10 \<Longrightarrow> digit_value (digit_char d) = Some d"
  by (simp add: digit_value_def digit_char_def)

lemma parse_digits_append:
  "parse_digits acc (s @ t) = (case parse_digits acc s of None \<Rightarrow> None | Some a \<Rightarrow> parse_digits a t)"
  by (induction s arbitrary: acc) (auto split: option.splits)

lemma parse_nat_digits: "parse_digits 0 (nat_digits n) = Some n"
proof (induction n rule: nat_digits.induct)
  case (1 n)
  then show ?case
    by (subst nat_digits.simps) (auto simp: parse_digits_append)
qed

lemma nat_digits_ne [simp]: "nat_digits n \<noteq> []"
  by (subst nat_digits.simps) simp

lemma nat_digits_digits: "c \<in> set (nat_digits n) \<Longrightarrow> \<exists>d < 10. c = digit_char d"
proof (induction n rule: nat_digits.induct)
  case (1 n)
  then show ?case
    by (subst (asm) (2) nat_digits.simps) (auto split: if_splits intro: exI [of _ "n mod 10"])
qed

lemma nat_digits_hd_no_sign:
  assumes "nat_digits n = c # s"
  shows "c \<noteq> CHR ''-''" and "c \<noteq> CHR ''+''"
proof -
  obtain d where d: "d < 10" "c = digit_char d"
    using nat_digits_digits [of c n] assms by auto
  then have "digit_value c = Some d" by simp
  then show "c \<noteq> CHR ''-''" "c \<noteq> CHR ''+''"
    by (auto simp: digit_value_def split: if_splits)
qed

lemma Atoi_Itoa: "in_i64 i \<Longrightarrow> Atoi (Itoa i) = Some i"
proof (cases "i < 0")
  case True
  moreover assume "in_i64 i"
  ultimately show ?thesis
    by (simp add: Atoi_def Itoa_def parse_unsigned_def parse_nat_digits)
next
  case False
  moreover assume "in_i64 i"
  moreover obtain c s where "nat_digits (nat i) = c # s"
    by (meson nat_digits_ne list.exhaust)
  ultimately show ?thesis
    using parse_nat_digits [of "nat i"] nat_digits_hd_no_sign [of "nat i" c s]
    by (auto simp: Atoi_def Itoa_def parse_unsigned_def)
qed

lemma nat_digits_length: "0 < k \<Longrightarrow> n < 10 ^ k \<Longrightarrow> length (nat_digits n) \<le> k"
proof (induction n arbitrary: k rule: nat_digits.induct)
  case (1 n)
  show ?case
  proof (cases "n < 10")
    case True
    with 1 show ?thesis by (subst nat_digits.simps) simp
  next
    case False
    with 1 obtain j where k: "k = Suc j" "0 < j" by (cases k; cases "k - 1") auto
    with 1 have "n div 10 < 10 ^ j" by (simp add: less_mult_imp_div_less mult.commute)
    with 1 False k show ?thesis by (subst nat_digits.simps) auto
  qed
qed

lemma Itoa_length: "in_i64 i \<Longrightarrow> length (Itoa i) \<le> 20"
proof -
  assume "in_i64 i"
  then have "nat i < 10 ^ 19" "nat (- i) < 10 ^ 19" by (auto simp: in_i64_def)
  then show ?thesis
    using nat_digits_length [of 19 "nat i"] nat_digits_length [of 19 "nat (- i)"]
    by (simp add: Itoa_def)
qed

lemma Itoa_ne [simp]: "Itoa i \<noteq> []"
  by (simp add: Itoa_def)

end
