(* ===== verification/Go_Regexp.thy ===== *)
theory Go_Regexp
  imports Go_Strings
begin

text \<open>
  The fragment of Go's \<^verbatim>\<open>regexp\<close> package the program uses: anchored patterns built from
  character classes, concatenation, alternatives, repetition and counted repetition.
  \<open>MatchString\<close> runs a pattern by Brzozowski derivatives on the bytes of the string;
  \<open>MatchString_iff\<close> shows that it decides the language of the pattern.  The classes are
  ASCII classes and complements of ASCII classes under a repetition, for which matching
  bytes and matching the characters they encode agree.
\<close>

section \<open>Patterns and their languages\<close>

datatype regexp =
    Zero
  | Eps
  | Cls bool "(char \<times> char) list"  \<comment> \<open>a class of ranges, complemented if the flag is set\<close>
  | Seq regexp regexp
  | Alt regexp regexp
  | Star regexp

definition in_class :: "bool \<Rightarrow> (char \<times> char) list \<Rightarrow> char \<Rightarrow> bool" where
  "in_class neg rs c \<longleftrightarrow> (list_ex (\<lambda>(lo, hi). lo \<le> c \<and> c \<le> hi) rs) \<noteq> neg"

abbreviation Lit :: "char \<Rightarrow> regexp" where
  "Lit c \<equiv> Cls False [(c, c)]"

fun Str :: "string \<Rightarrow> regexp" where
  "Str [] = Eps"
| "Str (c # s) = Seq (Lit c) (Str s)"

abbreviation Plus :: "regexp \<Rightarrow> regexp" where
  "Plus r \<equiv> Seq r (Star r)"

abbreviation Opt :: "regexp \<Rightarrow> regexp" where
  "Opt r \<equiv> Alt Eps r"

fun rep_times :: "regexp \<Rightarrow> nat \<Rightarrow> regexp" where
  "rep_times r 0 = Eps"
| "rep_times r (Suc n) = Seq r (rep_times r n)"

fun upto_times :: "regexp \<Rightarrow> nat \<Rightarrow> regexp" where
  "upto_times r 0 = Eps"
| "upto_times r (Suc n) = Alt Eps (Seq r (upto_times r n))"

text \<open>The counted repetition \<^verbatim>\<open>r{m,n}\<close>.\<close>

definition Rep :: "regexp \<Rightarrow> nat \<Rightarrow> nat \<Rightarrow> regexp" where
  "Rep r m n = Seq (rep_times r m) (upto_times r (n - m))"

inductive_set star :: "string set \<Rightarrow> string set" for A where
  star_Nil: "[] \<in> star A"
| star_app: "u \<in> A \<Longrightarrow> v \<in> star A \<Longrightarrow> u @ v \<in> star A"

fun lang :: "regexp \<Rightarrow> string set" where
  "lang Zero = {}"
| "lang Eps = {[]}"
| "lang (Cls neg rs) = {[c] | c. in_class neg rs c}"
| "lang (Seq r s) = {u @ v | u v. u \<in> lang r \<and> v \<in> lang s}"
| "lang (Alt r s) = lang r \<union> lang s"
| "lang (Star r) = star (lang r)"

section \<open>The matcher\<close>

fun nullable :: "regexp \<Rightarrow> bool" where
  "nullable Zero = False"
| "nullable Eps = True"
| "nullable (Cls _ _) = False"
| "nullable (Seq r s) = (nullable r \<and> nullable s)"
| "nullable (Alt r s) = (nullable r \<or> nullable s)"
| "nullable (Star r) = True"

fun mk_seq :: "regexp \<Rightarrow> regexp \<Rightarrow> regexp" where
  "mk_seq Zero s = Zero"
| "mk_seq Eps s = s"
| "mk_seq r s = (if s = Zero then Zero else Seq r s)"

fun mk_alt :: "regexp \<Rightarrow> regexp \<Rightarrow> regexp" where
  "mk_alt Zero s = s"
| "mk_alt r s = (if s = Zero \<or> s = r then r else Alt r s)"

fun deriv :: "char \<Rightarrow> regexp \<Rightarrow> regexp" where
  "deriv c Zero = Zero"
| "deriv c Eps = Zero"
| "deriv c (Cls neg rs) = (if in_class neg rs c then Eps else Zero)"
| "deriv c (Seq r s) =
     (if nullable r then mk_alt (mk_seq (deriv c r) s) (deriv c s) else mk_seq (deriv c r) s)"
| "deriv c (Alt r s) = mk_alt (deriv c r) (deriv c s)"
| "deriv c (Star r) = mk_seq (deriv c r) (Star r)"

fun MatchString :: "regexp \<Rightarrow> string \<Rightarrow> bool" where
  "MatchString r [] = nullable r"
| "MatchString r (c # s) = MatchString (deriv c r) s"

section \<open>Correctness of the matcher\<close>

lemma star_Nil_simp [simp]: "[] \<in> star A"
  by (rule star_Nil)

lemma nullable_iff: "nullable r \<longleftrightarrow> [] \<in> lang r"
  by (induction r) auto

lemma lang_mk_seq [simp]: "lang (mk_seq r s) = lang (Seq r s)"
  by (cases r) auto

lemma lang_mk_alt [simp]: "lang (mk_alt r s) = lang r \<union> lang s"
  by (cases r) auto

lemma star_Cons_D:
  "w \<in> star A \<Longrightarrow> w = c # s \<Longrightarrow> \<exists>u v. s = u @ v \<and> c # u \<in> A \<and> v \<in> star A"
proof (induction arbitrary: s rule: star.induct)
  case star_Nil
  then show ?case by simp
next
  case (star_app u v)
  then show ?case by (cases u) auto
qed

lemma star_Cons_iff: "c # s \<in> star A \<longleftrightarrow> (\<exists>u v. s = u @ v \<and> c # u \<in> A \<and> v \<in> star A)"
  using star_Cons_D star_app [of "c # _" A] by fastforce

lemma seq_Cons_iff:
  "(\<exists>u v. c # s = u @ v \<and> u \<in> A \<and> v \<in> B) \<longleftrightarrow>
     (\<exists>u v. s = u @ v \<and> c # u \<in> A \<and> v \<in> B) \<or> ([] \<in> A \<and> c # s \<in> B)"
  by (auto simp: Cons_eq_append_conv)

lemma deriv_iff: "s \<in> lang (deriv c r) \<longleftrightarrow> c # s \<in> lang r"
proof (induction r arbitrary: s)
  case (Seq r1 r2)
  then show ?case by (auto simp: seq_Cons_iff nullable_iff)
next
  case (Star r)
  then show ?case by (auto simp: star_Cons_iff)
qed auto

lemma MatchString_iff: "MatchString r s \<longleftrightarrow> s \<in> lang r"
  by (induction s arbitrary: r) (auto simp: nullable_iff deriv_iff)

section \<open>Languages of the recurring patterns\<close>

lemma in_class_Lit [simp]: "in_class False [(a, a)] c \<longleftrightarrow> c = a"
  by (auto simp: in_class_def)

lemma lang_Str [simp]: "lang (Str s) = {s}"
  by (induction s) auto

lemma lang_Seq_Cls:
  "s \<in> lang (Seq (Cls neg rs) r) \<longleftrightarrow> (\<exists>c t. s = c # t \<and> in_class neg rs c \<and> t \<in> lang r)"
  by (auto intro: exI [of _ "[_]"])

lemma star_class: "s \<in> star {[c] | c. P c} \<longleftrightarrow> (\<forall>c \<in> set s. P c)"
proof
  show "s \<in> star {[c] | c. P c} \<Longrightarrow> \<forall>c \<in> set s. P c"
    by (induction rule: star.induct) auto
next
  show "\<forall>c \<in> set s. P c \<Longrightarrow> s \<in> star {[c] | c. P c}"
  proof (induction s)
    case (Cons c s)
    then show ?case using star_app [of "[c]" "{[c] | c. P c}" s] by auto
  qed simp
qed

lemma lang_rep_times_class:
  "s \<in> lang (rep_times (Cls neg rs) n) \<longleftrightarrow> length s = n \<and> (\<forall>c \<in> set s. in_class neg rs c)"
proof (induction n arbitrary: s)
  case (Suc n)
  show ?case
    by (simp only: rep_times.simps lang_Seq_Cls Suc) (auto simp: length_Suc_conv)
qed auto

lemma lang_upto_class:
  "s \<in> lang (upto_times (Cls neg rs) n) \<longleftrightarrow> length s \<le> n \<and> (\<forall>c \<in> set s. in_class neg rs c)"
proof (induction n arbitrary: s)
  case (Suc n)
  show ?case
    by (cases s) (simp_all only: upto_times.simps lang.simps(5) lang_Seq_Cls Suc Un_iff, auto)
qed auto

lemma lang_Rep_class:
  assumes "m \<le> n"
  shows "s \<in> lang (Rep (Cls neg rs) m n) \<longleftrightarrow>
    m \<le> length s \<and> length s \<le> n \<and> (\<forall>c \<in> set s. in_class neg rs c)"
proof
  assume "s \<in> lang (Rep (Cls neg rs) m n)"
  then show "m \<le> length s \<and> length s \<le> n \<and> (\<forall>c \<in> set s. in_class neg rs c)"
    using assms by (auto simp: Rep_def lang_rep_times_class lang_upto_class)
next
  assume *: "m \<le> length s \<and> length s \<le> n \<and> (\<forall>c \<in> set s. in_class neg rs c)"
  have "s = take m s @ drop m s" by simp
  moreover have "take m s \<in> lang (rep_times (Cls neg rs) m)"
    using * by (auto simp: lang_rep_times_class dest: in_set_takeD)
  moreover have "drop m s \<in> lang (upto_times (Cls neg rs) (n - m))"
    using * by (auto simp: lang_upto_class dest: in_set_dropD)
  ultimately show "s \<in> lang (Rep (Cls neg rs) m n)"
    unfolding Rep_def lang.simps by blast
qed

text \<open>
  \<^verbatim>\<open>^[first][rest]{m,n}$\<close>: the shape of the identifier patterns.
\<close>

lemma MatchString_first_rest:
  assumes "m \<le> n"
  shows "MatchString (Seq (Cls ng fs) (Rep (Cls neg rs) m n)) s \<longleftrightarrow>
    (\<exists>c t. s = c # t \<and> in_class ng fs c \<and> m \<le> length t \<and> length t \<le> n \<and>
      (\<forall>d \<in> set t. in_class neg rs d))"
  by (simp only: MatchString_iff lang_Seq_Cls lang_Rep_class [OF assms])

section \<open>The classes of the program's patterns\<close>

definition az09 :: "(char \<times> char) list" where
  "az09 = [(CHR ''a'', CHR ''z''), (CHR ''0'', CHR ''9'')]"

definition az09_dash :: "(char \<times> char) list" where
  "az09_dash = az09 @ [(CHR ''-'', CHR ''-'')]"

definition az09_dot_us_dash :: "(char \<times> char) list" where
  "az09_dot_us_dash = az09 @ [(CHR ''.'', CHR ''.''), (CHR ''_'', CHR ''_''), (CHR ''-'', CHR ''-'')]"

definition hexdigit :: "(char \<times> char) list" where
  "hexdigit = [(CHR ''a'', CHR ''f''), (CHR ''0'', CHR ''9'')]"

definition digit09 :: "(char \<times> char) list" where
  "digit09 = [(CHR ''0'', CHR ''9'')]"

lemmas class_defs = in_class_def az09_def az09_dash_def az09_dot_us_dash_def hexdigit_def digit09_def

text \<open>\<^verbatim>\<open>^[a-z0-9]([-a-z0-9]*[a-z0-9])?(\.[a-z0-9]([-a-z0-9]*[a-z0-9])?)*$\<close>, a DNS subdomain.\<close>

definition dns_label_re :: regexp where
  "dns_label_re =
     Seq (Cls False az09) (Opt (Seq (Star (Cls False az09_dash)) (Cls False az09)))"

definition dns_subdomain_re :: regexp where
  "dns_subdomain_re = Seq dns_label_re (Star (Seq (Lit CHR ''.'') dns_label_re))"

lemma dns_label_iff:
  "s \<in> lang dns_label_re \<longleftrightarrow>
     s \<noteq> [] \<and> in_class False az09 (hd s) \<and> in_class False az09 (last s) \<and>
     (\<forall>c \<in> set s. in_class False az09_dash c)"
proof -
  have sub: "in_class False az09 c \<Longrightarrow> in_class False az09_dash c" for c
    by (auto simp: class_defs)
  show ?thesis
  proof
    assume "s \<in> lang dns_label_re"
    then show "s \<noteq> [] \<and> in_class False az09 (hd s) \<and> in_class False az09 (last s) \<and>
      (\<forall>c \<in> set s. in_class False az09_dash c)"
      by (auto simp: dns_label_re_def lang_Seq_Cls star_class sub)
  next
    assume *: "s \<noteq> [] \<and> in_class False az09 (hd s) \<and> in_class False az09 (last s) \<and>
      (\<forall>c \<in> set s. in_class False az09_dash c)"
    then obtain c t where s: "s = c # t" by (cases s) auto
    show "s \<in> lang dns_label_re"
    proof (cases "t = []")
      case True
      with * s show ?thesis by (simp only: dns_label_re_def lang_Seq_Cls) simp
    next
      case False
      then have "t = butlast t @ [last t]" by simp
      moreover have "butlast t \<in> star {[c] | c. in_class False az09_dash c}"
        using * s by (auto simp: star_class dest: in_set_butlastD)
      moreover have last: "in_class False az09 (last t)" "in_class False az09 c"
        using * s False by auto
      ultimately have "t \<in> lang (Seq (Star (Cls False az09_dash)) (Cls False az09))"
        unfolding lang.simps by blast
      with last(2) s show ?thesis
        by (simp only: dns_label_re_def lang_Seq_Cls lang.simps(5) Un_iff) blast
    qed
  qed
qed

text \<open>Every string of a pattern uses only characters some class of the pattern admits.\<close>

fun admits :: "regexp \<Rightarrow> char \<Rightarrow> bool" where
  "admits Zero c = False"
| "admits Eps c = False"
| "admits (Cls neg rs) c = in_class neg rs c"
| "admits (Seq r s) c = (admits r c \<or> admits s c)"
| "admits (Alt r s) c = (admits r c \<or> admits s c)"
| "admits (Star r) c = admits r c"

lemma star_chars: "s \<in> star A \<Longrightarrow> (\<And>u d. u \<in> A \<Longrightarrow> d \<in> set u \<Longrightarrow> P d) \<Longrightarrow> c \<in> set s \<Longrightarrow> P c"
  by (induction rule: star.induct) auto

lemma lang_admits: "s \<in> lang r \<Longrightarrow> c \<in> set s \<Longrightarrow> admits r c"
proof (induction r arbitrary: s c)
  case (Star r)
  then show ?case using star_chars [of s "lang r" "admits r" c] by auto
qed auto

lemma dns_subdomain_chars:
  "MatchString dns_subdomain_re s \<Longrightarrow> c \<in> set s \<Longrightarrow> in_class False az09_dash c \<or> c = CHR ''.''"
  using lang_admits [of s dns_subdomain_re c]
  by (auto simp: MatchString_iff dns_subdomain_re_def dns_label_re_def class_defs)

end
