(* ===== verification/Domain_Policy.thy ===== *)
theory Domain_Policy
  imports Go_Regexp
begin

text \<open>
  The scheduling eligibility policy of
  \<^verbatim>\<open>services/platform-api/internal/domain/scheduler_policy.go\<close>: the ordered rules, the
  validation of a policy, and \<open>EvaluateEligibility\<close>, with its outcome characterised by the
  limits of the policy.
\<close>

section \<open>Types\<close>

datatype EligibilityOutcome = EligibilityEligible | EligibilityDefer | EligibilityReject

datatype EligibilityCode =
    EligibilityCodeEligible | EligibilityCodePolicyMissing | EligibilityCodeTenantSuspended
  | EligibilityCodeProjectSuspended | EligibilityCodeUnsupportedRuntime
  | EligibilityCodeUnsupportedProfile | EligibilityCodeTenantConcurrency
  | EligibilityCodeUserConcurrency | EligibilityCodeQueuedRuns | EligibilityCodeCPU
  | EligibilityCodeMemory | EligibilityCodeDailyBudget

fun EligibilityCode_string :: "EligibilityCode \<Rightarrow> string" where
  "EligibilityCode_string EligibilityCodeEligible = ''ELIGIBLE''"
| "EligibilityCode_string EligibilityCodePolicyMissing = ''POLICY_MISSING''"
| "EligibilityCode_string EligibilityCodeTenantSuspended = ''TENANT_SUSPENDED''"
| "EligibilityCode_string EligibilityCodeProjectSuspended = ''PROJECT_SUSPENDED''"
| "EligibilityCode_string EligibilityCodeUnsupportedRuntime = ''UNSUPPORTED_RUNTIME''"
| "EligibilityCode_string EligibilityCodeUnsupportedProfile = ''UNSUPPORTED_PROFILE''"
| "EligibilityCode_string EligibilityCodeTenantConcurrency = ''TENANT_CONCURRENCY_LIMIT''"
| "EligibilityCode_string EligibilityCodeUserConcurrency = ''USER_CONCURRENCY_LIMIT''"
| "EligibilityCode_string EligibilityCodeQueuedRuns = ''TENANT_QUEUE_LIMIT''"
| "EligibilityCode_string EligibilityCodeCPU = ''TENANT_CPU_LIMIT''"
| "EligibilityCode_string EligibilityCodeMemory = ''TENANT_MEMORY_LIMIT''"
| "EligibilityCode_string EligibilityCodeDailyBudget = ''DAILY_BUDGET_LIMIT''"

definition SchedulerResourceStatusActive :: string where
  "SchedulerResourceStatusActive = ''ACTIVE''"

record SchedulingRequest =
  sr_Runtime :: string
  sr_ExecutionProfile :: string
  sr_CreatedBy :: string
  sr_CPUMillis :: int
  sr_MemoryMiB :: int

record SchedulingPolicy =
  pol_MaxConcurrentRuns :: int
  pol_MaxUserConcurrentRuns :: int
  pol_MaxQueuedRuns :: int
  pol_MaxCPUMillis :: int
  pol_MaxMemoryMiB :: int
  pol_DailyBudgetMinorUnits :: int
  pol_AllowedRuntimes :: "string list"
  pol_AllowedProfiles :: "string list"
  pol_DeferralDuration :: duration

record SchedulingUsage =
  use_ActiveTenantRuns :: int
  use_ActiveUserRuns :: int
  use_QueuedTenantRuns :: int
  use_ActiveCPUMillis :: int
  use_ActiveMemoryMiB :: int
  use_BudgetUsedMinorUnits :: int

record EligibilityInput =
  el_TenantStatus :: string
  el_ProjectStatus :: string
  el_Request :: SchedulingRequest
  el_Policy :: "SchedulingPolicy option"
  el_Usage :: SchedulingUsage
  el_Now :: gtime

record EligibilityDecision =
  dec_Outcome :: EligibilityOutcome
  dec_Code :: EligibilityCode
  dec_Explanation :: string
  dec_NextEligibleAt :: "gtime option"

section \<open>Policy validation\<close>

definition schedulerPolicyValuePattern :: regexp where
  "schedulerPolicyValuePattern = Seq (Cls False az09) (Rep (Cls False az09_dot_us_dash) 0 119)"

definition validPolicyValues :: "string list \<Rightarrow> bool" where
  "validPolicyValues values = unique_valid (MatchString schedulerPolicyValuePattern) {} values"

definition validateSchedulingPolicy :: "SchedulingPolicy \<Rightarrow> error option" where
  "validateSchedulingPolicy policy =
    (if pol_MaxConcurrentRuns policy < 1 \<or> pol_MaxUserConcurrentRuns policy < 1 \<or>
        pol_MaxUserConcurrentRuns policy > pol_MaxConcurrentRuns policy \<or>
        pol_MaxQueuedRuns policy < 1 \<or> pol_MaxCPUMillis policy < 1 \<or>
        pol_MaxMemoryMiB policy < 1 \<or> pol_DailyBudgetMinorUnits policy < 0 \<or>
        length (pol_AllowedRuntimes policy) = 0 \<or> length (pol_AllowedProfiles policy) = 0 \<or>
        pol_DeferralDuration policy \<le> 0 then
       Some (Plain ''scheduling policy is invalid'')
     else if \<not> validPolicyValues (pol_AllowedRuntimes policy) \<or>
             \<not> validPolicyValues (pol_AllowedProfiles policy) then
       Some (Plain ''scheduling policy runtime and profile values must be normalized and unique'')
     else None)"

section \<open>The rules\<close>

definition deferredDecision ::
  "EligibilityCode \<Rightarrow> string \<Rightarrow> gtime \<Rightarrow> duration \<Rightarrow> EligibilityDecision" where
  "deferredDecision code explanation now delay =
     \<lparr>dec_Outcome = EligibilityDefer, dec_Code = code, dec_Explanation = explanation,
      dec_NextEligibleAt = Some (now + delay)\<rparr>"

definition rejectedDecision :: "EligibilityCode \<Rightarrow> string \<Rightarrow> EligibilityDecision" where
  "rejectedDecision code explanation =
     \<lparr>dec_Outcome = EligibilityReject, dec_Code = code, dec_Explanation = explanation,
      dec_NextEligibleAt = None\<rparr>"

text \<open>The rules run after the nil check of the policy, which is passed to them.\<close>

type_synonym eligibilityRule =
  "SchedulingPolicy \<Rightarrow> EligibilityInput \<Rightarrow> EligibilityDecision option"

definition resourceStatusRule :: eligibilityRule where
  "resourceStatusRule policy input =
    (if el_TenantStatus input \<noteq> SchedulerResourceStatusActive then
       Some (rejectedDecision EligibilityCodeTenantSuspended ''tenant is not active'')
     else if el_ProjectStatus input \<noteq> SchedulerResourceStatusActive then
       Some (rejectedDecision EligibilityCodeProjectSuspended ''project is not active'')
     else None)"

definition runtimeProfileRule :: eligibilityRule where
  "runtimeProfileRule policy input =
    (if sr_Runtime (el_Request input) \<notin> set (pol_AllowedRuntimes policy) then
       Some (rejectedDecision EligibilityCodeUnsupportedRuntime
         ''runtime is not allowed by tenant policy'')
     else if sr_ExecutionProfile (el_Request input) \<notin> set (pol_AllowedProfiles policy) then
       Some (rejectedDecision EligibilityCodeUnsupportedProfile
         ''execution profile is not allowed by tenant policy'')
     else None)"

definition concurrencyRule :: eligibilityRule where
  "concurrencyRule policy input =
    (if use_ActiveTenantRuns (el_Usage input) \<ge> pol_MaxConcurrentRuns policy then
       Some (deferredDecision EligibilityCodeTenantConcurrency
         ''tenant concurrent-run limit is reached'' (el_Now input) (pol_DeferralDuration policy))
     else if use_ActiveUserRuns (el_Usage input) \<ge> pol_MaxUserConcurrentRuns policy then
       Some (deferredDecision EligibilityCodeUserConcurrency
         ''user concurrent-run limit is reached'' (el_Now input) (pol_DeferralDuration policy))
     else None)"

definition queueRule :: eligibilityRule where
  "queueRule policy input =
    (if use_QueuedTenantRuns (el_Usage input) > pol_MaxQueuedRuns policy then
       Some (deferredDecision EligibilityCodeQueuedRuns
         ''tenant queued-run limit is exceeded'' (el_Now input) (pol_DeferralDuration policy))
     else None)"

definition resourceQuotaRule :: eligibilityRule where
  "resourceQuotaRule policy input =
    (if i64 (use_ActiveCPUMillis (el_Usage input) + sr_CPUMillis (el_Request input))
          > pol_MaxCPUMillis policy then
       Some (deferredDecision EligibilityCodeCPU
         ''tenant CPU limit has insufficient headroom'' (el_Now input) (pol_DeferralDuration policy))
     else if i64 (use_ActiveMemoryMiB (el_Usage input) + sr_MemoryMiB (el_Request input))
          > pol_MaxMemoryMiB policy then
       Some (deferredDecision EligibilityCodeMemory
         ''tenant memory limit has insufficient headroom'' (el_Now input)
         (pol_DeferralDuration policy))
     else None)"

definition budgetRule :: eligibilityRule where
  "budgetRule policy input =
    (if use_BudgetUsedMinorUnits (el_Usage input) \<ge> pol_DailyBudgetMinorUnits policy then
       Some (deferredDecision EligibilityCodeDailyBudget
         ''tenant daily budget has no available balance'' (el_Now input)
         (pol_DeferralDuration policy))
     else None)"

definition eligibilityRules :: "eligibilityRule list" where
  "eligibilityRules =
     [resourceStatusRule, runtimeProfileRule, concurrencyRule, queueRule, resourceQuotaRule,
      budgetRule]"

fun first_decision ::
  "eligibilityRule list \<Rightarrow> SchedulingPolicy \<Rightarrow> EligibilityInput \<Rightarrow> EligibilityDecision option" where
  "first_decision [] policy input = None"
| "first_decision (rule # rules) policy input =
     (case rule policy input of
        Some decision \<Rightarrow> Some decision
      | None \<Rightarrow> first_decision rules policy input)"

section \<open>EvaluateEligibility\<close>

definition trim_eligibility :: "EligibilityInput \<Rightarrow> EligibilityInput" where
  "trim_eligibility input = input\<lparr>
     el_TenantStatus := TrimSpace (el_TenantStatus input),
     el_ProjectStatus := TrimSpace (el_ProjectStatus input),
     el_Request := (el_Request input)\<lparr>
       sr_Runtime := TrimSpace (sr_Runtime (el_Request input)),
       sr_ExecutionProfile := TrimSpace (sr_ExecutionProfile (el_Request input)),
       sr_CreatedBy := TrimSpace (sr_CreatedBy (el_Request input))\<rparr>\<rparr>"

definition EvaluateEligibility :: "EligibilityInput \<Rightarrow> EligibilityDecision result" where
  "EvaluateEligibility input0 =
    (let input = trim_eligibility input0; request = el_Request input; usage = el_Usage input in
     if IsZero (el_Now input) \<or> sr_Runtime request = [] \<or> sr_ExecutionProfile request = [] \<or>
        sr_CreatedBy request = [] \<or> sr_CPUMillis request < 1 \<or> sr_MemoryMiB request < 1 then
       Inl (Plain ''scheduling request metadata is invalid'')
     else (case el_Policy input of
        None \<Rightarrow> Inr (deferredDecision EligibilityCodePolicyMissing
          ''tenant scheduling policy is not configured'' (el_Now input) (30 * second))
      | Some policy \<Rightarrow>
          (case validateSchedulingPolicy policy of
             Some err \<Rightarrow> Inl err
           | None \<Rightarrow>
               if use_ActiveTenantRuns usage < 0 \<or> use_ActiveUserRuns usage < 0 \<or>
                  use_QueuedTenantRuns usage < 0 \<or> use_ActiveCPUMillis usage < 0 \<or>
                  use_ActiveMemoryMiB usage < 0 \<or> use_BudgetUsedMinorUnits usage < 0 then
                 Inl (Plain ''scheduling usage cannot be negative'')
               else (case first_decision eligibilityRules policy input of
                   Some decision \<Rightarrow> Inr decision
                 | None \<Rightarrow> Inr \<lparr>dec_Outcome = EligibilityEligible,
                     dec_Code = EligibilityCodeEligible,
                     dec_Explanation = ''run satisfies scheduling policy'',
                     dec_NextEligibleAt = None\<rparr>))))"

section \<open>The policy as limits\<close>

text \<open>The permanent conditions and the temporary limits of a policy, without any order.\<close>

definition permitted :: "SchedulingPolicy \<Rightarrow> EligibilityInput \<Rightarrow> bool" where
  "permitted policy input \<longleftrightarrow>
     TrimSpace (el_TenantStatus input) = ''ACTIVE'' \<and> TrimSpace (el_ProjectStatus input) = ''ACTIVE'' \<and>
     TrimSpace (sr_Runtime (el_Request input)) \<in> set (pol_AllowedRuntimes policy) \<and>
     TrimSpace (sr_ExecutionProfile (el_Request input)) \<in> set (pol_AllowedProfiles policy)"

definition within_limits :: "SchedulingPolicy \<Rightarrow> SchedulingRequest \<Rightarrow> SchedulingUsage \<Rightarrow> bool" where
  "within_limits policy request usage \<longleftrightarrow>
     use_ActiveTenantRuns usage < pol_MaxConcurrentRuns policy \<and>
     use_ActiveUserRuns usage < pol_MaxUserConcurrentRuns policy \<and>
     use_QueuedTenantRuns usage \<le> pol_MaxQueuedRuns policy \<and>
     use_ActiveCPUMillis usage + sr_CPUMillis request \<le> pol_MaxCPUMillis policy \<and>
     use_ActiveMemoryMiB usage + sr_MemoryMiB request \<le> pol_MaxMemoryMiB policy \<and>
     use_BudgetUsedMinorUnits usage < pol_DailyBudgetMinorUnits policy"

text \<open>Usage figures far enough from the end of the int64 range that a sum cannot wrap.\<close>

definition usage_in_range :: "EligibilityInput \<Rightarrow> bool" where
  "usage_in_range input \<longleftrightarrow>
     use_ActiveCPUMillis (el_Usage input) \<le> 2 ^ 62 \<and> use_ActiveMemoryMiB (el_Usage input) \<le> 2 ^ 62 \<and>
     sr_CPUMillis (el_Request input) < 2 ^ 62 \<and> sr_MemoryMiB (el_Request input) < 2 ^ 62"

definition usage_le :: "SchedulingUsage \<Rightarrow> SchedulingUsage \<Rightarrow> bool" where
  "usage_le u v \<longleftrightarrow>
     use_ActiveTenantRuns u \<le> use_ActiveTenantRuns v \<and>
     use_ActiveUserRuns u \<le> use_ActiveUserRuns v \<and>
     use_QueuedTenantRuns u \<le> use_QueuedTenantRuns v \<and>
     use_ActiveCPUMillis u \<le> use_ActiveCPUMillis v \<and>
     use_ActiveMemoryMiB u \<le> use_ActiveMemoryMiB v \<and>
     use_BudgetUsedMinorUnits u \<le> use_BudgetUsedMinorUnits v"

definition usage_nonneg :: "SchedulingUsage \<Rightarrow> bool" where
  "usage_nonneg u \<longleftrightarrow>
     0 \<le> use_ActiveTenantRuns u \<and> 0 \<le> use_ActiveUserRuns u \<and> 0 \<le> use_QueuedTenantRuns u \<and>
     0 \<le> use_ActiveCPUMillis u \<and> 0 \<le> use_ActiveMemoryMiB u \<and> 0 \<le> use_BudgetUsedMinorUnits u"

lemmas rule_defs =
  resourceStatusRule_def runtimeProfileRule_def concurrencyRule_def queueRule_def
  resourceQuotaRule_def budgetRule_def eligibilityRules_def rejectedDecision_def
  deferredDecision_def SchedulerResourceStatusActive_def

lemma validPolicyValues_iff:
  "validPolicyValues vs \<longleftrightarrow>
     distinct vs \<and> (\<forall>v \<in> set vs. MatchString schedulerPolicyValuePattern v)"
  by (auto simp: validPolicyValues_def unique_valid_iff)

lemma trim_eligibility_simps [simp]:
  "el_Policy (trim_eligibility i) = el_Policy i" "el_Usage (trim_eligibility i) = el_Usage i"
  "el_Now (trim_eligibility i) = el_Now i"
  "sr_CPUMillis (el_Request (trim_eligibility i)) = sr_CPUMillis (el_Request i)"
  "sr_MemoryMiB (el_Request (trim_eligibility i)) = sr_MemoryMiB (el_Request i)"
  by (simp_all add: trim_eligibility_def)

text \<open>The ordered rules as one case distinction.\<close>

lemma first_decision_reject_iff:
  "(\<exists>d. first_decision eligibilityRules p (trim_eligibility i) = Some d \<and>
        dec_Outcome d = EligibilityReject) \<longleftrightarrow> \<not> permitted p i"
  by (auto simp: rule_defs permitted_def trim_eligibility_def split: if_splits)

lemma first_decision_none_iff:
  assumes "usage_in_range i" "usage_nonneg (el_Usage i)"
    "1 \<le> sr_CPUMillis (el_Request i)" "1 \<le> sr_MemoryMiB (el_Request i)"
  shows "first_decision eligibilityRules p (trim_eligibility i) = None \<longleftrightarrow>
    permitted p i \<and> within_limits p (el_Request i) (el_Usage i)"
proof -
  have "in_i64 (use_ActiveCPUMillis (el_Usage i) + sr_CPUMillis (el_Request i))"
    "in_i64 (use_ActiveMemoryMiB (el_Usage i) + sr_MemoryMiB (el_Request i))"
    using assms by (auto simp: usage_in_range_def usage_nonneg_def in_i64_def)
  then show ?thesis
    by (auto simp: rule_defs permitted_def within_limits_def trim_eligibility_def split: if_splits)
qed

lemma first_decision_shape:
  assumes "first_decision eligibilityRules p i = Some d"
  shows "dec_Outcome d = EligibilityReject \<and> dec_NextEligibleAt d = None \<or>
    dec_Outcome d = EligibilityDefer \<and> dec_NextEligibleAt d = Some (el_Now i + pol_DeferralDuration p)"
  using assms by (auto simp: rule_defs split: if_splits)

lemma EvaluateEligibility_cases:
  assumes "EvaluateEligibility i = Inr d"
  obtains (missing) "el_Policy i = None"
      "d = deferredDecision EligibilityCodePolicyMissing
             ''tenant scheduling policy is not configured'' (el_Now i) (30 * second)"
  | (policy) p where "el_Policy i = Some p" "validateSchedulingPolicy p = None"
      "usage_nonneg (el_Usage i)" "1 \<le> sr_CPUMillis (el_Request i)" "1 \<le> sr_MemoryMiB (el_Request i)"
      "case first_decision eligibilityRules p (trim_eligibility i) of
         Some d' \<Rightarrow> d = d' | None \<Rightarrow> dec_Outcome d = EligibilityEligible \<and> dec_NextEligibleAt d = None"
proof (cases "el_Policy i")
  case None
  with assms missing show thesis
    by (auto simp: EvaluateEligibility_def Let_def split: if_splits)
next
  case (Some p)
  with assms have "validateSchedulingPolicy p = None" "usage_nonneg (el_Usage i)"
    "1 \<le> sr_CPUMillis (el_Request i)" "1 \<le> sr_MemoryMiB (el_Request i)"
    "case first_decision eligibilityRules p (trim_eligibility i) of
       Some d' \<Rightarrow> d = d' | None \<Rightarrow> dec_Outcome d = EligibilityEligible \<and> dec_NextEligibleAt d = None"
    by (auto simp: EvaluateEligibility_def Let_def usage_nonneg_def split: if_splits option.splits)
  then show thesis by (rule policy [OF Some])
qed

section \<open>An example\<close>

definition ex_policy :: SchedulingPolicy where
  "ex_policy = \<lparr>pol_MaxConcurrentRuns = 4, pol_MaxUserConcurrentRuns = 2, pol_MaxQueuedRuns = 10,
     pol_MaxCPUMillis = 4000, pol_MaxMemoryMiB = 8192, pol_DailyBudgetMinorUnits = 1000,
     pol_AllowedRuntimes = [''go1.24'', ''python3''], pol_AllowedProfiles = [''small''],
     pol_DeferralDuration = 30 * second\<rparr>"

definition ex_eligibility :: EligibilityInput where
  "ex_eligibility = \<lparr>el_TenantStatus = ''ACTIVE'', el_ProjectStatus = ''ACTIVE'',
     el_Request = \<lparr>sr_Runtime = ''go1.24'', sr_ExecutionProfile = ''small'', sr_CreatedBy = ''dev'',
       sr_CPUMillis = 500, sr_MemoryMiB = 512\<rparr>,
     el_Policy = Some ex_policy,
     el_Usage = \<lparr>use_ActiveTenantRuns = 3, use_ActiveUserRuns = 1, use_QueuedTenantRuns = 10,
       use_ActiveCPUMillis = 3500, use_ActiveMemoryMiB = 1024, use_BudgetUsedMinorUnits = 999\<rparr>,
     el_Now = 100\<rparr>"

definition ex_busy :: EligibilityInput where
  "ex_busy = ex_eligibility\<lparr>el_Usage := (el_Usage ex_eligibility)\<lparr>use_ActiveUserRuns := 2\<rparr>\<rparr>"

lemma ex_eligible:
  "EvaluateEligibility ex_eligibility = Inr \<lparr>dec_Outcome = EligibilityEligible,
     dec_Code = EligibilityCodeEligible, dec_Explanation = ''run satisfies scheduling policy'',
     dec_NextEligibleAt = None\<rparr>"
  by code_simp

lemma ex_deferred:
  "EvaluateEligibility ex_busy = Inr (deferredDecision EligibilityCodeUserConcurrency
     ''user concurrent-run limit is reached'' 100 (30 * second))"
  by code_simp

section \<open>Properties\<close>

text \<open>C16: A decision made under a policy is ELIGIBLE exactly when the tenant and project are active,
  the runtime and profile are allowed and every limit leaves room for the request; it is REJECT
  exactly when one of the permanent conditions fails, whatever the limits say; and it is DEFER
  exactly when only a limit is in the way.\<close>

theorem EvaluateEligibility_outcome:
  assumes "EvaluateEligibility i = Inr d" "el_Policy i = Some p" "usage_in_range i"
  shows "(dec_Outcome d = EligibilityEligible \<longleftrightarrow>
        permitted p i \<and> within_limits p (el_Request i) (el_Usage i)) \<and>
    (dec_Outcome d = EligibilityReject \<longleftrightarrow> \<not> permitted p i) \<and>
    (dec_Outcome d = EligibilityDefer \<longleftrightarrow>
        permitted p i \<and> \<not> within_limits p (el_Request i) (el_Usage i))"
  using assms(1)
proof (cases rule: EvaluateEligibility_cases)
  case missing
  with assms(2) show ?thesis by simp
next
  case (policy p')
  with assms(2) have [simp]: "p' = p" by simp
  let ?f = "first_decision eligibilityRules p (trim_eligibility i)"
  have none: "?f = None \<longleftrightarrow> permitted p i \<and> within_limits p (el_Request i) (el_Usage i)"
    using first_decision_none_iff [OF assms(3)] policy by simp
  show ?thesis
  proof (cases ?f)
    case None
    with policy(6) none show ?thesis by simp
  next
    case (Some d')
    with policy(6) none first_decision_shape [OF Some] first_decision_reject_iff [of p i]
    show ?thesis by auto
  qed
qed

theorem EvaluateEligibility_outcome_witness:
  "permitted ex_policy ex_busy \<and>
   \<not> within_limits ex_policy (el_Request ex_busy) (el_Usage ex_busy)"
  using EvaluateEligibility_outcome [OF ex_deferred, of ex_policy]
  by (simp add: ex_busy_def ex_eligibility_def deferredDecision_def usage_in_range_def)

text \<open>C17: A decision names a next eligible time exactly when it defers the run, and that time lies
  strictly after the time of the decision, so a deferred run is always reconsidered later.\<close>

theorem EvaluateEligibility_next:
  assumes "EvaluateEligibility i = Inr d"
  shows "(dec_NextEligibleAt d \<noteq> None \<longleftrightarrow> dec_Outcome d = EligibilityDefer) \<and>
    (case dec_NextEligibleAt d of None \<Rightarrow> True | Some t \<Rightarrow> el_Now i < t)"
  using assms
proof (cases rule: EvaluateEligibility_cases)
  case missing
  then show ?thesis by (simp add: deferredDecision_def)
next
  case (policy p)
  from policy(2) have pos: "0 < pol_DeferralDuration p"
    by (auto simp: validateSchedulingPolicy_def split: if_splits)
  show ?thesis
  proof (cases "first_decision eligibilityRules p (trim_eligibility i)")
    case None
    with policy(6) show ?thesis by simp
  next
    case (Some d')
    with policy(6) first_decision_shape [OF Some] pos show ?thesis by auto
  qed
qed

theorem EvaluateEligibility_next_witness:
  "dec_Outcome (deferredDecision EligibilityCodeUserConcurrency
     ''user concurrent-run limit is reached'' 100 (30 * second)) = EligibilityDefer \<and>
   100 < 100 + 30 * second"
  using EvaluateEligibility_next [OF ex_deferred]
  by (simp add: deferredDecision_def ex_busy_def ex_eligibility_def)

text \<open>C18: Eligibility is monotone in usage: a run that is eligible stays eligible when any of the
  usage figures of the tenant falls.\<close>

theorem EvaluateEligibility_monotone:
  assumes "EvaluateEligibility i = Inr d" "dec_Outcome d = EligibilityEligible"
    "usage_in_range i" "usage_nonneg u" "usage_le u (el_Usage i)"
  shows "EvaluateEligibility (i\<lparr>el_Usage := u\<rparr>) = Inr d"
  using assms(1)
proof (cases rule: EvaluateEligibility_cases)
  case missing
  with assms(2) show ?thesis by (simp add: deferredDecision_def)
next
  case (policy p)
  have trim: "trim_eligibility (i\<lparr>el_Usage := u\<rparr>) = (trim_eligibility i)\<lparr>el_Usage := u\<rparr>"
    by (simp add: trim_eligibility_def)
  have none: "first_decision eligibilityRules p (trim_eligibility i) = None"
    using policy(6) first_decision_shape [of p "trim_eligibility i"] assms(2)
    by (auto split: option.splits)
  then have "permitted p i \<and> within_limits p (el_Request i) (el_Usage i)"
    using first_decision_none_iff [OF assms(3) policy(3,4,5)] by simp
  then have "permitted p (i\<lparr>el_Usage := u\<rparr>) \<and> within_limits p (el_Request i) u"
    using assms(5) by (auto simp: permitted_def within_limits_def usage_le_def)
  moreover have "usage_in_range (i\<lparr>el_Usage := u\<rparr>)"
    using assms(3,5) by (auto simp: usage_in_range_def usage_le_def)
  ultimately have "first_decision eligibilityRules p (trim_eligibility (i\<lparr>el_Usage := u\<rparr>)) = None"
    using first_decision_none_iff [of "i\<lparr>el_Usage := u\<rparr>" p] assms(4) policy(4,5) by simp
  with none trim assms(1,4) policy(1,2,3) show ?thesis
    by (auto simp: EvaluateEligibility_def Let_def usage_nonneg_def split: if_splits)
qed

theorem EvaluateEligibility_monotone_witness:
  "EvaluateEligibility (ex_eligibility\<lparr>el_Usage :=
     (el_Usage ex_eligibility)\<lparr>use_ActiveCPUMillis := 0\<rparr>\<rparr>) = EvaluateEligibility ex_eligibility"
  unfolding ex_eligible
  by (rule EvaluateEligibility_monotone [OF ex_eligible])
    (simp_all add: ex_eligibility_def usage_in_range_def usage_nonneg_def usage_le_def)

end
