(* ===== verification/Domain_AgentRun.thy ===== *)
theory Domain_AgentRun
  imports Go_Strings
begin

text \<open>
  The AgentRun and AgentRunAttempt aggregates of
  \<^verbatim>\<open>services/platform-api/internal/domain/agent_run.go\<close>: their statuses, the constructors
  with their validation, the transition graphs, and the invariants every sequence of
  transitions keeps.
\<close>

section \<open>Statuses and failure categories\<close>

text \<open>
  The Go types are strings with named constants; a value outside the constants is kept by
  the last constructor of each datatype.
\<close>

datatype AgentRunStatus =
    AgentRunQueued | AgentRunScheduling | AgentRunCapacityWait | AgentRunProvisioning
  | AgentRunRunning | AgentRunTesting | AgentRunBuilding | AgentRunScanning
  | AgentRunReadyToDeploy | AgentRunDeploying | AgentRunCancelling | AgentRunSucceeded
  | AgentRunCancelled | AgentRunProvisioningFailed | AgentRunExecutionFailed
  | AgentRunBuildFailed | AgentRunPolicyRejected | AgentRunDeploymentFailed | AgentRunTimedOut
  | AgentRunStatusOther string

fun AgentRunStatus_string :: "AgentRunStatus \<Rightarrow> string" where
  "AgentRunStatus_string AgentRunQueued = ''QUEUED''"
| "AgentRunStatus_string AgentRunScheduling = ''SCHEDULING''"
| "AgentRunStatus_string AgentRunCapacityWait = ''CAPACITY_WAIT''"
| "AgentRunStatus_string AgentRunProvisioning = ''PROVISIONING''"
| "AgentRunStatus_string AgentRunRunning = ''RUNNING''"
| "AgentRunStatus_string AgentRunTesting = ''TESTING''"
| "AgentRunStatus_string AgentRunBuilding = ''BUILDING''"
| "AgentRunStatus_string AgentRunScanning = ''SCANNING''"
| "AgentRunStatus_string AgentRunReadyToDeploy = ''READY_TO_DEPLOY''"
| "AgentRunStatus_string AgentRunDeploying = ''DEPLOYING''"
| "AgentRunStatus_string AgentRunCancelling = ''CANCELLING''"
| "AgentRunStatus_string AgentRunSucceeded = ''SUCCEEDED''"
| "AgentRunStatus_string AgentRunCancelled = ''CANCELLED''"
| "AgentRunStatus_string AgentRunProvisioningFailed = ''PROVISIONING_FAILED''"
| "AgentRunStatus_string AgentRunExecutionFailed = ''EXECUTION_FAILED''"
| "AgentRunStatus_string AgentRunBuildFailed = ''BUILD_FAILED''"
| "AgentRunStatus_string AgentRunPolicyRejected = ''POLICY_REJECTED''"
| "AgentRunStatus_string AgentRunDeploymentFailed = ''DEPLOYMENT_FAILED''"
| "AgentRunStatus_string AgentRunTimedOut = ''TIMED_OUT''"
| "AgentRunStatus_string (AgentRunStatusOther s) = s"

datatype FailureCategory =
    FailureNone  \<comment> \<open>the empty string\<close>
  | FailureValidation | FailureAuthentication | FailureAuthorization | FailureQuota
  | FailureConflict | FailureTransientDependency | FailurePermanentDependency
  | FailureExecution | FailurePolicy | FailureInternal
  | FailureOther string

fun FailureCategory_IsValid :: "FailureCategory \<Rightarrow> bool" where
  "FailureCategory_IsValid FailureNone = False"
| "FailureCategory_IsValid (FailureOther _) = False"
| "FailureCategory_IsValid _ = True"

datatype AgentRunAttemptStatus =
    AttemptPending | AttemptStarting | AttemptActive | AttemptCompleted | AttemptFailed
  | AttemptCancelled | AttemptTimedOut | AttemptStatusOther string

fun AgentRunAttemptStatus_string :: "AgentRunAttemptStatus \<Rightarrow> string" where
  "AgentRunAttemptStatus_string AttemptPending = ''PENDING''"
| "AgentRunAttemptStatus_string AttemptStarting = ''STARTING''"
| "AgentRunAttemptStatus_string AttemptActive = ''ACTIVE''"
| "AgentRunAttemptStatus_string AttemptCompleted = ''COMPLETED''"
| "AgentRunAttemptStatus_string AttemptFailed = ''FAILED''"
| "AgentRunAttemptStatus_string AttemptCancelled = ''CANCELLED''"
| "AgentRunAttemptStatus_string AttemptTimedOut = ''TIMED_OUT''"
| "AgentRunAttemptStatus_string (AttemptStatusOther s) = s"

section \<open>The AgentRun aggregate\<close>

record AgentRun =
  run_ID :: uuid
  run_TenantID :: uuid
  run_ProjectID :: uuid
  run_PromptReference :: string
  run_Runtime :: string
  run_CPUMillis :: int
  run_MemoryMiB :: int
  run_TimeoutSeconds :: int
  run_MaxAttempts :: int
  run_AttemptCount :: int
  run_Status :: AgentRunStatus
  run_FailureCategory :: FailureCategory
  run_IdempotencyKey :: string
  run_RequestHash :: string
  run_Version :: int
  run_CreatedBy :: string
  run_CancellationReason :: string
  run_CancellationRequestedBy :: string
  run_CancellationRequestedAt :: "gtime option"
  run_CreatedAt :: gtime
  run_UpdatedAt :: gtime
  run_CompletedAt :: "gtime option"

record NewAgentRunInput =
  in_TenantID :: uuid
  in_ProjectID :: uuid
  in_PromptReference :: string
  in_Runtime :: string
  in_CPUMillis :: int
  in_MemoryMiB :: int
  in_TimeoutSeconds :: int
  in_MaxAttempts :: int
  in_IdempotencyKey :: string
  in_RequestHash :: string
  in_CreatedBy :: string

definition trim_input :: "NewAgentRunInput \<Rightarrow> NewAgentRunInput" where
  "trim_input i = i\<lparr>
     in_PromptReference := TrimSpace (in_PromptReference i),
     in_Runtime := TrimSpace (in_Runtime i),
     in_IdempotencyKey := TrimSpace (in_IdempotencyKey i),
     in_RequestHash := TrimSpace (in_RequestHash i),
     in_CreatedBy := TrimSpace (in_CreatedBy i)\<rparr>"

definition NewAgentRun :: "uuid option \<Rightarrow> NewAgentRunInput \<Rightarrow> gtime \<Rightarrow> AgentRun result" where
  "NewAgentRun newV7 input0 now =
    (let input = trim_input input0 in
     if in_TenantID input = uuid_Nil \<or> in_ProjectID input = uuid_Nil then
       Inl (Wrap ErrValidation ''run tenant and project IDs are required'')
     else if length (in_PromptReference input) = 0 \<or> length (in_PromptReference input) > 2048 then
       Inl (Wrap ErrValidation ''prompt reference must contain 1 to 2048 characters'')
     else if length (in_Runtime input) = 0 \<or> length (in_Runtime input) > 120 then
       Inl (Wrap ErrValidation ''runtime must contain 1 to 120 characters'')
     else if in_CPUMillis input < 1 \<or> in_CPUMillis input > 128000 \<or>
             in_MemoryMiB input < 1 \<or> in_MemoryMiB input > 524288 then
       Inl (Wrap ErrValidation ''resource request is outside supported bounds'')
     else if in_TimeoutSeconds input < 1 \<or> in_TimeoutSeconds input > 86400 then
       Inl (Wrap ErrValidation ''timeout must be between 1 and 86400 seconds'')
     else if in_MaxAttempts input < 1 \<or> in_MaxAttempts input > 10 then
       Inl (Wrap ErrValidation ''maximum attempts must be between 1 and 10'')
     else if length (in_IdempotencyKey input) = 0 \<or> length (in_IdempotencyKey input) > 255 \<or>
             length (in_RequestHash input) = 0 \<or> length (in_RequestHash input) > 128 \<or>
             length (in_CreatedBy input) = 0 \<or> length (in_CreatedBy input) > 255 then
       Inl (Wrap ErrValidation ''idempotency key, request hash, and actor are required'')
     else (case newV7 of
        None \<Rightarrow> Inl (Plain ''generate run ID'')
      | Some uid \<Rightarrow> Inr \<lparr>run_ID = uid, run_TenantID = in_TenantID input,
          run_ProjectID = in_ProjectID input, run_PromptReference = in_PromptReference input,
          run_Runtime = in_Runtime input, run_CPUMillis = in_CPUMillis input,
          run_MemoryMiB = in_MemoryMiB input, run_TimeoutSeconds = in_TimeoutSeconds input,
          run_MaxAttempts = in_MaxAttempts input, run_AttemptCount = 1,
          run_Status = AgentRunQueued, run_FailureCategory = FailureNone,
          run_IdempotencyKey = in_IdempotencyKey input, run_RequestHash = in_RequestHash input,
          run_Version = 1, run_CreatedBy = in_CreatedBy input, run_CancellationReason = [],
          run_CancellationRequestedBy = [], run_CancellationRequestedAt = None,
          run_CreatedAt = now, run_UpdatedAt = now, run_CompletedAt = None\<rparr>))"

fun IsTerminal :: "AgentRunStatus \<Rightarrow> bool" where
  "IsTerminal AgentRunSucceeded = True"
| "IsTerminal AgentRunCancelled = True"
| "IsTerminal AgentRunProvisioningFailed = True"
| "IsTerminal AgentRunExecutionFailed = True"
| "IsTerminal AgentRunBuildFailed = True"
| "IsTerminal AgentRunPolicyRejected = True"
| "IsTerminal AgentRunDeploymentFailed = True"
| "IsTerminal AgentRunTimedOut = True"
| "IsTerminal _ = False"

definition CanRetry :: "AgentRun \<Rightarrow> bool" where
  "CanRetry run \<longleftrightarrow>
    (if \<not> IsTerminal (run_Status run) \<or> run_AttemptCount run \<ge> run_MaxAttempts run then False
     else run_FailureCategory run = FailureTransientDependency)"

definition CanTransition :: "AgentRun \<Rightarrow> AgentRunStatus \<Rightarrow> bool" where
  "CanTransition run target \<longleftrightarrow>
    (if run_Status run = target then True
     else if target = AgentRunCancelling then
       \<not> IsTerminal (run_Status run) \<and> run_Status run \<noteq> AgentRunCancelling
     else (case run_Status run of
        AgentRunQueued \<Rightarrow> target = AgentRunScheduling
      | AgentRunScheduling \<Rightarrow> target = AgentRunCapacityWait \<or> target = AgentRunProvisioning \<or>
          target = AgentRunPolicyRejected \<or> target = AgentRunTimedOut
      | AgentRunCapacityWait \<Rightarrow> target = AgentRunScheduling \<or> target = AgentRunTimedOut
      | AgentRunProvisioning \<Rightarrow> target = AgentRunRunning \<or> target = AgentRunProvisioningFailed \<or>
          target = AgentRunTimedOut
      | AgentRunRunning \<Rightarrow> target = AgentRunTesting \<or> target = AgentRunExecutionFailed \<or>
          target = AgentRunTimedOut
      | AgentRunTesting \<Rightarrow> target = AgentRunBuilding \<or> target = AgentRunExecutionFailed \<or>
          target = AgentRunTimedOut
      | AgentRunBuilding \<Rightarrow> target = AgentRunScanning \<or> target = AgentRunBuildFailed \<or>
          target = AgentRunTimedOut
      | AgentRunScanning \<Rightarrow> target = AgentRunReadyToDeploy \<or> target = AgentRunPolicyRejected \<or>
          target = AgentRunTimedOut
      | AgentRunReadyToDeploy \<Rightarrow> target = AgentRunDeploying
      | AgentRunDeploying \<Rightarrow> target = AgentRunSucceeded \<or> target = AgentRunDeploymentFailed \<or>
          target = AgentRunTimedOut
      | AgentRunCancelling \<Rightarrow> target = AgentRunCancelled
      | AgentRunProvisioningFailed \<Rightarrow> target = AgentRunQueued \<and> CanRetry run
      | AgentRunExecutionFailed \<Rightarrow> target = AgentRunQueued \<and> CanRetry run
      | AgentRunBuildFailed \<Rightarrow> target = AgentRunQueued \<and> CanRetry run
      | AgentRunDeploymentFailed \<Rightarrow> target = AgentRunQueued \<and> CanRetry run
      | AgentRunTimedOut \<Rightarrow> target = AgentRunQueued \<and> CanRetry run
      | _ \<Rightarrow> False))"

definition Transition :: "AgentRunStatus \<Rightarrow> FailureCategory \<Rightarrow> gtime \<Rightarrow> AgentRun receiver" where
  "Transition target failure now run =
    (if \<not> CanTransition run target then
       (Some (Wrap ErrInvalidTransition
          (AgentRunStatus_string (run_Status run) @ '' -> '' @ AgentRunStatus_string target)), run)
     else if target = run_Status run then (None, run)
     else
       let needs_failure =
         IsTerminal target \<and> target \<noteq> AgentRunSucceeded \<and> target \<noteq> AgentRunCancelled in
       if needs_failure \<and> failure = FailureNone then
         (Some (Plain (''failure category is required for '' @ AgentRunStatus_string target)), run)
       else if needs_failure \<and> \<not> FailureCategory_IsValid failure then
         (Some (Plain ''failure category is not valid''), run)
       else
         let run1 =
           (if target = AgentRunQueued \<and> IsTerminal (run_Status run) then
              run\<lparr>run_AttemptCount := i64 (run_AttemptCount run + 1),
                  run_FailureCategory := FailureNone, run_CompletedAt := None\<rparr>
            else if IsTerminal target then
              run\<lparr>run_CompletedAt := Some now, run_FailureCategory := failure\<rparr>
            else run) in
         (None, run1\<lparr>run_Status := target, run_UpdatedAt := now\<rparr>))"

section \<open>The AgentRunAttempt entity\<close>

record AgentRunAttempt =
  att_ID :: uuid
  att_TenantID :: uuid
  att_RunID :: uuid
  att_AttemptNumber :: int
  att_Status :: AgentRunAttemptStatus
  att_FailureCategory :: FailureCategory
  att_Version :: int
  att_SelectedCluster :: string
  att_ExecutionProfile :: string
  att_CapacityReservationID :: uuid
  att_BudgetReservationID :: uuid
  att_WorkloadReference :: string
  att_CreatedAt :: gtime
  att_UpdatedAt :: gtime
  att_StartedAt :: "gtime option"
  att_CompletedAt :: "gtime option"

definition NewAgentRunAttempt ::
  "uuid option \<Rightarrow> uuid \<Rightarrow> uuid \<Rightarrow> int \<Rightarrow> gtime \<Rightarrow> AgentRunAttempt result" where
  "NewAgentRunAttempt newV7 tenantID runID number now =
    (if tenantID = uuid_Nil \<or> runID = uuid_Nil \<or> number < 1 then
       Inl (Wrap ErrValidation ''attempt tenant, run, and number are required'')
     else (case newV7 of
        None \<Rightarrow> Inl (Plain ''generate attempt ID'')
      | Some uid \<Rightarrow> Inr \<lparr>att_ID = uid, att_TenantID = tenantID, att_RunID = runID,
          att_AttemptNumber = number, att_Status = AttemptPending,
          att_FailureCategory = FailureNone, att_Version = 1, att_SelectedCluster = [],
          att_ExecutionProfile = [], att_CapacityReservationID = uuid_Nil,
          att_BudgetReservationID = uuid_Nil, att_WorkloadReference = [], att_CreatedAt = now,
          att_UpdatedAt = now, att_StartedAt = None, att_CompletedAt = None\<rparr>))"

definition Attempt_CanTransition :: "AgentRunAttempt \<Rightarrow> AgentRunAttemptStatus \<Rightarrow> bool" where
  "Attempt_CanTransition attempt target \<longleftrightarrow>
    (if att_Status attempt = target then True
     else (case att_Status attempt of
        AttemptPending \<Rightarrow> target = AttemptStarting \<or> target = AttemptCancelled \<or>
          target = AttemptTimedOut
      | AttemptStarting \<Rightarrow> target = AttemptActive \<or> target = AttemptFailed \<or>
          target = AttemptCancelled \<or> target = AttemptTimedOut
      | AttemptActive \<Rightarrow> target = AttemptCompleted \<or> target = AttemptFailed \<or>
          target = AttemptCancelled \<or> target = AttemptTimedOut
      | _ \<Rightarrow> False))"

definition Attempt_Transition ::
  "AgentRunAttemptStatus \<Rightarrow> FailureCategory \<Rightarrow> gtime \<Rightarrow> AgentRunAttempt receiver" where
  "Attempt_Transition target failure now attempt =
    (if \<not> Attempt_CanTransition attempt target then
       (Some (Wrap ErrInvalidTransition
          (AgentRunAttemptStatus_string (att_Status attempt) @ '' -> '' @
           AgentRunAttemptStatus_string target)), attempt)
     else if target = att_Status attempt then (None, attempt)
     else
       let a1 = (if target = AttemptActive then attempt\<lparr>att_StartedAt := Some now\<rparr> else attempt);
           failed = (target = AttemptFailed \<or> target = AttemptTimedOut) in
       if failed \<and> failure = FailureNone then
         (Some (Plain (''failure category is required for '' @
            AgentRunAttemptStatus_string target)), a1)
       else if failed \<and> \<not> FailureCategory_IsValid failure then
         (Some (Plain ''failure category is not valid''), a1)
       else
         let a2 = (if failed then a1\<lparr>att_FailureCategory := failure\<rparr> else a1);
             a3 = (if target = AttemptCompleted \<or> target = AttemptFailed \<or>
                      target = AttemptCancelled \<or> target = AttemptTimedOut
                   then a2\<lparr>att_CompletedAt := Some now\<rparr> else a2) in
         (None, a3\<lparr>att_Status := target, att_UpdatedAt := now\<rparr>))"

section \<open>The documented transition graph\<close>

text \<open>
  The exhaustive table of \<^verbatim>\<open>specs/03-domain/02-state-machines.md\<close>, without the manual retry,
  and the states from which the table allows a manual retry.
\<close>

definition documented_edges :: "(AgentRunStatus \<times> AgentRunStatus) list" where
  "documented_edges =
    [(AgentRunQueued, AgentRunScheduling),
     (AgentRunScheduling, AgentRunCapacityWait), (AgentRunCapacityWait, AgentRunScheduling),
     (AgentRunScheduling, AgentRunProvisioning), (AgentRunProvisioning, AgentRunRunning),
     (AgentRunRunning, AgentRunTesting), (AgentRunTesting, AgentRunBuilding),
     (AgentRunBuilding, AgentRunScanning), (AgentRunScanning, AgentRunReadyToDeploy),
     (AgentRunReadyToDeploy, AgentRunDeploying), (AgentRunDeploying, AgentRunSucceeded),
     (AgentRunProvisioning, AgentRunProvisioningFailed),
     (AgentRunRunning, AgentRunExecutionFailed), (AgentRunTesting, AgentRunExecutionFailed),
     (AgentRunBuilding, AgentRunBuildFailed), (AgentRunScheduling, AgentRunPolicyRejected),
     (AgentRunScanning, AgentRunPolicyRejected), (AgentRunDeploying, AgentRunDeploymentFailed),
     (AgentRunScheduling, AgentRunTimedOut), (AgentRunCapacityWait, AgentRunTimedOut),
     (AgentRunProvisioning, AgentRunTimedOut), (AgentRunRunning, AgentRunTimedOut),
     (AgentRunTesting, AgentRunTimedOut), (AgentRunBuilding, AgentRunTimedOut),
     (AgentRunScanning, AgentRunTimedOut), (AgentRunDeploying, AgentRunTimedOut),
     (AgentRunQueued, AgentRunCancelling), (AgentRunScheduling, AgentRunCancelling),
     (AgentRunCapacityWait, AgentRunCancelling), (AgentRunProvisioning, AgentRunCancelling),
     (AgentRunRunning, AgentRunCancelling), (AgentRunTesting, AgentRunCancelling),
     (AgentRunBuilding, AgentRunCancelling), (AgentRunScanning, AgentRunCancelling),
     (AgentRunReadyToDeploy, AgentRunCancelling), (AgentRunDeploying, AgentRunCancelling),
     (AgentRunCancelling, AgentRunCancelled)]"

definition documented_retry_sources :: "AgentRunStatus list" where
  "documented_retry_sources =
    [AgentRunProvisioningFailed, AgentRunExecutionFailed, AgentRunBuildFailed,
     AgentRunDeploymentFailed, AgentRunTimedOut]"

fun named_status :: "AgentRunStatus \<Rightarrow> bool" where
  "named_status (AgentRunStatusOther _) = False"
| "named_status _ = True"

section \<open>Invariants\<close>

text \<open>A failed terminal status is one that must name its cause.\<close>

definition failed_status :: "AgentRunStatus \<Rightarrow> bool" where
  "failed_status s \<longleftrightarrow> IsTerminal s \<and> s \<noteq> AgentRunSucceeded \<and> s \<noteq> AgentRunCancelled"

definition run_inv :: "AgentRun \<Rightarrow> bool" where
  "run_inv r \<longleftrightarrow>
     named_status (run_Status r) \<and>
     1 \<le> run_AttemptCount r \<and> run_AttemptCount r \<le> run_MaxAttempts r \<and> run_MaxAttempts r \<le> 10 \<and>
     (run_CompletedAt r \<noteq> None \<longleftrightarrow> IsTerminal (run_Status r)) \<and>
     (failed_status (run_Status r) \<longrightarrow> FailureCategory_IsValid (run_FailureCategory r)) \<and>
     (\<not> IsTerminal (run_Status r) \<longrightarrow> run_FailureCategory r = FailureNone)"

type_synonym run_cmd = "AgentRunStatus \<times> FailureCategory \<times> gtime"
type_synonym attempt_cmd = "AgentRunAttemptStatus \<times> FailureCategory \<times> gtime"

definition run_command :: "run_cmd \<Rightarrow> AgentRun receiver" where
  "run_command c = (case c of (target, failure, now) \<Rightarrow> Transition target failure now)"

definition attempt_command :: "attempt_cmd \<Rightarrow> AgentRunAttempt receiver" where
  "attempt_command c = (case c of (target, failure, now) \<Rightarrow> Attempt_Transition target failure now)"

definition run_final :: "AgentRunStatus \<Rightarrow> bool" where
  "run_final s \<longleftrightarrow> s = AgentRunSucceeded \<or> s = AgentRunCancelled \<or> s = AgentRunPolicyRejected"

definition attempt_final :: "AgentRunAttemptStatus \<Rightarrow> bool" where
  "attempt_final s \<longleftrightarrow>
     s = AttemptCompleted \<or> s = AttemptFailed \<or> s = AttemptCancelled \<or> s = AttemptTimedOut"

definition attempt_inv :: "AgentRunAttempt \<Rightarrow> bool" where
  "attempt_inv a \<longleftrightarrow>
     (att_CompletedAt a \<noteq> None \<longleftrightarrow> attempt_final (att_Status a)) \<and>
     (att_Status a = AttemptFailed \<or> att_Status a = AttemptTimedOut \<longleftrightarrow>
        FailureCategory_IsValid (att_FailureCategory a)) \<and>
     (att_Status a \<in> {AttemptPending, AttemptStarting} \<longrightarrow> att_StartedAt a = None) \<and>
     (att_Status a \<in> {AttemptActive, AttemptCompleted} \<longrightarrow> att_StartedAt a \<noteq> None)"

text \<open>How many status changes an attempt can still make.\<close>

fun attempt_rank :: "AgentRunAttemptStatus \<Rightarrow> nat" where
  "attempt_rank AttemptPending = 3"
| "attempt_rank AttemptStarting = 2"
| "attempt_rank AttemptActive = 1"
| "attempt_rank _ = 0"

fun status_changes :: "attempt_cmd list \<Rightarrow> AgentRunAttempt \<Rightarrow> nat" where
  "status_changes [] a = 0"
| "status_changes (c # cs) a =
     (let a' = snd (attempt_command c a) in
      (if att_Status a' = att_Status a then 0 else 1) + status_changes cs a')"

text \<open>The retries a sequence of commands performs: accepted moves from a terminal status to QUEUED.\<close>

fun retries :: "run_cmd list \<Rightarrow> AgentRun \<Rightarrow> nat" where
  "retries [] r = 0"
| "retries (c # cs) r =
     (let r' = snd (run_command c r) in
      (if IsTerminal (run_Status r) \<and> run_Status r' = AgentRunQueued then 1 else 0) +
      retries cs r')"

text \<open>The part of a run that no transition may change.\<close>

definition run_request :: "AgentRun \<Rightarrow> AgentRun" where
  "run_request r = r\<lparr>run_AttemptCount := 0, run_Status := AgentRunQueued,
     run_FailureCategory := FailureNone, run_UpdatedAt := 0, run_CompletedAt := None\<rparr>"

definition input_valid :: "NewAgentRunInput \<Rightarrow> bool" where
  "input_valid i \<longleftrightarrow>
     in_TenantID i \<noteq> uuid_Nil \<and> in_ProjectID i \<noteq> uuid_Nil \<and>
     length (in_PromptReference i) \<in> {1..2048} \<and> length (in_Runtime i) \<in> {1..120} \<and>
     in_CPUMillis i \<in> {1..128000} \<and> in_MemoryMiB i \<in> {1..524288} \<and>
     in_TimeoutSeconds i \<in> {1..86400} \<and> in_MaxAttempts i \<in> {1..10} \<and>
     length (in_IdempotencyKey i) \<in> {1..255} \<and> length (in_RequestHash i) \<in> {1..128} \<and>
     length (in_CreatedBy i) \<in> {1..255}"

lemmas transition_defs =
  Transition_def CanTransition_def CanRetry_def run_command_def Let_def

lemmas attempt_transition_defs =
  Attempt_Transition_def Attempt_CanTransition_def attempt_command_def Let_def

lemma run_lifecycle:
  "lifecycle run_Status run_final CanTransition fst run_command"
proof
  fix r r' :: AgentRun and c :: run_cmd and e :: error and t
  obtain tg f now where c: "c = (tg, f, now)" by (cases c)
  show "\<not> CanTransition r (fst c) \<Longrightarrow>
    \<exists>m. run_command c r = (Some (Wrap ErrInvalidTransition m), r)"
    by (simp add: c run_command_def Transition_def)
  show "fst c = run_Status r \<Longrightarrow> run_command c r = (None, r)"
    by (simp add: c run_command_def Transition_def CanTransition_def)
  show "run_command c r = (Some e, r') \<Longrightarrow> r' = r"
    by (auto simp: c run_command_def Transition_def Let_def split: if_splits)
  show "run_command c r = (None, r') \<Longrightarrow> run_Status r' = fst c"
    by (auto simp: c run_command_def Transition_def Let_def split: if_splits)
  show "run_final (run_Status r) \<Longrightarrow> CanTransition r t \<Longrightarrow> t = run_Status r"
    by (auto simp: run_final_def CanTransition_def split: if_splits)
qed

interpretation run_lc: lifecycle run_Status run_final CanTransition fst run_command
  by (rule run_lifecycle)

lemma attempt_lifecycle:
  "lifecycle att_Status attempt_final Attempt_CanTransition fst attempt_command"
proof
  fix a a' :: AgentRunAttempt and c :: attempt_cmd and e :: error and t
  obtain tg f now where c: "c = (tg, f, now)" by (cases c)
  show "\<not> Attempt_CanTransition a (fst c) \<Longrightarrow>
    \<exists>m. attempt_command c a = (Some (Wrap ErrInvalidTransition m), a)"
    by (simp add: c attempt_command_def Attempt_Transition_def)
  show "fst c = att_Status a \<Longrightarrow> attempt_command c a = (None, a)"
    by (simp add: c attempt_command_def Attempt_Transition_def Attempt_CanTransition_def)
  show "attempt_command c a = (Some e, a') \<Longrightarrow> a' = a"
    by (auto simp: c attempt_command_def Attempt_Transition_def Let_def split: if_splits)
  show "attempt_command c a = (None, a') \<Longrightarrow> att_Status a' = fst c"
    by (auto simp: c attempt_command_def Attempt_Transition_def Let_def split: if_splits)
  show "attempt_final (att_Status a) \<Longrightarrow> Attempt_CanTransition a t \<Longrightarrow> t = att_Status a"
    by (auto simp: attempt_final_def Attempt_CanTransition_def split: if_splits)
qed

interpretation attempt_lc: lifecycle att_Status attempt_final Attempt_CanTransition fst attempt_command
  by (rule attempt_lifecycle)

lemma named_cases:
  "named_status s \<Longrightarrow> s \<in> {AgentRunQueued, AgentRunScheduling, AgentRunCapacityWait,
     AgentRunProvisioning, AgentRunRunning, AgentRunTesting, AgentRunBuilding, AgentRunScanning,
     AgentRunReadyToDeploy, AgentRunDeploying, AgentRunCancelling, AgentRunSucceeded,
     AgentRunCancelled, AgentRunProvisioningFailed, AgentRunExecutionFailed, AgentRunBuildFailed,
     AgentRunPolicyRejected, AgentRunDeploymentFailed, AgentRunTimedOut}"
  by (cases s) auto

lemma CanTransition_named:
  "CanTransition r t \<Longrightarrow> named_status (run_Status r) \<Longrightarrow> named_status t"
  by (cases t) (auto simp: CanTransition_def split: if_splits AgentRunStatus.splits)

lemma CanTransition_terminal_source:
  "CanTransition r t \<Longrightarrow> t \<noteq> run_Status r \<Longrightarrow> IsTerminal (run_Status r) \<Longrightarrow>
    t = AgentRunQueued \<and> CanRetry r"
  by (cases "run_Status r") (auto simp: CanTransition_def split: if_splits)

lemma Transition_accepted:
  assumes "Transition t f now r = (None, r')" and "t \<noteq> run_Status r"
  shows "CanTransition r t"
    and "failed_status t \<longrightarrow> FailureCategory_IsValid f"
    and "r' = (if t = AgentRunQueued \<and> IsTerminal (run_Status r) then
                 r\<lparr>run_AttemptCount := i64 (run_AttemptCount r + 1),
                   run_FailureCategory := FailureNone, run_CompletedAt := None,
                   run_Status := t, run_UpdatedAt := now\<rparr>
               else if IsTerminal t then
                 r\<lparr>run_CompletedAt := Some now, run_FailureCategory := f,
                   run_Status := t, run_UpdatedAt := now\<rparr>
               else r\<lparr>run_Status := t, run_UpdatedAt := now\<rparr>)"
  using assms by (auto simp: Transition_def Let_def failed_status_def split: if_splits)

lemma run_inv_step:
  assumes inv: "run_inv r" and step: "run_command c r = (None, r')"
  shows "run_inv r'"
proof -
  obtain t f now where c: "c = (t, f, now)" by (cases c)
  with step have tr: "Transition t f now r = (None, r')" by (simp add: run_command_def)
  show ?thesis
  proof (cases "t = run_Status r")
    case True
    with tr inv show ?thesis by (simp add: Transition_def CanTransition_def)
  next
    case False
    note acc = Transition_accepted [OF tr False]
    have named: "named_status t"
      using acc(1) inv CanTransition_named by (auto simp: run_inv_def)
    show ?thesis
    proof (cases "IsTerminal (run_Status r)")
      case True
      then have "t = AgentRunQueued" "CanRetry r"
        using CanTransition_terminal_source [OF acc(1) False] by auto
      moreover from inv have "in_i64 (run_AttemptCount r + 1)"
        by (auto simp: run_inv_def in_i64_def)
      ultimately show ?thesis
        using acc(3) inv True by (auto simp: run_inv_def CanRetry_def failed_status_def split: if_splits)
    next
      case nonterm: False
      then show ?thesis
        using acc(2,3) inv named by (auto simp: run_inv_def failed_status_def)
    qed
  qed
qed

lemma attempt_inv_step:
  assumes "attempt_inv a" and "attempt_command c a = (None, a')"
  shows "attempt_inv a'"
proof -
  obtain t f now where c: "c = (t, f, now)" by (cases c)
  show ?thesis
    using assms unfolding c
    by (cases "att_Status a"; cases t)
      (auto simp: attempt_transition_defs attempt_inv_def attempt_final_def split: if_splits)
qed

lemma run_request_step:
  assumes "run_command c r = (None, r')"
  shows "run_request r' = run_request r"
  using assms
  by (auto simp: run_command_def Transition_def run_request_def Let_def split: if_splits prod.splits)

lemma NewAgentRun_ok:
  assumes "NewAgentRun v7 i now = Inr r"
  shows "input_valid (trim_input i)" and "run_inv r"
  using assms
  by (auto simp: NewAgentRun_def Let_def input_valid_def run_inv_def failed_status_def Suc_le_eq
      split: if_splits option.splits)

lemma attempt_rank_step:
  "att_Status (snd (attempt_command c a)) = att_Status a \<or>
   attempt_rank (att_Status (snd (attempt_command c a))) < attempt_rank (att_Status a)"
proof -
  obtain t f now where c: "c = (t, f, now)" by (cases c)
  show ?thesis
    unfolding c by (cases "att_Status a"; cases t) (auto simp: attempt_transition_defs)
qed

lemma status_changes_rank: "status_changes cs a \<le> attempt_rank (att_Status a)"
proof (induction cs arbitrary: a)
  case (Cons c cs)
  from Cons [of "snd (attempt_command c a)"] attempt_rank_step [of c a] show ?case
    by (auto simp: Let_def)
qed simp

lemma attempt_rank_le: "attempt_rank s \<le> 3"
  by (cases s) auto

lemma AttemptCount_step:
  assumes "run_inv r"
  shows "run_AttemptCount (snd (run_command c r)) = run_AttemptCount r +
    (if IsTerminal (run_Status r) \<and> run_Status (snd (run_command c r)) = AgentRunQueued then 1 else 0)"
proof -
  from assms have fits: "in_i64 (run_AttemptCount r + 1)" by (auto simp: run_inv_def in_i64_def)
  show ?thesis
    by (cases c)
      (auto simp: run_command_def Transition_def Let_def CanTransition_def fits split: if_splits)
qed

lemma run_inv_command: "run_inv r \<Longrightarrow> run_inv (snd (run_command c r))"
  by (cases "run_command c r"; cases "fst (run_command c r)")
    (auto dest: run_inv_step run_lc.failed_unchanged)

section \<open>An example run\<close>

definition ex_input :: NewAgentRunInput where
  "ex_input = \<lparr>in_TenantID = 1, in_ProjectID = 2, in_PromptReference = '' s3://prompts/1'',
     in_Runtime = ''go1.24'', in_CPUMillis = 500, in_MemoryMiB = 512, in_TimeoutSeconds = 60,
     in_MaxAttempts = 2, in_IdempotencyKey = ''key-1 '', in_RequestHash = ''abc'',
     in_CreatedBy = ''dev''\<rparr>"

definition ex_run :: AgentRun where
  "ex_run = \<lparr>run_ID = 7, run_TenantID = 1, run_ProjectID = 2,
     run_PromptReference = ''s3://prompts/1'', run_Runtime = ''go1.24'', run_CPUMillis = 500,
     run_MemoryMiB = 512, run_TimeoutSeconds = 60, run_MaxAttempts = 2, run_AttemptCount = 1,
     run_Status = AgentRunQueued, run_FailureCategory = FailureNone,
     run_IdempotencyKey = ''key-1'', run_RequestHash = ''abc'', run_Version = 1,
     run_CreatedBy = ''dev'', run_CancellationReason = [], run_CancellationRequestedBy = [],
     run_CancellationRequestedAt = None, run_CreatedAt = 5, run_UpdatedAt = 5,
     run_CompletedAt = None\<rparr>"

text \<open>A run driven to a transient execution failure, retried, and failed again for good.\<close>

definition ex_cmds :: "run_cmd list" where
  "ex_cmds =
    [(AgentRunScheduling, FailureNone, 6), (AgentRunProvisioning, FailureNone, 7),
     (AgentRunRunning, FailureNone, 8),
     (AgentRunExecutionFailed, FailureTransientDependency, 9),
     (AgentRunQueued, FailureNone, 10), (AgentRunScheduling, FailureNone, 11),
     (AgentRunTimedOut, FailureTransientDependency, 12), (AgentRunQueued, FailureNone, 13)]"

definition ex_attempt :: AgentRunAttempt where
  "ex_attempt = \<lparr>att_ID = 8, att_TenantID = 1, att_RunID = 7, att_AttemptNumber = 1,
     att_Status = AttemptPending, att_FailureCategory = FailureNone, att_Version = 1,
     att_SelectedCluster = [], att_ExecutionProfile = [], att_CapacityReservationID = 0,
     att_BudgetReservationID = 0, att_WorkloadReference = [], att_CreatedAt = 5,
     att_UpdatedAt = 5, att_StartedAt = None, att_CompletedAt = None\<rparr>"

definition ex_attempt_cmds :: "attempt_cmd list" where
  "ex_attempt_cmds =
    [(AttemptStarting, FailureNone, 6), (AttemptActive, FailureNone, 7),
     (AttemptFailed, FailureExecution, 8), (AttemptCompleted, FailureNone, 9)]"

lemma ex_run_new: "NewAgentRun (Some 7) ex_input 5 = Inr ex_run"
  by code_simp

lemma ex_attempt_new: "NewAgentRunAttempt (Some 8) 1 7 1 5 = Inr ex_attempt"
  by code_simp

section \<open>Properties\<close>

text \<open>C9: For every run in a named status, the transitions the code accepts are exactly those of
  the documented state machine: staying in the same status, an edge of the documented table, or
  the manual retry, which needs a retryable failed status, the transient failure category and an
  attempt left.\<close>

theorem CanTransition_documented:
  assumes "named_status (run_Status r)"
  shows "CanTransition r t \<longleftrightarrow>
    t = run_Status r \<or> (run_Status r, t) \<in> set documented_edges \<or>
    (t = AgentRunQueued \<and> run_Status r \<in> set documented_retry_sources \<and>
     run_FailureCategory r = FailureTransientDependency \<and>
     run_AttemptCount r < run_MaxAttempts r)"
  using assms
  by (cases "run_Status r"; cases t)
    (auto simp: CanTransition_def CanRetry_def documented_edges_def documented_retry_sources_def)

theorem CanTransition_documented_witness:
  "named_status (run_Status ex_run) \<and> CanTransition ex_run AgentRunScheduling \<and>
   \<not> CanTransition ex_run AgentRunRunning"
  using CanTransition_documented [of ex_run AgentRunScheduling]
    CanTransition_documented [of ex_run AgentRunRunning]
  by (simp add: ex_run_def documented_edges_def documented_retry_sources_def)

text \<open>C10: Whatever sequence of transition commands callers issue on a newly created run, accepted
  or refused, the run keeps its invariant (a named status, an attempt count between 1 and the
  maximum, a completion time exactly in terminal statuses, a valid failure category in every
  failed status and none before completion) and the request it was created from.\<close>

theorem run_invariant_always:
  assumes "NewAgentRun v7 i now = Inr r"
  shows "run_inv (apply_all run_command cs r) \<and>
    run_request (apply_all run_command cs r) = run_request r"
proof
  show "run_inv (apply_all run_command cs r)"
    using run_lc.apply_all_invariant [of run_inv] run_inv_step NewAgentRun_ok(2) [OF assms] by blast
  show "run_request (apply_all run_command cs r) = run_request r"
    using run_lc.apply_all_invariant [of "\<lambda>r'. run_request r' = run_request r"] run_request_step
    by metis
qed

theorem run_invariant_always_witness:
  "run_inv (apply_all run_command ex_cmds ex_run) \<and>
   run_Status (apply_all run_command ex_cmds ex_run) = AgentRunTimedOut"
proof
  show "run_inv (apply_all run_command ex_cmds ex_run)"
    using run_invariant_always [OF ex_run_new, of ex_cmds] by simp
  show "run_Status (apply_all run_command ex_cmds ex_run) = AgentRunTimedOut"
    by code_simp
qed

text \<open>C11: SUCCEEDED, CANCELLED and POLICY\_REJECTED are final: no sequence of commands changes
  anything of a run in one of these statuses.\<close>

theorem run_final_absorbing:
  assumes "run_final (run_Status r)"
  shows "apply_all run_command cs r = r"
  using assms by (rule run_lc.final_apply_all)

theorem run_final_absorbing_witness:
  "apply_all run_command ex_cmds (ex_run\<lparr>run_Status := AgentRunSucceeded\<rparr>) =
     ex_run\<lparr>run_Status := AgentRunSucceeded\<rparr>"
  by (rule run_final_absorbing) (simp add: run_final_def)

text \<open>C12: The attempt counter counts the retries, and no sequence of commands on a newly created
  run performs more than MaxAttempts - 1 of them.\<close>

theorem run_retries_bounded:
  assumes "NewAgentRun v7 i now = Inr r"
  shows "run_AttemptCount (apply_all run_command cs r) = 1 + int (retries cs r) \<and>
    1 + int (retries cs r) \<le> run_MaxAttempts r"
proof -
  have count: "run_AttemptCount (apply_all run_command cs r) = run_AttemptCount r + int (retries cs r)"
    if "run_inv r" for r cs
    using that
  proof (induction cs arbitrary: r)
    case (Cons c cs)
    then show ?case
      using AttemptCount_step [OF Cons.prems, of c] run_inv_command [OF Cons.prems, of c]
      by (simp add: Let_def)
  qed simp
  have inv: "run_inv r" by (rule NewAgentRun_ok(2) [OF assms])
  have one: "run_AttemptCount r = 1"
    using assms by (auto simp: NewAgentRun_def Let_def split: if_splits option.splits)
  have "run_inv (apply_all run_command cs r)"
    using run_lc.apply_all_invariant [of run_inv, OF run_inv_step inv] .
  moreover have "run_MaxAttempts (apply_all run_command cs r) = run_MaxAttempts r"
    using run_lc.apply_all_invariant [of "\<lambda>r'. run_MaxAttempts r' = run_MaxAttempts r"]
      run_request_step
    by (metis (no_types, lifting) AgentRun.select_convs(9) AgentRun.surjective
        AgentRun.update_convs(10,11,12,21,22) run_request_def)
  ultimately show ?thesis using count [OF inv, of cs] one by (auto simp: run_inv_def)
qed

theorem run_retries_bounded_witness:
  "retries ex_cmds ex_run = 1 \<and> run_AttemptCount (apply_all run_command ex_cmds ex_run) = 2"
proof -
  have "retries ex_cmds ex_run = 1" by code_simp
  with run_retries_bounded [OF ex_run_new, of ex_cmds] show ?thesis by simp
qed

text \<open>C13: A run that has not completed can always be brought to CANCELLED, by a cancellation
  request followed by its confirmation.\<close>

theorem run_can_always_be_cancelled:
  assumes "run_inv r" and "\<not> IsTerminal (run_Status r)"
  shows "run_Status (apply_all run_command
    [(AgentRunCancelling, FailureNone, t1), (AgentRunCancelled, FailureNone, t2)] r) = AgentRunCancelled"
  using assms by (cases "run_Status r") (auto simp: transition_defs run_inv_def)

theorem run_can_always_be_cancelled_witness:
  "run_Status (apply_all run_command
    [(AgentRunCancelling, FailureNone, 6), (AgentRunCancelled, FailureNone, 7)] ex_run) =
   AgentRunCancelled"
  by (rule run_can_always_be_cancelled) (simp_all add: ex_run_def run_inv_def failed_status_def)


text \<open>C15: An attempt changes its status at most three times, and its completion time, failure
  category and start time always agree with its status.\<close>

theorem attempt_bounded_and_consistent:
  assumes "NewAgentRunAttempt v7 tenant run number now = Inr a"
  shows "status_changes cs a \<le> 3 \<and> attempt_inv (apply_all attempt_command cs a)"
proof
  show "status_changes cs a \<le> 3"
    using status_changes_rank attempt_rank_le by (rule le_trans)
  have "attempt_inv a"
    using assms by (auto simp: NewAgentRunAttempt_def attempt_inv_def attempt_final_def
        split: if_splits option.splits)
  then show "attempt_inv (apply_all attempt_command cs a)"
    using attempt_lc.apply_all_invariant [of attempt_inv] attempt_inv_step by blast
qed

theorem attempt_bounded_and_consistent_witness:
  "status_changes ex_attempt_cmds ex_attempt = 3 \<and>
   attempt_inv (apply_all attempt_command ex_attempt_cmds ex_attempt)"
proof
  show "status_changes ex_attempt_cmds ex_attempt = 3" by code_simp
  show "attempt_inv (apply_all attempt_command ex_attempt_cmds ex_attempt)"
    using attempt_bounded_and_consistent [OF ex_attempt_new, of ex_attempt_cmds] by simp
qed

end
