(* ===== verification/Domain_Cluster.thy ===== *)
theory Domain_Cluster
  imports Domain_Policy Domain_AgentRun
begin

text \<open>
  Execution clusters and their capacity reports
  (\<^verbatim>\<open>services/platform-api/internal/domain/cluster.go\<close>), reservations
  (\<^verbatim>\<open>reservation.go\<close>) and the desired state of an AgentRun handed to Kubernetes
  (\<^verbatim>\<open>agent_run.go\<close>, \<^verbatim>\<open>execution_intent.go\<close>), each with its validation.
\<close>

section \<open>Execution clusters\<close>

datatype ClusterStatus = ClusterActive | ClusterUnavailable | ClusterStatusOther string

definition clusterIDPattern :: regexp where
  "clusterIDPattern = Seq (Cls False az09) (Rep (Cls False az09_dash) 2 62)"

definition clusterRegionPattern :: regexp where
  "clusterRegionPattern = Seq (Cls False az09) (Rep (Cls False az09_dash) 0 62)"

record ExecutionCluster =
  cl_ID :: string
  cl_Region :: string
  cl_Status :: ClusterStatus
  cl_SupportedRuntimes :: "string list"
  cl_SupportedExecutionProfiles :: "string list"
  cl_Maintenance :: bool
  cl_TenantRestricted :: bool
  cl_SchedulingWeight :: int
  cl_CPUCostMinorUnits :: int
  cl_MemoryGiBCostMinorUnits :: int
  cl_LastHeartbeatAt :: gtime
  cl_Version :: int
  cl_CreatedAt :: gtime
  cl_UpdatedAt :: gtime

record ClusterCapacity =
  cap_ClusterID :: string
  cap_ObservedAt :: gtime
  cap_AllocatableCPUMillis :: int
  cap_AllocatableMemoryMiB :: int
  cap_QueuedWorkloads :: int

record ClusterCandidate =
  cand_Cluster :: ExecutionCluster
  cand_Capacity :: ClusterCapacity

definition validClusterValues :: "string list \<Rightarrow> nat \<Rightarrow> bool" where
  "validClusterValues values maximum =
    (if length values = 0 \<or> length values > maximum then False
     else unique_valid (MatchString schedulerPolicyValuePattern) {} values)"

definition Cluster_Validate :: "ExecutionCluster \<Rightarrow> gtime \<Rightarrow> error option" where
  "Cluster_Validate cluster now =
    (if \<not> MatchString clusterIDPattern (cl_ID cluster) \<or>
        \<not> MatchString clusterRegionPattern (cl_Region cluster) \<or>
        (cl_Status cluster \<noteq> ClusterActive \<and> cl_Status cluster \<noteq> ClusterUnavailable) \<or>
        cl_SchedulingWeight cluster < 1 \<or> cl_SchedulingWeight cluster > 1000 \<or>
        cl_CPUCostMinorUnits cluster < 0 \<or> cl_MemoryGiBCostMinorUnits cluster < 0 \<or>
        cl_Version cluster < 1 \<or> IsZero (cl_LastHeartbeatAt cluster) \<or>
        cl_LastHeartbeatAt cluster > now + minute \<or>
        \<not> validClusterValues (cl_SupportedRuntimes cluster) 64 \<or>
        \<not> validClusterValues (cl_SupportedExecutionProfiles cluster) 32 then
       Some (Plain ''execution cluster metadata is invalid'')
     else None)"

definition NewExecutionCluster :: "ExecutionCluster \<Rightarrow> gtime \<Rightarrow> ExecutionCluster result" where
  "NewExecutionCluster cluster0 now =
    (let cluster = cluster0\<lparr>cl_Version := 1, cl_CreatedAt := now, cl_UpdatedAt := now\<rparr> in
     case Cluster_Validate cluster now of Some err \<Rightarrow> Inl err | None \<Rightarrow> Inr cluster)"

definition Capacity_Validate :: "ClusterCapacity \<Rightarrow> gtime \<Rightarrow> error option" where
  "Capacity_Validate capacity now =
    (if cap_ClusterID capacity = [] \<or> IsZero (cap_ObservedAt capacity) \<or>
        cap_ObservedAt capacity > now + minute \<or> cap_AllocatableCPUMillis capacity < 0 \<or>
        cap_AllocatableMemoryMiB capacity < 0 \<or> cap_QueuedWorkloads capacity < 0 then
       Some (Plain ''cluster capacity metadata is invalid'')
     else None)"

definition Supports :: "ExecutionCluster \<Rightarrow> string \<Rightarrow> string \<Rightarrow> bool" where
  "Supports cluster runtime profile \<longleftrightarrow>
     runtime \<in> set (cl_SupportedRuntimes cluster) \<and>
     profile \<in> set (cl_SupportedExecutionProfiles cluster)"

section \<open>Reservations\<close>

datatype ReservationState =
  ReservationReserved | ReservationSettled | ReservationReleased | ReservationExpired

record CapacityReservation =
  cr_ID :: uuid
  cr_TenantID :: uuid
  cr_RunID :: uuid
  cr_AttemptID :: uuid
  cr_AttemptNumber :: int
  cr_ClusterID :: string
  cr_CPUMillis :: int
  cr_MemoryMiB :: int
  cr_State :: ReservationState
  cr_ExpiresAt :: gtime
  cr_CreatedAt :: gtime
  cr_SettledAt :: "gtime option"
  cr_ReleasedAt :: "gtime option"

record BudgetReservation =
  br_ID :: uuid
  br_CapacityReservationID :: uuid
  br_TenantID :: uuid
  br_RunID :: uuid
  br_AttemptNumber :: int
  br_UsageDate :: gtime
  br_AmountMinorUnits :: int
  br_State :: ReservationState
  br_ExpiresAt :: gtime
  br_CreatedAt :: gtime
  br_SettledAt :: "gtime option"
  br_ReleasedAt :: "gtime option"

record ReservationBundle =
  rb_Capacity :: CapacityReservation
  rb_Budget :: BudgetReservation

definition Reservation_Validate ::
  "(uuid \<Rightarrow> nat) \<Rightarrow> CapacityReservation \<Rightarrow> gtime \<Rightarrow> error option" where
  "Reservation_Validate Version reservation now =
    (if Version (cr_ID reservation) \<noteq> 7 \<or> Version (cr_TenantID reservation) \<noteq> 7 \<or>
        Version (cr_RunID reservation) \<noteq> 7 \<or> Version (cr_AttemptID reservation) \<noteq> 7 \<or>
        cr_AttemptNumber reservation < 1 \<or>
        \<not> MatchString clusterIDPattern (cr_ClusterID reservation) \<or>
        cr_CPUMillis reservation < 1 \<or> cr_CPUMillis reservation > 128000 \<or>
        cr_MemoryMiB reservation < 1 \<or> cr_MemoryMiB reservation > 524288 \<or>
        cr_State reservation \<noteq> ReservationReserved \<or> \<not> cr_ExpiresAt reservation > now \<or>
        IsZero (cr_CreatedAt reservation) then
       Some (Plain ''capacity reservation is invalid'')
     else None)"

section \<open>The desired state of an AgentRun\<close>

record AgentRunDesiredState =
  ds_RunnerImage :: string
  ds_Runtime :: string
  ds_ExecutionProfile :: string
  ds_TaskReference :: string
  ds_TimeoutSeconds :: int
  ds_MaxAttempts :: int
  ds_InitialBackoffSeconds :: int
  ds_MaxBackoffSeconds :: int
  ds_RetryableFailureCategories :: "FailureCategory list"
  ds_CPUMillis :: int
  ds_MemoryMiB :: int
  ds_CPULimitMillis :: int
  ds_MemoryLimitMiB :: int
  ds_WorkspaceSizeGiB :: int
  ds_StorageClassName :: string
  ds_WorkspaceRetentionPolicy :: string
  ds_NetworkProfile :: string
  ds_AllowedDestinationsRef :: string
  ds_ArtifactDestinationRef :: string
  ds_ConfigurationRefs :: "string list"
  ds_SecretRefs :: "string list"
  ds_DeployOnSuccess :: bool

definition desiredRuntimePattern :: regexp where
  "desiredRuntimePattern = Seq (Cls False az09) (Rep (Cls False az09_dot_us_dash) 0 119)"

definition desiredProfilePattern :: regexp where
  "desiredProfilePattern = Seq (Cls False az09) (Rep (Cls False az09_dot_us_dash) 0 62)"

definition desiredDigestImagePattern :: regexp where
  "desiredDigestImagePattern =
     Seq (Cls False az09)
       (Seq (Star (Cls False (az09 @ [(CHR ''.'', CHR ''.''), (CHR ''/'', CHR ''/''),
              (CHR '':'', CHR '':''), (CHR ''_'', CHR ''_''), (CHR ''-'', CHR ''-'')])))
         (Seq (Str ''@sha256:'') (Rep (Cls False hexdigit) 64 64)))"

definition desiredLocalReferencePattern :: regexp where
  "desiredLocalReferencePattern = dns_subdomain_re"

text \<open>\<^verbatim>\<open>[[:space:]]\<close> is tab, newline, vertical tab, form feed, carriage return and space.\<close>

definition posix_space :: "(char \<times> char) list" where
  "posix_space = [(CHR 0x09, CHR 0x0D), (CHR 0x20, CHR 0x20)]"

definition scheme_re :: regexp where
  "scheme_re =
     Seq (Cls False [(CHR ''a'', CHR ''z'')])
       (Rep (Cls False (az09 @ [(CHR ''+'', CHR ''+''), (CHR ''.'', CHR ''.''), (CHR ''-'', CHR ''-'')])) 1 31)"

definition desiredTaskReferencePattern :: regexp where
  "desiredTaskReferencePattern =
     Seq scheme_re (Seq (Str ''://'') (Plus (Cls True posix_space)))"

definition validDesiredReference :: "string \<Rightarrow> bool" where
  "validDesiredReference reference \<longleftrightarrow>
     length reference \<le> 253 \<and> MatchString desiredLocalReferencePattern reference"

definition validDesiredReferences :: "string list \<Rightarrow> bool" where
  "validDesiredReferences references =
    (if length references > 32 then False
     else unique_valid validDesiredReference {} references)"

fun check_categories :: "FailureCategory set \<Rightarrow> FailureCategory list \<Rightarrow> error option" where
  "check_categories seen [] = None"
| "check_categories seen (category # categories) =
    (if category \<noteq> FailureTransientDependency \<and> category \<noteq> FailureInternal then
       Some (Plain ''AgentRun desired retry category is invalid'')
     else if category \<in> seen then
       Some (Plain ''AgentRun desired retry category is duplicated'')
     else check_categories (insert category seen) categories)"

definition Desired_Validate :: "AgentRunDesiredState \<Rightarrow> int \<Rightarrow> error option" where
  "Desired_Validate desired attempt =
    (if length (ds_RunnerImage desired) > 512 \<or>
        \<not> MatchString desiredDigestImagePattern (ds_RunnerImage desired) \<or>
        \<not> MatchString desiredRuntimePattern (ds_Runtime desired) \<or>
        \<not> MatchString desiredProfilePattern (ds_ExecutionProfile desired) \<or>
        length (ds_TaskReference desired) > 2048 \<or>
        \<not> MatchString desiredTaskReferencePattern (ds_TaskReference desired) \<or>
        attempt < 1 \<or> attempt > 10 \<or> ds_MaxAttempts desired < attempt \<or> ds_MaxAttempts desired > 10 \<or>
        ds_TimeoutSeconds desired < 1 \<or> ds_TimeoutSeconds desired > 86400 \<or>
        ds_InitialBackoffSeconds desired < 1 \<or> ds_InitialBackoffSeconds desired > 3600 \<or>
        ds_MaxBackoffSeconds desired < ds_InitialBackoffSeconds desired \<or>
        ds_MaxBackoffSeconds desired > 21600 \<or>
        ds_CPUMillis desired < 1 \<or> ds_CPUMillis desired > 128000 \<or>
        ds_MemoryMiB desired < 1 \<or> ds_MemoryMiB desired > 524288 \<or>
        ds_CPULimitMillis desired < ds_CPUMillis desired \<or> ds_CPULimitMillis desired > 128000 \<or>
        ds_MemoryLimitMiB desired < ds_MemoryMiB desired \<or> ds_MemoryLimitMiB desired > 524288 \<or>
        ds_WorkspaceSizeGiB desired < 1 \<or> ds_WorkspaceSizeGiB desired > 2048 \<or>
        (ds_StorageClassName desired \<noteq> [] \<and> \<not> validDesiredReference (ds_StorageClassName desired)) \<or>
        (ds_WorkspaceRetentionPolicy desired \<noteq> ''Delete'' \<and>
         ds_WorkspaceRetentionPolicy desired \<noteq> ''Retain'') \<or>
        (ds_NetworkProfile desired \<noteq> ''Isolated'' \<and> ds_NetworkProfile desired \<noteq> ''RestrictedEgress'') \<or>
        \<not> validDesiredReference (ds_ArtifactDestinationRef desired) \<or>
        (ds_NetworkProfile desired = ''Isolated'' \<and> ds_AllowedDestinationsRef desired \<noteq> []) \<or>
        (ds_NetworkProfile desired = ''RestrictedEgress'' \<and>
         \<not> validDesiredReference (ds_AllowedDestinationsRef desired)) then
       Some (Plain ''AgentRun desired state is invalid'')
     else (case check_categories {} (ds_RetryableFailureCategories desired) of
        Some err \<Rightarrow> Some err
      | None \<Rightarrow>
          if \<not> validDesiredReferences (ds_ConfigurationRefs desired) \<or>
             \<not> validDesiredReferences (ds_SecretRefs desired) then
            Some (Plain ''AgentRun desired references are invalid'')
          else None))"

section \<open>What the validations accept\<close>

lemma validClusterValues_iff:
  "validClusterValues vs n \<longleftrightarrow>
     vs \<noteq> [] \<and> length vs \<le> n \<and> distinct vs \<and>
     (\<forall>v \<in> set vs. MatchString schedulerPolicyValuePattern v)"
  by (auto simp: validClusterValues_def unique_valid_iff)

lemma validDesiredReferences_iff:
  "validDesiredReferences refs \<longleftrightarrow>
     length refs \<le> 32 \<and> distinct refs \<and> (\<forall>r \<in> set refs. validDesiredReference r)"
  by (auto simp: validDesiredReferences_def unique_valid_iff)

lemma check_categories_iff:
  "check_categories seen cs = None \<longleftrightarrow>
     set cs \<subseteq> {FailureTransientDependency, FailureInternal} \<and> distinct cs \<and> set cs \<inter> seen = {}"
  by (induction cs arbitrary: seen) auto

lemma Cluster_Validate_weight:
  "Cluster_Validate c now = None \<Longrightarrow>
     1 \<le> cl_SchedulingWeight c \<and> cl_SchedulingWeight c \<le> 1000 \<and>
     0 \<le> cl_CPUCostMinorUnits c \<and> 0 \<le> cl_MemoryGiBCostMinorUnits c"
  by (auto simp: Cluster_Validate_def split: if_splits)

lemma digest_image:
  assumes "MatchString desiredDigestImagePattern s"
  obtains name digest where "s = name @ ''@sha256:'' @ digest" "length digest = 64"
    "\<forall>c \<in> set digest. in_class False hexdigit c"
proof -
  from assms obtain u v w where "s = u @ v @ ''@sha256:'' @ w"
    "w \<in> lang (Rep (Cls False hexdigit) 64 64)"
    unfolding MatchString_iff desiredDigestImagePattern_def lang.simps lang_Str by blast
  then show thesis using that [of "u @ v" w] lang_Rep_class [of 64 64 w False hexdigit] by auto
qed

lemma valid_reference_shape:
  assumes "validDesiredReference r"
  shows "CHR ''/'' \<notin> set r" and "length r \<le> 253"
proof -
  have "\<not> in_class False az09_dash CHR ''/''" by (simp add: class_defs)
  then show "CHR ''/'' \<notin> set r"
    using assms dns_subdomain_chars [of r "CHR ''/''"]
    by (auto simp: validDesiredReference_def desiredLocalReferencePattern_def)
  show "length r \<le> 253" using assms by (simp add: validDesiredReference_def)
qed

lemma valid_references_shape:
  assumes "validDesiredReferences refs"
  shows "distinct refs" and "r \<in> set refs \<Longrightarrow> CHR ''/'' \<notin> set r \<and> length r \<le> 253"
  using assms valid_reference_shape by (simp_all add: validDesiredReferences_iff)

section \<open>An example desired state\<close>

definition ex_image :: string where
  "ex_image = ''registry/runner@sha256:'' @ replicate 64 (CHR ''a'')"

definition ex_desired :: AgentRunDesiredState where
  "ex_desired = \<lparr>ds_RunnerImage = ex_image, ds_Runtime = ''go1.24'', ds_ExecutionProfile = ''small'',
     ds_TaskReference = ''s3://tasks/1'', ds_TimeoutSeconds = 600, ds_MaxAttempts = 3,
     ds_InitialBackoffSeconds = 10, ds_MaxBackoffSeconds = 300,
     ds_RetryableFailureCategories = [FailureTransientDependency], ds_CPUMillis = 500,
     ds_MemoryMiB = 512, ds_CPULimitMillis = 1000, ds_MemoryLimitMiB = 1024,
     ds_WorkspaceSizeGiB = 10, ds_StorageClassName = [], ds_WorkspaceRetentionPolicy = ''Delete'',
     ds_NetworkProfile = ''Isolated'', ds_AllowedDestinationsRef = [],
     ds_ArtifactDestinationRef = ''artifacts'', ds_ConfigurationRefs = [''cfg''],
     ds_SecretRefs = [''git-token''], ds_DeployOnSuccess = False\<rparr>"

lemma ex_desired_valid: "Desired_Validate ex_desired 1 = None"
  by code_simp

section \<open>Properties\<close>

text \<open>C19: A desired state that passes validation pins its runner image by a 64 digit SHA-256 digest,
  names secrets and configuration by distinct local names without a path separator, requests no
  more than its limits, leaves the requested attempt within the maximum, retries only the
  transient and internal categories, and opens no egress when it is isolated.\<close>

theorem Desired_Validate_sound:
  assumes "Desired_Validate d attempt = None"
  shows "(\<exists>name digest. ds_RunnerImage d = name @ ''@sha256:'' @ digest \<and> length digest = 64 \<and>
        (\<forall>c \<in> set digest. in_class False hexdigit c)) \<and>
    (\<forall>r \<in> set (ds_ConfigurationRefs d) \<union> set (ds_SecretRefs d). CHR ''/'' \<notin> set r \<and> length r \<le> 253) \<and>
    distinct (ds_ConfigurationRefs d) \<and> distinct (ds_SecretRefs d) \<and>
    ds_CPUMillis d \<le> ds_CPULimitMillis d \<and> ds_MemoryMiB d \<le> ds_MemoryLimitMiB d \<and>
    1 \<le> attempt \<and> attempt \<le> ds_MaxAttempts d \<and> ds_MaxAttempts d \<le> 10 \<and>
    ds_InitialBackoffSeconds d \<le> ds_MaxBackoffSeconds d \<and>
    set (ds_RetryableFailureCategories d) \<subseteq> {FailureTransientDependency, FailureInternal} \<and>
    (ds_NetworkProfile d = ''Isolated'' \<longrightarrow> ds_AllowedDestinationsRef d = [])"
proof -
  from assms have img: "MatchString desiredDigestImagePattern (ds_RunnerImage d)"
    and cats: "check_categories {} (ds_RetryableFailureCategories d) = None"
    and refs: "validDesiredReferences (ds_ConfigurationRefs d)" "validDesiredReferences (ds_SecretRefs d)"
    by (simp_all add: Desired_Validate_def split: if_splits option.splits)
  from assms have bounds: "ds_CPUMillis d \<le> ds_CPULimitMillis d \<and> ds_MemoryMiB d \<le> ds_MemoryLimitMiB d \<and>
    1 \<le> attempt \<and> attempt \<le> ds_MaxAttempts d \<and> ds_MaxAttempts d \<le> 10 \<and>
    ds_InitialBackoffSeconds d \<le> ds_MaxBackoffSeconds d \<and>
    (ds_NetworkProfile d = ''Isolated'' \<longrightarrow> ds_AllowedDestinationsRef d = [])"
    by (simp add: Desired_Validate_def not_less split: if_splits)
  have shape: "\<forall>r \<in> set (ds_ConfigurationRefs d) \<union> set (ds_SecretRefs d).
      CHR ''/'' \<notin> set r \<and> length r \<le> 253"
    using valid_references_shape(2) [OF refs(1)] valid_references_shape(2) [OF refs(2)] by blast
  have "set (ds_RetryableFailureCategories d) \<subseteq> {FailureTransientDependency, FailureInternal}"
    using cats by (simp add: check_categories_iff)
  moreover have "\<exists>name digest. ds_RunnerImage d = name @ ''@sha256:'' @ digest \<and> length digest = 64 \<and>
        (\<forall>c \<in> set digest. in_class False hexdigit c)"
    by (rule digest_image [OF img]) blast
  ultimately show ?thesis
    using bounds shape valid_references_shape(1) [OF refs(1)] valid_references_shape(1) [OF refs(2)]
    by (intro conjI) simp_all
qed

theorem Desired_Validate_sound_witness:
  "Desired_Validate ex_desired 1 = None \<and> CHR ''/'' \<notin> set ''git-token''"
  using ex_desired_valid Desired_Validate_sound [OF ex_desired_valid]
  by (simp add: ex_desired_def)

end
