(* ===== verification/Sched_Strategy.thy ===== *)
theory Sched_Strategy
  imports Domain_Cluster
begin

text \<open>
  Cluster selection, \<^verbatim>\<open>services/platform-api/internal/application/scheduler/strategy.go\<close>:
  the scoring of the candidates, the deterministic ranking, and the two strategies.  The
  comparison of the ranking is a strict total order, so the interpretation of
  \<open>go_total_less\<close> gives that the selected cluster is a minimum and does not depend on the
  order in which the registry lists the candidates.
\<close>

section \<open>Types\<close>

definition StrategyLeastLoaded :: string where
  "StrategyLeastLoaded = ''least-loaded''"

definition StrategyRegionAffinity :: string where
  "StrategyRegionAffinity = ''region-affinity''"

record SelectionRequest =
  sel_CPUMillis :: int
  sel_MemoryMiB :: int
  sel_PreferredRegion :: string

record SelectionDecision =
  sd_ClusterID :: string
  sd_Strategy :: string
  sd_Reason :: string
  sd_Score :: int
  sd_ProjectedUtilizationBPS :: int
  sd_QueuedWorkloads :: int
  sd_EffectiveCost :: int
  sd_UsedRegionFallback :: bool
  sd_DecidedAt :: gtime

text \<open>
  The errors of a selection: the invalid request, \<^verbatim>\<open>NoCapacityError\<close>, and the run-time panic
  of an integer division by a zero weight, which a validated cluster never has.
\<close>

datatype SelectionError = SelectionInvalid string | NoCapacityError string | DivideByZero

datatype Strategy = leastLoadedStrategy | regionAffinityStrategy

definition NewStrategy :: "string \<Rightarrow> Strategy result" where
  "NewStrategy name =
    (if name = StrategyLeastLoaded then Inr leastLoadedStrategy
     else if name = StrategyRegionAffinity then Inr regionAffinityStrategy
     else Inl (Plain ''unsupported scheduler strategy''))"

fun Strategy_Name :: "Strategy \<Rightarrow> string" where
  "Strategy_Name leastLoadedStrategy = StrategyLeastLoaded"
| "Strategy_Name regionAffinityStrategy = StrategyRegionAffinity"

record scoredCandidate =
  sc_clusterID :: string
  sc_score :: int
  sc_projected :: int
  sc_queued :: int
  sc_cost :: int

section \<open>Scoring and ranking\<close>

definition ceilingRatio :: "int \<Rightarrow> int \<Rightarrow> int \<Rightarrow> int" where
  "ceilingRatio numerator denominator scale =
    (let quotient = i64 (numerator sdiv denominator); remainder = numerator smod denominator;
         result = i64 (quotient * scale) in
     if remainder \<noteq> 0 then
       i64 (result + i64 (i64 (i64 (remainder * scale) - 1) sdiv denominator + 1))
     else result)"

text \<open>The guard of the loop: a candidate that is skipped.\<close>

definition skips :: "SelectionRequest \<Rightarrow> ClusterCandidate \<Rightarrow> bool" where
  "skips request candidate \<longleftrightarrow>
     cap_AllocatableCPUMillis (cand_Capacity candidate) < sel_CPUMillis request \<or>
     cap_AllocatableMemoryMiB (cand_Capacity candidate) < sel_MemoryMiB request \<or>
     cl_Status (cand_Cluster candidate) \<noteq> ClusterActive \<or> cl_Maintenance (cand_Cluster candidate)"

definition score_candidate :: "SelectionRequest \<Rightarrow> ClusterCandidate \<Rightarrow> scoredCandidate" where
  "score_candidate request candidate =
    (let capacity = cand_Capacity candidate; cluster = cand_Cluster candidate;
         cpuBPS = ceilingRatio (sel_CPUMillis request) (cap_AllocatableCPUMillis capacity) 10000;
         memoryBPS = ceilingRatio (sel_MemoryMiB request) (cap_AllocatableMemoryMiB capacity) 10000;
         projected = max cpuBPS memoryBPS;
         cost = i64 (cl_CPUCostMinorUnits cluster + cl_MemoryGiBCostMinorUnits cluster);
         score = i64 (i64 (i64 (projected * 1000) sdiv cl_SchedulingWeight cluster +
                   i64 (cap_QueuedWorkloads capacity * 100)) + cost) in
     \<lparr>sc_clusterID = cl_ID cluster, sc_score = score, sc_projected = projected,
      sc_queued = cap_QueuedWorkloads capacity, sc_cost = cost\<rparr>)"

fun rank_loop ::
  "SelectionRequest \<Rightarrow> ClusterCandidate list \<Rightarrow> SelectionError + scoredCandidate list" where
  "rank_loop request [] = Inr []"
| "rank_loop request (candidate # candidates) =
    (if skips request candidate then rank_loop request candidates
     else if cl_SchedulingWeight (cand_Cluster candidate) = 0 then Inl DivideByZero
     else (case rank_loop request candidates of
        Inl e \<Rightarrow> Inl e
      | Inr ranked \<Rightarrow> Inr (score_candidate request candidate # ranked)))"

definition scored_less :: "scoredCandidate \<Rightarrow> scoredCandidate \<Rightarrow> bool" where
  "scored_less a b =
    (if sc_score a \<noteq> sc_score b then sc_score a < sc_score b
     else if sc_projected a \<noteq> sc_projected b then sc_projected a < sc_projected b
     else if sc_queued a \<noteq> sc_queued b then sc_queued a < sc_queued b
     else if sc_cost a \<noteq> sc_cost b then sc_cost a < sc_cost b
     else sc_clusterID a < sc_clusterID b)"

definition rankCandidates ::
  "ClusterCandidate list \<Rightarrow> SelectionRequest \<Rightarrow> gtime \<Rightarrow> string \<Rightarrow> bool \<Rightarrow>
     SelectionError + SelectionDecision" where
  "rankCandidates candidates request now strategy fallback =
    (if sel_CPUMillis request \<le> 0 \<or> sel_MemoryMiB request \<le> 0 \<or> IsZero now then
       Inl (SelectionInvalid ''selection request is invalid'')
     else (case rank_loop request candidates of
        Inl e \<Rightarrow> Inl e
      | Inr ranked \<Rightarrow>
          (case sort_by scored_less ranked of
             [] \<Rightarrow> Inl (NoCapacityError ''no eligible cluster has sufficient capacity'')
           | selected # _ \<Rightarrow> Inr
              \<lparr>sd_ClusterID = sc_clusterID selected, sd_Strategy = strategy,
               sd_Reason = ''selected lowest deterministic capacity score'',
               sd_Score = sc_score selected, sd_ProjectedUtilizationBPS = sc_projected selected,
               sd_QueuedWorkloads = sc_queued selected, sd_EffectiveCost = sc_cost selected,
               sd_UsedRegionFallback = fallback, sd_DecidedAt = now\<rparr>)))"

section \<open>The strategies\<close>

definition leastLoaded_Select ::
  "ClusterCandidate list \<Rightarrow> SelectionRequest \<Rightarrow> gtime \<Rightarrow> SelectionError + SelectionDecision" where
  "leastLoaded_Select candidates request now =
     rankCandidates candidates request now StrategyLeastLoaded False"

definition regional :: "ClusterCandidate list \<Rightarrow> SelectionRequest \<Rightarrow> ClusterCandidate list" where
  "regional candidates request =
     filter (\<lambda>candidate. cl_Region (cand_Cluster candidate) = sel_PreferredRegion request) candidates"

text \<open>A panic ends the selection; only an error value falls through to the global ranking.\<close>

definition regionAffinity_Select ::
  "ClusterCandidate list \<Rightarrow> SelectionRequest \<Rightarrow> gtime \<Rightarrow> SelectionError + SelectionDecision" where
  "regionAffinity_Select candidates request now =
    (let global =
       (case rankCandidates candidates request now StrategyRegionAffinity
               (sel_PreferredRegion request \<noteq> []) of
          Inl e \<Rightarrow> Inl e
        | Inr decision \<Rightarrow> Inr
            (if sd_UsedRegionFallback decision then decision\<lparr>sd_Reason :=
               ''preferred region had no sufficient capacity; selected global least-loaded cluster''\<rparr>
             else decision)) in
     if sel_PreferredRegion request \<noteq> [] then
       (case rankCandidates (regional candidates request) request now StrategyRegionAffinity False of
          Inr decision \<Rightarrow> Inr (decision\<lparr>sd_Reason :=
             ''selected least-loaded cluster in preferred region''\<rparr>)
        | Inl DivideByZero \<Rightarrow> Inl DivideByZero
        | Inl _ \<Rightarrow> global)
     else global)"

fun Strategy_Select ::
  "Strategy \<Rightarrow> ClusterCandidate list \<Rightarrow> SelectionRequest \<Rightarrow> gtime \<Rightarrow>
     SelectionError + SelectionDecision" where
  "Strategy_Select leastLoadedStrategy = leastLoaded_Select"
| "Strategy_Select regionAffinityStrategy = regionAffinity_Select"

text \<open>
  \<^verbatim>\<open>Selector.Select\<close> returns the decision of the strategy and reports (strategy, result) to
  the observer; the log line is not modelled.
\<close>

definition Selector_Select ::
  "Strategy \<Rightarrow> ClusterCandidate list \<Rightarrow> SelectionRequest \<Rightarrow> gtime \<Rightarrow>
     (SelectionError + SelectionDecision) \<times> (string \<times> string)" where
  "Selector_Select strategy candidates request now =
    (let r = Strategy_Select strategy candidates request now in
     (r, (Strategy_Name strategy, case r of Inl _ \<Rightarrow> ''deferred'' | Inr _ \<Rightarrow> ''selected'')))"

section \<open>The ceiling ratio\<close>

lemma power_63: "(2 :: int) ^ 63 = 2 * 2 ^ 62"
  by simp

lemma ceilingRatio_no_wrap:
  assumes "0 \<le> n" "0 < d" "0 < s" "n * s < 2 ^ 62" "d * s < 2 ^ 62" "s < 2 ^ 62" "n < 2 ^ 62"
  shows "ceilingRatio n d s =
    (n div d) * s + (if n mod d = 0 then 0 else ((n mod d) * s - 1) div d + 1)"
proof -
  let ?q = "n div d" and ?r = "n mod d"
  have q: "0 \<le> ?q" "?q \<le> n" using assms by (auto simp: pos_imp_zdiv_nonneg_iff int_div_le)
  have qs: "0 \<le> ?q * s" "?q * s \<le> n * s"
    using q assms by (auto intro: mult_right_mono)
  have r: "0 \<le> ?r" "?r < d" using assms by auto
  have rs: "0 \<le> ?r * s" "?r * s \<le> d * s"
    using r assms mult_right_mono [of ?r d s] mult_nonneg_nonneg [of ?r s] by linarith+
  have step: "?r \<noteq> 0 \<Longrightarrow> 0 \<le> (?r * s - 1) div d \<and> (?r * s - 1) div d \<le> ?r * s - 1"
  proof -
    assume "?r \<noteq> 0"
    then have "0 < ?r * s" using r assms by (simp add: order_less_le)
    then have "0 \<le> ?r * s - 1" by simp
    then show ?thesis using assms int_div_le [of "?r * s - 1" d]
      by (simp only: pos_imp_zdiv_nonneg_iff simp_thms)
  qed
  have i1: "in_i64 ?q" "in_i64 (?q * s)" "in_i64 (?r * s)" "in_i64 (?r * s - 1)"
    by (rule in_i64_bounded; use q qs rs assms in linarith)+
  have sd: "n sdiv d = ?q" "n smod d = ?r" using assms by (simp_all add: go_arith)
  show ?thesis
  proof (cases "?r = 0")
    case True
    then show ?thesis using i1 sd by (simp add: ceilingRatio_def Let_def)
  next
    case False
    then have pos: "0 \<le> ?r * s - 1" using r assms
      by (smt (verit) mult_pos_pos)
    have i2: "in_i64 ((?r * s - 1) div d + 1)" "in_i64 (?q * s + ((?r * s - 1) div d + 1))"
      using step [OF False, THEN conjunct1] step [OF False, THEN conjunct2] rs(2) qs assms(4,5)
      by (simp_all only: in_i64_def power_63) linarith+
    have "(?r * s - 1) sdiv d = (?r * s - 1) div d" using pos assms by (simp add: go_arith)
    with False i1 i2 sd show ?thesis by (simp add: ceilingRatio_def Let_def)
  qed
qed

text \<open>The upward rounding: the least integer not below the quotient.\<close>

lemma ceiling_div_eq:
  fixes n d s :: int
  assumes "0 \<le> n" "0 < d" "0 < s"
  shows "(n div d) * s + (if n mod d = 0 then 0 else ((n mod d) * s - 1) div d + 1) =
    (n * s + d - 1) div d"
proof -
  let ?q = "n div d" and ?r = "n mod d"
  have "n * s = ?q * s * d + ?r * s"
    by (metis (no_types, lifting) mult.assoc mult.commute distrib_right div_mult_mod_eq)
  then have "(n * s + d - 1) div d = ?q * s + (?r * s + d - 1) div d"
    using assms by (metis (no_types, lifting) add.assoc add_diff_eq div_mult_self3 order_less_irrefl)
  moreover have "(?r * s + d - 1) div d = (?r * s - 1) div d + 1"
    using assms by (smt (verit) div_add_self2)
  moreover have "?r = 0 \<Longrightarrow> (?r * s - 1) div d + 1 = 0"
    using assms by (simp add: div_eq_minus1)
  ultimately show ?thesis by simp
qed

section \<open>The ranking\<close>

interpretation scored: go_total_less scored_less
proof
  fix x y z :: scoredCandidate
  show "\<not> scored_less x x" by (simp add: scored_less_def)
  show "scored_less x y \<Longrightarrow> scored_less y z \<Longrightarrow> scored_less x z"
    by (auto simp: scored_less_def split: if_splits)
  show "\<not> scored_less x y \<Longrightarrow> \<not> scored_less y x \<Longrightarrow> \<not> scored_less y z \<Longrightarrow> \<not> scored_less z y \<Longrightarrow>
    \<not> scored_less x z"
    by (auto simp: scored_less_def split: if_splits)
  show "x \<noteq> y \<Longrightarrow> scored_less x y \<or> scored_less y x"
    by (auto simp: scored_less_def intro: scoredCandidate.equality split: if_splits)
qed

definition feasible :: "SelectionRequest \<Rightarrow> ClusterCandidate list \<Rightarrow> ClusterCandidate list" where
  "feasible request candidates = filter (\<lambda>c. \<not> skips request c) candidates"

definition weights_ok :: "ClusterCandidate list \<Rightarrow> bool" where
  "weights_ok candidates \<longleftrightarrow> (\<forall>c \<in> set candidates. 1 \<le> cl_SchedulingWeight (cand_Cluster c))"

lemma rank_loop_eq:
  "rank_loop request cs =
    (if \<exists>c \<in> set (feasible request cs). cl_SchedulingWeight (cand_Cluster c) = 0 then Inl DivideByZero
     else Inr (map (score_candidate request) (feasible request cs)))"
  by (induction cs) (auto simp: feasible_def)

lemma rank_loop_weights:
  "weights_ok cs \<Longrightarrow> rank_loop request cs = Inr (map (score_candidate request) (feasible request cs))"
  by (auto simp: rank_loop_eq weights_ok_def feasible_def)

lemma rankCandidates_mset:
  assumes "mset cs' = mset cs"
  shows "rankCandidates cs' request now strategy fallback =
    rankCandidates cs request now strategy fallback"
proof -
  have set: "set (feasible request cs') = set (feasible request cs)"
    unfolding feasible_def using mset_eq_setD [OF assms] by auto
  have "mset (map (score_candidate request) (feasible request cs')) =
    mset (map (score_candidate request) (feasible request cs))"
    by (simp add: feasible_def assms)
  then have "sort_by scored_less (map (score_candidate request) (feasible request cs')) =
    sort_by scored_less (map (score_candidate request) (feasible request cs))"
    by (rule scored.sort_by_mset_cong)
  with set show ?thesis by (simp add: rankCandidates_def rank_loop_eq)
qed

lemma rankCandidates_selected:
  assumes "rankCandidates cs request now strategy fallback = Inr d"
  obtains c where "c \<in> set cs" "\<not> skips request c" "sd_ClusterID d = cl_ID (cand_Cluster c)"
    "sd_Score d = sc_score (score_candidate request c)"
    "\<And>c'. c' \<in> set cs \<Longrightarrow> \<not> skips request c' \<Longrightarrow>
      \<not> scored_less (score_candidate request c') (score_candidate request c)"
proof -
  let ?ss = "map (score_candidate request) (feasible request cs)"
  from assms obtain m ms where ms: "sort_by scored_less ?ss = m # ms"
    and d: "sd_ClusterID d = sc_clusterID m" "sd_Score d = sc_score m"
    by (auto simp: rankCandidates_def rank_loop_eq split: if_splits list.splits)
  from scored.sort_by_hd_least(1) [OF ms] obtain c where
    c: "c \<in> set (feasible request cs)" "m = score_candidate request c" by auto
  show thesis
  proof (rule that [of c])
    show "c \<in> set cs" "\<not> skips request c" using c by (auto simp: feasible_def)
    show "sd_ClusterID d = cl_ID (cand_Cluster c)" using c d by (simp add: score_candidate_def Let_def)
    show "sd_Score d = sc_score (score_candidate request c)" using c d by simp
    show "\<not> scored_less (score_candidate request c') (score_candidate request c)"
      if "c' \<in> set cs" "\<not> skips request c'" for c'
      using scored.sort_by_hd_least(2) [OF ms] that c by (auto simp: feasible_def)
  qed
qed

lemma not_scored_less: "\<not> scored_less a b \<Longrightarrow> sc_score b \<le> sc_score a"
  by (auto simp: scored_less_def split: if_splits)

lemma rankCandidates_succeeds_iff:
  assumes "weights_ok cs" "0 < sel_CPUMillis request" "0 < sel_MemoryMiB request" "now \<noteq> 0"
  shows "(\<exists>d. rankCandidates cs request now strategy fallback = Inr d) \<longleftrightarrow>
      (\<exists>c \<in> set cs. \<not> skips request c)"
    and "\<not> (\<exists>c \<in> set cs. \<not> skips request c) \<Longrightarrow>
      rankCandidates cs request now strategy fallback =
        Inl (NoCapacityError ''no eligible cluster has sufficient capacity'')"
proof -
  have *: "sort_by scored_less (map (score_candidate request) (feasible request cs)) = [] \<longleftrightarrow>
    \<not> (\<exists>c \<in> set cs. \<not> skips request c)"
    by (auto simp: feasible_def filter_empty_conv)
  then show "(\<exists>d. rankCandidates cs request now strategy fallback = Inr d) \<longleftrightarrow>
      (\<exists>c \<in> set cs. \<not> skips request c)"
    using assms by (auto simp: rankCandidates_def rank_loop_weights IsZero_def split: list.splits)
  show "\<not> (\<exists>c \<in> set cs. \<not> skips request c) \<Longrightarrow>
      rankCandidates cs request now strategy fallback =
        Inl (NoCapacityError ''no eligible cluster has sufficient capacity'')"
    using assms * by (auto simp: rankCandidates_def rank_loop_weights IsZero_def split: list.splits)
qed

lemma rankCandidates_fallback:
  "rankCandidates cs request now strategy fallback = Inr d \<Longrightarrow>
     sd_UsedRegionFallback d = fallback \<and> sd_Strategy d = strategy"
  by (auto simp: rankCandidates_def split: if_splits sum.splits list.splits)

lemma weights_ok_regional: "weights_ok cs \<Longrightarrow> weights_ok (regional cs request)"
  by (simp add: weights_ok_def regional_def)

section \<open>An example registry\<close>

definition ex_cluster :: "string \<Rightarrow> string \<Rightarrow> int \<Rightarrow> ExecutionCluster" where
  "ex_cluster name region weight = \<lparr>cl_ID = name, cl_Region = region, cl_Status = ClusterActive,
     cl_SupportedRuntimes = [''go1.24''], cl_SupportedExecutionProfiles = [''small''],
     cl_Maintenance = False, cl_TenantRestricted = False, cl_SchedulingWeight = weight,
     cl_CPUCostMinorUnits = 3, cl_MemoryGiBCostMinorUnits = 2, cl_LastHeartbeatAt = 90,
     cl_Version = 1, cl_CreatedAt = 50, cl_UpdatedAt = 90\<rparr>"

definition ex_candidate :: "string \<Rightarrow> string \<Rightarrow> int \<Rightarrow> int \<Rightarrow> ClusterCandidate" where
  "ex_candidate name region cpu queued = \<lparr>cand_Cluster = ex_cluster name region 100,
     cand_Capacity = \<lparr>cap_ClusterID = name, cap_ObservedAt = 90, cap_AllocatableCPUMillis = cpu,
       cap_AllocatableMemoryMiB = 4096, cap_QueuedWorkloads = queued\<rparr>\<rparr>"

definition ex_candidates :: "ClusterCandidate list" where
  "ex_candidates = [ex_candidate ''eu-1'' ''eu'' 400 0, ex_candidate ''us-1'' ''us'' 2000 1,
     ex_candidate ''us-2'' ''us'' 1000 0]"

definition ex_selection :: SelectionRequest where
  "ex_selection = \<lparr>sel_CPUMillis = 500, sel_MemoryMiB = 512, sel_PreferredRegion = ''eu''\<rparr>"

definition ex_selected :: SelectionDecision where
  "ex_selected = \<lparr>sd_ClusterID = ''us-1'', sd_Strategy = ''region-affinity'',
     sd_Reason = ''preferred region had no sufficient capacity; selected global least-loaded cluster'',
     sd_Score = 25105, sd_ProjectedUtilizationBPS = 2500, sd_QueuedWorkloads = 1,
     sd_EffectiveCost = 5, sd_UsedRegionFallback = True, sd_DecidedAt = 100\<rparr>"

lemma ex_select: "regionAffinity_Select ex_candidates ex_selection 100 = Inr ex_selected"
  by code_simp

lemma ex_weights: "weights_ok ex_candidates"
  by (simp add: weights_ok_def ex_candidates_def ex_candidate_def ex_cluster_def)

section \<open>Properties\<close>

text \<open>C20: The integer arithmetic of ceilingRatio computes the exact ceiling of
  numerator * scale / denominator, without overflow, for every request within the bounds the
  platform accepts and every capacity below 2^48; for a request that fits, the result lies
  between 1 and the scale.\<close>

theorem ceilingRatio_exact:
  assumes "1 \<le> n" "n \<le> d" "d < 2 ^ 48"
  shows "ceilingRatio n d 10000 = (n * 10000 + d - 1) div d \<and>
    1 \<le> ceilingRatio n d 10000 \<and> ceilingRatio n d 10000 \<le> 10000"
proof -
  have eq: "ceilingRatio n d 10000 = (n * 10000 + d - 1) div d"
    using assms by (subst ceilingRatio_no_wrap; simp add: ceiling_div_eq)
  have "(n * 10000 + d - 1) div d \<le> (10000 * d + (d - 1)) div d"
    using assms by (intro zdiv_mono1) auto
  also have "\<dots> = 10000" using assms by (subst div_mult_self3) auto
  finally have "(n * 10000 + d - 1) div d \<le> 10000" .
  moreover have "d div d \<le> (n * 10000 + d - 1) div d"
    using assms by (intro zdiv_mono1) auto
  ultimately show ?thesis using eq assms by simp
qed

theorem ceilingRatio_exact_witness: "ceilingRatio 500 1500 10000 = 3334"
  using ceilingRatio_exact [of 500 1500] by simp

text \<open>C21: The ranking is deterministic and optimal: it does not depend on the order in which the
  candidates are listed, and the cluster it selects is a feasible candidate such that no feasible
  candidate has a lower score.\<close>

theorem rankCandidates_optimal:
  assumes "rankCandidates cs request now strategy fallback = Inr d" "mset cs' = mset cs"
  shows "rankCandidates cs' request now strategy fallback = Inr d \<and>
    (\<exists>c \<in> set cs. \<not> skips request c \<and> sd_ClusterID d = cl_ID (cand_Cluster c) \<and>
      sd_Score d = sc_score (score_candidate request c) \<and>
      (\<forall>c' \<in> set cs. \<not> skips request c' \<longrightarrow> sd_Score d \<le> sc_score (score_candidate request c')))"
proof
  show "rankCandidates cs' request now strategy fallback = Inr d"
    using assms(1) by (simp only: rankCandidates_mset [OF assms(2)])
  obtain c where c: "c \<in> set cs" "\<not> skips request c" "sd_ClusterID d = cl_ID (cand_Cluster c)"
    "sd_Score d = sc_score (score_candidate request c)"
    and least: "\<And>c'. c' \<in> set cs \<Longrightarrow> \<not> skips request c' \<Longrightarrow>
      \<not> scored_less (score_candidate request c') (score_candidate request c)"
    using rankCandidates_selected [OF assms(1)] by blast
  have "sd_Score d \<le> sc_score (score_candidate request c')"
    if "c' \<in> set cs" "\<not> skips request c'" for c'
    using not_scored_less [OF least [OF that]] c(4) by simp
  with c show "\<exists>c \<in> set cs. \<not> skips request c \<and> sd_ClusterID d = cl_ID (cand_Cluster c) \<and>
      sd_Score d = sc_score (score_candidate request c) \<and>
      (\<forall>c' \<in> set cs. \<not> skips request c' \<longrightarrow> sd_Score d \<le> sc_score (score_candidate request c'))"
    by blast
qed

lemma ex_ranked:
  "rankCandidates ex_candidates ex_selection 100 ''least-loaded'' False =
     Inr (ex_selected\<lparr>sd_Strategy := ''least-loaded'', sd_UsedRegionFallback := False,
       sd_Reason := ''selected lowest deterministic capacity score''\<rparr>)"
  by code_simp

theorem rankCandidates_optimal_witness:
  "rankCandidates (rev ex_candidates) ex_selection 100 ''least-loaded'' False =
     rankCandidates ex_candidates ex_selection 100 ''least-loaded'' False"
  using rankCandidates_optimal [OF ex_ranked, of "rev ex_candidates"] ex_ranked by simp

text \<open>C22: With validated weights and a valid request, a region-affinity selection succeeds exactly
  when some candidate is feasible and reports no capacity otherwise; when a candidate of the
  preferred region is feasible the selected cluster lies in that region and no fallback is
  reported, and a fallback is reported exactly when a region was preferred and none of its
  clusters is feasible.\<close>

theorem regionAffinity_correct:
  assumes "weights_ok cs" "0 < sel_CPUMillis request" "0 < sel_MemoryMiB request" "now \<noteq> 0"
  shows "(case regionAffinity_Select cs request now of
      Inl e \<Rightarrow> (\<forall>c \<in> set cs. skips request c) \<and>
        e = NoCapacityError ''no eligible cluster has sufficient capacity''
    | Inr d \<Rightarrow> (\<exists>c \<in> set cs. \<not> skips request c \<and> cl_ID (cand_Cluster c) = sd_ClusterID d \<and>
          (\<not> sd_UsedRegionFallback d \<and> sel_PreferredRegion request \<noteq> [] \<longrightarrow>
             cl_Region (cand_Cluster c) = sel_PreferredRegion request)) \<and>
        (sd_UsedRegionFallback d \<longleftrightarrow> sel_PreferredRegion request \<noteq> [] \<and>
          (\<forall>c \<in> set (regional cs request). skips request c)))"
proof -
  let ?reg = "rankCandidates (regional cs request) request now StrategyRegionAffinity False"
  let ?all = "rankCandidates cs request now StrategyRegionAffinity (sel_PreferredRegion request \<noteq> [])"
  note all = rankCandidates_succeeds_iff [OF assms, of StrategyRegionAffinity
      "sel_PreferredRegion request \<noteq> []"]
  note reg = rankCandidates_succeeds_iff [OF weights_ok_regional [OF assms(1)] assms(2-4),
      of request StrategyRegionAffinity False]
  consider (region) d where "sel_PreferredRegion request \<noteq> []" "?reg = Inr d"
    | (global) "sel_PreferredRegion request = [] \<or>
        (\<forall>c \<in> set (regional cs request). skips request c)"
    using reg(1) by blast
  then show ?thesis
  proof cases
    case region
    obtain c where c: "c \<in> set (regional cs request)" "\<not> skips request c"
      "sd_ClusterID d = cl_ID (cand_Cluster c)"
      using rankCandidates_selected [OF region(2)] by metis
    then have cs: "c \<in> set cs" "cl_Region (cand_Cluster c) = sel_PreferredRegion request"
      by (auto simp: regional_def)
    have fb: "\<not> sd_UsedRegionFallback d" using rankCandidates_fallback [OF region(2)] by simp
    have some: "\<not> (\<forall>c \<in> set (regional cs request). skips request c)" using c by blast
    have sel: "regionAffinity_Select cs request now =
      Inr (d\<lparr>sd_Reason := ''selected least-loaded cluster in preferred region''\<rparr>)"
      using region by (simp add: regionAffinity_Select_def)
    show ?thesis unfolding sel sum.case
      using fb some c(2,3) cs by (intro conjI bexI [of _ c]) simp_all
  next
    case global
    have sel: "regionAffinity_Select cs request now = (case ?all of Inl e \<Rightarrow> Inl e
      | Inr d \<Rightarrow> Inr (if sd_UsedRegionFallback d then d\<lparr>sd_Reason :=
          ''preferred region had no sufficient capacity; selected global least-loaded cluster''\<rparr> else d))"
    proof (cases "sel_PreferredRegion request = []")
      case True
      then show ?thesis by (simp add: regionAffinity_Select_def)
    next
      case False
      with global have "?reg = Inl (NoCapacityError ''no eligible cluster has sufficient capacity'')"
        by (intro reg(2)) blast
      with False show ?thesis by (simp add: regionAffinity_Select_def)
    qed
    show ?thesis
    proof (cases ?all)
      case (Inl e)
      then have none: "\<not> (\<exists>c \<in> set cs. \<not> skips request c)" using all(1) by simp
      then have "e = NoCapacityError ''no eligible cluster has sufficient capacity''"
        using all(2) Inl by simp
      with none sel Inl show ?thesis by simp
    next
      case (Inr d)
      have fb: "sd_UsedRegionFallback d = (sel_PreferredRegion request \<noteq> [])"
        using rankCandidates_fallback [OF Inr] by simp
      obtain c where c: "c \<in> set cs" "\<not> skips request c" "sd_ClusterID d = cl_ID (cand_Cluster c)"
        using rankCandidates_selected [OF Inr] by metis
      show ?thesis unfolding sel Inr sum.case
        using c fb global by (intro conjI bexI [of _ c]) auto
    qed
  qed
qed

theorem regionAffinity_correct_witness:
  "list_all (skips ex_selection) (regional ex_candidates ex_selection)"
  using regionAffinity_correct [OF ex_weights, of ex_selection 100]
  unfolding ex_select by (simp add: ex_selection_def ex_selected_def list_all_iff)

end
