(* ===== verification/Events.thy ===== *)
theory Events
  imports Domain_AgentRun Go_Regexp
begin

text \<open>
  The integration events of \<^verbatim>\<open>services/platform-api/internal/events\<close>: the envelope and its
  validation (\<^verbatim>\<open>validation.go\<close>), the event constructors (\<^verbatim>\<open>event.go\<close>), the broker headers,
  and the dead letters (\<^verbatim>\<open>dead_letter.go\<close>).

  A payload is represented by the struct it decodes to.  Strict decoding of the JSON of one
  payload struct into another either meets an unknown field or leaves a required field
  empty, so a validator of one event type refuses every other payload; the model makes this
  the one error branch for a payload of another constructor.
\<close>

section \<open>Payloads and the envelope\<close>

record AgentRunRequestedPayload =
  rq_ProjectID :: uuid
  rq_RunID :: uuid
  rq_Status :: AgentRunStatus
  rq_AttemptNumber :: int
  rq_Runtime :: string
  rq_CPUMillis :: int
  rq_MemoryMiB :: int
  rq_TimeoutSeconds :: int
  rq_MaxAttempts :: int
  rq_PromptReference :: string

record AgentRunScheduledPayload =
  sp_ProjectID :: uuid
  sp_RunID :: uuid
  sp_Status :: AgentRunStatus
  sp_AttemptID :: uuid
  sp_AttemptNumber :: int
  sp_ClusterID :: string
  sp_ExecutionProfile :: string
  sp_CapacityReservationID :: uuid
  sp_BudgetReservationID :: uuid
  sp_CPUMillis :: int
  sp_MemoryMiB :: int

record AgentRunCapacityWaitPayload =
  wp_ProjectID :: uuid
  wp_RunID :: uuid
  wp_Status :: AgentRunStatus
  wp_AttemptNumber :: int
  wp_ReasonCode :: string
  wp_Reason :: string
  wp_NextEligibleAt :: gtime

record AgentRunFailedPayload =
  fp_ProjectID :: uuid
  fp_RunID :: uuid
  fp_Status :: AgentRunStatus
  fp_FailureCategory :: FailureCategory
  fp_AttemptNumber :: int
  fp_ReasonCode :: string
  fp_Reason :: string

record AgentRunCancelRequestedPayload =
  cp_ProjectID :: uuid
  cp_RunID :: uuid
  cp_Status :: AgentRunStatus
  cp_AttemptNumber :: int
  cp_RequestedBy :: string
  cp_CommandID :: string

record AgentRunRetryRequestedPayload =
  rp_ProjectID :: uuid
  rp_RunID :: uuid
  rp_Status :: AgentRunStatus
  rp_AttemptNumber :: int
  rp_PreviousStatus :: AgentRunStatus
  rp_PreviousFailure :: FailureCategory
  rp_RequestedBy :: string
  rp_CommandID :: string

record Header =
  hd_Key :: string
  hd_Value :: string

record DeadLetterPayload =
  dl_OriginalEnvelope :: string
  dl_RawFingerprint :: string
  dl_RawSize :: int
  dl_OriginalTopic :: string
  dl_OriginalPartition :: int
  dl_OriginalOffset :: int
  dl_OriginalKey :: string
  dl_OriginalHeaders :: "Header list"
  dl_ConsumerIdentity :: string
  dl_FailureCode :: string
  dl_FailureReason :: string
  dl_Attempts :: int
  dl_FirstFailedAt :: gtime
  dl_LastFailedAt :: gtime
  dl_ReplayDisposition :: string

datatype Payload =
    RequestedPayload AgentRunRequestedPayload
  | ScheduledPayload AgentRunScheduledPayload
  | CapacityWaitPayload AgentRunCapacityWaitPayload
  | FailedPayload AgentRunFailedPayload
  | CancelRequestedPayload AgentRunCancelRequestedPayload
  | RetryRequestedPayload AgentRunRetryRequestedPayload
  | DeadLetteredPayload DeadLetterPayload
  | OtherObject  \<comment> \<open>a JSON object no payload struct decodes\<close>
  | NotAnObject  \<comment> \<open>empty, or JSON that is no object\<close>

record Envelope =
  env_EventID :: uuid
  env_EventType :: string
  env_SchemaVersion :: int
  env_OccurredAt :: gtime
  env_OccurredZone :: int  \<comment> \<open>the zone offset of OccurredAt, in seconds\<close>
  env_Producer :: string
  env_TenantID :: uuid
  env_ProjectID :: "uuid option"
  env_RunID :: "uuid option"
  env_AggregateType :: string
  env_AggregateID :: uuid
  env_AggregateVersion :: int
  env_RequestID :: string
  env_Traceparent :: string
  env_Tracestate :: string
  env_CorrelationID :: string
  env_CausationID :: string
  env_Payload :: Payload

definition zero_Envelope :: Envelope where
  "zero_Envelope = \<lparr>env_EventID = uuid_Nil, env_EventType = [], env_SchemaVersion = 0,
     env_OccurredAt = 0, env_OccurredZone = 0, env_Producer = [], env_TenantID = uuid_Nil,
     env_ProjectID = None, env_RunID = None, env_AggregateType = [], env_AggregateID = uuid_Nil,
     env_AggregateVersion = 0, env_RequestID = [], env_Traceparent = [], env_Tracestate = [],
     env_CorrelationID = [], env_CausationID = [], env_Payload = NotAnObject\<rparr>"

record OutboxEvent =
  oe_Envelope :: Envelope
  oe_Topic :: string
  oe_PartitionKey :: string
  oe_Headers :: "Header list"
  oe_Serialized :: string
  oe_CreatedAt :: gtime

text \<open>
  The packages the events rely on and that are not part of the repository: \<^verbatim>\<open>Version\<close> and
  \<^verbatim>\<open>String\<close> of google/uuid, and of the standard library the JSON encoding of an envelope and
  its strict decoding (with nothing after it), the scheme \<^verbatim>\<open>url.Parse\<close> finds (\<open>None\<close> where it
  returns an error), the hexadecimal SHA-256 digest, and the RFC 3339 format of an instant in
  UTC with its parser.
\<close>

record lib =
  lib_Version :: "uuid \<Rightarrow> nat"
  lib_String :: "uuid \<Rightarrow> string"
  lib_marshal :: "Envelope \<Rightarrow> string"
  lib_unmarshal :: "string \<Rightarrow> Envelope option"
  lib_urlScheme :: "string \<Rightarrow> string option"
  lib_sha256 :: "string \<Rightarrow> string"
  lib_formatTime :: "gtime \<Rightarrow> string"
  lib_parseTime :: "string \<Rightarrow> gtime option"

section \<open>Constants\<close>

definition AgentRunLifecycleTopic :: string where
  "AgentRunLifecycleTopic = ''agentforge.agent-run.lifecycle.v1''"

definition AgentRunDLQTopic :: string where
  "AgentRunDLQTopic = ''agentforge.agent-run.lifecycle.dlq.v1''"

definition retryTopics :: "string list" where
  "retryTopics =
    [''agentforge.agent-run.lifecycle.retry.1m.v1'', ''agentforge.agent-run.lifecycle.retry.5m.v1'',
     ''agentforge.agent-run.lifecycle.retry.30m.v1'']"

definition AgentRunRequestedType :: string where
  "AgentRunRequestedType = ''agent-run.requested.v1''"
definition AgentRunScheduledType :: string where
  "AgentRunScheduledType = ''agent-run.scheduled.v1''"
definition AgentRunCapacityWaitType :: string where
  "AgentRunCapacityWaitType = ''agent-run.capacity-wait.v1''"
definition AgentRunFailedType :: string where
  "AgentRunFailedType = ''agent-run.failed.v1''"
definition AgentRunCancelRequestedType :: string where
  "AgentRunCancelRequestedType = ''agent-run.cancel-requested.v1''"
definition AgentRunRetryRequestedType :: string where
  "AgentRunRetryRequestedType = ''agent-run.retry-requested.v1''"
definition DeliveryDeadLetteredType :: string where
  "DeliveryDeadLetteredType = ''event-delivery.dead-lettered.v1''"

lemmas event_types =
  AgentRunRequestedType_def AgentRunScheduledType_def AgentRunCapacityWaitType_def
  AgentRunFailedType_def AgentRunCancelRequestedType_def AgentRunRetryRequestedType_def
  DeliveryDeadLetteredType_def

definition run_event_types :: "string list" where
  "run_event_types =
    [AgentRunRequestedType, AgentRunScheduledType, AgentRunCapacityWaitType, AgentRunFailedType,
     AgentRunCancelRequestedType, AgentRunRetryRequestedType]"

definition maxHeaderValueLength :: nat where "maxHeaderValueLength = 512"
definition maxHeaderCount :: nat where "maxHeaderCount = 32"
definition maxHeaderBytes :: nat where "maxHeaderBytes = 4096"

definition eventTypePattern :: regexp where
  "eventTypePattern =
    Seq (Plus (Cls False az09_dash)) (Seq (Lit CHR ''.'') (Seq (Plus (Cls False az09_dash))
      (Seq (Str ''.v'') (Seq (Cls False [(CHR ''1'', CHR ''9'')]) (Star (Cls False digit09))))))"

definition traceparentPattern :: regexp where
  "traceparentPattern =
    Seq (Rep (Cls False hexdigit) 2 2) (Seq (Lit CHR ''-'') (Seq (Rep (Cls False hexdigit) 32 32)
      (Seq (Lit CHR ''-'') (Seq (Rep (Cls False hexdigit) 16 16) (Seq (Lit CHR ''-'')
        (Rep (Cls False hexdigit) 2 2))))))"

definition clusterIDPatternForEvent :: regexp where
  "clusterIDPatternForEvent = Seq (Cls False az09) (Rep (Cls False az09_dash) 2 62)"

definition policyValuePatternForEvent :: regexp where
  "policyValuePatternForEvent = Seq (Cls False az09) (Rep (Cls False az09_dot_us_dash) 0 62)"

section \<open>Validation\<close>

definition eventMajor :: "string \<Rightarrow> int option" where
  "eventMajor eventType =
    (case LastIndex eventType ''.v'' of
       None \<Rightarrow> None
     | Some index \<Rightarrow> Atoi (drop (index + 2) eventType))"

definition validV7 :: "lib \<Rightarrow> uuid \<Rightarrow> bool" where
  "validV7 l i \<longleftrightarrow> i \<noteq> uuid_Nil \<and> lib_Version l i = 7"

definition validOptionalV7 :: "lib \<Rightarrow> uuid option \<Rightarrow> bool" where
  "validOptionalV7 l i = (case i of None \<Rightarrow> True | Some u \<Rightarrow> validV7 l u)"

text \<open>A non-blank string of bounded length.\<close>

definition blank :: "string \<Rightarrow> bool" where
  "blank s \<longleftrightarrow> TrimSpace s = []"

definition validateRunEventMetadata :: "Envelope \<Rightarrow> error option" where
  "validateRunEventMetadata e =
    (if env_AggregateType e \<noteq> ''AgentRun'' \<or> env_RunID e = None \<or> env_ProjectID e = None \<or>
        env_RunID e \<noteq> Some (env_AggregateID e) then
       Some (Plain ''run event aggregate metadata is invalid'')
     else None)"

definition validateAgentRunRequested :: "lib \<Rightarrow> Envelope \<Rightarrow> error option" where
  "validateAgentRunRequested l e =
    (case validateRunEventMetadata e of Some err \<Rightarrow> Some err | None \<Rightarrow>
     (case env_Payload e of
        RequestedPayload p \<Rightarrow>
          if Some (rq_ProjectID p) \<noteq> env_ProjectID e \<or> Some (rq_RunID p) \<noteq> env_RunID e \<or>
             rq_Status p \<noteq> AgentRunQueued \<or> rq_AttemptNumber p \<noteq> 1 then
            Some (Plain ''run-request payload identity or state is invalid'')
          else if blank (rq_Runtime p) \<or> length (rq_Runtime p) > 120 \<or>
             rq_CPUMillis p < 1 \<or> rq_CPUMillis p > 128000 \<or>
             rq_MemoryMiB p < 1 \<or> rq_MemoryMiB p > 524288 \<or>
             rq_TimeoutSeconds p < 1 \<or> rq_TimeoutSeconds p > 86400 \<or>
             rq_MaxAttempts p < 1 \<or> rq_MaxAttempts p > 10 \<or>
             blank (rq_PromptReference p) \<or> length (rq_PromptReference p) > 2048 \<or>
             lib_urlScheme l (rq_PromptReference p) = None \<or>
             lib_urlScheme l (rq_PromptReference p) = Some [] \<or>
             \<not> Contains (rq_PromptReference p) ''://'' then
            Some (Plain ''run-request payload constraints are invalid'')
          else None
      | _ \<Rightarrow> Some (Plain ''decode run-request payload'')))"

definition validateAgentRunScheduled :: "lib \<Rightarrow> Envelope \<Rightarrow> error option" where
  "validateAgentRunScheduled l e =
    (case validateRunEventMetadata e of Some err \<Rightarrow> Some err | None \<Rightarrow>
     (case env_Payload e of
        ScheduledPayload p \<Rightarrow>
          if Some (sp_ProjectID p) \<noteq> env_ProjectID e \<or> Some (sp_RunID p) \<noteq> env_RunID e \<or>
             sp_Status p \<noteq> AgentRunProvisioning \<or> sp_AttemptNumber p < 1 \<or>
             \<not> validV7 l (sp_AttemptID p) \<or> \<not> validV7 l (sp_CapacityReservationID p) \<or>
             \<not> validV7 l (sp_BudgetReservationID p) \<or>
             \<not> MatchString clusterIDPatternForEvent (sp_ClusterID p) \<or>
             \<not> MatchString policyValuePatternForEvent (sp_ExecutionProfile p) \<or>
             sp_CPUMillis p < 1 \<or> sp_CPUMillis p > 128000 \<or>
             sp_MemoryMiB p < 1 \<or> sp_MemoryMiB p > 524288 then
            Some (Plain ''scheduled payload constraints are invalid'')
          else None
      | _ \<Rightarrow> Some (Plain ''decode scheduled payload'')))"

definition validateAgentRunCapacityWait :: "Envelope \<Rightarrow> error option" where
  "validateAgentRunCapacityWait e =
    (case validateRunEventMetadata e of Some err \<Rightarrow> Some err | None \<Rightarrow>
     (case env_Payload e of
        CapacityWaitPayload p \<Rightarrow>
          if Some (wp_ProjectID p) \<noteq> env_ProjectID e \<or> Some (wp_RunID p) \<noteq> env_RunID e \<or>
             wp_Status p \<noteq> AgentRunCapacityWait \<or> wp_AttemptNumber p < 1 \<or>
             blank (wp_ReasonCode p) \<or> length (wp_ReasonCode p) > 80 \<or>
             blank (wp_Reason p) \<or> length (wp_Reason p) > 500 \<or>
             IsZero (wp_NextEligibleAt p) \<or> \<not> wp_NextEligibleAt p > env_OccurredAt e then
            Some (Plain ''capacity-wait payload constraints are invalid'')
          else None
      | _ \<Rightarrow> Some (Plain ''decode capacity-wait payload'')))"

definition validateAgentRunFailed :: "Envelope \<Rightarrow> error option" where
  "validateAgentRunFailed e =
    (case validateRunEventMetadata e of Some err \<Rightarrow> Some err | None \<Rightarrow>
     (case env_Payload e of
        FailedPayload p \<Rightarrow>
          if Some (fp_ProjectID p) \<noteq> env_ProjectID e \<or> Some (fp_RunID p) \<noteq> env_RunID e \<or>
             \<not> IsTerminal (fp_Status p) \<or> fp_Status p = AgentRunSucceeded \<or>
             fp_Status p = AgentRunCancelled \<or> \<not> FailureCategory_IsValid (fp_FailureCategory p) \<or>
             fp_AttemptNumber p < 1 \<or> blank (fp_ReasonCode p) \<or> length (fp_ReasonCode p) > 80 \<or>
             blank (fp_Reason p) \<or> length (fp_Reason p) > 500 then
            Some (Plain ''run-failed payload constraints are invalid'')
          else None
      | _ \<Rightarrow> Some (Plain ''decode run-failed payload'')))"

definition validateAgentRunCancelRequested :: "Envelope \<Rightarrow> error option" where
  "validateAgentRunCancelRequested e =
    (case validateRunEventMetadata e of Some err \<Rightarrow> Some err | None \<Rightarrow>
     (case env_Payload e of
        CancelRequestedPayload p \<Rightarrow>
          if Some (cp_ProjectID p) \<noteq> env_ProjectID e \<or> Some (cp_RunID p) \<noteq> env_RunID e \<or>
             cp_Status p \<noteq> AgentRunCancelling \<or> cp_AttemptNumber p < 1 \<or>
             blank (cp_RequestedBy p) \<or> length (cp_RequestedBy p) > 255 \<or>
             blank (cp_CommandID p) \<or> length (cp_CommandID p) > 255 then
            Some (Plain ''cancellation payload constraints are invalid'')
          else None
      | _ \<Rightarrow> Some (Plain ''decode cancellation payload'')))"

definition validateAgentRunRetryRequested :: "Envelope \<Rightarrow> error option" where
  "validateAgentRunRetryRequested e =
    (case validateRunEventMetadata e of Some err \<Rightarrow> Some err | None \<Rightarrow>
     (case env_Payload e of
        RetryRequestedPayload p \<Rightarrow>
          if Some (rp_ProjectID p) \<noteq> env_ProjectID e \<or> Some (rp_RunID p) \<noteq> env_RunID e \<or>
             rp_Status p \<noteq> AgentRunQueued \<or> rp_AttemptNumber p < 2 \<or>
             \<not> IsTerminal (rp_PreviousStatus p) \<or> rp_PreviousStatus p = AgentRunSucceeded \<or>
             rp_PreviousStatus p = AgentRunCancelled \<or>
             rp_PreviousFailure p \<noteq> FailureTransientDependency \<or>
             blank (rp_RequestedBy p) \<or> length (rp_RequestedBy p) > 255 \<or>
             blank (rp_CommandID p) \<or> length (rp_CommandID p) > 255 then
            Some (Plain ''retry payload constraints are invalid'')
          else None
      | _ \<Rightarrow> Some (Plain ''decode retry payload'')))"

definition validate_common :: "lib \<Rightarrow> Envelope \<Rightarrow> error option" where
  "validate_common l e =
    (if env_EventID e = uuid_Nil \<or> lib_Version l (env_EventID e) \<noteq> 7 \<or>
        \<not> MatchString eventTypePattern (env_EventType e) then
       Some (Plain ''event ID or type is invalid'')
     else if eventMajor (env_EventType e) \<noteq> Some (env_SchemaVersion e) then
       Some (Plain ''event schema version does not match event type'')
     else if IsZero (env_OccurredAt e) \<or> env_OccurredZone e \<noteq> 0 \<or> blank (env_Producer e) \<or>
             length (env_Producer e) > 128 then
       Some (Plain ''event occurrence and producer are required'')
     else if \<not> validV7 l (env_TenantID e) \<or> \<not> validOptionalV7 l (env_ProjectID e) \<or>
             \<not> validOptionalV7 l (env_RunID e) \<or> \<not> validV7 l (env_AggregateID e) \<or>
             blank (env_AggregateType e) \<or> env_AggregateVersion e < 1 then
       Some (Plain ''event ownership or aggregate metadata is invalid'')
     else if blank (env_CorrelationID e) \<or> length (env_CorrelationID e) > 255 \<or>
             blank (env_CausationID e) \<or> length (env_CausationID e) > 255 \<or>
             length (env_RequestID e) > 128 then
       Some (Plain ''event correlation metadata is invalid'')
     else if env_Traceparent e \<noteq> [] \<and>
             (\<not> MatchString traceparentPattern (env_Traceparent e) \<or>
              take 32 (drop 3 (env_Traceparent e)) = replicate 32 (CHR ''0'') \<or>
              take 16 (drop 36 (env_Traceparent e)) = replicate 16 (CHR ''0'')) then
       Some (Plain ''event traceparent is invalid'')
     else if length (env_Tracestate e) > maxHeaderValueLength then
       Some (Plain ''event tracestate is too long'')
     else if env_Payload e = NotAnObject then
       Some (Plain ''event payload must be a JSON object'')
     else None)"

definition dead_letter_constraints :: "DeadLetterPayload \<Rightarrow> bool" where
  "dead_letter_constraints p \<longleftrightarrow>
    (let hasEnvelope = length (dl_OriginalEnvelope p) > 0;
         hasFingerprint = HasPrefix (dl_RawFingerprint p) ''sha256:'' \<and>
           length (dl_RawFingerprint p) = 71 \<and> dl_RawSize p \<ge> 0 in
     \<not> (hasEnvelope = hasFingerprint \<or> blank (dl_OriginalTopic p) \<or> dl_OriginalPartition p < 0 \<or>
        dl_OriginalOffset p < 0 \<or> blank (dl_ConsumerIdentity p) \<or>
        length (dl_ConsumerIdentity p) > 160 \<or> blank (dl_FailureCode p) \<or>
        length (dl_FailureCode p) > 80 \<or> blank (dl_FailureReason p) \<or>
        length (dl_FailureReason p) > 500 \<or> dl_Attempts p < 1 \<or> IsZero (dl_FirstFailedAt p) \<or>
        dl_LastFailedAt p < dl_FirstFailedAt p \<or> dl_ReplayDisposition p \<noteq> ''QUARANTINED''))"

text \<open>
  A dead letter carries the bytes of the envelope it quarantines, which are decoded and
  validated in turn: \<open>validateDeadLetter\<close> is given the decoder.  The nested bytes are a
  proper part of the bytes that contain them, so a nesting depth of the length of the
  outermost bytes is never reached; the first argument of \<open>decode_fuel\<close> bounds the depth, and
  \<open>DecodeEnvelope_unfold\<close> shows that the bound is never felt.
\<close>

definition validateDeadLetter ::
  "(string \<Rightarrow> Envelope result) \<Rightarrow> Envelope \<Rightarrow> error option" where
  "validateDeadLetter decode e =
    (if env_AggregateType e \<noteq> ''EventDeliveryFailure'' then
       Some (Plain ''dead-letter aggregate metadata is invalid'')
     else (case env_Payload e of
        DeadLetteredPayload p \<Rightarrow>
          if \<not> dead_letter_constraints p then Some (Plain ''dead-letter payload is invalid'')
          else if length (dl_OriginalEnvelope p) > 0 then
            (case decode (dl_OriginalEnvelope p) of
               Inl _ \<Rightarrow> Some (Plain ''dead-letter original envelope is invalid'')
             | Inr _ \<Rightarrow> None)
          else None
      | _ \<Rightarrow> Some (Plain ''decode dead-letter payload'')))"

definition validate_with ::
  "lib \<Rightarrow> (string \<Rightarrow> Envelope result) \<Rightarrow> Envelope \<Rightarrow> error option" where
  "validate_with l decode e =
    (case validate_common l e of
       Some err \<Rightarrow> Some err
     | None \<Rightarrow>
        if env_EventType e = AgentRunRequestedType then validateAgentRunRequested l e
        else if env_EventType e = AgentRunScheduledType then validateAgentRunScheduled l e
        else if env_EventType e = AgentRunCapacityWaitType then validateAgentRunCapacityWait e
        else if env_EventType e = AgentRunFailedType then validateAgentRunFailed e
        else if env_EventType e = AgentRunCancelRequestedType then validateAgentRunCancelRequested e
        else if env_EventType e = AgentRunRetryRequestedType then validateAgentRunRetryRequested e
        else if env_EventType e = DeliveryDeadLetteredType then validateDeadLetter decode e
        else Some (Plain ''unsupported event type''))"

fun decode_fuel :: "nat \<Rightarrow> lib \<Rightarrow> string \<Rightarrow> Envelope result" where
  "decode_fuel 0 l serialized = Inl (Plain ''decode event envelope'')"
| "decode_fuel (Suc n) l serialized =
    (case lib_unmarshal l serialized of
       None \<Rightarrow> Inl (Plain ''decode event envelope'')
     | Some e \<Rightarrow>
        (case validate_with l (decode_fuel n l) e of Some err \<Rightarrow> Inl err | None \<Rightarrow> Inr e))"

definition DecodeEnvelope :: "lib \<Rightarrow> string \<Rightarrow> Envelope result" where
  "DecodeEnvelope l serialized = decode_fuel (Suc (length serialized)) l serialized"

definition ValidateEnvelope :: "lib \<Rightarrow> Envelope \<Rightarrow> error option" where
  "ValidateEnvelope l e = validate_with l (DecodeEnvelope l) e"

section \<open>Topics, partition keys and headers\<close>

definition TopicAccepts :: "string \<Rightarrow> string \<Rightarrow> bool" where
  "TopicAccepts eventType topic =
    (if eventType \<in> set run_event_types then
       topic = AgentRunLifecycleTopic \<or> topic \<in> set retryTopics
     else if eventType = DeliveryDeadLetteredType then topic = AgentRunDLQTopic
     else False)"

definition ExpectedPartitionKey :: "lib \<Rightarrow> Envelope \<Rightarrow> string result" where
  "ExpectedPartitionKey l e =
    (if env_EventType e \<in> set run_event_types then Inr (lib_String l (env_AggregateID e))
     else if env_EventType e = DeliveryDeadLetteredType then
       (case env_Payload e of
          NotAnObject \<Rightarrow> Inl (Plain ''decode dead-letter payload'')
        | DeadLetteredPayload p \<Rightarrow>
            if length (dl_OriginalEnvelope p) > 0 then
              (case DecodeEnvelope l (dl_OriginalEnvelope p) of
                 Inl err \<Rightarrow> Inl err
               | Inr original \<Rightarrow> Inr (lib_String l (env_AggregateID original)))
            else Inr (lib_String l (env_AggregateID e))
        | _ \<Rightarrow> Inr (lib_String l (env_AggregateID e)))
     else Inl (Plain ''unsupported event type''))"

definition HeadersForEnvelope :: "lib \<Rightarrow> Envelope \<Rightarrow> Header list" where
  "HeadersForEnvelope l e =
     [\<lparr>hd_Key = ''event-id'', hd_Value = lib_String l (env_EventID e)\<rparr>,
      \<lparr>hd_Key = ''event-type'', hd_Value = env_EventType e\<rparr>,
      \<lparr>hd_Key = ''schema-version'', hd_Value = Itoa (env_SchemaVersion e)\<rparr>,
      \<lparr>hd_Key = ''tenant-id'', hd_Value = lib_String l (env_TenantID e)\<rparr>,
      \<lparr>hd_Key = ''correlation-id'', hd_Value = env_CorrelationID e\<rparr>,
      \<lparr>hd_Key = ''causation-id'', hd_Value = env_CausationID e\<rparr>] @
     filter (\<lambda>h. hd_Value h \<noteq> [])
       [\<lparr>hd_Key = ''request-id'', hd_Value = env_RequestID e\<rparr>,
        \<lparr>hd_Key = ''traceparent'', hd_Value = env_Traceparent e\<rparr>,
        \<lparr>hd_Key = ''tracestate'', hd_Value = env_Tracestate e\<rparr>]"

definition repeated_keys :: "string list" where
  "repeated_keys =
    [''event-id'', ''event-type'', ''schema-version'', ''tenant-id'', ''correlation-id'',
     ''causation-id'', ''request-id'', ''traceparent'', ''tracestate'']"

definition header_map :: "Header list \<Rightarrow> string \<Rightarrow> string option" where
  "header_map hs = map_of (map (\<lambda>h. (hd_Key h, hd_Value h)) hs)"

text \<open>A lookup in a Go map of strings: the empty string for an absent key.\<close>

definition lookup0 :: "(string \<Rightarrow> string option) \<Rightarrow> string \<Rightarrow> string" where
  "lookup0 m k = (case m k of None \<Rightarrow> [] | Some v \<Rightarrow> v)"

fun header_loop ::
  "(string \<Rightarrow> string option) \<Rightarrow> Header list \<Rightarrow> nat \<Rightarrow> (string \<Rightarrow> string option) \<Rightarrow>
     error + (string \<Rightarrow> string option)" where
  "header_loop expected [] headerBytes actual = Inr actual"
| "header_loop expected (h # hs) headerBytes actual =
    (let n = headerBytes + length (hd_Key h) + length (hd_Value h) in
     if hd_Key h = [] \<or> length (hd_Key h) > 64 \<or> length (hd_Value h) > maxHeaderValueLength \<or>
        n > maxHeaderBytes then
       Inl (Plain ''kafka header is too long'')
     else if actual (hd_Key h) \<noteq> None then Inl (Plain ''kafka header is duplicated'')
     else if hd_Key h \<in> set repeated_keys \<and> lookup0 expected (hd_Key h) \<noteq> hd_Value h then
       Inl (Plain ''kafka header does not match event body'')
     else header_loop expected hs n (actual(hd_Key h \<mapsto> hd_Value h)))"

definition ValidateHeaders :: "lib \<Rightarrow> Envelope \<Rightarrow> Header list \<Rightarrow> error option" where
  "ValidateHeaders l e headers =
    (if length headers > maxHeaderCount then Some (Plain ''kafka record has too many headers'')
     else
       let expected = header_map (HeadersForEnvelope l e) in
       (case header_loop expected headers 0 (\<lambda>_. None) of
          Inl err \<Rightarrow> Some err
        | Inr actual \<Rightarrow>
            if list_all (\<lambda>h. lookup0 actual (hd_Key h) = lookup0 expected (hd_Key h))
                 (HeadersForEnvelope l e)
            then None else Some (Plain ''kafka header does not match event body'')))"

section \<open>Event construction\<close>

definition newEvent ::
  "lib \<Rightarrow> uuid option \<Rightarrow> string \<Rightarrow> int \<Rightarrow> gtime \<Rightarrow> string \<Rightarrow> uuid \<Rightarrow> uuid option \<Rightarrow> uuid option \<Rightarrow>
     string \<Rightarrow> uuid \<Rightarrow> int \<Rightarrow> string \<Rightarrow> string \<Rightarrow> Payload \<Rightarrow> OutboxEvent result" where
  "newEvent l newV7 eventType schemaVersion occurredAt producer0 tenantID projectID runID
      aggregateType aggregateID aggregateVersion correlationID0 causationID0 payload =
    (if \<not> MatchString eventTypePattern eventType \<or> schemaVersion < 1 \<or> tenantID = uuid_Nil \<or>
        aggregateID = uuid_Nil \<or> aggregateVersion < 1 then
       Inl (Plain ''event identity and version are invalid'')
     else
       let producer = TrimSpace producer0; correlationID = TrimSpace correlationID0;
           causationID = TrimSpace causationID0 in
       if producer = [] \<or> aggregateType = [] \<or> correlationID = [] \<or> causationID = [] then
         Inl (Plain ''event producer, aggregate, correlation, and causation are required'')
       else (case newV7 of
          None \<Rightarrow> Inl (Plain ''generate event ID'')
        | Some eventID \<Rightarrow>
            let envelope = \<lparr>env_EventID = eventID, env_EventType = eventType,
              env_SchemaVersion = schemaVersion, env_OccurredAt = occurredAt,
              env_OccurredZone = 0, env_Producer = producer, env_TenantID = tenantID,
              env_ProjectID = projectID, env_RunID = runID, env_AggregateType = aggregateType,
              env_AggregateID = aggregateID, env_AggregateVersion = aggregateVersion,
              env_RequestID = [], env_Traceparent = [], env_Tracestate = [],
              env_CorrelationID = correlationID, env_CausationID = causationID,
              env_Payload = payload\<rparr> in
            (case ValidateEnvelope l envelope of
               Some err \<Rightarrow> Inl err
             | None \<Rightarrow> Inr \<lparr>oe_Envelope = envelope, oe_Topic = AgentRunLifecycleTopic,
                 oe_PartitionKey = lib_String l aggregateID, oe_Headers = [],
                 oe_Serialized = lib_marshal l envelope, oe_CreatedAt = occurredAt\<rparr>)))"

definition NewAgentRunRequested ::
  "lib \<Rightarrow> uuid option \<Rightarrow> AgentRun \<Rightarrow> AgentRunAttempt \<Rightarrow> OutboxEvent result" where
  "NewAgentRunRequested l newV7 run attempt =
     newEvent l newV7 AgentRunRequestedType 1 (run_CreatedAt run) ''platform-api'' (run_TenantID run)
       (Some (run_ProjectID run)) (Some (run_ID run)) ''AgentRun'' (run_ID run) (run_Version run)
       (run_IdempotencyKey run) (run_IdempotencyKey run)
       (RequestedPayload \<lparr>rq_ProjectID = run_ProjectID run, rq_RunID = run_ID run,
          rq_Status = run_Status run, rq_AttemptNumber = att_AttemptNumber attempt,
          rq_Runtime = run_Runtime run, rq_CPUMillis = run_CPUMillis run,
          rq_MemoryMiB = run_MemoryMiB run, rq_TimeoutSeconds = run_TimeoutSeconds run,
          rq_MaxAttempts = run_MaxAttempts run, rq_PromptReference = run_PromptReference run\<rparr>)"

definition NewAgentRunScheduled ::
  "lib \<Rightarrow> uuid option \<Rightarrow> AgentRun \<Rightarrow> AgentRunAttempt \<Rightarrow> uuid \<Rightarrow> uuid \<Rightarrow> string \<Rightarrow> string \<Rightarrow>
     OutboxEvent result" where
  "NewAgentRunScheduled l newV7 run attempt capacityReservationID budgetReservationID
      correlationID causationID =
     newEvent l newV7 AgentRunScheduledType 1 (run_UpdatedAt run) ''scheduler'' (run_TenantID run)
       (Some (run_ProjectID run)) (Some (run_ID run)) ''AgentRun'' (run_ID run) (run_Version run)
       correlationID causationID
       (ScheduledPayload \<lparr>sp_ProjectID = run_ProjectID run, sp_RunID = run_ID run,
          sp_Status = run_Status run, sp_AttemptID = att_ID attempt,
          sp_AttemptNumber = att_AttemptNumber attempt, sp_ClusterID = att_SelectedCluster attempt,
          sp_ExecutionProfile = att_ExecutionProfile attempt,
          sp_CapacityReservationID = capacityReservationID,
          sp_BudgetReservationID = budgetReservationID, sp_CPUMillis = run_CPUMillis run,
          sp_MemoryMiB = run_MemoryMiB run\<rparr>)"

definition NewAgentRunCapacityWait ::
  "lib \<Rightarrow> uuid option \<Rightarrow> AgentRun \<Rightarrow> string \<Rightarrow> string \<Rightarrow> gtime \<Rightarrow> string \<Rightarrow> string \<Rightarrow>
     OutboxEvent result" where
  "NewAgentRunCapacityWait l newV7 run reasonCode reason nextEligibleAt correlationID causationID =
     newEvent l newV7 AgentRunCapacityWaitType 1 (run_UpdatedAt run) ''scheduler'' (run_TenantID run)
       (Some (run_ProjectID run)) (Some (run_ID run)) ''AgentRun'' (run_ID run) (run_Version run)
       correlationID causationID
       (CapacityWaitPayload \<lparr>wp_ProjectID = run_ProjectID run, wp_RunID = run_ID run,
          wp_Status = run_Status run, wp_AttemptNumber = run_AttemptCount run,
          wp_ReasonCode = reasonCode, wp_Reason = reason, wp_NextEligibleAt = nextEligibleAt\<rparr>)"

definition NewAgentRunSchedulingRejected ::
  "lib \<Rightarrow> uuid option \<Rightarrow> AgentRun \<Rightarrow> string \<Rightarrow> string \<Rightarrow> string \<Rightarrow> string \<Rightarrow> OutboxEvent result" where
  "NewAgentRunSchedulingRejected l newV7 run reasonCode reason correlationID causationID =
     newEvent l newV7 AgentRunFailedType 1 (run_UpdatedAt run) ''scheduler'' (run_TenantID run)
       (Some (run_ProjectID run)) (Some (run_ID run)) ''AgentRun'' (run_ID run) (run_Version run)
       correlationID causationID
       (FailedPayload \<lparr>fp_ProjectID = run_ProjectID run, fp_RunID = run_ID run,
          fp_Status = run_Status run, fp_FailureCategory = run_FailureCategory run,
          fp_AttemptNumber = run_AttemptCount run, fp_ReasonCode = reasonCode, fp_Reason = reason\<rparr>)"

definition NewAgentRunCancelRequested ::
  "lib \<Rightarrow> uuid option \<Rightarrow> AgentRun \<Rightarrow> string \<Rightarrow> OutboxEvent result" where
  "NewAgentRunCancelRequested l newV7 run commandID =
     newEvent l newV7 AgentRunCancelRequestedType 1 (run_UpdatedAt run) ''platform-api''
       (run_TenantID run) (Some (run_ProjectID run)) (Some (run_ID run)) ''AgentRun'' (run_ID run)
       (run_Version run) commandID commandID
       (CancelRequestedPayload \<lparr>cp_ProjectID = run_ProjectID run, cp_RunID = run_ID run,
          cp_Status = run_Status run, cp_AttemptNumber = run_AttemptCount run,
          cp_RequestedBy = run_CancellationRequestedBy run, cp_CommandID = commandID\<rparr>)"

definition NewAgentRunRetryRequested ::
  "lib \<Rightarrow> uuid option \<Rightarrow> AgentRun \<Rightarrow> AgentRunStatus \<Rightarrow> FailureCategory \<Rightarrow> string \<Rightarrow> string \<Rightarrow>
     OutboxEvent result" where
  "NewAgentRunRetryRequested l newV7 run previousStatus previousFailure actor commandID =
     newEvent l newV7 AgentRunRetryRequestedType 1 (run_UpdatedAt run) ''platform-api''
       (run_TenantID run) (Some (run_ProjectID run)) (Some (run_ID run)) ''AgentRun'' (run_ID run)
       (run_Version run) commandID commandID
       (RetryRequestedPayload \<lparr>rp_ProjectID = run_ProjectID run, rp_RunID = run_ID run,
          rp_Status = run_Status run, rp_AttemptNumber = run_AttemptCount run,
          rp_PreviousStatus = previousStatus, rp_PreviousFailure = previousFailure,
          rp_RequestedBy = actor, rp_CommandID = commandID\<rparr>)"

section \<open>Dead letters\<close>

record DeadLetterSource =
  src_Envelope :: Envelope
  src_Topic :: string
  src_Partition :: int
  src_Offset :: int
  src_Key :: string
  src_Headers :: "Header list"
  src_Value :: string

definition safe_header_keys :: "string list" where
  "safe_header_keys = repeated_keys @ [''delivery-attempt'', ''retry-not-before'']"

definition safeOriginalHeaders :: "Header list \<Rightarrow> Header list" where
  "safeOriginalHeaders headers = filter (\<lambda>h. hd_Key h \<in> set safe_header_keys) headers"

definition NewDeadLetter ::
  "lib \<Rightarrow> uuid option \<Rightarrow> uuid option \<Rightarrow> DeadLetterSource \<Rightarrow> string \<Rightarrow> string \<Rightarrow> string \<Rightarrow> int \<Rightarrow>
     gtime \<Rightarrow> gtime \<Rightarrow> OutboxEvent result" where
  "NewDeadLetter l failureV7 eventV7 original consumerIdentity code reason attempts firstFailedAt now =
    (case ValidateEnvelope l (src_Envelope original) of Some err \<Rightarrow> Inl err | None \<Rightarrow>
     (case failureV7 of None \<Rightarrow> Inl (Plain ''generate failure ID'') | Some failureID \<Rightarrow>
      (case newEvent l eventV7 DeliveryDeadLetteredType 1 now ''event-consumer''
              (env_TenantID (src_Envelope original)) (env_ProjectID (src_Envelope original))
              (env_RunID (src_Envelope original)) ''EventDeliveryFailure'' failureID 1
              (env_CorrelationID (src_Envelope original))
              (lib_String l (env_EventID (src_Envelope original)))
              (DeadLetteredPayload \<lparr>dl_OriginalEnvelope = src_Value original, dl_RawFingerprint = [],
                 dl_RawSize = 0, dl_OriginalTopic = src_Topic original,
                 dl_OriginalPartition = src_Partition original, dl_OriginalOffset = src_Offset original,
                 dl_OriginalKey = src_Key original,
                 dl_OriginalHeaders = safeOriginalHeaders (src_Headers original),
                 dl_ConsumerIdentity = TrimSpace consumerIdentity, dl_FailureCode = TrimSpace code,
                 dl_FailureReason = TrimSpace reason, dl_Attempts = attempts,
                 dl_FirstFailedAt = firstFailedAt, dl_LastFailedAt = now,
                 dl_ReplayDisposition = ''QUARANTINED''\<rparr>) of
         Inl err \<Rightarrow> Inl err
       | Inr event \<Rightarrow> Inr (event\<lparr>oe_Topic := AgentRunDLQTopic,
           oe_PartitionKey := lib_String l (env_AggregateID (src_Envelope original))\<rparr>))))"

definition NewMalformedDeadLetter ::
  "lib \<Rightarrow> uuid option \<Rightarrow> uuid option \<Rightarrow> DeadLetterSource \<Rightarrow> uuid \<Rightarrow> string \<Rightarrow> string \<Rightarrow> string \<Rightarrow> int \<Rightarrow>
     gtime \<Rightarrow> gtime \<Rightarrow> OutboxEvent result" where
  "NewMalformedDeadLetter l failureV7 eventV7 original quarantineTenantID consumerIdentity code reason
      attempts firstFailedAt now =
    (let fingerprintText = ''sha256:'' @ lib_sha256 l (src_Value original) in
     case failureV7 of None \<Rightarrow> Inl (Plain ''generate failure ID'') | Some failureID \<Rightarrow>
     (case newEvent l eventV7 DeliveryDeadLetteredType 1 now ''event-consumer'' quarantineTenantID
             None None ''EventDeliveryFailure'' failureID 1 fingerprintText fingerprintText
             (DeadLetteredPayload \<lparr>dl_OriginalEnvelope = [], dl_RawFingerprint = fingerprintText,
                dl_RawSize = int (length (src_Value original)), dl_OriginalTopic = src_Topic original,
                dl_OriginalPartition = src_Partition original, dl_OriginalOffset = src_Offset original,
                dl_OriginalKey = [], dl_OriginalHeaders = [],
                dl_ConsumerIdentity = TrimSpace consumerIdentity, dl_FailureCode = TrimSpace code,
                dl_FailureReason = TrimSpace reason, dl_Attempts = attempts,
                dl_FirstFailedAt = firstFailedAt, dl_LastFailedAt = now,
                dl_ReplayDisposition = ''QUARANTINED''\<rparr>) of
        Inl err \<Rightarrow> Inl (Plain ''create malformed dead letter'')
      | Inr event \<Rightarrow> Inr (event\<lparr>oe_Topic := AgentRunDLQTopic,
          oe_PartitionKey := lib_String l failureID\<rparr>)))"

section \<open>Validation: the fuel and the supported types\<close>

text \<open>The nested bytes of a decoded dead letter are a proper part of the decoded bytes.\<close>

fun original_envelope :: "Payload \<Rightarrow> string" where
  "original_envelope (DeadLetteredPayload p) = dl_OriginalEnvelope p"
| "original_envelope _ = []"

definition nested_shorter :: "lib \<Rightarrow> bool" where
  "nested_shorter l \<longleftrightarrow>
     (\<forall>s e. lib_unmarshal l s = Some e \<longrightarrow> length (original_envelope (env_Payload e)) < length s)"

lemma validate_with_cong:
  assumes "decode (original_envelope (env_Payload e)) = decode' (original_envelope (env_Payload e))"
  shows "validate_with l decode e = validate_with l decode' e"
proof -
  have *: "validateDeadLetter decode e = validateDeadLetter decode' e"
    using assms unfolding validateDeadLetter_def by (cases "env_Payload e") simp_all
  show ?thesis unfolding validate_with_def * ..
qed

lemma decode_fuel_enough:
  assumes "nested_shorter l"
  shows "length s < n \<Longrightarrow> length s < m \<Longrightarrow> decode_fuel n l s = decode_fuel m l s"
proof (induction n arbitrary: s m)
  case (Suc n)
  then obtain m' where m: "m = Suc m'" by (cases m) auto
  have "validate_with l (decode_fuel n l) e = validate_with l (decode_fuel m' l) e"
    if "lib_unmarshal l s = Some e" for e
  proof (rule validate_with_cong)
    have "length (original_envelope (env_Payload e)) < length s"
      using assms that by (simp add: nested_shorter_def)
    then show "decode_fuel n l (original_envelope (env_Payload e)) =
        decode_fuel m' l (original_envelope (env_Payload e))"
      using Suc.prems m by (intro Suc.IH) auto
  qed
  then show ?case by (simp add: m split: option.splits)
qed simp

lemma DecodeEnvelope_unfold:
  assumes "nested_shorter l"
  shows "DecodeEnvelope l s =
    (case lib_unmarshal l s of
       None \<Rightarrow> Inl (Plain ''decode event envelope'')
     | Some e \<Rightarrow> (case ValidateEnvelope l e of Some err \<Rightarrow> Inl err | None \<Rightarrow> Inr e))"
proof -
  have "validate_with l (decode_fuel (length s) l) e = ValidateEnvelope l e"
    if "lib_unmarshal l s = Some e" for e
    unfolding ValidateEnvelope_def
  proof (rule validate_with_cong)
    have "length (original_envelope (env_Payload e)) < length s"
      using assms that by (simp add: nested_shorter_def)
    then show "decode_fuel (length s) l (original_envelope (env_Payload e)) =
        DecodeEnvelope l (original_envelope (env_Payload e))"
      unfolding DecodeEnvelope_def by (intro decode_fuel_enough [OF assms]) auto
  qed
  then show ?thesis by (simp add: DecodeEnvelope_def split: option.splits)
qed

lemma ValidateEnvelope_common: "ValidateEnvelope l e = None \<Longrightarrow> validate_common l e = None"
  by (cases "validate_common l e") (simp_all add: ValidateEnvelope_def validate_with_def)

lemma ValidateEnvelope_type:
  "ValidateEnvelope l e = None \<Longrightarrow>
     env_EventType e \<in> set run_event_types \<or> env_EventType e = DeliveryDeadLetteredType"
proof (rule ccontr)
  assume ok: "ValidateEnvelope l e = None"
    and no: "\<not> (env_EventType e \<in> set run_event_types \<or> env_EventType e = DeliveryDeadLetteredType)"
  from no have "validate_with l (DecodeEnvelope l) e \<noteq> None"
    by (cases "validate_common l e") (simp_all add: validate_with_def run_event_types_def)
  with ok show False by (simp add: ValidateEnvelope_def)
qed

lemma eventMajor_supported:
  "t \<in> set run_event_types \<or> t = DeliveryDeadLetteredType \<Longrightarrow> eventMajor t = Some 1"
proof -
  have "list_all (\<lambda>t. eventMajor t = Some 1) (DeliveryDeadLetteredType # run_event_types)"
    by code_simp
  then show "t \<in> set run_event_types \<or> t = DeliveryDeadLetteredType \<Longrightarrow> eventMajor t = Some 1"
    by (auto simp: list_all_iff)
qed

lemma supported_type_length:
  "t \<in> set run_event_types \<or> t = DeliveryDeadLetteredType \<Longrightarrow> length t \<le> 31"
  by (auto simp: run_event_types_def event_types)

lemma traceparent_length: "MatchString traceparentPattern s \<Longrightarrow> length s = 55"
proof -
  have rep: "u \<in> lang (Rep (Cls False hexdigit) n n) \<Longrightarrow> length u = n" for u n
    using lang_Rep_class [of n n u False hexdigit] by auto
  assume "MatchString traceparentPattern s"
  then obtain a b c d where "s = a @ ''-'' @ b @ ''-'' @ c @ ''-'' @ d"
    "a \<in> lang (Rep (Cls False hexdigit) 2 2)" "b \<in> lang (Rep (Cls False hexdigit) 32 32)"
    "c \<in> lang (Rep (Cls False hexdigit) 16 16)" "d \<in> lang (Rep (Cls False hexdigit) 2 2)"
    unfolding MatchString_iff traceparentPattern_def lang.simps in_class_Lit by auto
  then show ?thesis using rep [of a] rep [of b] rep [of c] rep [of d] by simp
qed

text \<open>What validation guarantees about the strings that become header values.\<close>

lemma ValidateEnvelope_bounds:
  assumes "ValidateEnvelope l e = None"
  shows "env_SchemaVersion e = 1" "length (env_EventType e) \<le> 31"
    "env_CorrelationID e \<noteq> []" "length (env_CorrelationID e) \<le> 255"
    "env_CausationID e \<noteq> []" "length (env_CausationID e) \<le> 255"
    "length (env_RequestID e) \<le> 128" "length (env_Traceparent e) \<le> 55"
    "length (env_Tracestate e) \<le> 512"
proof -
  note c = ValidateEnvelope_common [OF assms]
  note t = ValidateEnvelope_type [OF assms]
  show "env_SchemaVersion e = 1"
    using c eventMajor_supported [OF t] by (auto simp: validate_common_def split: if_splits)
  show "length (env_EventType e) \<le> 31" using supported_type_length [OF t] .
  show "env_CorrelationID e \<noteq> []" "length (env_CorrelationID e) \<le> 255"
    "env_CausationID e \<noteq> []" "length (env_CausationID e) \<le> 255"
    "length (env_RequestID e) \<le> 128" "length (env_Tracestate e) \<le> 512"
    using c by (auto simp: validate_common_def blank_def maxHeaderValueLength_def split: if_splits)
  show "length (env_Traceparent e) \<le> 55"
    using c traceparent_length [of "env_Traceparent e"]
    by (auto simp: validate_common_def split: if_splits)
qed

section \<open>Headers\<close>

definition header_bytes :: "Header list \<Rightarrow> nat" where
  "header_bytes hs = sum_list (map (\<lambda>h. length (hd_Key h) + length (hd_Value h)) hs)"

lemma header_map_Cons: "header_map (h # hs) = (header_map hs)(hd_Key h \<mapsto> hd_Value h)"
  by (simp add: header_map_def)

lemma header_map_None: "hd_Key h \<notin> hd_Key ` set hs \<Longrightarrow> header_map hs (hd_Key h) = None"
  by (auto simp: header_map_def map_of_eq_None_iff image_image)

lemma map_add_upd_absent: "m2 k = None \<Longrightarrow> m1(k \<mapsto> v) ++ m2 = (m1 ++ m2)(k \<mapsto> v)"
  by (auto simp: map_add_def fun_eq_iff split: option.splits)

definition header_fits :: "(string \<Rightarrow> string option) \<Rightarrow> Header \<Rightarrow> bool" where
  "header_fits expected h \<longleftrightarrow>
     hd_Key h \<noteq> [] \<and> length (hd_Key h) \<le> 64 \<and> length (hd_Value h) \<le> 512 \<and>
     (hd_Key h \<in> set repeated_keys \<longrightarrow> lookup0 expected (hd_Key h) = hd_Value h)"

lemma header_loop_step:
  "header_loop expected (h # hs) n actual = Inr a \<longleftrightarrow>
     header_fits expected h \<and> n + (length (hd_Key h) + length (hd_Value h)) \<le> 4096 \<and>
     actual (hd_Key h) = None \<and>
     header_loop expected hs (n + length (hd_Key h) + length (hd_Value h))
       (actual(hd_Key h \<mapsto> hd_Value h)) = Inr a"
  by (auto simp: header_fits_def Let_def maxHeaderValueLength_def maxHeaderBytes_def)

lemma header_loop_iff:
  "n \<le> 4096 \<Longrightarrow> header_loop expected hs n actual = Inr a \<longleftrightarrow>
     (\<forall>h \<in> set hs. header_fits expected h \<and> actual (hd_Key h) = None) \<and>
     distinct (map hd_Key hs) \<and> n + header_bytes hs \<le> 4096 \<and> a = actual ++ header_map hs"
proof (induction hs arbitrary: n actual)
  case Nil
  then show ?case by (auto simp: header_map_def header_bytes_def)
next
  case (Cons h hs)
  let ?k = "length (hd_Key h) + length (hd_Value h)"
  have bytes: "header_bytes (h # hs) = ?k + header_bytes hs" by (simp add: header_bytes_def)
  have add: "hd_Key h \<notin> hd_Key ` set hs \<Longrightarrow>
    actual(hd_Key h \<mapsto> hd_Value h) ++ header_map hs = actual ++ header_map (h # hs)"
    by (simp add: header_map_Cons map_add_upd_absent header_map_None)
  show ?case
  proof (cases "n + ?k \<le> 4096")
    case True
    let ?u = "actual(hd_Key h \<mapsto> hd_Value h)"
    have none: "(\<forall>h' \<in> set hs. header_fits expected h' \<and> ?u (hd_Key h') = None) \<longleftrightarrow>
      hd_Key h \<notin> hd_Key ` set hs \<and>
      (\<forall>h' \<in> set hs. header_fits expected h' \<and> actual (hd_Key h') = None)"
      by (auto split: if_splits) (metis imageI)
    show ?thesis
    proof (cases "hd_Key h \<in> hd_Key ` set hs")
      case dup: True
      then show ?thesis unfolding header_loop_step add.assoc Cons.IH [OF True] none by simp
    next
      case fresh: False
      show ?thesis
        unfolding header_loop_step add.assoc Cons.IH [OF True] none add [OF fresh] bytes
        using fresh True by (auto simp del: fun_upd_apply)
    qed
  next
    case False
    then show ?thesis unfolding header_loop_step bytes by simp
  qed
qed

lemma HeadersForEnvelope_distinct: "distinct (map hd_Key (HeadersForEnvelope l e))"
  by (simp add: HeadersForEnvelope_def)

lemma HeadersForEnvelope_keys: "hd_Key ` set (HeadersForEnvelope l e) \<subseteq> set repeated_keys"
  by (auto simp: HeadersForEnvelope_def repeated_keys_def)

lemma header_map_in:
  "distinct (map hd_Key hs) \<Longrightarrow> h \<in> set hs \<Longrightarrow> header_map hs (hd_Key h) = Some (hd_Value h)"
  by (auto simp: header_map_def comp_def intro!: map_of_is_SomeI)

lemma header_map_append:
  "header_map (xs @ ys) = header_map ys ++ header_map xs"
  by (simp add: header_map_def)

text \<open>Delivery metadata that may accompany an event: short, distinct, and no body field.\<close>

definition delivery_headers :: "Header list \<Rightarrow> bool" where
  "delivery_headers hs \<longleftrightarrow>
     length hs \<le> 5 \<and> distinct (map hd_Key hs) \<and>
     (\<forall>h \<in> set hs. hd_Key h \<noteq> [] \<and> length (hd_Key h) \<le> 64 \<and> length (hd_Value h) \<le> 256 \<and>
        hd_Key h \<notin> set repeated_keys)"

lemma header_bytes_append [simp]: "header_bytes (xs @ ys) = header_bytes xs + header_bytes ys"
  by (simp add: header_bytes_def)

lemma delivery_headers_bytes:
  assumes "delivery_headers hs"
  shows "header_bytes hs \<le> 1600"
proof -
  have "header_bytes hs \<le> length hs * 320"
    unfolding header_bytes_def
    using sum_list_mono [of hs "\<lambda>h. length (hd_Key h) + length (hd_Value h)" "\<lambda>_. 320"] assms
    by (fastforce simp: delivery_headers_def sum_list_triv)
  also have "\<dots> \<le> 5 * 320" using assms by (simp add: delivery_headers_def)
  finally show ?thesis by simp
qed

lemma expected_lookup:
  assumes "h \<in> set (HeadersForEnvelope l e)"
  shows "lookup0 (header_map (HeadersForEnvelope l e)) (hd_Key h) = hd_Value h"
  using header_map_in [OF HeadersForEnvelope_distinct assms] by (simp add: lookup0_def)

lemma HeadersForEnvelope_bounds:
  assumes "ValidateEnvelope l e = None" and "\<And>u. length (lib_String l u) = 36"
  shows "\<forall>h \<in> set (HeadersForEnvelope l e). header_fits (header_map (HeadersForEnvelope l e)) h"
    and "length (HeadersForEnvelope l e) \<le> 9"
    and "header_bytes (HeadersForEnvelope l e) \<le> 1500"
proof -
  note b = ValidateEnvelope_bounds [OF assms(1)]
  have itoa: "Itoa 1 = ''1''" by code_simp
  have "\<forall>h \<in> set (HeadersForEnvelope l e). hd_Key h \<noteq> [] \<and> length (hd_Key h) \<le> 64 \<and>
      length (hd_Value h) \<le> 512"
    using b assms(2) itoa by (simp add: HeadersForEnvelope_def)
  then show "\<forall>h \<in> set (HeadersForEnvelope l e). header_fits (header_map (HeadersForEnvelope l e)) h"
    using expected_lookup by (simp add: header_fits_def)
  show "length (HeadersForEnvelope l e) \<le> 9" by (simp add: HeadersForEnvelope_def)
  show "header_bytes (HeadersForEnvelope l e) \<le> 1500"
    using b assms(2) itoa by (simp add: HeadersForEnvelope_def header_bytes_def)
qed

lemma ValidateHeaders_accepts:
  assumes ok: "ValidateEnvelope l e = None" and str: "\<And>u. length (lib_String l u) = 36"
    and extra: "delivery_headers extra"
  shows "ValidateHeaders l e (HeadersForEnvelope l e @ extra) = None"
proof -
  let ?H = "HeadersForEnvelope l e"
  let ?m = "header_map ?H"
  note bounds = HeadersForEnvelope_bounds [OF ok str]
  have fits: "\<forall>h \<in> set (?H @ extra). header_fits ?m h \<and> (\<lambda>_. None) (hd_Key h) = None"
    using bounds(1) extra by (fastforce simp: delivery_headers_def header_fits_def)
  have dist: "distinct (map hd_Key (?H @ extra))"
    using HeadersForEnvelope_distinct [of l e] HeadersForEnvelope_keys [of l e] extra
    by (auto simp: delivery_headers_def)
  have bytes: "0 + header_bytes (?H @ extra) \<le> 4096"
    using bounds(3) delivery_headers_bytes [OF extra] by simp
  have loop: "header_loop ?m (?H @ extra) 0 (\<lambda>_. None) =
      Inr ((\<lambda>_. None) ++ header_map (?H @ extra))"
    by (rule header_loop_iff [THEN iffD2]) (use fits dist bytes in auto)
  have len: "length (?H @ extra) \<le> 32"
    using bounds(2) extra by (simp add: delivery_headers_def)
  have "lookup0 ((\<lambda>_. None) ++ header_map (?H @ extra)) (hd_Key h) = lookup0 ?m (hd_Key h)"
    if "h \<in> set ?H" for h
    using header_map_in [OF HeadersForEnvelope_distinct that]
    by (simp add: header_map_append lookup0_def)
  then show ?thesis
    using loop len
    by (simp add: ValidateHeaders_def Let_def maxHeaderCount_def list_all_iff)
qed

lemma ValidateHeaders_sound:
  assumes "ValidateHeaders l e hs = None" "h \<in> set (HeadersForEnvelope l e)" "hd_Value h \<noteq> []"
  shows "header_map hs (hd_Key h) = Some (hd_Value h)" and "distinct (map hd_Key hs)"
proof -
  let ?m = "header_map (HeadersForEnvelope l e)"
  from assms(1) obtain a where a: "header_loop ?m hs 0 (\<lambda>_. None) = Inr a"
    and all: "list_all (\<lambda>h. lookup0 a (hd_Key h) = lookup0 ?m (hd_Key h)) (HeadersForEnvelope l e)"
    by (auto simp: ValidateHeaders_def Let_def split: if_splits sum.splits)
  from a have eq: "a = header_map hs" and dist: "distinct (map hd_Key hs)"
    by (simp_all add: header_loop_iff)
  from all assms(2) have "lookup0 a (hd_Key h) = hd_Value h"
    using expected_lookup by (simp add: list_all_iff)
  with assms(3) eq show "header_map hs (hd_Key h) = Some (hd_Value h)"
    by (auto simp: lookup0_def split: option.splits)
  show "distinct (map hd_Key hs)" by (rule dist)
qed

end
