(* ===== verification/Messaging.thy ===== *)
theory Messaging
  imports Events
begin

text \<open>
  Publishing and consuming events: the Kafka producer and consumer
  (\<^verbatim>\<open>internal/adapters/kafka/producer.go\<close>, \<^verbatim>\<open>consumer.go\<close>), the processed-event transaction
  (\<^verbatim>\<open>internal/adapters/postgres/processed_events.go\<close>) and the failure router
  (\<^verbatim>\<open>internal/application/consumer/router.go\<close>).  The broker is a parameter: the outcome of a
  synchronous produce call is an argument of \<open>Publish\<close>.
\<close>

section \<open>Records\<close>

record ReceivedEvent =
  re_Envelope :: Envelope  \<comment> \<open>the zero envelope where the record is invalid\<close>
  re_Topic :: string
  re_Partition :: int
  re_LeaderEpoch :: int
  re_Offset :: int
  re_Key :: string
  re_Headers :: "Header list"
  re_Value :: string

record KafkaRecord =
  kr_Topic :: string
  kr_Partition :: int
  kr_LeaderEpoch :: int
  kr_Offset :: int
  kr_Key :: string
  kr_Value :: string
  kr_Headers :: "Header list"

record PublicationResult =
  pub_Partition :: int
  pub_Offset :: int

record PublicationError =
  pe_permanent :: bool
  pe_reason :: string

section \<open>The producer\<close>

text \<open>
  The checks before the broker call, with the record that is produced.  The broker call
  \<open>produce\<close> returns the partition and offset, or the classification of the transport error
  (\<^verbatim>\<open>classifyPublicationError\<close> only maps errors of the Kafka client to a class).
\<close>

definition publish_record :: "lib \<Rightarrow> nat \<Rightarrow> OutboxEvent \<Rightarrow> PublicationError + KafkaRecord" where
  "publish_record l maxMessageBytes event =
    (if length (oe_Serialized event) = 0 \<or> length (oe_Serialized event) > maxMessageBytes then
       Inl \<lparr>pe_permanent = True, pe_reason = ''event message size is invalid''\<rparr>
     else (case DecodeEnvelope l (oe_Serialized event) of
        Inl err \<Rightarrow> Inl \<lparr>pe_permanent = True, pe_reason = ''event contract is invalid''\<rparr>
      | Inr decoded \<Rightarrow>
          if (case ExpectedPartitionKey l decoded of
                Inl _ \<Rightarrow> True | Inr expectedKey \<Rightarrow> oe_PartitionKey event \<noteq> expectedKey) \<or>
             env_EventID decoded \<noteq> env_EventID (oe_Envelope event) \<or>
             \<not> TopicAccepts (env_EventType decoded) (oe_Topic event) then
            Inl \<lparr>pe_permanent = True, pe_reason = ''event contract is invalid''\<rparr>
          else
            let headers = HeadersForEnvelope l decoded @ oe_Headers event in
            (case ValidateHeaders l decoded headers of
               Some _ \<Rightarrow> Inl \<lparr>pe_permanent = True, pe_reason = ''event headers are invalid''\<rparr>
             | None \<Rightarrow> Inr \<lparr>kr_Topic = oe_Topic event, kr_Partition = 0, kr_LeaderEpoch = 0,
                 kr_Offset = 0, kr_Key = oe_PartitionKey event, kr_Value = oe_Serialized event,
                 kr_Headers = headers\<rparr>)))"

definition Publish ::
  "lib \<Rightarrow> nat \<Rightarrow> (KafkaRecord \<Rightarrow> PublicationError + PublicationResult) \<Rightarrow> OutboxEvent \<Rightarrow>
     PublicationError + PublicationResult" where
  "Publish l maxMessageBytes produce event =
    (case publish_record l maxMessageBytes event of Inl err \<Rightarrow> Inl err | Inr record \<Rightarrow> produce record)"

section \<open>The consumer\<close>

datatype 'a poll = Polled 'a | InvalidEvent 'a

definition decodeRecord :: "lib \<Rightarrow> nat \<Rightarrow> KafkaRecord \<Rightarrow> ReceivedEvent poll" where
  "decodeRecord l maxMessageBytes record =
    (let received = \<lparr>re_Envelope = zero_Envelope, re_Topic = kr_Topic record, re_Partition = kr_Partition record,
           re_LeaderEpoch = kr_LeaderEpoch record, re_Offset = kr_Offset record,
           re_Key = kr_Key record, re_Headers = kr_Headers record, re_Value = kr_Value record\<rparr> in
     if length (kr_Value record) = 0 \<or> length (kr_Value record) > maxMessageBytes then
       InvalidEvent received
     else (case DecodeEnvelope l (kr_Value record) of
        Inl _ \<Rightarrow> InvalidEvent received
      | Inr envelope \<Rightarrow>
          if ValidateHeaders l envelope (kr_Headers record) \<noteq> None \<or>
             (case ExpectedPartitionKey l envelope of
                Inl _ \<Rightarrow> True | Inr expectedKey \<Rightarrow> kr_Key record \<noteq> expectedKey) \<or>
             \<not> TopicAccepts (env_EventType envelope) (kr_Topic record) then
            InvalidEvent received
          else Polled (received\<lparr>re_Envelope := envelope\<rparr>)))"

section \<open>The processed-event transaction\<close>

record ProcessedRow =
  prc_ConsumerIdentity :: string
  prc_EventID :: uuid
  prc_TenantID :: uuid
  prc_EventType :: string
  prc_Topic :: string
  prc_Partition :: int
  prc_Offset :: int
  prc_ProcessedAt :: gtime

text \<open>The database: the markers and the state the business effects change.\<close>

record 'b processed_db =
  pdb_markers :: "ProcessedRow list"
  pdb_business :: 'b

definition validateReceivedEvent :: "lib \<Rightarrow> ReceivedEvent \<Rightarrow> error option" where
  "validateReceivedEvent l event =
    (let env = re_Envelope event in
        if lib_Version l (env_EventID env) \<noteq> 7 \<or> lib_Version l (env_TenantID env) \<noteq> 7 \<or>
           re_Topic event = [] \<or> re_Partition event < 0 \<or> re_Offset event < 0 then
          Some (Plain ''validated event source metadata is required'')
        else (case DecodeEnvelope l (re_Value event) of
           Inl _ \<Rightarrow> Some (Plain ''validated event envelope bytes are required'')
         | Inr decoded \<Rightarrow>
             if env_EventID decoded \<noteq> env_EventID env then
               Some (Plain ''validated event envelope bytes are required'')
             else (case ValidateHeaders l decoded (re_Headers event) of
                Some err \<Rightarrow> Some err
              | None \<Rightarrow>
                  if (case ExpectedPartitionKey l decoded of
                        Inl _ \<Rightarrow> True | Inr expectedKey \<Rightarrow> re_Key event \<noteq> expectedKey) \<or>
                     \<not> TopicAccepts (env_EventType decoded) (re_Topic event) then
                    Some (Plain ''validated event topic and partition key are required'')
                  else None)))"

text \<open>
  The transaction inserts the marker first; a conflict makes the delivery a duplicate, an
  error of the business effect rolls the marker back.
\<close>

definition Process ::
  "lib \<Rightarrow> string \<Rightarrow> ReceivedEvent \<Rightarrow> gtime \<Rightarrow> ('b \<Rightarrow> error + 'b) \<Rightarrow> 'b processed_db \<Rightarrow>
     bool result \<times> 'b processed_db" where
  "Process l consumerIdentity0 event processedAt businessEffect db =
    (let consumerIdentity = TrimSpace consumerIdentity0 in
     if consumerIdentity = [] \<or> length consumerIdentity > 160 then
       (Inl (Plain ''consumer identity and business effect are required''), db)
     else (case validateReceivedEvent l event of
        Some err \<Rightarrow> (Inl err, db)
      | None \<Rightarrow>
         (let env = re_Envelope event in
             if list_ex (\<lambda>row. prc_ConsumerIdentity row = consumerIdentity \<and>
                  prc_EventID row = env_EventID env) (pdb_markers db) then (Inr True, db)
             else (case businessEffect (pdb_business db) of
                Inl _ \<Rightarrow> (Inl (Plain ''apply event business effect''), db)
              | Inr business \<Rightarrow> (Inr False,
                  \<lparr>pdb_markers = pdb_markers db @
                     [\<lparr>prc_ConsumerIdentity = consumerIdentity, prc_EventID = env_EventID env,
                       prc_TenantID = env_TenantID env, prc_EventType = env_EventType env,
                       prc_Topic = re_Topic event, prc_Partition = re_Partition event,
                       prc_Offset = re_Offset event, prc_ProcessedAt = processedAt\<rparr>],
                   pdb_business = business\<rparr>)))))"

section \<open>The failure router\<close>

text \<open>
  What \<^verbatim>\<open>classify\<close> finds in a chain of errors: the results of the first \<^verbatim>\<open>Permanent\<close>,
  \<^verbatim>\<open>Code\<close> and \<^verbatim>\<open>SafeMessage\<close> methods in it, if any.
\<close>

record ProcessingError =
  px_Permanent :: "bool option"
  px_Code :: "string option"
  px_SafeMessage :: "string option"

definition newFailure :: "string \<Rightarrow> string \<Rightarrow> bool \<Rightarrow> ProcessingError" where
  "newFailure code0 reason0 permanent =
    (let code = TrimSpace code0; reason = TrimSpace reason0 in
     if code = [] \<or> length code > 80 \<or> reason = [] \<or> length reason > 500 then
       \<lparr>px_Permanent = Some True, px_Code = Some ''INVALID_FAILURE'',
        px_SafeMessage = Some ''event processing failed''\<rparr>
     else \<lparr>px_Permanent = Some permanent, px_Code = Some code, px_SafeMessage = Some reason\<rparr>)"

definition classify :: "ProcessingError \<Rightarrow> bool \<times> string \<times> string" where
  "classify err =
    (let permanent = (case px_Permanent err of None \<Rightarrow> False | Some b \<Rightarrow> b);
         code = (case px_Code err of
            Some c \<Rightarrow> if TrimSpace c \<noteq> [] then c
                      else if permanent then ''PERMANENT_PROCESSING'' else ''TRANSIENT_PROCESSING''
          | None \<Rightarrow> if permanent then ''PERMANENT_PROCESSING'' else ''TRANSIENT_PROCESSING'');
         reason = (case px_SafeMessage err of
            Some m \<Rightarrow> if TrimSpace m \<noteq> [] then m else ''event processing failed''
          | None \<Rightarrow> ''event processing failed'') in
     (permanent, code, reason))"

definition retryDelays :: "duration list" where
  "retryDelays = [minute, 5 * minute, 30 * minute]"

definition header_values :: "string \<Rightarrow> Header list \<Rightarrow> string list" where
  "header_values key hs = map hd_Value (filter (\<lambda>h. hd_Key h = key) hs)"

text \<open>The position of the first retry topic equal to the source topic.\<close>

fun topic_index :: "string list \<Rightarrow> string \<Rightarrow> nat \<Rightarrow> nat option" where
  "topic_index [] topic i = None"
| "topic_index (t # ts) topic i = (if topic = t then Some i else topic_index ts topic (Suc i))"

definition expectedFailureAttempt :: "ReceivedEvent \<Rightarrow> int result" where
  "expectedFailureAttempt event =
    (if re_Topic event = AgentRunLifecycleTopic then Inr 1
     else (case topic_index retryTopics (re_Topic event) 0 of
        None \<Rightarrow> Inl (Plain ''source topic is not routable'')
      | Some index \<Rightarrow>
          let previous = int index + 1; values = header_values ''delivery-attempt'' (re_Headers event) in
          if list_ex (\<lambda>v. Atoi v \<noteq> Some previous) values then
            Inl (Plain ''delivery-attempt header is invalid'')
          else if length values \<noteq> 1 then
            Inl (Plain ''delivery-attempt header is required exactly once'')
          else Inr (previous + 1)))"

definition RetryNotBefore :: "lib \<Rightarrow> ReceivedEvent \<Rightarrow> gtime result" where
  "RetryNotBefore l event =
    (if re_Topic event \<notin> set retryTopics then
       Inl (Plain ''retry-not-before is only valid on retry topics'')
     else
       let values = dropWhile (\<lambda>v. v = []) (header_values ''retry-not-before'' (re_Headers event)) in
       (case values of
          [] \<Rightarrow> Inl (Plain ''retry-not-before header is required'')
        | v # [] \<Rightarrow> (case lib_parseTime l v of
             None \<Rightarrow> Inl (Plain ''retry-not-before header is invalid'')
           | Some t \<Rightarrow> Inr t)
        | _ \<Rightarrow> Inl (Plain ''retry-not-before header is duplicated'')))"

datatype routed = RoutedRetry | RoutedDLQ

record Router =
  rt_consumerIdentity :: string
  rt_quarantineTenantID :: uuid

definition NewRouter :: "lib \<Rightarrow> string \<Rightarrow> uuid \<Rightarrow> Router result" where
  "NewRouter l consumerIdentity0 quarantineTenantID =
    (let consumerIdentity = TrimSpace consumerIdentity0 in
     if consumerIdentity = [] \<or> length consumerIdentity > 160 \<or>
        lib_Version l quarantineTenantID \<noteq> 7 then
       Inl (Plain ''publisher, consumer identity, and quarantine tenant are required'')
     else Inr \<lparr>rt_consumerIdentity = consumerIdentity, rt_quarantineTenantID = quarantineTenantID\<rparr>)"

definition retry_event :: "lib \<Rightarrow> ReceivedEvent \<Rightarrow> int \<Rightarrow> gtime \<Rightarrow> OutboxEvent" where
  "retry_event l source attempt now =
    (let env = re_Envelope source in
     \<lparr>oe_Envelope = env, oe_Topic = retryTopics ! nat (attempt - 1),
      oe_PartitionKey = lib_String l (env_AggregateID env),
      oe_Headers =
       [\<lparr>hd_Key = ''delivery-attempt'', hd_Value = Itoa attempt\<rparr>,
        \<lparr>hd_Key = ''retry-not-before'',
         hd_Value = lib_formatTime l (now + retryDelays ! nat (attempt - 1))\<rparr>,
        \<lparr>hd_Key = ''original-topic'', hd_Value = re_Topic source\<rparr>,
        \<lparr>hd_Key = ''original-partition'', hd_Value = Itoa (re_Partition source)\<rparr>,
        \<lparr>hd_Key = ''original-offset'', hd_Value = Itoa (re_Offset source)\<rparr>],
      oe_Serialized = re_Value source, oe_CreatedAt = env_OccurredAt env\<rparr>)"

text \<open>
  \<^verbatim>\<open>Route\<close> with the publisher as an argument; the result is paired with the events that were
  published.
\<close>

definition Route ::
  "lib \<Rightarrow> (OutboxEvent \<Rightarrow> PublicationError + PublicationResult) \<Rightarrow> Router \<Rightarrow> uuid option \<Rightarrow>
     uuid option \<Rightarrow> ReceivedEvent \<Rightarrow> ProcessingError \<Rightarrow> int \<Rightarrow> gtime \<Rightarrow> gtime \<Rightarrow>
     routed result \<times> OutboxEvent list" where
  "Route l publish router failureV7 eventV7 source processingError attempt firstFailedAt now =
    (let env = re_Envelope source; (permanent, code, reason) = classify processingError in
     if attempt < 1 \<or> IsZero firstFailedAt \<or> now < firstFailedAt then
       (Inl (Plain ''processing failure metadata is invalid''), [])
     else if env_EventID env \<noteq> uuid_Nil \<and> expectedFailureAttempt source \<noteq> Inr attempt then
       (Inl (Plain ''processing attempt does not match source delivery metadata''), [])
     else if \<not> permanent \<and> attempt \<le> int (length retryTopics) \<and> ValidateEnvelope l env = None then
       let retry = retry_event l source attempt now in
       (case publish retry of
          Inl _ \<Rightarrow> (Inl (Plain ''publish retry event''), [])
        | Inr _ \<Rightarrow> (Inr RoutedRetry, [retry]))
     else
       let dlqSource = \<lparr>src_Envelope = env, src_Topic = re_Topic source,
             src_Partition = re_Partition source, src_Offset = re_Offset source,
             src_Key = re_Key source, src_Headers = re_Headers source, src_Value = re_Value source\<rparr>;
           built = (if ValidateEnvelope l env = None
             then NewDeadLetter l failureV7 eventV7 dlqSource (rt_consumerIdentity router) code reason
                    attempt firstFailedAt now
             else NewMalformedDeadLetter l failureV7 eventV7 dlqSource (rt_quarantineTenantID router)
                    (rt_consumerIdentity router) code reason attempt firstFailedAt now) in
       (case built of
          Inl err \<Rightarrow> (Inl err, [])
        | Inr deadLetter0 \<Rightarrow>
            let deadLetter = deadLetter0\<lparr>oe_Headers :=
                  [\<lparr>hd_Key = ''delivery-attempt'', hd_Value = Itoa attempt\<rparr>]\<rparr> in
            (case publish deadLetter of
               Inl _ \<Rightarrow> (Inl (Plain ''publish dead-letter event''), [])
             | Inr _ \<Rightarrow> (Inr RoutedDLQ, [deadLetter]))))"

section \<open>What the packages outside the repository are relied on for\<close>

text \<open>
  The textual form of a UUID has 36 characters, decoding never finds a nested envelope longer
  than its input, and an RFC 3339 instant of the years 1 to 9999 is short and parses to itself.
\<close>

definition rfc3339_year :: "gtime \<Rightarrow> bool" where
  "rfc3339_year t \<longleftrightarrow> 0 \<le> t \<and> t < 315537897600 * second"

definition lib_laws :: "lib \<Rightarrow> bool" where
  "lib_laws l \<longleftrightarrow>
     (\<forall>u. length (lib_String l u) = 36) \<and> nested_shorter l \<and>
     (\<forall>t. rfc3339_year t \<longrightarrow> lib_formatTime l t \<noteq> [] \<and> length (lib_formatTime l t) \<le> 64 \<and>
        lib_parseTime l (lib_formatTime l t) = Some t)"

lemma decode_valid:
  assumes "lib_laws l" "DecodeEnvelope l s = Inr e"
  shows "ValidateEnvelope l e = None"
  using assms DecodeEnvelope_unfold [of l s]
  by (auto simp: lib_laws_def split: option.splits)

lemma zero_invalid: "ValidateEnvelope l zero_Envelope \<noteq> None"
  using ValidateEnvelope_common [of l zero_Envelope]
  by (auto simp: zero_Envelope_def validate_common_def)

text \<open>The shared contract of the producer, the consumer and the processed-event transaction.\<close>

definition broker_contract ::
  "lib \<Rightarrow> Envelope \<Rightarrow> string \<Rightarrow> string \<Rightarrow> Header list \<Rightarrow> string \<Rightarrow> bool" where
  "broker_contract l e topic key headers value \<longleftrightarrow>
     DecodeEnvelope l value = Inr e \<and> ExpectedPartitionKey l e = Inr key \<and>
     TopicAccepts (env_EventType e) topic \<and> ValidateHeaders l e headers = None"

lemma publish_record_iff:
  "publish_record l m ev = Inr r \<longleftrightarrow>
     0 < length (oe_Serialized ev) \<and> length (oe_Serialized ev) \<le> m \<and>
     (\<exists>e. broker_contract l e (oe_Topic ev) (oe_PartitionKey ev)
            (HeadersForEnvelope l e @ oe_Headers ev) (oe_Serialized ev) \<and>
          env_EventID e = env_EventID (oe_Envelope ev) \<and>
          r = \<lparr>kr_Topic = oe_Topic ev, kr_Partition = 0, kr_LeaderEpoch = 0, kr_Offset = 0,
               kr_Key = oe_PartitionKey ev, kr_Value = oe_Serialized ev,
               kr_Headers = HeadersForEnvelope l e @ oe_Headers ev\<rparr>)"
  by (auto simp: publish_record_def broker_contract_def Let_def split: sum.splits option.splits if_splits)

lemma decodeRecord_iff:
  "decodeRecord l m rec = Polled r \<longleftrightarrow>
     0 < length (kr_Value rec) \<and> length (kr_Value rec) \<le> m \<and>
     (\<exists>e. broker_contract l e (kr_Topic rec) (kr_Key rec) (kr_Headers rec) (kr_Value rec) \<and>
          r = \<lparr>re_Envelope = e, re_Topic = kr_Topic rec, re_Partition = kr_Partition rec,
               re_LeaderEpoch = kr_LeaderEpoch rec, re_Offset = kr_Offset rec, re_Key = kr_Key rec,
               re_Headers = kr_Headers rec, re_Value = kr_Value rec\<rparr>)"
  by (auto simp: decodeRecord_def broker_contract_def Let_def split: sum.splits if_splits)

lemma validateReceived_contract:
  assumes "lib_laws l"
    "broker_contract l (re_Envelope r) (re_Topic r) (re_Key r) (re_Headers r) (re_Value r)"
    "0 \<le> re_Partition r" "0 \<le> re_Offset r"
  shows "validateReceivedEvent l r = None"
proof -
  have v: "ValidateEnvelope l (re_Envelope r) = None"
    using assms decode_valid by (auto simp: broker_contract_def)
  have "lib_Version l (env_EventID (re_Envelope r)) = 7 \<and> lib_Version l (env_TenantID (re_Envelope r)) = 7"
    using ValidateEnvelope_common [OF v]
    by (auto simp: validate_common_def validV7_def split: if_splits)
  moreover have "re_Topic r \<noteq> []"
    using assms(2) by (auto simp: broker_contract_def TopicAccepts_def AgentRunLifecycleTopic_def
        AgentRunDLQTopic_def retryTopics_def split: if_splits)
  ultimately show ?thesis
    using assms by (simp add: validateReceivedEvent_def broker_contract_def Let_def)
qed

section \<open>Exactly-once processing\<close>

definition marked :: "string \<Rightarrow> uuid \<Rightarrow> 'b processed_db \<Rightarrow> bool" where
  "marked c i db \<longleftrightarrow> (\<exists>row \<in> set (pdb_markers db). prc_ConsumerIdentity row = TrimSpace c \<and> prc_EventID row = i)"

text \<open>The deliveries of a broker in order, each processed with the effect of its event.\<close>

fun process_all ::
  "lib \<Rightarrow> string \<Rightarrow> (uuid \<Rightarrow> 'b \<Rightarrow> error + 'b) \<Rightarrow> (ReceivedEvent \<times> gtime) list \<Rightarrow> 'b processed_db \<Rightarrow>
     'b processed_db" where
  "process_all l c eff [] db = db"
| "process_all l c eff ((ev, t) # ds) db =
     process_all l c eff ds (snd (Process l c ev t (eff (env_EventID (re_Envelope ev))) db))"

definition consumer_ok :: "string \<Rightarrow> bool" where
  "consumer_ok c \<longleftrightarrow> TrimSpace c \<noteq> [] \<and> length (TrimSpace c) \<le> 160"

lemma Process_duplicate:
  assumes "consumer_ok c" "validateReceivedEvent l ev = None" "marked c (env_EventID (re_Envelope ev)) db"
  shows "Process l c ev t f db = (Inr True, db)"
  using assms by (auto simp: Process_def consumer_ok_def marked_def Let_def list_ex_iff)

lemma Process_first:
  assumes "consumer_ok c" "validateReceivedEvent l ev = None"
    "\<not> marked c (env_EventID (re_Envelope ev)) db" "f (pdb_business db) = Inr b"
  shows "fst (Process l c ev t f db) = Inr False"
    and "pdb_business (snd (Process l c ev t f db)) = b"
    and "marked c i (snd (Process l c ev t f db)) \<longleftrightarrow> i = env_EventID (re_Envelope ev) \<or> marked c i db"
  using assms by (auto simp: Process_def consumer_ok_def marked_def Let_def list_ex_iff)

text \<open>The identifiers in the order of their first occurrence, without those already marked.\<close>

fun first_new :: "(uuid \<Rightarrow> bool) \<Rightarrow> uuid list \<Rightarrow> uuid list" where
  "first_new seen [] = []"
| "first_new seen (i # is) =
     (if seen i then first_new seen is else i # first_new (\<lambda>j. j = i \<or> seen j) is)"

lemma process_all_effects:
  assumes "consumer_ok c" "\<And>i b. eff i b = Inr (g i b)"
  shows "(\<forall>(ev, t) \<in> set ds. validateReceivedEvent l ev = None) \<Longrightarrow>
    pdb_business (process_all l c eff ds db) =
      fold g (first_new (\<lambda>i. marked c i db) (map (\<lambda>(ev, t). env_EventID (re_Envelope ev)) ds))
        (pdb_business db)"
proof (induction ds arbitrary: db)
  case (Cons d ds)
  obtain ev t where d: "d = (ev, t)" by (cases d)
  let ?i = "env_EventID (re_Envelope ev)"
  have ok: "validateReceivedEvent l ev = None" using Cons.prems d by simp
  have rest: "\<forall>(ev, t) \<in> set ds. validateReceivedEvent l ev = None" using Cons.prems by simp
  show ?case
  proof (cases "marked c ?i db")
    case True
    then show ?thesis
      using Cons.IH [OF rest, of db] Process_duplicate [OF assms(1) ok True] by (simp add: d)
  next
    case False
    note first = Process_first [OF assms(1) ok False, of "eff ?i", OF assms(2)]
    have "(\<lambda>i. marked c i (snd (Process l c ev t (eff ?i) db))) = (\<lambda>j. j = ?i \<or> marked c j db)"
      using first(3) by blast
    then show ?thesis
      using Cons.IH [OF rest, of "snd (Process l c ev t (eff ?i) db)"] first(2) False by (simp add: d)
  qed
qed simp

lemma first_new_distinct: "distinct (first_new seen is) \<and> set (first_new seen is) = {i \<in> set is. \<not> seen i}"
  by (induction seen "is" rule: first_new.induct) auto

section \<open>Routing\<close>

lemma header_values_body: "k \<notin> set repeated_keys \<Longrightarrow> header_values k (HeadersForEnvelope l e) = []"
  using HeadersForEnvelope_keys [of l e]
  by (auto simp: header_values_def filter_empty_conv)

lemma header_values_append: "header_values k (xs @ ys) = header_values k xs @ header_values k ys"
  by (simp add: header_values_def)

lemma delivery_keys_not_repeated:
  "''delivery-attempt'' \<notin> set repeated_keys" "''retry-not-before'' \<notin> set repeated_keys"
  "''original-topic'' \<notin> set repeated_keys" "''original-partition'' \<notin> set repeated_keys"
  "''original-offset'' \<notin> set repeated_keys"
  by (simp_all add: repeated_keys_def)

lemma routable_topic:
  "expectedFailureAttempt ev = Inr n \<Longrightarrow>
     re_Topic ev = AgentRunLifecycleTopic \<or> re_Topic ev \<in> set retryTopics"
  by (auto simp: expectedFailureAttempt_def retryTopics_def Let_def split: if_splits)

lemma routable_topic_length:
  "t = AgentRunLifecycleTopic \<or> t \<in> set retryTopics \<Longrightarrow> length t \<le> 256"
  by (auto simp: AgentRunLifecycleTopic_def retryTopics_def)

lemma run_topic_type:
  "TopicAccepts ty t \<Longrightarrow> t = AgentRunLifecycleTopic \<or> t \<in> set retryTopics \<Longrightarrow> ty \<in> set run_event_types"
  by (auto simp: TopicAccepts_def AgentRunLifecycleTopic_def AgentRunDLQTopic_def retryTopics_def
      split: if_splits)

lemma valid_event_id: "ValidateEnvelope l e = None \<Longrightarrow> env_EventID e \<noteq> uuid_Nil"
  by (auto simp: validate_common_def split: if_splits dest: ValidateEnvelope_common)

lemma attempt_cases: "1 \<le> (n :: int) \<Longrightarrow> n \<le> 3 \<Longrightarrow> n = 1 \<or> n = 2 \<or> n = 3"
  by auto

lemma retry_topic:
  assumes "1 \<le> n" "n \<le> 3"
  shows "retryTopics ! nat (n - 1) \<in> set retryTopics"
    and "retryTopics ! nat (n - 1) \<noteq> AgentRunLifecycleTopic"
    and "topic_index retryTopics (retryTopics ! nat (n - 1)) 0 = Some (nat (n - 1))"
  using attempt_cases [OF assms]
  by (auto simp: retryTopics_def AgentRunLifecycleTopic_def nth_Cons')

lemma retry_headers_ok:
  assumes "lib_laws l" "1 \<le> n" "n \<le> 3" "in_i64 (re_Partition source)" "in_i64 (re_Offset source)"
    "length (re_Topic source) \<le> 256" "rfc3339_year (now + retryDelays ! nat (n - 1))"
  shows "delivery_headers (oe_Headers (retry_event l source n now))"
proof -
  have short: "in_i64 i \<Longrightarrow> length (Itoa i) \<le> 256" for i using Itoa_length [of i] by simp
  have "in_i64 n" using assms by (simp add: in_i64_def)
  note lens = short [OF this] short [OF assms(4)] short [OF assms(5)]
  have "length (lib_formatTime l (now + retryDelays ! nat (n - 1))) \<le> 64"
    using assms(1,7) by (simp add: lib_laws_def)
  then have "length (lib_formatTime l (now + retryDelays ! nat (n - 1))) \<le> 256" by simp
  then show ?thesis
    unfolding delivery_headers_def retry_event_def Let_def
    using lens assms(6) delivery_keys_not_repeated by simp
qed

lemma Route_retry_cases:
  assumes "Route l publish router f7 e7 source err n first now = (Inr RoutedRetry, evs)"
  shows "1 \<le> n" "n \<le> 3" "ValidateEnvelope l (re_Envelope source) = None"
    "expectedFailureAttempt source = Inr n" "evs = [retry_event l source n now]"
    "\<exists>p. publish (retry_event l source n now) = Inr p" "\<not> fst (classify err)"
proof -
  obtain perm code reason where c: "classify err = (perm, code, reason)" by (cases "classify err")
  note R = assms [unfolded Route_def c Let_def prod.case]
  show ok: "ValidateEnvelope l (re_Envelope source) = None"
    using R by (auto split: if_splits sum.splits)
  show "1 \<le> n" "n \<le> 3" "evs = [retry_event l source n now]"
    "\<exists>p. publish (retry_event l source n now) = Inr p" "\<not> fst (classify err)"
    using R c by (auto simp: retryTopics_def split: if_splits sum.splits)
  show "expectedFailureAttempt source = Inr n"
    using R valid_event_id [OF ok] by (auto split: if_splits)
qed

lemma retry_record:
  assumes laws: "lib_laws l" and polled: "decodeRecord l m rec0 = Polled source"
    and range: "in_i64 (re_Partition source)" "in_i64 (re_Offset source)"
    and n: "1 \<le> n" "n \<le> 3" and exp: "expectedFailureAttempt source = Inr n"
    and year: "rfc3339_year (now + retryDelays ! nat (n - 1))"
  shows "publish_record l m (retry_event l source n now) = Inr
    \<lparr>kr_Topic = retryTopics ! nat (n - 1), kr_Partition = 0, kr_LeaderEpoch = 0, kr_Offset = 0,
     kr_Key = lib_String l (env_AggregateID (re_Envelope source)), kr_Value = re_Value source,
     kr_Headers = HeadersForEnvelope l (re_Envelope source) @ oe_Headers (retry_event l source n now)\<rparr>"
    and "broker_contract l (re_Envelope source) (retryTopics ! nat (n - 1))
      (lib_String l (env_AggregateID (re_Envelope source)))
      (HeadersForEnvelope l (re_Envelope source) @ oe_Headers (retry_event l source n now))
      (re_Value source)"
proof -
  let ?e = "re_Envelope source" and ?ev = "retry_event l source n now"
  from polled have size: "0 < length (re_Value source)" "length (re_Value source) \<le> m"
    and bc: "broker_contract l ?e (re_Topic source) (re_Key source) (re_Headers source) (re_Value source)"
    unfolding decodeRecord_iff by auto
  note top = routable_topic [OF exp]
  have ty: "env_EventType ?e \<in> set run_event_types"
    using bc top by (auto simp: broker_contract_def intro: run_topic_type)
  have valid: "ValidateEnvelope l ?e = None"
    using bc laws decode_valid by (auto simp: broker_contract_def)
  have "delivery_headers (oe_Headers ?ev)"
    using retry_headers_ok [OF laws n range _ year] routable_topic_length [OF top] by simp
  then have "ValidateHeaders l ?e (HeadersForEnvelope l ?e @ oe_Headers ?ev) = None"
    using laws by (intro ValidateHeaders_accepts [OF valid]) (simp_all add: lib_laws_def)
  with bc ty retry_topic(1) [OF n] show "broker_contract l ?e (retryTopics ! nat (n - 1))
      (lib_String l (env_AggregateID ?e)) (HeadersForEnvelope l ?e @ oe_Headers ?ev) (re_Value source)"
    by (simp add: broker_contract_def ExpectedPartitionKey_def TopicAccepts_def)
  then show "publish_record l m ?ev = Inr
    \<lparr>kr_Topic = retryTopics ! nat (n - 1), kr_Partition = 0, kr_LeaderEpoch = 0, kr_Offset = 0,
     kr_Key = lib_String l (env_AggregateID ?e), kr_Value = re_Value source,
     kr_Headers = HeadersForEnvelope l ?e @ oe_Headers ?ev\<rparr>"
    unfolding publish_record_iff using size by (simp add: retry_event_def Let_def) blast
qed

lemma retry_redelivery:
  assumes "lib_laws l" "1 \<le> n" "n \<le> 3" "re_Topic r = retryTopics ! nat (n - 1)"
    "re_Headers r = HeadersForEnvelope l e @ oe_Headers (retry_event l source n now)"
    "rfc3339_year (now + retryDelays ! nat (n - 1))"
  shows "expectedFailureAttempt r = Inr (n + 1)"
    and "RetryNotBefore l r = Inr (now + retryDelays ! nat (n - 1))"
proof -
  have vals: "header_values ''delivery-attempt'' (re_Headers r) = [Itoa n]"
    "header_values ''retry-not-before'' (re_Headers r) =
       [lib_formatTime l (now + retryDelays ! nat (n - 1))]"
    unfolding assms(5) header_values_append
    by (simp_all add: header_values_body delivery_keys_not_repeated)
      (simp_all add: header_values_def retry_event_def Let_def)
  have "Atoi (Itoa n) = Some n" using assms by (intro Atoi_Itoa) (simp add: in_i64_def)
  then show "expectedFailureAttempt r = Inr (n + 1)"
    using retry_topic [OF assms(2,3)] assms(2,4)
    by (simp add: expectedFailureAttempt_def vals Let_def)
  show "RetryNotBefore l r = Inr (now + retryDelays ! nat (n - 1))"
    using retry_topic(1) [OF assms(2,3)] assms(1,4,6)
    by (simp add: RetryNotBefore_def vals lib_laws_def)
qed

lemma newEvent_ok:
  assumes "newEvent l v ty sv t producer ten proj runid aty aid av corr caus pay = Inr ev"
  shows "ValidateEnvelope l (oe_Envelope ev) = None" "oe_Serialized ev = lib_marshal l (oe_Envelope ev)"
    "env_Payload (oe_Envelope ev) = pay" "env_TenantID (oe_Envelope ev) = ten"
    "env_AggregateID (oe_Envelope ev) = aid" "env_EventType (oe_Envelope ev) = ty"
    "oe_Topic ev = AgentRunLifecycleTopic" "oe_PartitionKey ev = lib_String l aid"
  using assms
  by (auto simp: newEvent_def Let_def split: if_splits option.splits)

text \<open>What a dead letter shows of the record it quarantines.\<close>

fun dead_letter_of :: "OutboxEvent \<Rightarrow> DeadLetterPayload option" where
  "dead_letter_of ev =
    (case env_Payload (oe_Envelope ev) of DeadLetteredPayload p \<Rightarrow> Some p | _ \<Rightarrow> None)"

lemma Route_dlq_cases:
  assumes "Route l publish router f7 e7 source err n first now = (Inr RoutedDLQ, evs)"
  obtains ev0 where "evs = [ev0\<lparr>oe_Headers := [\<lparr>hd_Key = ''delivery-attempt'', hd_Value = Itoa n\<rparr>]\<rparr>]"
    "\<exists>p. publish (ev0\<lparr>oe_Headers := [\<lparr>hd_Key = ''delivery-attempt'', hd_Value = Itoa n\<rparr>]\<rparr>) = Inr p"
    "(if ValidateEnvelope l (re_Envelope source) = None
      then NewDeadLetter l f7 e7 \<lparr>src_Envelope = re_Envelope source, src_Topic = re_Topic source,
             src_Partition = re_Partition source, src_Offset = re_Offset source,
             src_Key = re_Key source, src_Headers = re_Headers source, src_Value = re_Value source\<rparr>
             (rt_consumerIdentity router) (fst (snd (classify err))) (snd (snd (classify err))) n first now
      else NewMalformedDeadLetter l f7 e7 \<lparr>src_Envelope = re_Envelope source, src_Topic = re_Topic source,
             src_Partition = re_Partition source, src_Offset = re_Offset source,
             src_Key = re_Key source, src_Headers = re_Headers source, src_Value = re_Value source\<rparr>
             (rt_quarantineTenantID router) (rt_consumerIdentity router) (fst (snd (classify err)))
             (snd (snd (classify err))) n first now) = Inr ev0"
proof -
  obtain perm code reason where c: "classify err = (perm, code, reason)" by (cases "classify err")
  from assms show thesis
    unfolding Route_def c Let_def prod.case
    by (auto simp: c split: if_splits sum.splits intro: that)
qed

section \<open>An example\<close>

text \<open>
  A small instance of the packages outside the repository: an identifier is printed by its
  last decimal digit, and one serialized event is known.
\<close>

definition ex_String :: "uuid \<Rightarrow> string" where
  "ex_String u = replicate 35 (CHR ''0'') @ [digit_char (unat u mod 10)]"

definition ex_envelope :: Envelope where
  "ex_envelope = \<lparr>env_EventID = 20, env_EventType = ''agent-run.cancel-requested.v1'',
     env_SchemaVersion = 1, env_OccurredAt = 50, env_OccurredZone = 0, env_Producer = ''platform-api'',
     env_TenantID = 1, env_ProjectID = Some 2, env_RunID = Some 7, env_AggregateType = ''AgentRun'',
     env_AggregateID = 7, env_AggregateVersion = 3, env_RequestID = [], env_Traceparent = [],
     env_Tracestate = [], env_CorrelationID = ''cmd-1'', env_CausationID = ''cmd-1'',
     env_Payload = CancelRequestedPayload \<lparr>cp_ProjectID = 2, cp_RunID = 7,
       cp_Status = AgentRunCancelling, cp_AttemptNumber = 1, cp_RequestedBy = ''dev'',
       cp_CommandID = ''cmd-1''\<rparr>\<rparr>"

definition ex_bytes :: string where
  "ex_bytes = ''{cancel-requested}''"

definition ex_lib :: lib where
  "ex_lib = \<lparr>lib_Version = (\<lambda>_. 7), lib_String = ex_String, lib_marshal = (\<lambda>_. ex_bytes),
     lib_unmarshal = (\<lambda>s. if s = ex_bytes then Some ex_envelope else None),
     lib_urlScheme = (\<lambda>_. Some ''s3''), lib_sha256 = (\<lambda>_. replicate 64 (CHR ''0'')),
     lib_formatTime = (\<lambda>t. nat_digits (nat t)),
     lib_parseTime = (\<lambda>s. map_option int (parse_unsigned s))\<rparr>"

definition ex_record :: KafkaRecord where
  "ex_record = \<lparr>kr_Topic = ''agentforge.agent-run.lifecycle.v1'', kr_Partition = 4, kr_LeaderEpoch = 0,
     kr_Offset = 17, kr_Key = ex_String 7, kr_Value = ex_bytes,
     kr_Headers = HeadersForEnvelope ex_lib ex_envelope\<rparr>"

definition ex_received :: ReceivedEvent where
  "ex_received = \<lparr>re_Envelope = ex_envelope, re_Topic = ''agentforge.agent-run.lifecycle.v1'',
     re_Partition = 4, re_LeaderEpoch = 0, re_Offset = 17, re_Key = ex_String 7,
     re_Headers = HeadersForEnvelope ex_lib ex_envelope, re_Value = ex_bytes\<rparr>"

definition ex_router :: Router where
  "ex_router = \<lparr>rt_consumerIdentity = ''handoff'', rt_quarantineTenantID = 9\<rparr>"

definition ex_event :: OutboxEvent where
  "ex_event = \<lparr>oe_Envelope = ex_envelope, oe_Topic = ''agentforge.agent-run.lifecycle.v1'',
     oe_PartitionKey = ex_String 7, oe_Headers = [], oe_Serialized = ex_bytes, oe_CreatedAt = 50\<rparr>"

definition ex_publish :: "OutboxEvent \<Rightarrow> PublicationError + PublicationResult" where
  "ex_publish = Publish ex_lib 1000 (\<lambda>_. Inr \<lparr>pub_Partition = 1, pub_Offset = 3\<rparr>)"

lemma ex_lib_laws: "lib_laws ex_lib"
proof -
  have "nat_digits (nat t) \<noteq> [] \<and> length (nat_digits (nat t)) \<le> 64 \<and>
      map_option int (parse_unsigned (nat_digits (nat t))) = Some t" if "rfc3339_year t" for t
  proof -
    from that have "nat t < 10 ^ 64" by (auto simp: rfc3339_year_def second_def)
    then show ?thesis
      using that nat_digits_length [of 64 "nat t"]
      by (simp add: parse_unsigned_def parse_nat_digits rfc3339_year_def)
  qed
  then show ?thesis
    by (simp add: lib_laws_def ex_lib_def ex_String_def nested_shorter_def ex_envelope_def ex_bytes_def)
qed

lemma ex_polled: "decodeRecord ex_lib 1000 ex_record = Polled ex_received"
  by code_simp

lemma ex_received_valid: "validateReceivedEvent ex_lib ex_received = None"
  by code_simp

lemma ex_received_id: "env_EventID (re_Envelope ex_received) = 20"
  by (simp add: ex_received_def ex_envelope_def)

lemma ex_received_range: "in_i64 (re_Partition ex_received)" "in_i64 (re_Offset ex_received)"
  by (simp_all add: ex_received_def in_i64_def)

lemma ex_published: "publish_record ex_lib 1000 ex_event = Inr (ex_record\<lparr>kr_Partition := 0, kr_Offset := 0\<rparr>)"
  by code_simp

definition ex_malformed :: ReceivedEvent where
  "ex_malformed = ex_received\<lparr>re_Envelope := zero_Envelope, re_Value := ''{secret''\<rparr>"

definition ex_accept :: "OutboxEvent \<Rightarrow> PublicationError + PublicationResult" where
  "ex_accept = (\<lambda>_. Inr \<lparr>pub_Partition = 1, pub_Offset = 3\<rparr>)"

lemma ex_quarantined:
  "fst (Route ex_lib ex_accept ex_router (Some 30) (Some 31) ex_malformed
     (newFailure ''INVALID'' ''invalid broker event'' True) 1 55 60) = Inr RoutedDLQ"
  by code_simp

lemma ex_valid: "ValidateEnvelope ex_lib ex_envelope = None"
  by code_simp

lemma ex_expected: "expectedFailureAttempt ex_received = Inr 1"
  by code_simp

lemma ex_failure:
  "classify (newFailure ''DB_DOWN'' ''database is unavailable'' False) =
     (False, ''DB_DOWN'', ''database is unavailable'')"
  by code_simp

lemma ex_routed:
  "Route ex_lib ex_publish ex_router (Some 30) (Some 31) ex_received
     (newFailure ''DB_DOWN'' ''database is unavailable'' False) 1 (55 * second) (60 * second) =
   (Inr RoutedRetry, [retry_event ex_lib ex_received 1 (60 * second)])"
proof -
  have "publish_record ex_lib 1000 (retry_event ex_lib ex_received 1 (60 * second)) \<noteq> Inl err" for err
    using retry_record(1) [OF ex_lib_laws ex_polled _ _ _ _ ex_expected, of "60 * second"]
    by (simp add: ex_received_def in_i64_def retryDelays_def rfc3339_year_def go_time)
  then have "ex_publish (retry_event ex_lib ex_received 1 (60 * second)) =
      Inr \<lparr>pub_Partition = 1, pub_Offset = 3\<rparr>"
    by (auto simp: ex_publish_def Publish_def split: sum.splits)
  moreover have "env_EventID (re_Envelope ex_received) \<noteq> uuid_Nil" "re_Envelope ex_received = ex_envelope"
    by (simp_all add: ex_received_def ex_envelope_def)
  ultimately show ?thesis
    using ex_valid ex_expected ex_failure
    by (simp add: Route_def Let_def IsZero_def go_time retryTopics_def)
qed

section \<open>Properties\<close>

text \<open>C23: A record the producer accepts is accepted by a consumer with the same message limit,
  wherever the broker stores it: it decodes to the event that was published, under the same
  topic and key, and the processed-event transaction accepts it.\<close>

theorem publish_consume_roundtrip:
  assumes "lib_laws l" "publish_record l m ev = Inr rec" "0 \<le> p" "0 \<le> off"
  shows "\<exists>r. decodeRecord l m (rec\<lparr>kr_Partition := p, kr_Offset := off, kr_LeaderEpoch := ep\<rparr>) = Polled r \<and>
    env_EventID (re_Envelope r) = env_EventID (oe_Envelope ev) \<and> re_Value r = oe_Serialized ev \<and>
    re_Topic r = oe_Topic ev \<and> validateReceivedEvent l r = None"
proof -
  from assms(2) obtain e where
    bc: "broker_contract l e (oe_Topic ev) (oe_PartitionKey ev)
      (HeadersForEnvelope l e @ oe_Headers ev) (oe_Serialized ev)"
    and size: "0 < length (oe_Serialized ev)" "length (oe_Serialized ev) \<le> m"
    and ident: "env_EventID e = env_EventID (oe_Envelope ev)"
    and r: "rec = \<lparr>kr_Topic = oe_Topic ev, kr_Partition = 0, kr_LeaderEpoch = 0, kr_Offset = 0,
      kr_Key = oe_PartitionKey ev, kr_Value = oe_Serialized ev,
      kr_Headers = HeadersForEnvelope l e @ oe_Headers ev\<rparr>"
    unfolding publish_record_iff by blast
  let ?r = "\<lparr>re_Envelope = e, re_Topic = oe_Topic ev, re_Partition = p, re_LeaderEpoch = ep,
    re_Offset = off, re_Key = oe_PartitionKey ev,
    re_Headers = HeadersForEnvelope l e @ oe_Headers ev, re_Value = oe_Serialized ev\<rparr>"
  have "decodeRecord l m (rec\<lparr>kr_Partition := p, kr_Offset := off, kr_LeaderEpoch := ep\<rparr>) = Polled ?r"
    unfolding decodeRecord_iff using bc size by (simp add: r)
  moreover have "validateReceivedEvent l ?r = None"
    using assms(1,3,4) bc by (intro validateReceived_contract) simp_all
  ultimately show ?thesis using ident by (intro exI [of _ ?r]) simp
qed

theorem publish_consume_roundtrip_witness:
  "\<exists>r. decodeRecord ex_lib 1000 (ex_record\<lparr>kr_Partition := 2, kr_Offset := 5, kr_LeaderEpoch := 1\<rparr>) = Polled r \<and>
     env_EventID (re_Envelope r) = 20"
  using publish_consume_roundtrip [OF ex_lib_laws ex_published, of 2 5 1]
  by (auto simp: ex_event_def ex_envelope_def)



text \<open>C24: A transient failure is retried at most three times.  When the router reports a retry, the
  attempt was at most the third, exactly one record was published, the producer accepts that
  record, and its redelivery carries the same event, the next attempt number and the time of the
  documented delay before which it must not be processed.\<close>

theorem Route_retry_ladder:
  assumes "lib_laws l" "decodeRecord l m rec0 = Polled source"
    "in_i64 (re_Partition source)" "in_i64 (re_Offset source)"
    "Route l publish router f7 e7 source err n first now = (Inr RoutedRetry, evs)"
    "rfc3339_year (now + retryDelays ! nat (n - 1))"
  shows "n \<le> 3 \<and> evs = [retry_event l source n now] \<and>
    (\<exists>rec. publish_record l m (retry_event l source n now) = Inr rec \<and>
      (\<exists>r. decodeRecord l m (rec\<lparr>kr_Partition := p, kr_Offset := off, kr_LeaderEpoch := ep\<rparr>) = Polled r \<and>
        re_Envelope r = re_Envelope source \<and> expectedFailureAttempt r = Inr (n + 1) \<and>
        RetryNotBefore l r = Inr (now + retryDelays ! nat (n - 1))))"
proof -
  note R = Route_retry_cases [OF assms(5)]
  note rec = retry_record [OF assms(1-4) R(1,2,4) assms(6)]
  let ?e = "re_Envelope source" and ?hs = "HeadersForEnvelope l (re_Envelope source) @
    oe_Headers (retry_event l source n now)"
  let ?r = "\<lparr>re_Envelope = ?e, re_Topic = retryTopics ! nat (n - 1), re_Partition = p,
    re_LeaderEpoch = ep, re_Offset = off, re_Key = lib_String l (env_AggregateID ?e),
    re_Headers = ?hs, re_Value = re_Value source\<rparr>"
  have "0 < length (re_Value source)" "length (re_Value source) \<le> m"
    using assms(2) by (auto simp: decodeRecord_iff)
  then have "decodeRecord l m (\<lparr>kr_Topic = retryTopics ! nat (n - 1), kr_Partition = p,
      kr_LeaderEpoch = ep, kr_Offset = off, kr_Key = lib_String l (env_AggregateID ?e),
      kr_Value = re_Value source, kr_Headers = ?hs\<rparr>) = Polled ?r"
    unfolding decodeRecord_iff using rec(2) by simp
  moreover have "expectedFailureAttempt ?r = Inr (n + 1)"
    "RetryNotBefore l ?r = Inr (now + retryDelays ! nat (n - 1))"
    by (rule retry_redelivery [OF assms(1) R(1,2) _ _ assms(6)]; simp)+
  ultimately show ?thesis using R(2,5) rec(1) by auto
qed

theorem Route_retry_ladder_witness:
  "\<exists>rec. publish_record ex_lib 1000 (retry_event ex_lib ex_received 1 (60 * second)) = Inr rec"
proof -
  have "rfc3339_year (60 * second + retryDelays ! nat (1 - 1))"
    by (simp add: retryDelays_def rfc3339_year_def go_time)
  from Route_retry_ladder [OF ex_lib_laws ex_polled ex_received_range ex_routed this, of 0 0 0]
  show ?thesis by blast
qed



end
