(* ===== verification/Db_Schema.thy ===== *)
theory Db_Schema
  imports Domain_Cluster Messaging
begin

text \<open>
  The PostgreSQL schema of the platform (\<^verbatim>\<open>db/migrations/000002\<close> to \<^verbatim>\<open>000013\<close>) as far as the
  repositories of \<^verbatim>\<open>services/platform-api/internal/adapters/postgres\<close> read and write it.  A
  table is the list of its rows in the order of their insertion, a transaction is a function
  of the database that fails as a whole or returns its value with the new database, and a
  violated constraint is the error \<^verbatim>\<open>translateError\<close> of \<^verbatim>\<open>projects.go\<close> makes of it.  Two
  transactions that lock the same rows run one after the other, so an interleaving is a
  sequence of transactions.  Times keep the resolution they are handed over with.
\<close>

section \<open>Statements\<close>

fun and_then :: "'e + 'a \<Rightarrow> ('a \<Rightarrow> 'e + 'b) \<Rightarrow> 'e + 'b" where
  "and_then (Inl e) k = Inl e"
| "and_then (Inr a) k = k a"

definition ensure :: "bool \<Rightarrow> 'e \<Rightarrow> 'e + unit" where
  "ensure c e = (if c then Inr () else Inl e)"

definition sql_update :: "('r \<Rightarrow> bool) \<Rightarrow> ('r \<Rightarrow> 'r) \<Rightarrow> 'r list \<Rightarrow> 'r list" where
  "sql_update P f rows = map (\<lambda>r. if P r then f r else r) rows"

definition sql_count :: "('r \<Rightarrow> bool) \<Rightarrow> 'r list \<Rightarrow> nat" where
  "sql_count P rows = length (filter P rows)"

definition sql_sum :: "('r \<Rightarrow> int) \<Rightarrow> ('r \<Rightarrow> bool) \<Rightarrow> 'r list \<Rightarrow> int" where
  "sql_sum f P rows = sum_list (map f (filter P rows))"

text \<open>\<open>QueryRow\<close> reads the first row of the result; without one it is \<^verbatim>\<open>sql.ErrNoRows\<close>.\<close>

fun first_row :: "'r list \<Rightarrow> 'r option" where
  "first_row [] = None"
| "first_row (r # _) = Some r"

definition sql_row :: "('r \<Rightarrow> bool) \<Rightarrow> 'r list \<Rightarrow> 'r option" where
  "sql_row P rows = first_row (filter P rows)"

text \<open>\<^verbatim>\<open>order by k desc limit 1\<close>: a row with the largest key, the last inserted of them.\<close>

fun latest :: "('r \<Rightarrow> int) \<Rightarrow> 'r list \<Rightarrow> 'r option" where
  "latest k [] = None"
| "latest k (r # rs) =
    (case latest k rs of None \<Rightarrow> Some r | Some m \<Rightarrow> if k r > k m then Some r else Some m)"

definition sql_latest :: "('r \<Rightarrow> int) \<Rightarrow> ('r \<Rightarrow> bool) \<Rightarrow> 'r list \<Rightarrow> 'r option" where
  "sql_latest k P rows = latest k (filter P rows)"

text \<open>The cases of \<^verbatim>\<open>translateError\<close> the model distinguishes.\<close>

datatype pg_error = NoRows | UniqueViolation | ForeignKeyViolation | InsufficientPrivilege | OtherFailure

fun translateError :: "pg_error \<Rightarrow> error" where
  "translateError NoRows = Sentinel ErrNotFound"
| "translateError UniqueViolation = Sentinel ErrConflict"
| "translateError ForeignKeyViolation = Sentinel ErrNotFound"
| "translateError InsufficientPrivilege = Sentinel ErrForbidden"
| "translateError OtherFailure = Plain ''PostgreSQL operation failed''"

definition required :: "'r option \<Rightarrow> 'r result" where
  "required r = (case r of None \<Rightarrow> Inl (translateError NoRows) | Some x \<Rightarrow> Inr x)"

text \<open>A transaction commits its changes, or returns an error and leaves the database as it was.\<close>

definition commits :: "('d \<Rightarrow> 'e + ('a \<times> 'd)) \<Rightarrow> 'd \<Rightarrow> ('e + 'a) \<times> 'd" where
  "commits tx d = (case tx d of Inl e \<Rightarrow> (Inl e, d) | Inr (a, d') \<Rightarrow> (Inr a, d'))"

section \<open>Tables\<close>

text \<open>
  The JSON column \<^verbatim>\<open>idempotency_response\<close> and \<^verbatim>\<open>last_command_response\<close>, by its fields
  (\<^verbatim>\<open>idempotencyResponse\<close> of \<^verbatim>\<open>agent_runs.go\<close>).
\<close>

record idempotencyResponse =
  ir_ID :: uuid
  ir_ProjectID :: uuid
  ir_Runtime :: string
  ir_CPUMillis :: int
  ir_MemoryMiB :: int
  ir_TimeoutSeconds :: int
  ir_MaxAttempts :: int
  ir_AttemptCount :: int
  ir_Status :: AgentRunStatus
  ir_CreatedAt :: gtime
  ir_UpdatedAt :: gtime

text \<open>
  \<^verbatim>\<open>agent_runs\<close>: the columns \<^verbatim>\<open>agentRunSelect\<close> reads as the domain value, where a null
  text is the empty string as \<^verbatim>\<open>coalesce\<close> makes it, and the remaining columns beside it.
\<close>

record RunRow =
  rr_Run :: AgentRun
  rr_Priority :: int
  rr_ExecutionProfile :: string
  rr_PreferredRegion :: "string option"
  rr_NextEligibleAt :: "gtime option"
  rr_LeaseOwner :: "string option"
  rr_LeaseExpiresAt :: "gtime option"
  rr_DecisionCode :: "string option"
  rr_DecisionReason :: "string option"
  rr_Strategy :: "string option"
  rr_SelectionScore :: "int option"
  rr_IdempotencyResponse :: "idempotencyResponse option"
  rr_LastCommandType :: "string option"
  rr_LastCommandID :: "string option"
  rr_LastCommandResponse :: "idempotencyResponse option"

datatype disposition = DispositionPending | DispositionPublished | DispositionTerminal

record OutboxRow =
  ob_EventID :: uuid
  ob_TenantID :: uuid
  ob_ProjectID :: "uuid option"
  ob_RunID :: "uuid option"
  ob_EventType :: string
  ob_SchemaVersion :: int
  ob_AggregateType :: string
  ob_AggregateID :: uuid
  ob_AggregateVersion :: int
  ob_Topic :: string
  ob_PartitionKey :: string
  ob_Envelope :: string
  ob_Disposition :: disposition
  ob_NextAttemptAt :: gtime
  ob_PublicationAttempts :: int
  ob_ClaimedBy :: "string option"
  ob_ClaimExpiresAt :: "gtime option"
  ob_PublishedAt :: "gtime option"
  ob_BrokerPartition :: "int option"
  ob_BrokerOffset :: "int option"
  ob_LastFailureCategory :: "string option"
  ob_LastFailureReason :: "string option"
  ob_LastFailureAt :: "gtime option"
  ob_CreatedAt :: gtime

record HandoffIntent =
  hi_EventID :: uuid
  hi_TenantID :: uuid
  hi_RunID :: uuid
  hi_AttemptID :: uuid
  hi_AttemptNumber :: int
  hi_ClusterID :: string
  hi_DesiredState :: AgentRunDesiredState
  hi_CreatedAt :: gtime

record EligibilityRow =
  er_ID :: uuid
  er_TenantID :: uuid
  er_RunID :: uuid
  er_AttemptNumber :: int
  er_RunVersion :: int
  er_Decision :: EligibilityDecision
  er_Usage :: SchedulingUsage
  er_EvaluatedAt :: gtime

record BudgetUsage =
  bu_TenantID :: uuid
  bu_UsageDate :: gtime
  bu_Spent :: int
  bu_Reserved :: int
  bu_UpdatedAt :: gtime

record db =
  db_tenants :: "(uuid \<times> string) list"  \<comment> \<open>id and status\<close>
  db_projects :: "(uuid \<times> uuid \<times> string) list"  \<comment> \<open>id, tenant and status\<close>
  db_policies :: "uuid \<Rightarrow> SchedulingPolicy option"
  db_runs :: "RunRow list"
  db_attempts :: "AgentRunAttempt list"
  db_clusters :: "ExecutionCluster list"
  db_snapshots :: "ClusterCapacity list"
  db_allowlist :: "(string \<times> uuid) list"
  db_capacity :: "CapacityReservation list"
  db_budget :: "BudgetReservation list"
  db_usage :: "BudgetUsage list"
  db_decisions :: "EligibilityRow list"
  db_outbox :: "OutboxRow list"
  db_handoff :: "HandoffIntent list"

text \<open>Rows are looked up by identity throughout.\<close>

abbreviation run_key :: "uuid \<Rightarrow> uuid \<Rightarrow> RunRow \<Rightarrow> bool" where
  "run_key tenantID runID r \<equiv> run_TenantID (rr_Run r) = tenantID \<and> run_ID (rr_Run r) = runID"

abbreviation rr_Status :: "RunRow \<Rightarrow> AgentRunStatus" where
  "rr_Status r \<equiv> run_Status (rr_Run r)"

abbreviation rr_Version :: "RunRow \<Rightarrow> int" where
  "rr_Version r \<equiv> run_Version (rr_Run r)"

section \<open>Constraints of the runs table\<close>

text \<open>
  \<^verbatim>\<open>trim\<close> of SQL strips spaces, \<^verbatim>\<open>length\<close> counts the characters of a UTF-8 text, that is its
  bytes other than continuation bytes; a text within a check constraint is not blank.
\<close>

definition sql_trim :: "string \<Rightarrow> string" where
  "sql_trim s = rev (dropWhile (\<lambda>c. c = CHR '' '') (rev (dropWhile (\<lambda>c. c = CHR '' '') s)))"

definition char_length :: "string \<Rightarrow> nat" where
  "char_length s = length (filter (\<lambda>c. of_char c < (128 :: nat) \<or> of_char c \<ge> (192 :: nat)) s)"

definition text_ok :: "nat \<Rightarrow> string \<Rightarrow> bool" where
  "text_ok maximum s \<longleftrightarrow> sql_trim s \<noteq> [] \<and> char_length (sql_trim s) \<le> maximum"

definition optional :: "('a \<Rightarrow> bool) \<Rightarrow> 'a option \<Rightarrow> bool" where
  "optional P v = (case v of None \<Rightarrow> True | Some x \<Rightarrow> P x)"

text \<open>
  The check constraints on \<^verbatim>\<open>agent_runs\<close>: first those on the columns a run is created with and
  that no operation writes again, then those on its state.
\<close>

definition request_checks :: "AgentRun \<Rightarrow> int \<Rightarrow> bool" where
  "request_checks run priority \<longleftrightarrow> text_ok 2048 (run_PromptReference run) \<and> text_ok 120 (run_Runtime run) \<and>
     1 \<le> run_CPUMillis run \<and> run_CPUMillis run \<le> 128000 \<and>
     1 \<le> run_MemoryMiB run \<and> run_MemoryMiB run \<le> 524288 \<and>
     1 \<le> run_TimeoutSeconds run \<and> run_TimeoutSeconds run \<le> 86400 \<and>
     1 \<le> run_MaxAttempts run \<and> run_MaxAttempts run \<le> 10 \<and>
     text_ok 255 (run_IdempotencyKey run) \<and> text_ok 128 (run_RequestHash run) \<and>
     text_ok 255 (run_CreatedBy run) \<and> - 100 \<le> priority \<and> priority \<le> 100"

definition status_checks :: "AgentRun \<Rightarrow> bool" where
  "status_checks run \<longleftrightarrow>
     1 \<le> run_AttemptCount run \<and> run_AttemptCount run \<le> run_MaxAttempts run \<and>
     named_status (run_Status run) \<and>
     (run_FailureCategory run = FailureNone \<or> FailureCategory_IsValid (run_FailureCategory run)) \<and>
     (failed_status (run_Status run) \<longleftrightarrow> run_FailureCategory run \<noteq> FailureNone) \<and>
     run_Version run > 0 \<and>
     (run_Status run = AgentRunCancelling \<or> run_Status run = AgentRunCancelled \<longleftrightarrow>
        run_CancellationRequestedAt run \<noteq> None)"

definition lease_checks :: "AgentRunStatus \<Rightarrow> string option \<Rightarrow> gtime option \<Rightarrow> bool" where
  "lease_checks status owner expires \<longleftrightarrow> (owner = None \<longleftrightarrow> expires = None) \<and>
     optional (text_ok 160) owner \<and> (status = AgentRunScheduling \<longleftrightarrow> owner \<noteq> None)"

definition decision_checks :: "string option \<Rightarrow> string option \<Rightarrow> string option \<Rightarrow> int option \<Rightarrow> bool" where
  "decision_checks code reason strategy score \<longleftrightarrow> optional (text_ok 80) code \<and> optional (text_ok 500) reason \<and>
     optional (text_ok 80) strategy \<and> optional (\<lambda>n. 0 \<le> n) score"

definition command_checks :: "string option \<Rightarrow> string option \<Rightarrow> idempotencyResponse option \<Rightarrow> bool" where
  "command_checks kind commandID response \<longleftrightarrow>
     kind = None \<and> commandID = None \<and> response = None \<or>
     (kind = Some ''CANCEL'' \<or> kind = Some ''RETRY'') \<and> commandID \<noteq> None \<and>
     optional (text_ok 255) commandID \<and> response \<noteq> None"

definition row_checks :: "RunRow \<Rightarrow> bool" where
  "row_checks r \<longleftrightarrow> request_checks (rr_Run r) (rr_Priority r) \<and> status_checks (rr_Run r) \<and>
     lease_checks (rr_Status r) (rr_LeaseOwner r) (rr_LeaseExpiresAt r) \<and>
     decision_checks (rr_DecisionCode r) (rr_DecisionReason r) (rr_Strategy r) (rr_SelectionScore r) \<and>
     command_checks (rr_LastCommandType r) (rr_LastCommandID r) (rr_LastCommandResponse r)"

section \<open>Facts about statements\<close>

named_theorems tx_simps

lemma and_then_Inr [tx_simps]: "and_then m k = Inr b \<longleftrightarrow> (\<exists>a. m = Inr a \<and> k a = Inr b)"
  by (cases m) auto

lemma ensure_Inr [tx_simps]: "ensure c e = Inr u \<longleftrightarrow> c"
  by (simp add: ensure_def)

lemma ensure_Inl [tx_simps]: "ensure c e = Inl e' \<longleftrightarrow> \<not> c \<and> e' = e"
  by (auto simp: ensure_def)

lemma required_Inr [tx_simps]: "required r = Inr x \<longleftrightarrow> r = Some x"
  by (simp add: required_def split: option.splits)

lemma ensure_True [simp]: "ensure True e = Inr ()"
  by (simp add: ensure_def)

lemma required_Some [simp]: "required (Some x) = Inr x"
  by (simp add: required_def)

lemma commits_Inr: "commits tx d = (Inr a, d') \<longleftrightarrow> tx d = Inr (a, d')"
  by (auto simp: commits_def split: sum.splits)

lemma commits_Inl: "commits tx d = (Inl e, d') \<longleftrightarrow> tx d = Inl e \<and> d' = d"
  by (auto simp: commits_def split: sum.splits)

lemma commits_unit:
  "snd (commits (\<lambda>d. and_then (tx d) (\<lambda>(_, d'). Inr ((), d'))) d) = snd (commits tx d)"
  by (cases "tx d") (auto simp: commits_def)

lemma sql_row_Some: "sql_row P rows = Some r \<Longrightarrow> r \<in> set rows \<and> P r"
  by (induction rows) (auto simp: sql_row_def split: if_splits)

lemma sql_row_None [simp]: "sql_row P rows = None \<longleftrightarrow> (\<forall>r \<in> set rows. \<not> P r)"
  by (induction rows) (auto simp: sql_row_def)

lemma sql_row_unique:
  assumes "r \<in> set rows" "P r" "\<And>r'. r' \<in> set rows \<Longrightarrow> P r' \<Longrightarrow> r' = r"
  shows "sql_row P rows = Some r"
proof (cases "sql_row P rows")
  case None
  then have "\<not> P r" using assms(1) by simp
  then show ?thesis using assms(2) by contradiction
next
  case (Some r')
  then show ?thesis using assms(3) sql_row_Some [OF Some] by simp
qed

lemma map_filter_all: "(\<And>x. x \<in> set xs \<Longrightarrow> f x = Some (g x)) \<Longrightarrow> List.map_filter f xs = map g xs"
  by (induction xs) (simp_all add: map_filter_simps)

lemma distinct_map_eq: "distinct (map f xs) \<Longrightarrow> x \<in> set xs \<Longrightarrow> y \<in> set xs \<Longrightarrow> f x = f y \<Longrightarrow> x = y"
  by (auto simp: distinct_map dest: inj_onD)

lemma latest_None [simp]: "latest k rs = None \<longleftrightarrow> rs = []"
  by (cases rs) (auto split: option.splits)

lemma latest_Some: "latest k rs = Some m \<Longrightarrow> m \<in> set rs \<and> (\<forall>r \<in> set rs. k r \<le> k m)"
proof (induction rs arbitrary: m)
  case (Cons x rs)
  show ?case
  proof (cases "latest k rs")
    case None
    then show ?thesis using Cons.prems by simp
  next
    case (Some y)
    then have y: "y \<in> set rs" "\<forall>r \<in> set rs. k r \<le> k y" using Cons.IH by blast+
    show ?thesis
    proof (cases "k y < k x")
      case True
      then have "m = x" using Some Cons.prems by simp
      moreover have "\<forall>r \<in> set rs. k r \<le> k x" using y(2) True by (meson order.trans less_imp_le)
      ultimately show ?thesis by simp
    next
      case False
      then have "m = y" using Some Cons.prems by simp
      then show ?thesis using y False by simp
    qed
  qed
qed simp

lemma sql_latest_Some:
  "sql_latest k P rows = Some m \<Longrightarrow> m \<in> set rows \<and> P m \<and> (\<forall>r \<in> set rows. P r \<longrightarrow> k r \<le> k m)"
  unfolding sql_latest_def by (auto dest: latest_Some)

lemma sql_sum_Nil [simp]: "sql_sum f P [] = 0"
  by (simp add: sql_sum_def)

lemma sql_sum_Cons [simp]: "sql_sum f P (r # rs) = (if P r then f r else 0) + sql_sum f P rs"
  by (simp add: sql_sum_def)

lemma sql_sum_append [simp]: "sql_sum f P (rs @ rs') = sql_sum f P rs + sql_sum f P rs'"
  by (simp add: sql_sum_def)

lemma sql_sum_nonneg: "(\<And>r. r \<in> set rs \<Longrightarrow> 0 \<le> f r) \<Longrightarrow> 0 \<le> sql_sum f P rs"
  by (induction rs) simp_all

lemma sql_sum_mono:
  assumes "\<And>r. r \<in> set rs \<Longrightarrow> 0 \<le> f r" "\<And>r. r \<in> set rs \<Longrightarrow> P r \<Longrightarrow> Q r"
  shows "sql_sum f P rs \<le> sql_sum f Q rs"
  using assms
proof (induction rs)
  case (Cons r rs)
  then have "sql_sum f P rs \<le> sql_sum f Q rs" by simp
  moreover have "(if P r then f r else 0) \<le> (if Q r then f r else 0)" using Cons.prems by simp
  ultimately show ?case by simp
qed simp

lemma sql_sum_member_le:
  assumes "\<And>r. r \<in> set rs \<Longrightarrow> 0 \<le> f r" "r \<in> set rs" "P r"
  shows "f r \<le> sql_sum f P rs"
  using assms
proof (induction rs)
  case (Cons x rs)
  have n: "0 \<le> sql_sum f P rs" using Cons.prems by (intro sql_sum_nonneg) simp
  show ?case
  proof (cases "x = r")
    case True
    then show ?thesis using n Cons.prems by simp
  next
    case False
    then show ?thesis using Cons by fastforce
  qed
qed simp

lemma length_sql_update [simp]: "length (sql_update P f rows) = length rows"
  by (simp add: sql_update_def)

lemma map_sql_update:
  "(\<And>r. P r \<Longrightarrow> key (f r) = key r) \<Longrightarrow> map key (sql_update P f rows) = map key rows"
  by (simp add: sql_update_def)

lemma sql_update_none: "(\<And>r. r \<in> set rows \<Longrightarrow> \<not> P r) \<Longrightarrow> sql_update P f rows = rows"
  by (induction rows) (auto simp: sql_update_def)

text \<open>A sum after the update of the one row with a key.\<close>

lemma sql_sum_update:
  assumes "distinct (map key rows)" "r \<in> set rows"
  shows "sql_sum f Q (sql_update (\<lambda>x. key x = key r) g rows) =
    sql_sum f Q rows - (if Q r then f r else 0) + (if Q (g r) then f (g r) else 0)"
  using assms
proof (induction rows)
  case (Cons x rows)
  show ?case
  proof (cases "x = r")
    case True
    then have "\<And>y. y \<in> set rows \<Longrightarrow> key y \<noteq> key r" using Cons.prems(1) by (auto simp: image_iff)
    then have "sql_update (\<lambda>x. key x = key r) g rows = rows" by (rule sql_update_none)
    then show ?thesis using True by (simp add: sql_update_def)
  next
    case False
    then have "r \<in> set rows" "key x \<noteq> key r" using Cons.prems by force+
    then show ?thesis using Cons by (simp add: sql_update_def)
  qed
qed simp

lemma optional_simps [simp]: "optional P None" "optional P (Some x) = P x"
  by (simp_all add: optional_def)

text \<open>The columns a constraint does not mention do not matter to it.\<close>

lemma request_checks_state [simp]:
  "request_checks (run\<lparr>run_Status := s\<rparr>) p = request_checks run p"
  "request_checks (run\<lparr>run_Version := v\<rparr>) p = request_checks run p"
  "request_checks (run\<lparr>run_UpdatedAt := t\<rparr>) p = request_checks run p"
  "request_checks (run\<lparr>run_CompletedAt := c\<rparr>) p = request_checks run p"
  "request_checks (run\<lparr>run_AttemptCount := n\<rparr>) p = request_checks run p"
  "request_checks (run\<lparr>run_FailureCategory := f\<rparr>) p = request_checks run p"
  "request_checks (run\<lparr>run_CancellationReason := x\<rparr>) p = request_checks run p"
  "request_checks (run\<lparr>run_CancellationRequestedBy := x\<rparr>) p = request_checks run p"
  "request_checks (run\<lparr>run_CancellationRequestedAt := y\<rparr>) p = request_checks run p"
  by (simp_all add: request_checks_def)

lemma status_checks_times [simp]:
  "status_checks (run\<lparr>run_UpdatedAt := t\<rparr>) = status_checks run"
  "status_checks (run\<lparr>run_CompletedAt := c\<rparr>) = status_checks run"
  "status_checks (run\<lparr>run_CancellationReason := x\<rparr>) = status_checks run"
  "status_checks (run\<lparr>run_CancellationRequestedBy := x\<rparr>) = status_checks run"
  by (simp_all add: status_checks_def)

lemma status_checks_version: "status_checks run \<Longrightarrow> 0 < v \<Longrightarrow> status_checks (run\<lparr>run_Version := v\<rparr>)"
  by (simp add: status_checks_def)

text \<open>Between two statuses that need neither a failure category nor a cancellation request.\<close>

definition plain_status :: "AgentRunStatus \<Rightarrow> bool" where
  "plain_status s \<longleftrightarrow> named_status s \<and> \<not> failed_status s \<and> s \<noteq> AgentRunCancelling \<and> s \<noteq> AgentRunCancelled"

lemma status_checks_plain:
  "status_checks run \<Longrightarrow> plain_status (run_Status run) \<Longrightarrow> plain_status s \<Longrightarrow> status_checks (run\<lparr>run_Status := s\<rparr>)"
  unfolding status_checks_def plain_status_def by simp

lemma plain_statuses [simp]:
  "plain_status AgentRunQueued" "plain_status AgentRunScheduling" "plain_status AgentRunCapacityWait"
  "plain_status AgentRunProvisioning"
  by (simp_all add: plain_status_def failed_status_def)

lemma char_length_le: "char_length s \<le> length s"
  by (simp add: char_length_def)

lemma sql_trim_length: "length (sql_trim s) \<le> length s"
proof -
  have "length (dropWhile P xs) \<le> length xs" for P and xs :: string
    using length_append [of "takeWhile P xs" "dropWhile P xs"] by simp
  then show ?thesis unfolding sql_trim_def by (metis length_rev order.trans)
qed

lemma sql_trim_Nil: "sql_trim s = [] \<longleftrightarrow> (\<forall>c \<in> set s. c = CHR '' '')"
proof -
  have "dropWhile (\<lambda>c. c = CHR '' '') xs = [] \<longleftrightarrow> (\<forall>c \<in> set xs. c = CHR '' '')" for xs
    by (simp add: dropWhile_eq_Nil_conv)
  moreover have "(\<forall>c \<in> set (dropWhile (\<lambda>c. c = CHR '' '') s). c = CHR '' '') \<longleftrightarrow> (\<forall>c \<in> set s. c = CHR '' '')"
    by (induction s) auto
  ultimately show ?thesis by (simp add: sql_trim_def)
qed

text \<open>A text that is not blank for \<^verbatim>\<open>strings.TrimSpace\<close> passes the constraint.\<close>

lemma text_ok_TrimSpace:
  assumes "TrimSpace s \<noteq> []" "length s \<le> n"
  shows "text_ok n s"
proof -
  obtain c t where ct: "TrimSpace s = c # t" using assms(1) by (cases "TrimSpace s") auto
  have "\<not> prefix [CHR '' ''] (TrimSpace s)"
    using TrimSpace_lead [of s] unfolding lead_length_0_iff by (simp add: space_encodings_def)
  then have "c \<noteq> CHR '' ''" by (simp add: ct)
  moreover have "c \<in> set s" using set_mono_sublist [OF TrimSpace_sublist, of s] by (simp add: ct)
  ultimately have "sql_trim s \<noteq> []" by (auto simp: sql_trim_Nil)
  moreover have "char_length (sql_trim s) \<le> n"
    using char_length_le [of "sql_trim s"] sql_trim_length [of s] assms(2) by simp
  ultimately show ?thesis by (simp add: text_ok_def)
qed

section \<open>An example database\<close>

definition ex_node :: ExecutionCluster where
  "ex_node = \<lparr>cl_ID = ''cluster-a'', cl_Region = ''eu'', cl_Status = ClusterActive,
     cl_SupportedRuntimes = [''go1.24''], cl_SupportedExecutionProfiles = [''small''],
     cl_Maintenance = False, cl_TenantRestricted = False, cl_SchedulingWeight = 100,
     cl_CPUCostMinorUnits = 1, cl_MemoryGiBCostMinorUnits = 1, cl_LastHeartbeatAt = 90,
     cl_Version = 1, cl_CreatedAt = 50, cl_UpdatedAt = 90\<rparr>"

definition ex_snapshot :: ClusterCapacity where
  "ex_snapshot = \<lparr>cap_ClusterID = ''cluster-a'', cap_ObservedAt = 90, cap_AllocatableCPUMillis = 600,
     cap_AllocatableMemoryMiB = 1024, cap_QueuedWorkloads = 0\<rparr>"

definition ex_row :: RunRow where
  "ex_row = \<lparr>rr_Run = ex_run, rr_Priority = 0, rr_ExecutionProfile = ''small'', rr_PreferredRegion = None,
     rr_NextEligibleAt = None, rr_LeaseOwner = None, rr_LeaseExpiresAt = None, rr_DecisionCode = None,
     rr_DecisionReason = None, rr_Strategy = None, rr_SelectionScore = None,
     rr_IdempotencyResponse = None, rr_LastCommandType = None, rr_LastCommandID = None,
     rr_LastCommandResponse = None\<rparr>"

definition ex_db :: db where
  "ex_db = \<lparr>db_tenants = [(1, ''ACTIVE'')], db_projects = [(2, 1, ''ACTIVE'')],
     db_policies = (\<lambda>t. if t = 1 then Some ex_policy else None),
     db_runs = [ex_row, ex_row\<lparr>rr_Run := ex_run\<lparr>run_ID := 9, run_IdempotencyKey := ''key-2''\<rparr>\<rparr>],
     db_attempts = [ex_attempt, ex_attempt\<lparr>att_ID := 10, att_RunID := 9\<rparr>],
     db_clusters = [ex_node], db_snapshots = [ex_snapshot], db_allowlist = [],
     db_capacity = [], db_budget = [], db_usage = [], db_decisions = [], db_outbox = [], db_handoff = []\<rparr>"

end
