(* ===== verification/Reservations.thy ===== *)
theory Reservations
  imports Db_Schema
begin

text \<open>
  The capacity and budget ledger
  (\<^verbatim>\<open>services/platform-api/internal/adapters/postgres/reservations.go\<close>): reserving,
  releasing, settling and reclaiming the resources of an attempt.  The tables are related
  to an abstract ledger, a list of bookings that is only extended within the limits and
  whose open bookings are closed once; the budget usage of a tenant and day is what the
  bookings add up to.
\<close>

section \<open>Requests\<close>

record ReservationRequest =
  rsv_TenantID :: uuid
  rsv_RunID :: uuid
  rsv_AttemptID :: uuid
  rsv_AttemptNumber :: int
  rsv_ClusterID :: string
  rsv_CPUMillis :: int
  rsv_MemoryMiB :: int
  rsv_BudgetMinorUnits :: int
  rsv_Now :: gtime
  rsv_TTL :: duration

definition validateReservationRequest :: "ReservationRequest \<Rightarrow> error option" where
  "validateReservationRequest request =
    (if rsv_TenantID request = uuid_Nil \<or> rsv_RunID request = uuid_Nil \<or>
        rsv_AttemptID request = uuid_Nil \<or> rsv_AttemptNumber request < 1 \<or>
        rsv_ClusterID request = [] \<or> rsv_CPUMillis request < 1 \<or>
        rsv_CPUMillis request > 128000 \<or> rsv_MemoryMiB request < 1 \<or>
        rsv_MemoryMiB request > 524288 \<or> rsv_BudgetMinorUnits request < 0 \<or>
        IsZero (rsv_Now request) \<or> rsv_TTL request \<le> 0 \<or> rsv_TTL request > 24 * hour then
       Some (Plain ''reservation request is invalid'')
     else None)"

definition Truncate :: "gtime \<Rightarrow> duration \<Rightarrow> gtime" where
  "Truncate t d = t - t mod d"

text \<open>The two identifiers \<^verbatim>\<open>uuid.NewV7\<close> returns are arguments.\<close>

definition newReservationBundle ::
  "lib \<Rightarrow> uuid option \<times> uuid option \<Rightarrow> ReservationRequest \<Rightarrow> gtime \<Rightarrow> ReservationBundle result" where
  "newReservationBundle L ids request usageDate =
    (case ids of
       (Some capacityID, Some budgetID) \<Rightarrow>
         let expires = rsv_Now request + rsv_TTL request;
           capacity = \<lparr>cr_ID = capacityID, cr_TenantID = rsv_TenantID request,
             cr_RunID = rsv_RunID request, cr_AttemptID = rsv_AttemptID request,
             cr_AttemptNumber = rsv_AttemptNumber request, cr_ClusterID = rsv_ClusterID request,
             cr_CPUMillis = rsv_CPUMillis request, cr_MemoryMiB = rsv_MemoryMiB request,
             cr_State = ReservationReserved, cr_ExpiresAt = expires,
             cr_CreatedAt = rsv_Now request, cr_SettledAt = None, cr_ReleasedAt = None\<rparr> in
         (case Reservation_Validate (lib_Version L) capacity (rsv_Now request) of
            Some err \<Rightarrow> Inl err
          | None \<Rightarrow>
              Inr \<lparr>rb_Capacity = capacity,
                rb_Budget = \<lparr>br_ID = budgetID, br_CapacityReservationID = capacityID,
                  br_TenantID = rsv_TenantID request, br_RunID = rsv_RunID request,
                  br_AttemptNumber = rsv_AttemptNumber request, br_UsageDate = usageDate,
                  br_AmountMinorUnits = rsv_BudgetMinorUnits request,
                  br_State = ReservationReserved, br_ExpiresAt = expires,
                  br_CreatedAt = rsv_Now request, br_SettledAt = None,
                  br_ReleasedAt = None\<rparr>\<rparr>)
     | _ \<Rightarrow> Inl (Plain ''uuid generation failed''))"

section \<open>Statements on the ledger tables\<close>

text \<open>The join of the two tables; \<^verbatim>\<open>capacity_reservation_id\<close> is unique.\<close>

definition joined :: "db \<Rightarrow> (CapacityReservation \<times> BudgetReservation) list" where
  "joined d = List.map_filter (\<lambda>c. map_option (Pair c)
     (sql_row (\<lambda>b. br_CapacityReservationID b = cr_ID c) (db_budget d))) (db_capacity d)"

definition of_attempt :: "uuid \<Rightarrow> uuid \<Rightarrow> int \<Rightarrow> CapacityReservation \<Rightarrow> bool" where
  "of_attempt tenantID runID attemptNumber c \<longleftrightarrow>
     cr_TenantID c = tenantID \<and> cr_RunID c = runID \<and> cr_AttemptNumber c = attemptNumber"

definition findActiveReservation :: "ReservationRequest \<Rightarrow> db \<Rightarrow> ReservationBundle option" where
  "findActiveReservation request d =
    map_option
      (\<lambda>(c, b). \<lparr>rb_Capacity = c\<lparr>cr_SettledAt := None, cr_ReleasedAt := None\<rparr>,
         rb_Budget = b\<lparr>br_TenantID := cr_TenantID c, br_RunID := cr_RunID c,
           br_AttemptNumber := cr_AttemptNumber c, br_SettledAt := None, br_ReleasedAt := None\<rparr>\<rparr>)
      (sql_row (\<lambda>(c, b). of_attempt (rsv_TenantID request) (rsv_RunID request)
          (rsv_AttemptNumber request) c \<and> cr_State c = ReservationReserved) (joined d))"

definition latest_snapshot :: "string \<Rightarrow> db \<Rightarrow> ClusterCapacity option" where
  "latest_snapshot clusterID d =
    sql_latest cap_ObservedAt (\<lambda>s. cap_ClusterID s = clusterID) (db_snapshots d)"

definition holds_capacity :: "string \<Rightarrow> gtime \<Rightarrow> CapacityReservation \<Rightarrow> bool" where
  "holds_capacity clusterID now c \<longleftrightarrow>
     cr_ClusterID c = clusterID \<and> cr_State c = ReservationReserved \<and> cr_ExpiresAt c > now"

definition usage_key :: "uuid \<Rightarrow> gtime \<Rightarrow> BudgetUsage \<Rightarrow> bool" where
  "usage_key tenantID usageDate u \<longleftrightarrow> bu_TenantID u = tenantID \<and> bu_UsageDate u = usageDate"

definition insert_usage :: "uuid \<Rightarrow> gtime \<Rightarrow> gtime \<Rightarrow> db \<Rightarrow> db result" where
  "insert_usage tenantID usageDate now d =
    (if \<exists>u \<in> set (db_usage d). usage_key tenantID usageDate u then Inr d
     else and_then (ensure (tenantID \<in> fst ` set (db_tenants d)) (translateError ForeignKeyViolation))
       (\<lambda>_. Inr (d\<lparr>db_usage := db_usage d @
          [\<lparr>bu_TenantID = tenantID, bu_UsageDate = usageDate, bu_Spent = 0, bu_Reserved = 0,
            bu_UpdatedAt = now\<rparr>]\<rparr>)))"

text \<open>The check constraints and the range of the columns of \<^verbatim>\<open>tenant_daily_budget_usage\<close>.\<close>

definition usage_row_ok :: "BudgetUsage \<Rightarrow> bool" where
  "usage_row_ok u \<longleftrightarrow> 0 \<le> bu_Spent u \<and> 0 \<le> bu_Reserved u \<and> in_i64 (bu_Spent u) \<and> in_i64 (bu_Reserved u)"

definition update_usage :: "uuid \<Rightarrow> gtime \<Rightarrow> int \<Rightarrow> int \<Rightarrow> gtime \<Rightarrow> db \<Rightarrow> db result" where
  "update_usage tenantID usageDate spent reserved now d =
    (let rows = sql_update (usage_key tenantID usageDate)
       (\<lambda>u. u\<lparr>bu_Spent := bu_Spent u + spent, bu_Reserved := bu_Reserved u + reserved,
              bu_UpdatedAt := now\<rparr>) (db_usage d) in
     and_then (ensure (\<forall>u \<in> set rows. usage_key tenantID usageDate u \<longrightarrow> usage_row_ok u)
         (translateError OtherFailure))
       (\<lambda>_. Inr (d\<lparr>db_usage := rows\<rparr>)))"

text \<open>
  The two inserts with the constraints of \<^verbatim>\<open>000008_scheduler_reservations.up.sql\<close>: the
  version of the identifier, the primary key, the unique active reservation of an attempt,
  and the references.
\<close>

definition same_active :: "CapacityReservation \<Rightarrow> CapacityReservation \<Rightarrow> bool" where
  "same_active c c' \<longleftrightarrow> cr_State c' = ReservationReserved \<and>
     cr_RunID c' = cr_RunID c \<and> cr_AttemptNumber c' = cr_AttemptNumber c"

definition insert_capacity :: "lib \<Rightarrow> CapacityReservation \<Rightarrow> db \<Rightarrow> db result" where
  "insert_capacity L c d =
    and_then (ensure (lib_Version L (cr_ID c) = 7 \<and> cr_AttemptNumber c > 0 \<and> cr_CPUMillis c > 0 \<and>
        cr_MemoryMiB c > 0) (translateError OtherFailure)) (\<lambda>_.
    and_then (ensure (\<forall>c' \<in> set (db_capacity d). cr_ID c' \<noteq> cr_ID c \<and> \<not> same_active c c')
        (translateError UniqueViolation)) (\<lambda>_.
    and_then (ensure ((\<exists>a \<in> set (db_attempts d). att_ID a = cr_AttemptID c) \<and>
          (\<exists>r \<in> set (db_runs d). run_key (cr_TenantID c) (cr_RunID c) r) \<and>
          (\<exists>k \<in> set (db_clusters d). cl_ID k = cr_ClusterID c))
        (translateError ForeignKeyViolation)) (\<lambda>_.
    Inr (d\<lparr>db_capacity := db_capacity d @ [c]\<rparr>))))"

definition insert_budget :: "lib \<Rightarrow> BudgetReservation \<Rightarrow> db \<Rightarrow> db result" where
  "insert_budget L b d =
    and_then (ensure (lib_Version L (br_ID b) = 7 \<and> br_AmountMinorUnits b \<ge> 0 \<and> br_AttemptNumber b > 0)
        (translateError OtherFailure)) (\<lambda>_.
    and_then (ensure (\<forall>b' \<in> set (db_budget d). br_ID b' \<noteq> br_ID b \<and>
          br_CapacityReservationID b' \<noteq> br_CapacityReservationID b \<and>
          \<not> (br_State b' = ReservationReserved \<and> br_RunID b' = br_RunID b \<and>
             br_AttemptNumber b' = br_AttemptNumber b))
        (translateError UniqueViolation)) (\<lambda>_.
    and_then (ensure ((\<exists>c \<in> set (db_capacity d). cr_ID c = br_CapacityReservationID b) \<and>
          (\<exists>r \<in> set (db_runs d). run_key (br_TenantID b) (br_RunID b) r))
        (translateError ForeignKeyViolation)) (\<lambda>_.
    Inr (d\<lparr>db_budget := db_budget d @ [b]\<rparr>))))"

definition insertReservationBundle :: "lib \<Rightarrow> ReservationBundle \<Rightarrow> db \<Rightarrow> db result" where
  "insertReservationBundle L bundle d =
    and_then (insert_capacity L (rb_Capacity bundle) d) (insert_budget L (rb_Budget bundle))"

section \<open>Reserve\<close>

text \<open>
  From the capacity check to the update of the usage row, the statements of \<^verbatim>\<open>Reserve\<close>
  (\<^verbatim>\<open>reservations.go\<close>, lines 57 to 87) and of \<^verbatim>\<open>Schedule\<close> (\<^verbatim>\<open>scheduling_intent.go\<close>, lines 86
  to 114) are the same; \<open>limit\<close> is the budget of the policy row.
\<close>

definition book ::
  "lib \<Rightarrow> uuid option \<times> uuid option \<Rightarrow> ReservationRequest \<Rightarrow> ClusterCapacity \<Rightarrow> int \<Rightarrow> db \<Rightarrow>
   (ReservationBundle \<times> db) result" where
  "book L ids request snapshot limit d =
    (let reservedCPU = sql_sum cr_CPUMillis (holds_capacity (rsv_ClusterID request) (rsv_Now request)) (db_capacity d);
       reservedMemory = sql_sum cr_MemoryMiB (holds_capacity (rsv_ClusterID request) (rsv_Now request)) (db_capacity d) in
     if \<not> in_i64 reservedCPU \<or> \<not> in_i64 reservedMemory then Inl (translateError OtherFailure)
     else if i64 (cap_AllocatableCPUMillis snapshot - reservedCPU) < rsv_CPUMillis request \<or>
        i64 (cap_AllocatableMemoryMiB snapshot - reservedMemory) < rsv_MemoryMiB request then
       Inl (Sentinel ErrCapacityUnavailable)
     else let usageDate = Truncate (rsv_Now request) (24 * hour) in
     and_then (insert_usage (rsv_TenantID request) usageDate (rsv_Now request) d) (\<lambda>d1.
     and_then (required (sql_row (usage_key (rsv_TenantID request) usageDate) (db_usage d1))) (\<lambda>u.
     if rsv_BudgetMinorUnits request > i64 (i64 (limit - bu_Spent u) - bu_Reserved u) then
       Inl (Sentinel ErrBudgetUnavailable)
     else
     and_then (newReservationBundle L ids request usageDate) (\<lambda>bundle.
     and_then (insertReservationBundle L bundle d1) (\<lambda>d2.
     and_then (update_usage (rsv_TenantID request) usageDate 0 (rsv_BudgetMinorUnits request)
        (rsv_Now request) d2) (\<lambda>d3.
     Inr (bundle, d3)))))))"

definition same_reservation :: "ReservationBundle \<Rightarrow> ReservationRequest \<Rightarrow> bool" where
  "same_reservation existing request \<longleftrightarrow>
     cr_ClusterID (rb_Capacity existing) = rsv_ClusterID request \<and>
     cr_CPUMillis (rb_Capacity existing) = rsv_CPUMillis request \<and>
     cr_MemoryMiB (rb_Capacity existing) = rsv_MemoryMiB request \<and>
     br_AmountMinorUnits (rb_Budget existing) = rsv_BudgetMinorUnits request \<and>
     cr_AttemptID (rb_Capacity existing) = rsv_AttemptID request"

definition Reserve_tx ::
  "lib \<Rightarrow> uuid option \<times> uuid option \<Rightarrow> ReservationRequest \<Rightarrow> db \<Rightarrow>
   (ReservationBundle \<times> db) result" where
  "Reserve_tx L ids request d =
    (case validateReservationRequest request of
       Some err \<Rightarrow> Inl err
     | None \<Rightarrow>
     and_then (required (db_policies d (rsv_TenantID request))) (\<lambda>policy.
     and_then (required (sql_row (\<lambda>k. cl_ID k = rsv_ClusterID request) (db_clusters d))) (\<lambda>_.
     case findActiveReservation request d of
       Some existing \<Rightarrow>
         if \<not> same_reservation existing request then Inl (Sentinel ErrConflict)
         else Inr (existing, d)
     | None \<Rightarrow>
     and_then (required (latest_snapshot (rsv_ClusterID request) d)) (\<lambda>snapshot.
     book L ids request snapshot (pol_DailyBudgetMinorUnits policy) d))))"

definition Reserve ::
  "lib \<Rightarrow> uuid option \<times> uuid option \<Rightarrow> ReservationRequest \<Rightarrow> db \<Rightarrow>
   ReservationBundle result \<times> db" where
  "Reserve L ids request = commits (Reserve_tx L ids request)"

section \<open>Release, Settle and ReclaimExpired\<close>

definition close_capacity :: "ReservationState \<Rightarrow> gtime \<Rightarrow> CapacityReservation \<Rightarrow> CapacityReservation" where
  "close_capacity target now c =
    (if target = ReservationSettled then c\<lparr>cr_State := target, cr_SettledAt := Some now\<rparr>
     else c\<lparr>cr_State := target, cr_ReleasedAt := Some now\<rparr>)"

definition close_budget :: "ReservationState \<Rightarrow> gtime \<Rightarrow> BudgetReservation \<Rightarrow> BudgetReservation" where
  "close_budget target now b =
    (if target = ReservationSettled then b\<lparr>br_State := target, br_SettledAt := Some now\<rparr>
     else b\<lparr>br_State := target, br_ReleasedAt := Some now\<rparr>)"

text \<open>The method \<^verbatim>\<open>transition\<close> of the repository.\<close>

definition reservation_transition ::
  "uuid \<Rightarrow> uuid \<Rightarrow> int \<Rightarrow> gtime \<Rightarrow> ReservationState \<Rightarrow> db \<Rightarrow> (bool \<times> db) result" where
  "reservation_transition tenantID runID attemptNumber now target d =
    (if tenantID = uuid_Nil \<or> runID = uuid_Nil \<or> attemptNumber < 1 \<or> IsZero now then
       Inl (Plain ''reservation transition identity is invalid'')
     else
     and_then (required (sql_latest (\<lambda>(c, b). cr_CreatedAt c)
        (\<lambda>(c, b). of_attempt tenantID runID attemptNumber c) (joined d))) (\<lambda>(c, b).
     if cr_State c = target then Inr (False, d)
     else if cr_State c \<noteq> ReservationReserved then Inl (Sentinel ErrConflict)
     else if target = ReservationExpired \<and> cr_ExpiresAt c > now then Inr (False, d)
     else
       let d1 = d\<lparr>
         db_capacity := sql_update (\<lambda>c'. cr_ID c' = cr_ID c \<and> cr_State c' = ReservationReserved)
           (close_capacity target now) (db_capacity d),
         db_budget := sql_update (\<lambda>b'. br_ID b' = br_ID b \<and> br_State b' = ReservationReserved)
           (close_budget target now) (db_budget d)\<rparr> in
       and_then (update_usage tenantID (br_UsageDate b)
           (if target = ReservationSettled then br_AmountMinorUnits b else 0)
           (- br_AmountMinorUnits b) now d1) (\<lambda>d2.
       Inr (True, d2))))"

definition Release :: "uuid \<Rightarrow> uuid \<Rightarrow> int \<Rightarrow> gtime \<Rightarrow> db \<Rightarrow> unit result \<times> db" where
  "Release tenantID runID attemptNumber now =
    commits (\<lambda>d. and_then (reservation_transition tenantID runID attemptNumber now ReservationReleased d)
      (\<lambda>(_, d'). Inr ((), d')))"

definition Settle :: "uuid \<Rightarrow> uuid \<Rightarrow> int \<Rightarrow> gtime \<Rightarrow> db \<Rightarrow> unit result \<times> db" where
  "Settle tenantID runID attemptNumber now =
    commits (\<lambda>d. and_then (reservation_transition tenantID runID attemptNumber now ReservationSettled d)
      (\<lambda>(_, d'). Inr ((), d')))"

definition expires_before :: "CapacityReservation \<Rightarrow> CapacityReservation \<Rightarrow> bool" where
  "expires_before a b \<longleftrightarrow>
     cr_ExpiresAt a < cr_ExpiresAt b \<or> cr_ExpiresAt a = cr_ExpiresAt b \<and> cr_ID a < cr_ID b"

definition expired_reservations :: "gtime \<Rightarrow> int \<Rightarrow> db \<Rightarrow> CapacityReservation list" where
  "expired_reservations now limit d =
    take (nat limit) (sort_by expires_before
      (filter (\<lambda>c. cr_State c = ReservationReserved \<and> cr_ExpiresAt c \<le> now) (db_capacity d)))"

text \<open>Each reservation is its own transaction; the first error ends the loop.\<close>

fun reclaim_loop ::
  "gtime \<Rightarrow> CapacityReservation list \<Rightarrow> int \<Rightarrow> db \<Rightarrow> (int \<times> error option) \<times> db" where
  "reclaim_loop now [] reclaimed d = ((reclaimed, None), d)"
| "reclaim_loop now (item # items) reclaimed d =
    (case commits (reservation_transition (cr_TenantID item) (cr_RunID item) (cr_AttemptNumber item)
        now ReservationExpired) d of
       (Inl err, d') \<Rightarrow> ((reclaimed, Some err), d')
     | (Inr changed, d') \<Rightarrow> reclaim_loop now items (if changed then reclaimed + 1 else reclaimed) d')"

definition ReclaimExpired :: "gtime \<Rightarrow> int \<Rightarrow> db \<Rightarrow> (int \<times> error option) \<times> db" where
  "ReclaimExpired now limit d =
    (if IsZero now \<or> limit < 1 \<or> limit > 1000 then
       ((0, Some (Plain ''expired reservation reclaim request is invalid'')), d)
     else reclaim_loop now (expired_reservations now limit d) 0 d)"

section \<open>The abstract ledger\<close>

text \<open>
  A booking joins the two rows of a reservation.  The ledger is the list of bookings; a step
  at an instant leaves it, appends a booking that the limits admit, or closes an open booking.
\<close>

record booking =
  bk_ID :: uuid
  bk_Tenant :: uuid
  bk_Run :: uuid
  bk_Attempt :: int
  bk_Cluster :: string
  bk_CPU :: int
  bk_Memory :: int
  bk_Date :: gtime
  bk_Amount :: int
  bk_State :: ReservationState
  bk_Expires :: gtime

definition day_sum :: "ReservationState \<Rightarrow> uuid \<Rightarrow> gtime \<Rightarrow> booking list \<Rightarrow> int" where
  "day_sum st tenant day = sql_sum bk_Amount (\<lambda>b. bk_Tenant b = tenant \<and> bk_Date b = day \<and> bk_State b = st)"

abbreviation committed :: "uuid \<Rightarrow> gtime \<Rightarrow> booking list \<Rightarrow> int" where
  "committed tenant day bs \<equiv>
     day_sum ReservationSettled tenant day bs + day_sum ReservationReserved tenant day bs"

definition held :: "(booking \<Rightarrow> int) \<Rightarrow> string \<Rightarrow> gtime \<Rightarrow> booking list \<Rightarrow> int" where
  "held res cluster now = sql_sum res
     (\<lambda>b. bk_Cluster b = cluster \<and> bk_State b = ReservationReserved \<and> bk_Expires b > now)"

definition open_for :: "uuid \<Rightarrow> int \<Rightarrow> booking \<Rightarrow> bool" where
  "open_for runID attempt b \<longleftrightarrow>
     bk_Run b = runID \<and> bk_Attempt b = attempt \<and> bk_State b = ReservationReserved"

definition close_booking :: "uuid \<Rightarrow> ReservationState \<Rightarrow> booking list \<Rightarrow> booking list" where
  "close_booking uid target = sql_update (\<lambda>b. bk_ID b = uid) (\<lambda>b. b\<lparr>bk_State := target\<rparr>)"

inductive ledger_step ::
  "(uuid \<Rightarrow> int option) \<Rightarrow> (string \<Rightarrow> (int \<times> int) option) \<Rightarrow> gtime \<Rightarrow> booking list \<Rightarrow> booking list \<Rightarrow> bool"
  for limit alloc now where
  skip: "ledger_step limit alloc now bs bs"
| book: "ledger_step limit alloc now bs (bs @ [b])"
  if "bk_State b = ReservationReserved" "0 \<le> bk_Amount b" "0 < bk_CPU b" "0 < bk_Memory b"
    "bk_Expires b > now" "\<forall>b' \<in> set bs. bk_ID b' \<noteq> bk_ID b"
    "\<forall>b' \<in> set bs. \<not> open_for (bk_Run b) (bk_Attempt b) b'"
    "limit (bk_Tenant b) = Some l" "committed (bk_Tenant b) (bk_Date b) bs + bk_Amount b \<le> l"
    "alloc (bk_Cluster b) = Some (cpu, memory)"
    "held bk_CPU (bk_Cluster b) now bs + bk_CPU b \<le> cpu"
    "held bk_Memory (bk_Cluster b) now bs + bk_Memory b \<le> memory"
| close: "ledger_step limit alloc now bs (close_booking (bk_ID b) target bs)"
  if "b \<in> set bs" "bk_State b = ReservationReserved" "target \<noteq> ReservationReserved"
    "target = ReservationExpired \<Longrightarrow> bk_Expires b \<le> now"

inductive_cases ledger_stepE: "ledger_step limit alloc now bs bs'"

text \<open>What a ledger keeps to, whatever the order of its steps.\<close>

definition ledger_wf :: "booking list \<Rightarrow> bool" where
  "ledger_wf bs \<longleftrightarrow> distinct (map bk_ID bs) \<and>
     (\<forall>b \<in> set bs. 0 \<le> bk_Amount b \<and> 0 < bk_CPU b \<and> 0 < bk_Memory b) \<and>
     (\<forall>b \<in> set bs. \<forall>b' \<in> set bs. open_for (bk_Run b) (bk_Attempt b) b' \<and>
        bk_State b = ReservationReserved \<longrightarrow> b' = b)"

definition within_budgets :: "(uuid \<Rightarrow> int option) \<Rightarrow> booking list \<Rightarrow> bool" where
  "within_budgets limit bs \<longleftrightarrow> (\<forall>tenant day l. limit tenant = Some l \<longrightarrow> committed tenant day bs \<le> l)"

definition within_capacity ::
  "(string \<Rightarrow> (int \<times> int) option) \<Rightarrow> gtime \<Rightarrow> booking list \<Rightarrow> bool" where
  "within_capacity alloc now bs \<longleftrightarrow> (\<forall>cluster cpu memory. alloc cluster = Some (cpu, memory) \<longrightarrow>
     held bk_CPU cluster now bs \<le> cpu \<and> held bk_Memory cluster now bs \<le> memory)"

lemmas ledger_defs = ledger_wf_def within_budgets_def within_capacity_def

lemma day_sum_append [simp]: "day_sum st t day (bs @ cs) = day_sum st t day bs + day_sum st t day cs"
  by (simp add: day_sum_def)

lemma held_append [simp]: "held f k now (bs @ cs) = held f k now bs + held f k now cs"
  by (simp add: held_def)

lemma day_sum_close:
  assumes "distinct (map bk_ID bs)" "b \<in> set bs" "bk_State b = ReservationReserved"
    "target \<noteq> ReservationReserved"
  shows "day_sum ReservationReserved t day (close_booking (bk_ID b) target bs) =
      day_sum ReservationReserved t day bs - (if bk_Tenant b = t \<and> bk_Date b = day then bk_Amount b else 0)"
    and "day_sum ReservationSettled t day (close_booking (bk_ID b) target bs) =
      day_sum ReservationSettled t day bs +
      (if bk_Tenant b = t \<and> bk_Date b = day \<and> target = ReservationSettled then bk_Amount b else 0)"
  using assms by (simp_all add: day_sum_def close_booking_def sql_sum_update)

lemma held_close:
  assumes "distinct (map bk_ID bs)" "b \<in> set bs" "bk_State b = ReservationReserved"
    "target \<noteq> ReservationReserved" "\<And>x. f (x\<lparr>bk_State := target\<rparr>) = f x"
  shows "held f k now (close_booking (bk_ID b) target bs) =
    held f k now bs - (if bk_Cluster b = k \<and> bk_Expires b > now then f b else 0)"
  using assms by (simp add: held_def close_booking_def sql_sum_update)

lemma held_later:
  assumes "\<And>b. b \<in> set bs \<Longrightarrow> 0 \<le> f b" "now \<le> now'"
  shows "held f k now' bs \<le> held f k now bs"
  unfolding held_def using assms by (intro sql_sum_mono) auto

lemma set_close_booking:
  assumes "x \<in> set (close_booking uid target bs)"
  obtains y where "y \<in> set bs" "x = (if bk_ID y = uid then y\<lparr>bk_State := target\<rparr> else y)"
  using assms by (auto simp: close_booking_def sql_update_def)

lemma ledger_wf_step:
  assumes "ledger_step limit alloc now bs bs'" "ledger_wf bs"
  shows "ledger_wf bs'"
  using assms(1)
proof cases
  case skip
  then show ?thesis using assms(2) by simp
next
  case (book b l cpu memory)
  then show ?thesis using assms(2) by (auto simp: ledger_wf_def open_for_def)
next
  case (close b target)
  have d: "distinct (map bk_ID bs)" using assms(2) by (simp add: ledger_wf_def)
  have ids: "map bk_ID (close_booking (bk_ID b) target bs) = map bk_ID bs"
    unfolding close_booking_def by (rule map_sql_update) simp
  show ?thesis
    unfolding ledger_wf_def close(1)
  proof (intro conjI ballI impI)
    show "distinct (map bk_ID (close_booking (bk_ID b) target bs))" using d ids by simp
  next
    fix x y assume x: "x \<in> set (close_booking (bk_ID b) target bs)"
      and y: "y \<in> set (close_booking (bk_ID b) target bs)"
      and o: "open_for (bk_Run x) (bk_Attempt x) y \<and> bk_State x = ReservationReserved"
    obtain x' where x': "x' \<in> set bs" "x = (if bk_ID x' = bk_ID b then x'\<lparr>bk_State := target\<rparr> else x')"
      using x by (rule set_close_booking)
    obtain y' where y': "y' \<in> set bs" "y = (if bk_ID y' = bk_ID b then y'\<lparr>bk_State := target\<rparr> else y')"
      using y by (rule set_close_booking)
    have "x = x'" "y = y'" using x'(2) y'(2) o close(4) by (auto simp: open_for_def split: if_splits)
    then show "y = x" using x'(1) y'(1) o assms(2) unfolding ledger_wf_def by blast
  qed (use assms(2) in \<open>auto simp: ledger_wf_def elim!: set_close_booking\<close>)
qed

lemma within_budgets_step:
  assumes "ledger_step limit alloc now bs bs'" "ledger_wf bs" "within_budgets limit bs"
  shows "within_budgets limit bs'"
  using assms(1)
proof cases
  case skip
  then show ?thesis using assms(3) by simp
next
  case (book b l cpu memory)
  show ?thesis unfolding within_budgets_def book(1)
  proof (intro allI impI)
    fix t day l' assume l': "limit t = Some l'"
    then have "committed t day bs \<le> l'" using assms(3) by (simp add: within_budgets_def)
    then show "committed t day (bs @ [b]) \<le> l'"
      using book l' by (auto simp: day_sum_def)
  qed
next
  case (close b target)
  have d: "distinct (map bk_ID bs)" and a: "0 \<le> bk_Amount b"
    using assms(2) close(2) by (simp_all add: ledger_wf_def)
  show ?thesis unfolding within_budgets_def close(1)
  proof (intro allI impI)
    fix t day l' assume l': "limit t = Some l'"
    then have "committed t day bs \<le> l'" using assms(3) by (simp add: within_budgets_def)
    then show "committed t day (close_booking (bk_ID b) target bs) \<le> l'"
      using a by (simp add: day_sum_close [OF d close(2-4)])
  qed
qed

lemma within_capacity_step:
  assumes "ledger_step limit alloc now' bs bs'" "ledger_wf bs" "within_capacity alloc now bs" "now \<le> now'"
  shows "within_capacity alloc now' bs'"
proof -
  have nonneg: "0 \<le> bk_CPU b" "0 \<le> bk_Memory b" if "b \<in> set bs" for b
    using assms(2) that by (force simp: ledger_wf_def)+
  have later: "within_capacity alloc now' bs"
    unfolding within_capacity_def
  proof (intro allI impI)
    fix k cpu memory assume "alloc k = Some (cpu, memory)"
    then have "held bk_CPU k now bs \<le> cpu" "held bk_Memory k now bs \<le> memory"
      using assms(3) by (simp_all add: within_capacity_def)
    moreover have "held bk_CPU k now' bs \<le> held bk_CPU k now bs"
      "held bk_Memory k now' bs \<le> held bk_Memory k now bs"
      using nonneg assms(4) by (auto intro: held_later)
    ultimately show "held bk_CPU k now' bs \<le> cpu \<and> held bk_Memory k now' bs \<le> memory" by simp
  qed
  show ?thesis
    using assms(1)
  proof cases
    case skip
    then show ?thesis using later by simp
  next
    case (book b l cpu memory)
    show ?thesis using later book unfolding within_capacity_def by (auto simp: held_def)
  next
    case (close b target)
    have d: "distinct (map bk_ID bs)" using assms(2) by (simp add: ledger_wf_def)
    have c: "held bk_CPU k now' bs' \<le> held bk_CPU k now' bs" "held bk_Memory k now' bs' \<le> held bk_Memory k now' bs" for k
      using nonneg [OF close(2)] by (simp_all add: close(1) held_close [OF d close(2-4)])
    show ?thesis using later c unfolding within_capacity_def by (meson order.trans)
  qed
qed

section \<open>The tables implement the ledger\<close>

definition paired :: "CapacityReservation \<Rightarrow> BudgetReservation \<Rightarrow> bool" where
  "paired c b \<longleftrightarrow> br_CapacityReservationID b = cr_ID c \<and> br_TenantID b = cr_TenantID c \<and>
     br_RunID b = cr_RunID c \<and> br_AttemptNumber b = cr_AttemptNumber c \<and>
     br_State b = cr_State c \<and> br_ExpiresAt b = cr_ExpiresAt c"

definition mk_booking :: "CapacityReservation \<Rightarrow> BudgetReservation \<Rightarrow> booking" where
  "mk_booking c b = \<lparr>bk_ID = cr_ID c, bk_Tenant = cr_TenantID c, bk_Run = cr_RunID c,
     bk_Attempt = cr_AttemptNumber c, bk_Cluster = cr_ClusterID c, bk_CPU = cr_CPUMillis c,
     bk_Memory = cr_MemoryMiB c, bk_Date = br_UsageDate b, bk_Amount = br_AmountMinorUnits b,
     bk_State = cr_State c, bk_Expires = cr_ExpiresAt c\<rparr>"

definition bookings :: "db \<Rightarrow> booking list" where
  "bookings d = map2 mk_booking (db_capacity d) (db_budget d)"

definition limits :: "db \<Rightarrow> uuid \<Rightarrow> int option" where
  "limits d t = map_option pol_DailyBudgetMinorUnits (db_policies d t)"

definition allocs :: "db \<Rightarrow> string \<Rightarrow> (int \<times> int) option" where
  "allocs d k = map_option (\<lambda>s. (cap_AllocatableCPUMillis s, cap_AllocatableMemoryMiB s)) (latest_snapshot k d)"

text \<open>
  The tables pair up, the usage rows are the sums of the bookings, and the amounts fit
  their columns.
\<close>

definition usage_id :: "BudgetUsage \<Rightarrow> uuid \<times> gtime" where
  "usage_id u = (bu_TenantID u, bu_UsageDate u)"

definition usage_agrees :: "db \<Rightarrow> bool" where
  "usage_agrees d \<longleftrightarrow> distinct (map usage_id (db_usage d)) \<and>
     (\<forall>t day. sql_sum bu_Spent (usage_key t day) (db_usage d) = day_sum ReservationSettled t day (bookings d) \<and>
              sql_sum bu_Reserved (usage_key t day) (db_usage d) = day_sum ReservationReserved t day (bookings d)) \<and>
     (\<forall>b \<in> set (bookings d). \<exists>u \<in> set (db_usage d). usage_key (bk_Tenant b) (bk_Date b) u) \<and>
     (\<forall>u \<in> set (db_usage d). usage_row_ok u \<and> bu_Spent u + bu_Reserved u < 2 ^ 63)"

definition ledger_inv :: "db \<Rightarrow> bool" where
  "ledger_inv d \<longleftrightarrow> list_all2 paired (db_capacity d) (db_budget d) \<and>
     distinct (map br_ID (db_budget d)) \<and> ledger_wf (bookings d) \<and> usage_agrees d"

text \<open>The ranges the bigint columns of policies and snapshots impose.\<close>

definition columns_ok :: "db \<Rightarrow> bool" where
  "columns_ok d \<longleftrightarrow> (\<forall>t l. limits d t = Some l \<longrightarrow> 0 \<le> l \<and> l < 2 ^ 63) \<and>
     (\<forall>k cpu memory. allocs d k = Some (cpu, memory) \<longrightarrow>
        0 \<le> cpu \<and> cpu < 2 ^ 63 \<and> 0 \<le> memory \<and> memory < 2 ^ 63)"

lemma booking_sel [simp]:
  "bk_ID (mk_booking c b) = cr_ID c" "bk_Tenant (mk_booking c b) = cr_TenantID c"
  "bk_Run (mk_booking c b) = cr_RunID c" "bk_Attempt (mk_booking c b) = cr_AttemptNumber c"
  "bk_Cluster (mk_booking c b) = cr_ClusterID c" "bk_CPU (mk_booking c b) = cr_CPUMillis c"
  "bk_Memory (mk_booking c b) = cr_MemoryMiB c" "bk_Date (mk_booking c b) = br_UsageDate b"
  "bk_Amount (mk_booking c b) = br_AmountMinorUnits b" "bk_State (mk_booking c b) = cr_State c"
  "bk_Expires (mk_booking c b) = cr_ExpiresAt c"
  by (simp_all add: mk_booking_def)

lemma held_bookings:
  assumes "list_all2 paired cs bs"
  shows "held bk_CPU k now (map2 mk_booking cs bs) = sql_sum cr_CPUMillis (holds_capacity k now) cs"
    and "held bk_Memory k now (map2 mk_booking cs bs) = sql_sum cr_MemoryMiB (holds_capacity k now) cs"
  using assms by (induction rule: list_all2_induct) (simp_all add: held_def holds_capacity_def)

lemma map_booking_ids:
  assumes "list_all2 paired cs bs"
  shows "map bk_ID (map2 mk_booking cs bs) = map cr_ID cs"
    and "map br_CapacityReservationID bs = map cr_ID cs"
  using assms by (induction rule: list_all2_induct) (simp_all add: paired_def)

lemma map_filter_join:
  assumes "list_all2 (\<lambda>c b. f c = Some b) cs bs"
  shows "List.map_filter (\<lambda>c. map_option (Pair c) (f c)) cs = zip cs bs"
  using assms by (induction rule: list_all2_induct) (simp_all add: map_filter_simps)

lemma inv_distinct:
  assumes "ledger_inv d"
  shows "distinct (map cr_ID (db_capacity d))" "distinct (map br_CapacityReservationID (db_budget d))"
  using assms map_booking_ids [of "db_capacity d" "db_budget d"]
  by (simp_all add: ledger_inv_def ledger_wf_def bookings_def)

lemma joined_zip:
  assumes "ledger_inv d"
  shows "joined d = zip (db_capacity d) (db_budget d)"
  unfolding joined_def
proof (rule map_filter_join)
  have p: "list_all2 paired (db_capacity d) (db_budget d)" using assms by (simp add: ledger_inv_def)
  show "list_all2 (\<lambda>c b. sql_row (\<lambda>b. br_CapacityReservationID b = cr_ID c) (db_budget d) = Some b)
      (db_capacity d) (db_budget d)"
  proof (rule list.rel_mono_strong [OF p])
    fix c b assume b: "c \<in> set (db_capacity d)" "b \<in> set (db_budget d)" "paired c b"
    show "sql_row (\<lambda>b. br_CapacityReservationID b = cr_ID c) (db_budget d) = Some b"
    proof (rule sql_row_unique)
      show "b \<in> set (db_budget d)" by fact
      show "br_CapacityReservationID b = cr_ID c" using b(3) by (simp add: paired_def)
      fix b' assume "b' \<in> set (db_budget d)" "br_CapacityReservationID b' = cr_ID c"
      then show "b' = b"
        using b inv_distinct(2) [OF assms] by (auto simp: paired_def intro: distinct_map_eq)
    qed
  qed
qed

lemma usage_key_id: "usage_key t day u \<longleftrightarrow> usage_id u = (t, day)"
  by (auto simp: usage_key_def usage_id_def)

lemma sql_sum_key:
  assumes "distinct (map usage_id us)" "u \<in> set us" "usage_key t day u"
  shows "sql_sum f (usage_key t day) us = f u"
  using assms
proof (induction us)
  case (Cons x us)
  show ?case
  proof (cases "x = u")
    case True
    then have "\<And>y. y \<in> set us \<Longrightarrow> \<not> usage_key t day y"
      using Cons.prems(1,3) by (auto simp: usage_key_id image_iff)
    then have "sql_sum f (usage_key t day) us = 0" by (induction us) simp_all
    then show ?thesis using True Cons.prems(3) by simp
  next
    case False
    then have "u \<in> set us" "usage_id x \<noteq> usage_id u" using Cons.prems by force+
    then show ?thesis using Cons by (simp add: usage_key_id)
  qed
qed simp

lemma insert_usage_ok:
  assumes "insert_usage t day now d = Inr d1" "usage_agrees d"
  shows "usage_agrees d1" "\<exists>u \<in> set (db_usage d1). usage_key t day u" "\<exists>us. d1 = d\<lparr>db_usage := us\<rparr>"
proof -
  show "\<exists>us. d1 = d\<lparr>db_usage := us\<rparr>" "\<exists>u \<in> set (db_usage d1). usage_key t day u"
    using assms(1) by (auto simp: insert_usage_def usage_key_def tx_simps split: if_splits intro: exI [of _ "db_usage d"])
  show "usage_agrees d1"
  proof (cases "\<exists>u \<in> set (db_usage d). usage_key t day u")
    case True
    then show ?thesis using assms by (simp add: insert_usage_def)
  next
    case False
    then have d1: "d1 = d\<lparr>db_usage := db_usage d @ [\<lparr>bu_TenantID = t, bu_UsageDate = day, bu_Spent = 0,
        bu_Reserved = 0, bu_UpdatedAt = now\<rparr>]\<rparr>"
      using assms(1) by (auto simp: insert_usage_def tx_simps)
    have b: "bookings d1 = bookings d" by (simp add: d1 bookings_def)
    show ?thesis
      using assms(2) False unfolding usage_agrees_def b
      by (auto simp: d1 usage_key_id usage_id_def usage_row_ok_def in_i64_def)
  qed
qed

text \<open>The update of one usage row, and what it does to the sums of every tenant and day.\<close>

lemma update_usage_ok:
  assumes "update_usage t day s r now d = Inr d'" "distinct (map usage_id (db_usage d))"
    "u \<in> set (db_usage d)" "usage_key t day u"
  shows "\<exists>us. d' = d\<lparr>db_usage := us\<rparr>"
    and "map usage_id (db_usage d') = map usage_id (db_usage d)"
    and "sql_sum bu_Spent (usage_key t' day') (db_usage d') =
      sql_sum bu_Spent (usage_key t' day') (db_usage d) + (if t' = t \<and> day' = day then s else 0)"
    and "sql_sum bu_Reserved (usage_key t' day') (db_usage d') =
      sql_sum bu_Reserved (usage_key t' day') (db_usage d) + (if t' = t \<and> day' = day then r else 0)"
    and "x \<in> set (db_usage d') \<Longrightarrow> x \<in> set (db_usage d) \<or>
      usage_row_ok x \<and> bu_Spent x = bu_Spent u + s \<and> bu_Reserved x = bu_Reserved u + r"
proof -
  let ?f = "\<lambda>u. u\<lparr>bu_Spent := bu_Spent u + s, bu_Reserved := bu_Reserved u + r, bu_UpdatedAt := now\<rparr>"
  have key: "usage_key t day = (\<lambda>x. usage_id x = usage_id u)"
    using assms(4) by (auto simp: usage_key_id fun_eq_iff)
  have d': "d' = d\<lparr>db_usage := sql_update (\<lambda>x. usage_id x = usage_id u) ?f (db_usage d)\<rparr>"
    and ok: "\<forall>x \<in> set (db_usage d'). usage_key t day x \<longrightarrow> usage_row_ok x"
    using assms(1) by (auto simp: update_usage_def key Let_def tx_simps)
  show "\<exists>us. d' = d\<lparr>db_usage := us\<rparr>" using d' by blast
  show "map usage_id (db_usage d') = map usage_id (db_usage d)"
    unfolding d' by (simp, rule map_sql_update) (simp add: usage_id_def)
  show "sql_sum bu_Spent (usage_key t' day') (db_usage d') =
      sql_sum bu_Spent (usage_key t' day') (db_usage d) + (if t' = t \<and> day' = day then s else 0)"
    "sql_sum bu_Reserved (usage_key t' day') (db_usage d') =
      sql_sum bu_Reserved (usage_key t' day') (db_usage d) + (if t' = t \<and> day' = day then r else 0)"
    using assms(4) by (auto simp: d' sql_sum_update [OF assms(2,3)] usage_key_def)
  assume x: "x \<in> set (db_usage d')"
  then obtain y where y: "y \<in> set (db_usage d)" "x = (if usage_id y = usage_id u then ?f y else y)"
    unfolding d' by (auto simp: sql_update_def)
  show "x \<in> set (db_usage d) \<or> usage_row_ok x \<and> bu_Spent x = bu_Spent u + s \<and> bu_Reserved x = bu_Reserved u + r"
  proof (cases "usage_id y = usage_id u")
    case True
    then have "y = u" using distinct_map_eq [OF assms(2) y(1) assms(3)] by simp
    then have "x = ?f u" using y(2) by simp
    moreover have "usage_row_ok x" using ok x assms(4) calculation by (simp add: usage_key_def)
    ultimately show ?thesis by simp
  next
    case False
    then show ?thesis using y by simp
  qed
qed

lemma usage_key_ex: "(\<exists>x \<in> set us. usage_key t day x) \<longleftrightarrow> (t, day) \<in> set (map usage_id us)"
  by (auto simp: usage_key_id image_iff eq_commute [of "(t, day)"])

lemma usage_agrees_update:
  assumes "usage_agrees d" "update_usage t day s r now d2 = Inr d'" "db_usage d2 = db_usage d"
    "u \<in> set (db_usage d)" "usage_key t day u"
    "\<And>t' day'. day_sum ReservationSettled t' day' (bookings d') =
      day_sum ReservationSettled t' day' (bookings d) + (if t' = t \<and> day' = day then s else 0)"
    "\<And>t' day'. day_sum ReservationReserved t' day' (bookings d') =
      day_sum ReservationReserved t' day' (bookings d) + (if t' = t \<and> day' = day then r else 0)"
    "\<And>b. b \<in> set (bookings d') \<Longrightarrow> (bk_Tenant b, bk_Date b) \<in> set (map usage_id (db_usage d))"
    "bu_Spent u + s + (bu_Reserved u + r) < 2 ^ 63"
  shows "usage_agrees d'"
proof -
  have ids: "distinct (map usage_id (db_usage d))" using assms(1) by (simp add: usage_agrees_def)
  note upd = update_usage_ok [OF assms(2), unfolded assms(3), OF ids assms(4,5)]
  show ?thesis
    unfolding usage_agrees_def
  proof (intro conjI allI ballI)
    fix x assume "x \<in> set (db_usage d')"
    then show "usage_row_ok x" "bu_Spent x + bu_Reserved x < 2 ^ 63"
      using upd(5) [of x] assms(1,9) by (auto simp: usage_agrees_def)
  next
    fix b assume "b \<in> set (bookings d')"
    then show "\<exists>x \<in> set (db_usage d'). usage_key (bk_Tenant b) (bk_Date b) x"
      using assms(8) by (simp only: usage_key_ex upd(2))
  qed (use assms(1) in \<open>simp_all add: upd(2-4) usage_agrees_def assms(6,7)\<close>)
qed

lemma newReservationBundle_ok:
  assumes "newReservationBundle L ids request day = Inr bundle"
  shows "cr_TenantID (rb_Capacity bundle) = rsv_TenantID request"
    "cr_RunID (rb_Capacity bundle) = rsv_RunID request"
    "cr_AttemptNumber (rb_Capacity bundle) = rsv_AttemptNumber request"
    "cr_ClusterID (rb_Capacity bundle) = rsv_ClusterID request"
    "cr_CPUMillis (rb_Capacity bundle) = rsv_CPUMillis request"
    "cr_MemoryMiB (rb_Capacity bundle) = rsv_MemoryMiB request"
    "cr_State (rb_Capacity bundle) = ReservationReserved"
    "cr_CreatedAt (rb_Capacity bundle) = rsv_Now request"
    "cr_ExpiresAt (rb_Capacity bundle) = rsv_Now request + rsv_TTL request"
    "cr_ExpiresAt (rb_Capacity bundle) > rsv_Now request"
    "br_UsageDate (rb_Budget bundle) = day"
    "br_AmountMinorUnits (rb_Budget bundle) = rsv_BudgetMinorUnits request"
    "paired (rb_Capacity bundle) (rb_Budget bundle)"
    "cr_AttemptID (rb_Capacity bundle) = rsv_AttemptID request"
    "cr_SettledAt (rb_Capacity bundle) = None" "cr_ReleasedAt (rb_Capacity bundle) = None"
    "br_SettledAt (rb_Budget bundle) = None" "br_ReleasedAt (rb_Budget bundle) = None"
  using assms
  by (auto simp: newReservationBundle_def Let_def paired_def Reservation_Validate_def
      split: prod.splits option.splits if_splits)

lemma insertReservationBundle_ok:
  assumes "insertReservationBundle L bundle d = Inr d'"
  shows "d' = d\<lparr>db_capacity := db_capacity d @ [rb_Capacity bundle], db_budget := db_budget d @ [rb_Budget bundle]\<rparr>"
    "\<forall>c \<in> set (db_capacity d). cr_ID c \<noteq> cr_ID (rb_Capacity bundle) \<and> \<not> same_active (rb_Capacity bundle) c"
    "\<forall>b \<in> set (db_budget d). br_ID b \<noteq> br_ID (rb_Budget bundle)"
    "0 \<le> br_AmountMinorUnits (rb_Budget bundle)" "0 < cr_CPUMillis (rb_Capacity bundle)"
    "0 < cr_MemoryMiB (rb_Capacity bundle)"
  using assms unfolding insertReservationBundle_def insert_capacity_def insert_budget_def
  by (auto simp: tx_simps)

lemma set_bookings:
  assumes "b \<in> set (bookings d)"
  obtains c k where "c \<in> set (db_capacity d)" "k \<in> set (db_budget d)" "b = mk_booking c k"
  using assms by (auto simp: bookings_def dest: set_zip_leftD set_zip_rightD)

text \<open>The two checks compare against the sums of the ledger; no difference wraps around.\<close>

lemma held_nonneg: "ledger_wf bs \<Longrightarrow> 0 \<le> held bk_CPU k now bs \<and> 0 \<le> held bk_Memory k now bs"
  unfolding held_def ledger_wf_def by (auto intro!: sql_sum_nonneg simp: less_imp_le)

lemma capacity_check:
  assumes "\<not> i64 (available - reserved) < requested" "in_i64 reserved" "0 \<le> reserved"
    "0 \<le> available" "available < 2 ^ 63"
  shows "reserved + requested \<le> available"
proof -
  have "in_i64 (available - reserved)" using assms(2-5) by (simp add: in_i64_def)
  then show ?thesis using assms(1) by simp
qed

lemma budget_check:
  assumes "usage_agrees d" "sql_row (usage_key t day) (db_usage d) = Some u" "0 \<le> l" "l < 2 ^ 63"
    "\<not> amount > i64 (i64 (l - bu_Spent u) - bu_Reserved u)"
  shows "committed t day (bookings d) = bu_Spent u + bu_Reserved u"
    and "bu_Spent u + bu_Reserved u + amount \<le> l"
proof -
  have u: "u \<in> set (db_usage d)" "usage_key t day u" using sql_row_Some [OF assms(2)] by simp_all
  have ids: "distinct (map usage_id (db_usage d))" using assms(1) by (simp add: usage_agrees_def)
  show "committed t day (bookings d) = bu_Spent u + bu_Reserved u"
    using assms(1) sql_sum_key [OF ids u, of bu_Spent] sql_sum_key [OF ids u, of bu_Reserved]
    by (simp add: usage_agrees_def)
  have "usage_row_ok u" "bu_Spent u + bu_Reserved u < 2 ^ 63"
    using assms(1) u(1) by (simp_all add: usage_agrees_def)
  then have "in_i64 (l - bu_Spent u)" "in_i64 (l - bu_Spent u - bu_Reserved u)"
    using assms(3,4) by (auto simp: usage_row_ok_def in_i64_def)
  then show "bu_Spent u + bu_Reserved u + amount \<le> l" using assms(5) by simp
qed

lemma bookE:
  assumes "book L ids request snapshot l d = Inr (bundle, d')"
  obtains d1 u d2 where
    "\<not> i64 (cap_AllocatableCPUMillis snapshot -
        sql_sum cr_CPUMillis (holds_capacity (rsv_ClusterID request) (rsv_Now request)) (db_capacity d)) < rsv_CPUMillis request"
    "\<not> i64 (cap_AllocatableMemoryMiB snapshot -
        sql_sum cr_MemoryMiB (holds_capacity (rsv_ClusterID request) (rsv_Now request)) (db_capacity d)) < rsv_MemoryMiB request"
    "in_i64 (sql_sum cr_CPUMillis (holds_capacity (rsv_ClusterID request) (rsv_Now request)) (db_capacity d))"
    "in_i64 (sql_sum cr_MemoryMiB (holds_capacity (rsv_ClusterID request) (rsv_Now request)) (db_capacity d))"
    "insert_usage (rsv_TenantID request) (Truncate (rsv_Now request) (24 * hour)) (rsv_Now request) d = Inr d1"
    "sql_row (usage_key (rsv_TenantID request) (Truncate (rsv_Now request) (24 * hour))) (db_usage d1) = Some u"
    "\<not> rsv_BudgetMinorUnits request > i64 (i64 (l - bu_Spent u) - bu_Reserved u)"
    "newReservationBundle L ids request (Truncate (rsv_Now request) (24 * hour)) = Inr bundle"
    "insertReservationBundle L bundle d1 = Inr d2"
    "update_usage (rsv_TenantID request) (Truncate (rsv_Now request) (24 * hour)) 0
       (rsv_BudgetMinorUnits request) (rsv_Now request) d2 = Inr d'"
  using assms unfolding book_def Let_def by (auto simp: tx_simps split: if_splits)

text \<open>A booking: it passed both checks on the current sums, and the tables stay in step.\<close>

lemma book_tables:
  assumes inv: "ledger_inv d" and book: "book L ids request snapshot l d = Inr (bundle, d')"
    and l: "0 \<le> l" "l < 2 ^ 63"
  shows "bookings d' = bookings d @ [mk_booking (rb_Capacity bundle) (rb_Budget bundle)]"
    and "\<exists>us. d' = d\<lparr>db_capacity := db_capacity d @ [rb_Capacity bundle],
      db_budget := db_budget d @ [rb_Budget bundle], db_usage := us\<rparr>"
    and "committed (rsv_TenantID request) (Truncate (rsv_Now request) (24 * hour)) (bookings d) +
      rsv_BudgetMinorUnits request \<le> l"
    and "usage_agrees d'"
proof -
  let ?t = "rsv_TenantID request" and ?day = "Truncate (rsv_Now request) (24 * hour)"
  let ?a = "rsv_BudgetMinorUnits request"
  obtain d1 u d2 where d1: "insert_usage ?t ?day (rsv_Now request) d = Inr d1"
    and u: "sql_row (usage_key ?t ?day) (db_usage d1) = Some u"
    and bud: "\<not> ?a > i64 (i64 (l - bu_Spent u) - bu_Reserved u)"
    and bun: "newReservationBundle L ids request ?day = Inr bundle"
    and d2: "insertReservationBundle L bundle d1 = Inr d2"
    and d3: "update_usage ?t ?day 0 ?a (rsv_Now request) d2 = Inr d'"
    using book by (rule bookE)
  have agrees: "usage_agrees d" and pair: "list_all2 paired (db_capacity d) (db_budget d)"
    using inv by (simp_all add: ledger_inv_def)
  obtain us where us: "d1 = d\<lparr>db_usage := us\<rparr>" using insert_usage_ok(3) [OF d1 agrees] by blast
  have b1: "bookings d1 = bookings d" by (simp add: us bookings_def)
  have agrees1: "usage_agrees d1" using insert_usage_ok(1) [OF d1 agrees] .
  have uu: "u \<in> set (db_usage d1)" "usage_key ?t ?day u" using sql_row_Some [OF u] by simp_all
  note d2f = insertReservationBundle_ok [OF d2] and bunf = newReservationBundle_ok [OF bun]
  have du2: "db_usage d2 = db_usage d1" using d2f(1) by simp
  have ids1: "distinct (map usage_id (db_usage d1))" using agrees1 by (simp add: usage_agrees_def)
  note upd = update_usage_ok [OF d3, unfolded du2, OF ids1 uu]
  obtain us' where us': "d' = d2\<lparr>db_usage := us'\<rparr>" using upd(1) by blast
  show d': "\<exists>us. d' = d\<lparr>db_capacity := db_capacity d @ [rb_Capacity bundle],
      db_budget := db_budget d @ [rb_Budget bundle], db_usage := us\<rparr>"
    by (rule exI [of _ us']) (simp add: us' d2f(1) us)
  have len: "length (db_capacity d) = length (db_budget d)" using pair by (rule list_all2_lengthD)
  show bks: "bookings d' = bookings d @ [mk_booking (rb_Capacity bundle) (rb_Budget bundle)]"
    using d' by (auto simp: bookings_def len)
  note check = budget_check [OF agrees1 u l bud]
  show "committed ?t ?day (bookings d) + ?a \<le> l" using check by (simp add: b1)
  show "usage_agrees d'"
  proof (rule usage_agrees_update [OF agrees1 d3 du2 uu])
    fix b assume "b \<in> set (bookings d')"
    then show "(bk_Tenant b, bk_Date b) \<in> set (map usage_id (db_usage d1))"
      using agrees1 uu bunf unfolding bks usage_agrees_def b1 usage_key_ex [symmetric] by auto
  qed (use bunf check l in \<open>simp_all add: bks b1 day_sum_def\<close>)
qed

lemma book_refines:
  assumes inv: "ledger_inv d" and cols: "columns_ok d"
    and book: "book L ids request snapshot l d = Inr (bundle, d')"
    and limit: "limits d (rsv_TenantID request) = Some l"
    and snap: "latest_snapshot (rsv_ClusterID request) d = Some snapshot"
  shows "ledger_step (limits d) (allocs d) (rsv_Now request) (bookings d) (bookings d')"
    and "ledger_inv d'"
proof -
  let ?b = "mk_booking (rb_Capacity bundle) (rb_Budget bundle)"
  have l: "0 \<le> l" "l < 2 ^ 63" using cols limit by (auto simp: columns_ok_def)
  note tables = book_tables [OF inv book l]
  obtain d1 d2 where
    cpu: "\<not> i64 (cap_AllocatableCPUMillis snapshot -
        sql_sum cr_CPUMillis (holds_capacity (rsv_ClusterID request) (rsv_Now request)) (db_capacity d)) < rsv_CPUMillis request"
      "in_i64 (sql_sum cr_CPUMillis (holds_capacity (rsv_ClusterID request) (rsv_Now request)) (db_capacity d))"
    and mem: "\<not> i64 (cap_AllocatableMemoryMiB snapshot -
        sql_sum cr_MemoryMiB (holds_capacity (rsv_ClusterID request) (rsv_Now request)) (db_capacity d)) < rsv_MemoryMiB request"
      "in_i64 (sql_sum cr_MemoryMiB (holds_capacity (rsv_ClusterID request) (rsv_Now request)) (db_capacity d))"
    and d1: "insert_usage (rsv_TenantID request) (Truncate (rsv_Now request) (24 * hour)) (rsv_Now request) d = Inr d1"
    and bun: "newReservationBundle L ids request (Truncate (rsv_Now request) (24 * hour)) = Inr bundle"
    and d2: "insertReservationBundle L bundle d1 = Inr d2"
    using book by (rule bookE)
  have pair: "list_all2 paired (db_capacity d) (db_budget d)" and wf: "ledger_wf (bookings d)"
    and agrees: "usage_agrees d" and ids: "distinct (map br_ID (db_budget d))"
    using inv by (simp_all add: ledger_inv_def)
  have same: "db_capacity d1 = db_capacity d" "db_budget d1 = db_budget d"
    using insert_usage_ok(3) [OF d1 agrees] by auto
  note fresh = insertReservationBundle_ok [OF d2, unfolded same] and bunf = newReservationBundle_ok [OF bun]
  have alloc: "allocs d (rsv_ClusterID request) = Some (cap_AllocatableCPUMillis snapshot, cap_AllocatableMemoryMiB snapshot)"
    using snap by (simp add: allocs_def)
  then have ranges: "0 \<le> cap_AllocatableCPUMillis snapshot" "cap_AllocatableCPUMillis snapshot < 2 ^ 63"
    "0 \<le> cap_AllocatableMemoryMiB snapshot" "cap_AllocatableMemoryMiB snapshot < 2 ^ 63"
    using cols by (auto simp: columns_ok_def)
  note held = held_bookings [OF pair, folded bookings_def, of "rsv_ClusterID request" "rsv_Now request"]
  note nonneg = held_nonneg [OF wf, of "rsv_ClusterID request" "rsv_Now request"]
  show step: "ledger_step (limits d) (allocs d) (rsv_Now request) (bookings d) (bookings d')"
    unfolding tables(1)
  proof (rule ledger_step.book)
    show "held bk_CPU (bk_Cluster ?b) (rsv_Now request) (bookings d) + bk_CPU ?b \<le> cap_AllocatableCPUMillis snapshot"
      using capacity_check [OF cpu _ ranges(1,2)] nonneg by (simp add: bunf held)
    show "held bk_Memory (bk_Cluster ?b) (rsv_Now request) (bookings d) + bk_Memory ?b \<le> cap_AllocatableMemoryMiB snapshot"
      using capacity_check [OF mem _ ranges(3,4)] nonneg by (simp add: bunf held)
  qed (use fresh bunf alloc limit tables(3) in \<open>auto simp: same_active_def open_for_def elim!: set_bookings\<close>)
  obtain us where d': "d' = d\<lparr>db_capacity := db_capacity d @ [rb_Capacity bundle],
      db_budget := db_budget d @ [rb_Budget bundle], db_usage := us\<rparr>"
    using tables(2) by blast
  show "ledger_inv d'"
    unfolding ledger_inv_def
  proof (intro conjI)
    show "list_all2 paired (db_capacity d') (db_budget d')"
      using pair bunf(13) by (simp add: d' list_all2_appendI)
    show "distinct (map br_ID (db_budget d'))" using ids fresh(3) by (auto simp: d')
    show "ledger_wf (bookings d')" by (rule ledger_wf_step [OF step wf])
    show "usage_agrees d'" by (rule tables(4))
  qed
qed

text \<open>The two rows of the latest reservation of the attempt change together.\<close>

lemma close_sel [simp]:
  "cr_State (close_capacity target now c) = target" "br_State (close_budget target now b) = target"
  "mk_booking (close_capacity target now c) b' = (mk_booking c b')\<lparr>bk_State := target\<rparr>"
  "mk_booking c' (close_budget target now b) = mk_booking c' b"
  "br_ID (close_budget target now b) = br_ID b"
  by (simp_all add: close_capacity_def close_budget_def mk_booking_def)

lemma paired_close: "paired c b \<Longrightarrow> paired (close_capacity target now c) (close_budget target now b)"
  by (simp add: paired_def close_capacity_def close_budget_def)

lemma close_pairs:
  fixes target :: ReservationState and now :: gtime
  assumes inv: "ledger_inv d" and cb: "(c, b) \<in> set (zip (db_capacity d) (db_budget d))"
    and res: "cr_State c = ReservationReserved"
  defines "cs \<equiv> sql_update (\<lambda>c'. cr_ID c' = cr_ID c \<and> cr_State c' = ReservationReserved)
      (close_capacity target now) (db_capacity d)"
    and "bs \<equiv> sql_update (\<lambda>b'. br_ID b' = br_ID b \<and> br_State b' = ReservationReserved)
      (close_budget target now) (db_budget d)"
  shows "list_all2 paired cs bs" "map2 mk_booking cs bs = close_booking (cr_ID c) target (bookings d)"
    "map br_ID bs = map br_ID (db_budget d)"
proof -
  have pair: "list_all2 paired (db_capacity d) (db_budget d)" and ids: "distinct (map br_ID (db_budget d))"
    using inv by (simp_all add: ledger_inv_def)
  have mem: "c \<in> set (db_capacity d)" "b \<in> set (db_budget d)" "paired c b"
    using cb pair by (auto simp: list_all2_iff dest: set_zip_leftD set_zip_rightD)
  have same: "(br_ID b' = br_ID b \<and> br_State b' = ReservationReserved) \<longleftrightarrow> cr_ID c' = cr_ID c"
    "(cr_ID c' = cr_ID c \<and> cr_State c' = ReservationReserved) \<longleftrightarrow> cr_ID c' = cr_ID c"
    if m: "c' \<in> set (db_capacity d)" "b' \<in> set (db_budget d)" "paired c' b'" for c' b'
  proof -
    have "c' = c" if "cr_ID c' = cr_ID c"
      using distinct_map_eq [OF inv_distinct(1) [OF inv] m(1) mem(1) that] .
    moreover have "b' = b" if "cr_ID c' = cr_ID c"
      using distinct_map_eq [OF inv_distinct(2) [OF inv] m(2) mem(2)] that m(3) mem(3) by (simp add: paired_def)
    moreover have "b' = b" if "br_ID b' = br_ID b"
      using distinct_map_eq [OF ids m(2) mem(2) that] .
    ultimately show "(br_ID b' = br_ID b \<and> br_State b' = ReservationReserved) \<longleftrightarrow> cr_ID c' = cr_ID c"
      "(cr_ID c' = cr_ID c \<and> cr_State c' = ReservationReserved) \<longleftrightarrow> cr_ID c' = cr_ID c"
      using m(3) mem(3) res unfolding paired_def by auto
  qed
  have st: "cr_State c' = ReservationReserved" if "c' \<in> set (db_capacity d)" "cr_ID c' = cr_ID c" for c'
    using distinct_map_eq [OF inv_distinct(1) [OF inv] that(1) mem(1) that(2)] res by simp
  show "list_all2 paired cs bs"
    unfolding cs_def bs_def sql_update_def list_all2_map1 list_all2_map2
    by (rule list.rel_mono_strong [OF pair]) (simp add: same paired_close)
  have z: "c' \<in> set (db_capacity d) \<and> b' \<in> set (db_budget d) \<and> paired c' b'"
    if "(c', b') \<in> set (zip (db_capacity d) (db_budget d))" for c' b'
    using that pair by (auto simp: list_all2_iff dest: set_zip_leftD set_zip_rightD)
  show "map2 mk_booking cs bs = close_booking (cr_ID c) target (bookings d)"
    unfolding cs_def bs_def sql_update_def bookings_def close_booking_def zip_map_map
    by (auto simp: map_prod_def same(1) st dest!: z)
  show "map br_ID bs = map br_ID (db_budget d)"
    unfolding bs_def by (rule map_sql_update) simp
qed

lemma transition_cases:
  assumes "reservation_transition t r a now target d = Inr (changed, d')" "ledger_inv d"
  obtains (unchanged) "\<not> changed" "d' = d"
  | (closed) c b where "changed" "(c, b) \<in> set (zip (db_capacity d) (db_budget d))" "of_attempt t r a c"
      "cr_State c = ReservationReserved" "target = ReservationExpired \<Longrightarrow> cr_ExpiresAt c \<le> now"
      "update_usage t (br_UsageDate b) (if target = ReservationSettled then br_AmountMinorUnits b else 0)
        (- br_AmountMinorUnits b) now (d\<lparr>
         db_capacity := sql_update (\<lambda>c'. cr_ID c' = cr_ID c \<and> cr_State c' = ReservationReserved)
           (close_capacity target now) (db_capacity d),
         db_budget := sql_update (\<lambda>b'. br_ID b' = br_ID b \<and> br_State b' = ReservationReserved)
           (close_budget target now) (db_budget d)\<rparr>) = Inr d'"
  using assms unfolding reservation_transition_def joined_zip [OF assms(2)] Let_def
  by (auto simp: tx_simps not_less split: if_splits prod.splits dest!: sql_latest_Some)

lemma transition_refines:
  assumes inv: "ledger_inv d" and tr: "reservation_transition t r a now target d = Inr (changed, d')"
    and target: "target \<noteq> ReservationReserved"
  shows "ledger_step limit alloc now (bookings d) (bookings d')" "ledger_inv d'"
    "limits d' = limits d" "allocs d' = allocs d"
proof -
  have "ledger_step limit alloc now (bookings d) (bookings d') \<and> ledger_inv d' \<and>
    limits d' = limits d \<and> allocs d' = allocs d"
    using tr inv
  proof (cases rule: transition_cases)
    case unchanged
    then show ?thesis using inv by (simp add: ledger_step.skip)
  next
    case (closed c b)
    note pairs = close_pairs [OF inv closed(2,4), of target now]
    have wf: "ledger_wf (bookings d)" and agrees: "usage_agrees d" and ids: "distinct (map br_ID (db_budget d))"
      using inv by (simp_all add: ledger_inv_def)
    have bk: "mk_booking c b \<in> set (bookings d)" using closed(2) by (force simp: bookings_def)
    have c: "cr_TenantID c = t" using closed(3) by (simp add: of_attempt_def)
    obtain u where u: "u \<in> set (db_usage d)" "usage_key t (br_UsageDate b) u"
      using agrees bk c by (fastforce simp: usage_agrees_def)
    obtain us where d': "d' = d\<lparr>
         db_capacity := sql_update (\<lambda>c'. cr_ID c' = cr_ID c \<and> cr_State c' = ReservationReserved)
           (close_capacity target now) (db_capacity d),
         db_budget := sql_update (\<lambda>b'. br_ID b' = br_ID b \<and> br_State b' = ReservationReserved)
           (close_budget target now) (db_budget d), db_usage := us\<rparr>"
      using closed(6) by (auto simp: update_usage_def Let_def tx_simps)
    have bks: "bookings d' = close_booking (bk_ID (mk_booking c b)) target (bookings d)"
      using pairs(2) by (simp add: d' bookings_def)
    have step: "ledger_step limit alloc now (bookings d) (bookings d')"
      unfolding bks by (rule ledger_step.close [OF bk]) (use closed(4,5) target in simp_all)
    have dist: "distinct (map bk_ID (bookings d))" using wf by (simp add: ledger_wf_def)
    have amount: "0 \<le> br_AmountMinorUnits b" using wf bk by (force simp: ledger_wf_def)
    note sums = day_sum_close [OF dist bk _ target, folded bks]
    have "usage_agrees d'"
    proof (rule usage_agrees_update [OF agrees closed(6) _ u])
      fix x assume "x \<in> set (bookings d')"
      then obtain y where "y \<in> set (bookings d)" "bk_Tenant x = bk_Tenant y" "bk_Date x = bk_Date y"
        unfolding bks by (auto elim!: set_close_booking)
      then show "(bk_Tenant x, bk_Date x) \<in> set (map usage_id (db_usage d))"
        using agrees unfolding usage_agrees_def usage_key_ex by auto
    next
      have "bu_Spent u + bu_Reserved u < 2 ^ 63" using agrees u(1) by (simp add: usage_agrees_def)
      then show "bu_Spent u + (if target = ReservationSettled then br_AmountMinorUnits b else 0) +
          (bu_Reserved u + - br_AmountMinorUnits b) < 2 ^ 63"
        using amount by simp
    qed (use closed(4) c in \<open>auto simp: sums\<close>)
    then have "ledger_inv d'"
      using ids pairs(1,3) ledger_wf_step [OF step wf] by (simp add: ledger_inv_def d' )
    then show ?thesis using step by (simp add: d' limits_def allocs_def latest_snapshot_def fun_eq_iff)
  qed
  then show "ledger_step limit alloc now (bookings d) (bookings d')" "ledger_inv d'"
    "limits d' = limits d" "allocs d' = allocs d" by blast+
qed

section \<open>Any sequence of operations\<close>

text \<open>
  What an operation on the database owes the ledger: it acts as steps of the ledger at the
  operation's instant, keeps the tables in step, and changes neither limits nor capacities.
  Whatever the sequence of such operations, budgets and capacities are respected.
\<close>

locale ledger_machine =
  fixes exec :: "'o \<Rightarrow> db \<Rightarrow> db" and op_time :: "'o \<Rightarrow> gtime"
  assumes exec_refines: "ledger_inv d \<Longrightarrow> columns_ok d \<Longrightarrow>
      (ledger_step (limits d) (allocs d) (op_time oper))\<^sup>*\<^sup>* (bookings d) (bookings (exec oper d))"
    and exec_inv: "ledger_inv d \<Longrightarrow> columns_ok d \<Longrightarrow> ledger_inv (exec oper d)"
    and exec_limits: "ledger_inv d \<Longrightarrow> columns_ok d \<Longrightarrow> limits (exec oper d) = limits d"
    and exec_allocs: "ledger_inv d \<Longrightarrow> columns_ok d \<Longrightarrow> allocs (exec oper d) = allocs d"
begin

lemma steps_safe:
  assumes "(ledger_step limit alloc now)\<^sup>*\<^sup>* bs bs'" "ledger_wf bs" "within_budgets limit bs"
    "within_capacity alloc now bs"
  shows "ledger_wf bs' \<and> within_budgets limit bs' \<and> within_capacity alloc now bs'"
  using assms
  by (induction rule: rtranclp_induct)
    (auto intro: ledger_wf_step within_budgets_step within_capacity_step [OF _ _ _ order.refl])

lemma run_safe:
  assumes "ledger_inv d" "columns_ok d" "within_budgets (limits d) (bookings d)"
    "within_capacity (allocs d) now (bookings d)" "sorted (now # map op_time ops)"
  defines "d' \<equiv> fold exec ops d"
  shows "ledger_inv d' \<and> limits d' = limits d \<and> allocs d' = allocs d \<and>
    within_budgets (limits d) (bookings d') \<and>
    within_capacity (allocs d) (last (now # map op_time ops)) (bookings d')"
  using assms(1-5) unfolding d'_def
proof (induction ops arbitrary: d now)
  case (Cons oper ops)
  let ?e = "exec oper d"
  have wf: "ledger_wf (bookings d)" using Cons.prems(1) by (simp add: ledger_inv_def)
  have "within_capacity (allocs d) (op_time oper) (bookings d)"
    using Cons.prems(4,5) wf by (auto intro: within_capacity_step ledger_step.skip)
  then have "within_budgets (limits d) (bookings ?e)" "within_capacity (allocs d) (op_time oper) (bookings ?e)"
    using steps_safe [OF exec_refines [OF Cons.prems(1,2)] wf Cons.prems(3)] by blast+
  moreover have same: "limits ?e = limits d" "allocs ?e = allocs d" "ledger_inv ?e"
    using exec_limits exec_allocs exec_inv Cons.prems(1,2) by blast+
  moreover have "columns_ok ?e" using Cons.prems(2) same by (simp add: columns_ok_def)
  ultimately show ?case using Cons.IH [of ?e "op_time oper"] Cons.prems(5) by simp
qed simp

end

lemma Reserve_refines:
  assumes "ledger_inv d" "columns_ok d"
  shows "ledger_step (limits d) (allocs d) (rsv_Now request) (bookings d) (bookings (snd (Reserve L ids request d)))"
    "ledger_inv (snd (Reserve L ids request d))" "limits (snd (Reserve L ids request d)) = limits d"
    "allocs (snd (Reserve L ids request d)) = allocs d"
proof -
  let ?P = "\<lambda>d'. ledger_step (limits d) (allocs d) (rsv_Now request) (bookings d) (bookings d') \<and>
    ledger_inv d' \<and> limits d' = limits d \<and> allocs d' = allocs d"
  have "?P (snd (Reserve L ids request d))"
  proof (cases "Reserve_tx L ids request d")
    case (Inl e)
    then show ?thesis using assms(1) by (simp add: Reserve_def commits_def ledger_step.skip)
  next
    case (Inr r)
    obtain rb d' where r: "r = (rb, d')" by fastforce
    consider (replay) "d' = d"
      | (book) policy snapshot where "db_policies d (rsv_TenantID request) = Some policy"
          "latest_snapshot (rsv_ClusterID request) d = Some snapshot"
          "book L ids request snapshot (pol_DailyBudgetMinorUnits policy) d = Inr (rb, d')"
      using Inr unfolding r Reserve_tx_def by (auto simp: tx_simps split: option.splits if_splits)
    then have "?P d'"
    proof cases
      case replay
      then show ?thesis using assms(1) by (simp add: ledger_step.skip)
    next
      case book
      have l: "limits d (rsv_TenantID request) = Some (pol_DailyBudgetMinorUnits policy)"
        using book(1) by (simp add: limits_def)
      then have range: "0 \<le> pol_DailyBudgetMinorUnits policy" "pol_DailyBudgetMinorUnits policy < 2 ^ 63"
        using assms(2) by (auto simp: columns_ok_def)
      have "limits d' = limits d" "allocs d' = allocs d"
        using book_tables(2) [OF assms(1) book(3) range]
        by (auto simp: limits_def allocs_def latest_snapshot_def fun_eq_iff)
      then show ?thesis using book_refines [OF assms book(3) l book(2)] by simp
    qed
    then show ?thesis by (simp add: Reserve_def commits_def Inr r)
  qed
  then show "ledger_step (limits d) (allocs d) (rsv_Now request) (bookings d) (bookings (snd (Reserve L ids request d)))"
    "ledger_inv (snd (Reserve L ids request d))" "limits (snd (Reserve L ids request d)) = limits d"
    "allocs (snd (Reserve L ids request d)) = allocs d" by blast+
qed

text \<open>One transition as a transaction, and the loop of \<^verbatim>\<open>ReclaimExpired\<close> over it.\<close>

definition acts :: "gtime \<Rightarrow> db \<Rightarrow> db \<Rightarrow> bool" where
  "acts now d d' \<longleftrightarrow> (ledger_step (limits d) (allocs d) now)\<^sup>*\<^sup>* (bookings d) (bookings d') \<and> ledger_inv d' \<and>
     limits d' = limits d \<and> allocs d' = allocs d"

lemma acts_refl: "ledger_inv d \<Longrightarrow> acts now d d"
  by (simp add: acts_def)

lemma acts_trans: "acts now d d' \<Longrightarrow> acts now d' d'' \<Longrightarrow> acts now d d''"
  unfolding acts_def by (metis rtranclp_trans)

lemma acts_transition:
  assumes "ledger_inv d" "target \<noteq> ReservationReserved"
  shows "acts now d (snd (commits (reservation_transition t r a now target) d))"
proof (cases "reservation_transition t r a now target d")
  case (Inl e)
  then show ?thesis using assms(1) by (simp add: commits_def acts_refl)
next
  case (Inr x)
  obtain changed d' where x: "x = (changed, d')" by fastforce
  show ?thesis
    using transition_refines [OF assms(1) Inr [unfolded x] assms(2)]
    by (simp add: commits_def Inr x acts_def r_into_rtranclp)
qed

lemma acts_Release: "ledger_inv d \<Longrightarrow> acts now d (snd (Release t r a now d))"
  and acts_Settle: "ledger_inv d \<Longrightarrow> acts now d (snd (Settle t r a now d))"
  unfolding Release_def Settle_def commits_unit by (simp_all add: acts_transition)

lemma acts_reclaim_loop: "ledger_inv d \<Longrightarrow> acts now d (snd (reclaim_loop now items n d))"
proof (induction items arbitrary: n d)
  case (Cons item items)
  let ?tx = "commits (reservation_transition (cr_TenantID item) (cr_RunID item) (cr_AttemptNumber item) now ReservationExpired) d"
  have a: "acts now d (snd ?tx)" using acts_transition [OF Cons.prems] by simp
  show ?case
  proof (cases "fst ?tx")
    case (Inl e)
    then show ?thesis using a by (cases ?tx) simp
  next
    case (Inr changed)
    have "ledger_inv (snd ?tx)" using a by (simp add: acts_def)
    then show ?thesis using acts_trans [OF a] Cons.IH Inr by (cases ?tx) simp
  qed
qed (simp add: acts_refl)

lemma acts_ReclaimExpired: "ledger_inv d \<Longrightarrow> acts now d (snd (ReclaimExpired now limit d))"
  by (simp add: ReclaimExpired_def acts_refl acts_reclaim_loop)

datatype ledger_op =
    OpReserve "uuid option \<times> uuid option" ReservationRequest
  | OpRelease uuid uuid int gtime
  | OpSettle uuid uuid int gtime
  | OpReclaim gtime int

fun ledger_exec :: "lib \<Rightarrow> ledger_op \<Rightarrow> db \<Rightarrow> db" where
  "ledger_exec L (OpReserve ids request) d = snd (Reserve L ids request d)"
| "ledger_exec L (OpRelease t r a now) d = snd (Release t r a now d)"
| "ledger_exec L (OpSettle t r a now) d = snd (Settle t r a now d)"
| "ledger_exec L (OpReclaim now limit) d = snd (ReclaimExpired now limit d)"

fun ledger_op_time :: "ledger_op \<Rightarrow> gtime" where
  "ledger_op_time (OpReserve ids request) = rsv_Now request"
| "ledger_op_time (OpRelease t r a now) = now"
| "ledger_op_time (OpSettle t r a now) = now"
| "ledger_op_time (OpReclaim now limit) = now"

lemma acts_ledger_exec:
  "ledger_inv d \<Longrightarrow> columns_ok d \<Longrightarrow> acts (ledger_op_time oper) d (ledger_exec L oper d)"
  by (cases oper)
    (simp_all add: acts_Release acts_Settle acts_ReclaimExpired, simp add: acts_def Reserve_refines r_into_rtranclp)

interpretation ledger: ledger_machine "ledger_exec L" ledger_op_time for L
  using acts_ledger_exec by unfold_locales (auto simp: acts_def)

section \<open>Reclaiming\<close>

text \<open>
  \<^verbatim>\<open>transition\<close> reads the latest reservation of an attempt.  Where reservations are made in the
  order of their instants, that is the open one.
\<close>

definition open_latest :: "CapacityReservation list \<Rightarrow> bool" where
  "open_latest cs \<longleftrightarrow> (\<forall>c \<in> set cs. cr_State c = ReservationReserved \<longrightarrow>
     sql_latest cr_CreatedAt (of_attempt (cr_TenantID c) (cr_RunID c) (cr_AttemptNumber c)) cs = Some c \<and>
     cr_TenantID c \<noteq> uuid_Nil \<and> cr_RunID c \<noteq> uuid_Nil \<and> 1 \<le> cr_AttemptNumber c)"

lemma latest_map: "(\<And>x. k (f x) = k x) \<Longrightarrow> latest k (map f xs) = map_option f (latest k xs)"
  by (induction xs) (auto split: option.splits)

lemma latest_snoc:
  "\<forall>x \<in> set xs. k x \<le> k y \<Longrightarrow> latest k (xs @ [y]) = Some y"
  by (induction xs) auto

lemma latest_zip:
  assumes "length cs = length bs"
  shows "map_option fst (sql_latest (\<lambda>(c, b). k c) (\<lambda>(c, b). P c) (zip cs bs)) = sql_latest k P cs"
  using assms by (induction rule: list_induct2) (auto simp: sql_latest_def split: option.splits)

lemma open_latest_close:
  assumes "open_latest cs" "target \<noteq> ReservationReserved"
  shows "open_latest (sql_update Q (close_capacity target now) cs)"
  unfolding open_latest_def
proof (intro ballI impI)
  let ?f = "\<lambda>c. if Q c then close_capacity target now c else c"
  fix c assume "c \<in> set (sql_update Q (close_capacity target now) cs)" "cr_State c = ReservationReserved"
  then obtain c0 where c0: "c0 \<in> set cs" "c = c0" "\<not> Q c0" "cr_State c0 = ReservationReserved"
    using assms(2) by (auto simp: sql_update_def split: if_splits)
  have f: "filter (of_attempt t r a) (map ?f cs) = map ?f (filter (of_attempt t r a) cs)" for t r a
    by (induction cs) (simp_all add: of_attempt_def close_capacity_def)
  have "sql_latest cr_CreatedAt (of_attempt t r a) (map ?f cs) =
      map_option ?f (sql_latest cr_CreatedAt (of_attempt t r a) cs)" for t r a
    unfolding sql_latest_def f by (rule latest_map) (simp add: close_capacity_def)
  then show "sql_latest cr_CreatedAt (of_attempt (cr_TenantID c) (cr_RunID c) (cr_AttemptNumber c))
      (sql_update Q (close_capacity target now) cs) = Some c \<and>
    cr_TenantID c \<noteq> uuid_Nil \<and> cr_RunID c \<noteq> uuid_Nil \<and> 1 \<le> cr_AttemptNumber c"
    using assms(1) c0 by (simp add: open_latest_def sql_update_def)
qed

lemma open_latest_book:
  assumes "open_latest cs" "\<forall>c \<in> set cs. cr_CreatedAt c \<le> cr_CreatedAt n" "\<forall>c \<in> set cs. \<not> same_active n c"
    "cr_TenantID n \<noteq> uuid_Nil" "cr_RunID n \<noteq> uuid_Nil" "1 \<le> cr_AttemptNumber n"
  shows "open_latest (cs @ [n])"
  unfolding open_latest_def
proof (intro ballI impI)
  fix c assume c: "c \<in> set (cs @ [n])" "cr_State c = ReservationReserved"
  let ?P = "of_attempt (cr_TenantID c) (cr_RunID c) (cr_AttemptNumber c)"
  have "sql_latest cr_CreatedAt ?P (cs @ [n]) = Some c"
  proof (cases "c = n")
    case True
    then show ?thesis using assms(2) by (simp add: sql_latest_def of_attempt_def latest_snoc)
  next
    case False
    then have "c \<in> set cs" using c by simp
    then have "\<not> ?P n" "sql_latest cr_CreatedAt ?P cs = Some c"
      using assms(1,3) c(2) by (auto simp: open_latest_def same_active_def of_attempt_def)
    then show ?thesis by (simp add: sql_latest_def)
  qed
  then show "sql_latest cr_CreatedAt ?P (cs @ [n]) = Some c \<and>
      cr_TenantID c \<noteq> uuid_Nil \<and> cr_RunID c \<noteq> uuid_Nil \<and> 1 \<le> cr_AttemptNumber c"
    using assms(1,4-6) c by (auto simp: open_latest_def)
qed

lemma update_usage_succeeds:
  assumes "distinct (map usage_id (db_usage d))" "u \<in> set (db_usage d)" "usage_key t day u"
    "usage_row_ok (u\<lparr>bu_Spent := bu_Spent u + s, bu_Reserved := bu_Reserved u + r, bu_UpdatedAt := now\<rparr>)"
  shows "\<exists>us. update_usage t day s r now d = Inr (d\<lparr>db_usage := us\<rparr>)"
proof -
  let ?f = "\<lambda>u. u\<lparr>bu_Spent := bu_Spent u + s, bu_Reserved := bu_Reserved u + r, bu_UpdatedAt := now\<rparr>"
  have "usage_row_ok x" if x: "x \<in> set (sql_update (usage_key t day) ?f (db_usage d))" "usage_key t day x" for x
  proof -
    obtain y where y: "x = (if usage_key t day y then ?f y else y)" "y \<in> set (db_usage d)"
      using x(1) unfolding sql_update_def set_map by (rule imageE)
    then have "usage_id y = usage_id u"
      using x(2) assms(3) by (auto simp: usage_key_id usage_id_def split: if_splits)
    then show ?thesis using distinct_map_eq [OF assms(1) y(2) assms(2)] y(1) assms(3,4) by simp
  qed
  then show ?thesis
    by (intro exI [of _ "sql_update (usage_key t day) ?f (db_usage d)"]) (simp add: update_usage_def Let_def ensure_def)
qed

lemma open_usage_row:
  assumes inv: "ledger_inv d" and cb: "(c, b) \<in> set (zip (db_capacity d) (db_budget d))"
    and res: "cr_State c = ReservationReserved"
  obtains u where "u \<in> set (db_usage d)" "usage_key (cr_TenantID c) (br_UsageDate b) u"
    "0 \<le> br_AmountMinorUnits b" "br_AmountMinorUnits b \<le> bu_Reserved u" "usage_row_ok u"
    "bu_Spent u + bu_Reserved u < 2 ^ 63"
proof -
  have agrees: "usage_agrees d" and wf: "ledger_wf (bookings d)" using inv by (simp_all add: ledger_inv_def)
  have bk: "mk_booking c b \<in> set (bookings d)" using cb by (force simp: bookings_def)
  obtain u where u: "u \<in> set (db_usage d)" "usage_key (cr_TenantID c) (br_UsageDate b) u"
    using agrees bk by (fastforce simp: usage_agrees_def)
  have dist: "distinct (map usage_id (db_usage d))" using agrees by (simp add: usage_agrees_def)
  have "br_AmountMinorUnits b \<le> day_sum ReservationReserved (cr_TenantID c) (br_UsageDate b) (bookings d)"
    unfolding day_sum_def
    using sql_sum_member_le [OF _ bk, of bk_Amount] wf res by (simp add: ledger_wf_def)
  then have "br_AmountMinorUnits b \<le> bu_Reserved u"
    using agrees sql_sum_key [OF dist u, of bu_Reserved] by (simp add: usage_agrees_def)
  then show ?thesis using that u agrees wf bk by (force simp: usage_agrees_def ledger_wf_def)
qed

lemma transition_succeeds:
  assumes inv: "ledger_inv d" and latest: "open_latest (db_capacity d)"
    and c: "c \<in> set (db_capacity d)" "cr_State c = ReservationReserved"
    and now: "\<not> IsZero now" and target: "target \<noteq> ReservationReserved"
    and expired: "target = ReservationExpired \<Longrightarrow> cr_ExpiresAt c \<le> now"
  shows "\<exists>bs us. reservation_transition (cr_TenantID c) (cr_RunID c) (cr_AttemptNumber c) now target d =
    Inr (True, d\<lparr>db_capacity := sql_update (\<lambda>c'. cr_ID c' = cr_ID c) (close_capacity target now) (db_capacity d),
      db_budget := bs, db_usage := us\<rparr>) \<and>
    map (\<lambda>b. (br_ID b, br_CapacityReservationID b)) bs = map (\<lambda>b. (br_ID b, br_CapacityReservationID b)) (db_budget d)"
proof -
  let ?P = "of_attempt (cr_TenantID c) (cr_RunID c) (cr_AttemptNumber c)"
  have len: "length (db_capacity d) = length (db_budget d)"
    using inv by (auto simp: ledger_inv_def dest: list_all2_lengthD)
  obtain b where b: "sql_latest (\<lambda>(c, b). cr_CreatedAt c) (\<lambda>(c, b). ?P c) (zip (db_capacity d) (db_budget d)) = Some (c, b)"
    and ids: "cr_TenantID c \<noteq> uuid_Nil" "cr_RunID c \<noteq> uuid_Nil" "1 \<le> cr_AttemptNumber c"
    using latest c latest_zip [OF len, of cr_CreatedAt ?P] by (auto simp: open_latest_def)
  have cb: "(c, b) \<in> set (zip (db_capacity d) (db_budget d))"
    using sql_latest_Some [OF b] by simp
  obtain u where u: "u \<in> set (db_usage d)" "usage_key (cr_TenantID c) (br_UsageDate b) u"
    "0 \<le> br_AmountMinorUnits b" "br_AmountMinorUnits b \<le> bu_Reserved u" "usage_row_ok u"
    "bu_Spent u + bu_Reserved u < 2 ^ 63"
    using open_usage_row [OF inv cb c(2)] .
  let ?s = "if target = ReservationSettled then br_AmountMinorUnits b else 0" and ?r = "- br_AmountMinorUnits b"
  let ?cs = "sql_update (\<lambda>c'. cr_ID c' = cr_ID c \<and> cr_State c' = ReservationReserved) (close_capacity target now) (db_capacity d)"
  let ?bs = "sql_update (\<lambda>b'. br_ID b' = br_ID b \<and> br_State b' = ReservationReserved) (close_budget target now) (db_budget d)"
  have ok: "usage_row_ok (u\<lparr>bu_Spent := bu_Spent u + ?s, bu_Reserved := bu_Reserved u + ?r, bu_UpdatedAt := now\<rparr>)"
    using u(3-6) by (auto simp: usage_row_ok_def in_i64_def)
  obtain us where us: "update_usage (cr_TenantID c) (br_UsageDate b) ?s ?r now
      (d\<lparr>db_capacity := ?cs, db_budget := ?bs\<rparr>) = Inr (d\<lparr>db_capacity := ?cs, db_budget := ?bs, db_usage := us\<rparr>)"
    using update_usage_succeeds [of "d\<lparr>db_capacity := ?cs, db_budget := ?bs\<rparr>", OF _ _ u(2) ok] u(1) inv
    by (auto simp: ledger_inv_def usage_agrees_def)
  have cs: "?cs = sql_update (\<lambda>c'. cr_ID c' = cr_ID c) (close_capacity target now) (db_capacity d)"
    unfolding sql_update_def
    using distinct_map_eq [OF inv_distinct(1) [OF inv] _ c(1)] c(2) by (intro map_cong) auto
  have bs: "map (\<lambda>b. (br_ID b, br_CapacityReservationID b)) ?bs = map (\<lambda>b. (br_ID b, br_CapacityReservationID b)) (db_budget d)"
    by (rule map_sql_update) (simp add: close_budget_def)
  show ?thesis
    unfolding reservation_transition_def Let_def joined_zip [OF inv]
    using b ids now target expired c(2) us bs
    by (intro exI [of _ ?bs] exI [of _ us]) (simp add: cs not_less)
qed

definition expire :: "gtime \<Rightarrow> CapacityReservation \<Rightarrow> CapacityReservation" where
  "expire now c = (if cr_State c = ReservationReserved \<and> cr_ExpiresAt c \<le> now
     then close_capacity ReservationExpired now c else c)"

lemma sql_update_update:
  assumes "\<And>x. key (f x) = key x" "a \<notin> B"
  shows "sql_update (\<lambda>x. key x \<in> B) f (sql_update (\<lambda>x. key x = a) f xs) =
    sql_update (\<lambda>x. key x \<in> insert a B) f xs"
  using assms by (induction xs) (auto simp: sql_update_def)

lemma close_capacity_ID [simp]: "cr_ID (close_capacity target now c) = cr_ID c"
  by (simp add: close_capacity_def)

lemma reclaim_loop_closes:
  assumes "ledger_inv d" "open_latest (db_capacity d)" "\<not> IsZero now" "distinct (map cr_ID items)"
    "\<forall>c \<in> set items. c \<in> set (db_capacity d) \<and> cr_State c = ReservationReserved \<and> cr_ExpiresAt c \<le> now"
  shows "\<exists>d'. reclaim_loop now items n d = ((n + int (length items), None), d') \<and>
    db_capacity d' = sql_update (\<lambda>c. cr_ID c \<in> cr_ID ` set items) (close_capacity ReservationExpired now) (db_capacity d)"
  using assms
proof (induction items arbitrary: n d)
  case Nil
  then show ?case by (simp add: sql_update_none)
next
  case (Cons c items)
  let ?cs = "sql_update (\<lambda>c'. cr_ID c' = cr_ID c) (close_capacity ReservationExpired now) (db_capacity d)"
  have c: "c \<in> set (db_capacity d)" "cr_State c = ReservationReserved" "cr_ExpiresAt c \<le> now"
    using Cons.prems(5) by simp_all
  obtain bs us where tr: "reservation_transition (cr_TenantID c) (cr_RunID c) (cr_AttemptNumber c) now ReservationExpired d =
      Inr (True, d\<lparr>db_capacity := ?cs, db_budget := bs, db_usage := us\<rparr>)" (is "_ = Inr (True, ?d)")
    using transition_succeeds [OF Cons.prems(1,2) c(1,2) Cons.prems(3), of ReservationExpired] c(3) by auto
  have other: "cr_ID x \<noteq> cr_ID c" if "x \<in> set items" for x
    using Cons.prems(4) that by (auto simp: image_iff)
  have inv: "ledger_inv ?d" using transition_refines(2) [OF Cons.prems(1) tr] by simp
  have latest: "open_latest (db_capacity ?d)"
    using open_latest_close [OF Cons.prems(2)] by simp
  have items: "\<forall>x \<in> set items. x \<in> set (db_capacity ?d) \<and> cr_State x = ReservationReserved \<and> cr_ExpiresAt x \<le> now"
    using Cons.prems(5) other by (force simp: sql_update_def)
  obtain d' where d': "reclaim_loop now items (n + 1) ?d = ((n + 1 + int (length items), None), d')"
    "db_capacity d' = sql_update (\<lambda>c. cr_ID c \<in> cr_ID ` set items) (close_capacity ReservationExpired now) (db_capacity ?d)"
    using Cons.IH [OF inv latest Cons.prems(3) _ items, of "n + 1"] Cons.prems(4) by auto
  have "cr_ID c \<notin> cr_ID ` set items" using Cons.prems(4) by simp
  then have "db_capacity d' = sql_update (\<lambda>x. cr_ID x \<in> cr_ID ` set (c # items)) (close_capacity ReservationExpired now) (db_capacity d)"
    using sql_update_update [of cr_ID "close_capacity ReservationExpired now"] by (simp add: d'(2))
  then show ?case using d'(1) by (simp add: tr commits_def)
qed

lemma ReclaimExpired_closes:
  assumes inv: "ledger_inv d" and latest: "open_latest (db_capacity d)" and now: "\<not> IsZero now"
    and limit: "1 \<le> limit" "limit \<le> 1000"
      "int (sql_count (\<lambda>c. cr_State c = ReservationReserved \<and> cr_ExpiresAt c \<le> now) (db_capacity d)) \<le> limit"
  shows "\<exists>d'. ReclaimExpired now limit d = ((int (sql_count (\<lambda>c. cr_State c = ReservationReserved \<and>
      cr_ExpiresAt c \<le> now) (db_capacity d)), None), d') \<and> db_capacity d' = map (expire now) (db_capacity d)"
proof -
  let ?Q = "\<lambda>c. cr_State c = ReservationReserved \<and> cr_ExpiresAt c \<le> now"
  let ?items = "sort_by expires_before (filter ?Q (db_capacity d))"
  have all: "expired_reservations now limit d = ?items"
    using limit(3) by (simp add: expired_reservations_def sql_count_def nat_le_iff)
  have set: "set ?items = {c \<in> set (db_capacity d). ?Q c}" by simp
  have "mset (map cr_ID ?items) = mset (map cr_ID (filter ?Q (db_capacity d)))" by simp
  moreover have "distinct (map cr_ID (filter ?Q (db_capacity d)))"
    using inv_distinct(1) [OF inv] by (rule distinct_map_filter)
  ultimately have dist: "distinct (map cr_ID ?items)" using mset_eq_imp_distinct_iff by blast
  have "\<forall>c \<in> set ?items. c \<in> set (db_capacity d) \<and> cr_State c = ReservationReserved \<and> cr_ExpiresAt c \<le> now"
    unfolding set by blast
  then obtain d' where d': "reclaim_loop now ?items 0 d = ((0 + int (length ?items), None), d')"
    "db_capacity d' = sql_update (\<lambda>c. cr_ID c \<in> cr_ID ` set ?items) (close_capacity ReservationExpired now) (db_capacity d)"
    using reclaim_loop_closes [OF inv latest now dist] by blast
  have "cr_ID c \<in> cr_ID ` set ?items \<longleftrightarrow> ?Q c" if c: "c \<in> set (db_capacity d)" for c
  proof
    assume "cr_ID c \<in> cr_ID ` set ?items"
    then obtain x where x: "x \<in> set (db_capacity d)" "?Q x" "cr_ID c = cr_ID x" unfolding set by blast
    then show "?Q c" using distinct_map_eq [OF inv_distinct(1) [OF inv] c x(1,3)] by simp
  next
    assume "?Q c"
    then show "cr_ID c \<in> cr_ID ` set ?items" unfolding set using c by blast
  qed
  then have "db_capacity d' = map (expire now) (db_capacity d)"
    unfolding d'(2) sql_update_def expire_def by (intro map_cong) simp_all
  then show ?thesis using d'(1) now limit by (simp add: ReclaimExpired_def all sql_count_def)
qed

text \<open>Operations in the order of their instants keep the open reservation of an attempt the latest.\<close>

definition in_order :: "gtime \<Rightarrow> db \<Rightarrow> bool" where
  "in_order now d \<longleftrightarrow> open_latest (db_capacity d) \<and> (\<forall>c \<in> set (db_capacity d). cr_CreatedAt c \<le> now)"

lemma in_order_later: "in_order now d \<Longrightarrow> now \<le> now' \<Longrightarrow> in_order now' d"
  unfolding in_order_def by (meson order.trans)

lemma in_order_transition:
  assumes "ledger_inv d" "in_order now d" "target \<noteq> ReservationReserved"
  shows "in_order now (snd (commits (reservation_transition t r a now target) d))"
proof (cases "reservation_transition t r a now target d")
  case (Inr x)
  obtain changed d' where x: "x = (changed, d')" by fastforce
  have "in_order now d'"
    using Inr [unfolded x] assms(1)
  proof (cases rule: transition_cases)
    case unchanged
    then show ?thesis using assms(2) by simp
  next
    case (closed c b)
    then have d': "db_capacity d' = sql_update (\<lambda>c'. cr_ID c' = cr_ID c \<and> cr_State c' = ReservationReserved)
        (close_capacity target now) (db_capacity d)"
      by (auto simp: update_usage_def Let_def tx_simps)
    have "open_latest (db_capacity d')"
      unfolding d' using assms(2,3) by (intro open_latest_close) (simp_all add: in_order_def)
    moreover have "\<forall>c \<in> set (db_capacity d'). cr_CreatedAt c \<le> now"
      using assms(2) by (auto simp: d' in_order_def sql_update_def close_capacity_def)
    ultimately show ?thesis by (simp add: in_order_def)
  qed
  then show ?thesis by (simp add: commits_def Inr x)
qed (simp add: commits_def assms(2))

lemma in_order_Reserve:
  assumes "ledger_inv d" "columns_ok d" "in_order (rsv_Now request) d"
  shows "in_order (rsv_Now request) (snd (Reserve L ids request d))"
proof (cases "Reserve_tx L ids request d")
  case (Inr x)
  obtain rb d' where x: "x = (rb, d')" by fastforce
  have valid: "validateReservationRequest request = None"
    using Inr by (auto simp: Reserve_tx_def split: option.splits)
  consider (replay) "d' = d"
    | (booked) policy snapshot where "db_policies d (rsv_TenantID request) = Some policy"
        "book L ids request snapshot (pol_DailyBudgetMinorUnits policy) d = Inr (rb, d')"
    using Inr unfolding x Reserve_tx_def by (auto simp: tx_simps split: option.splits if_splits)
  then have "in_order (rsv_Now request) d'"
  proof cases
    case replay
    then show ?thesis using assms(3) by simp
  next
    case booked
    have "limits d (rsv_TenantID request) = Some (pol_DailyBudgetMinorUnits policy)"
      using booked(1) by (simp add: limits_def)
    then have l: "0 \<le> pol_DailyBudgetMinorUnits policy" "pol_DailyBudgetMinorUnits policy < 2 ^ 63"
      using assms(2) by (auto simp: columns_ok_def)
    have d': "db_capacity d' = db_capacity d @ [rb_Capacity rb]"
      using book_tables(2) [OF assms(1) booked(2) l] by auto
    obtain d1 d2 where d1: "insert_usage (rsv_TenantID request) (Truncate (rsv_Now request) (24 * hour)) (rsv_Now request) d = Inr d1"
      and bun: "newReservationBundle L ids request (Truncate (rsv_Now request) (24 * hour)) = Inr rb"
      and d2: "insertReservationBundle L rb d1 = Inr d2"
      using booked(2) by (rule bookE)
    have "db_capacity d1 = db_capacity d"
      using insert_usage_ok(3) [OF d1] assms(1) by (auto simp: ledger_inv_def)
    then have "\<forall>c \<in> set (db_capacity d). \<not> same_active (rb_Capacity rb) c"
      using insertReservationBundle_ok(2) [OF d2] by simp
    then have "open_latest (db_capacity d')"
      unfolding d' using assms(3) valid newReservationBundle_ok [OF bun]
      by (intro open_latest_book) (auto simp: in_order_def validateReservationRequest_def split: if_splits)
    then show ?thesis
      using assms(3) newReservationBundle_ok [OF bun] by (simp add: in_order_def d')
  qed
  then show ?thesis by (simp add: Reserve_def commits_def Inr x)
qed (simp add: Reserve_def commits_def assms(3))

lemma in_order_reclaim_loop:
  "ledger_inv d \<Longrightarrow> in_order now d \<Longrightarrow> in_order now (snd (reclaim_loop now items n d))"
proof (induction items arbitrary: n d)
  case (Cons c items)
  let ?tx = "commits (reservation_transition (cr_TenantID c) (cr_RunID c) (cr_AttemptNumber c) now ReservationExpired) d"
  have "in_order now (snd ?tx)" "ledger_inv (snd ?tx)"
    using in_order_transition [OF Cons.prems] acts_transition [OF Cons.prems(1)] by (simp_all add: acts_def)
  then show ?case using Cons.IH by (cases ?tx) (auto split: sum.splits)
qed simp

lemma in_order_exec:
  assumes "ledger_inv d" "columns_ok d" "in_order now d" "now \<le> ledger_op_time oper"
  shows "in_order (ledger_op_time oper) (ledger_exec L oper d)"
proof -
  have o: "in_order (ledger_op_time oper) d" using in_order_later [OF assms(3,4)] .
  show ?thesis
  proof (cases oper)
    case (OpReserve ids request)
    then show ?thesis using in_order_Reserve [OF assms(1,2)] o by simp
  next
    case (OpRelease t r a t')
    then show ?thesis using in_order_transition [OF assms(1)] o by (simp add: Release_def commits_unit)
  next
    case (OpSettle t r a t')
    then show ?thesis using in_order_transition [OF assms(1)] o by (simp add: Settle_def commits_unit)
  next
    case (OpReclaim t' limit)
    then show ?thesis using in_order_reclaim_loop [OF assms(1)] o by (simp add: ReclaimExpired_def)
  qed
qed

lemma in_order_run:
  assumes "ledger_inv d" "columns_ok d" "in_order now d" "sorted (now # map ledger_op_time ops)"
  shows "in_order (last (now # map ledger_op_time ops)) (fold (ledger_exec L) ops d) \<and>
    ledger_inv (fold (ledger_exec L) ops d)"
  using assms
proof (induction ops arbitrary: d now)
  case (Cons oper ops)
  have a: "acts (ledger_op_time oper) d (ledger_exec L oper d)" by (rule acts_ledger_exec [OF Cons.prems(1,2)])
  have "in_order (ledger_op_time oper) (ledger_exec L oper d)"
    using in_order_exec [OF Cons.prems(1-3)] Cons.prems(4) by simp
  moreover have "ledger_inv (ledger_exec L oper d)" "columns_ok (ledger_exec L oper d)"
    using a Cons.prems(2) by (simp_all add: acts_def columns_ok_def)
  ultimately show ?case using Cons.IH Cons.prems(4) by simp
qed simp

section \<open>Replays\<close>

lemma findActive_zip:
  assumes "ledger_inv d" "(c, b) \<in> set (zip (db_capacity d) (db_budget d))"
    "of_attempt (rsv_TenantID request) (rsv_RunID request) (rsv_AttemptNumber request) c"
    "cr_State c = ReservationReserved" "cr_SettledAt c = None" "cr_ReleasedAt c = None"
    "br_SettledAt b = None" "br_ReleasedAt b = None"
  shows "findActiveReservation request d = Some \<lparr>rb_Capacity = c, rb_Budget = b\<rparr>"
proof -
  have pair: "paired c' b'" "mk_booking c' b' \<in> set (bookings d)" "c' \<in> set (db_capacity d)" "b' \<in> set (db_budget d)"
    if "(c', b') \<in> set (zip (db_capacity d) (db_budget d))" for c' b'
    using that assms(1) by (auto simp: ledger_inv_def list_all2_iff bookings_def dest: set_zip_leftD set_zip_rightD)
  have "sql_row (\<lambda>(c, b). of_attempt (rsv_TenantID request) (rsv_RunID request) (rsv_AttemptNumber request) c \<and>
      cr_State c = ReservationReserved) (joined d) = Some (c, b)"
  proof (rule sql_row_unique)
    fix p assume p: "p \<in> set (joined d)" "case p of (c, b) \<Rightarrow> of_attempt (rsv_TenantID request) (rsv_RunID request)
        (rsv_AttemptNumber request) c \<and> cr_State c = ReservationReserved"
    obtain c' b' where cb: "p = (c', b')" by fastforce
    then have z: "(c', b') \<in> set (zip (db_capacity d) (db_budget d))" using p(1) joined_zip [OF assms(1)] by simp
    have "open_for (bk_Run (mk_booking c b)) (bk_Attempt (mk_booking c b)) (mk_booking c' b')"
      using p(2) cb assms(3) by (simp add: open_for_def of_attempt_def)
    then have "mk_booking c' b' = mk_booking c b"
      using assms(1,4) pair(2) [OF z] pair(2) [OF assms(2)] by (simp add: ledger_inv_def ledger_wf_def)
    then have id: "cr_ID c' = cr_ID c" by (metis booking_sel(1))
    then have "c' = c" using distinct_map_eq [OF inv_distinct(1) [OF assms(1)] pair(3) [OF z] pair(3) [OF assms(2)]] by simp
    moreover have "b' = b"
      using distinct_map_eq [OF inv_distinct(2) [OF assms(1)] pair(4) [OF z] pair(4) [OF assms(2)]] id
        pair(1) [OF z] pair(1) [OF assms(2)] by (simp add: paired_def)
    ultimately show "p = (c, b)" using cb by simp
  qed (use assms in \<open>simp_all add: joined_zip\<close>)
  then show ?thesis
    using assms(3-8) pair(1) [OF assms(2)] by (simp add: findActiveReservation_def of_attempt_def paired_def)
qed

section \<open>Properties\<close>

text \<open>C26: Every operation of the reservation repository refines the abstract ledger: it acts on the
  bookings as steps that only add a booking within the budget and the capacity at that
  instant, or close an open booking, and it keeps the two tables and the usage rows in step.\<close>

theorem reservations_refine_ledger:
  assumes "ledger_inv d" "columns_ok d"
  shows "(ledger_step (limits d) (allocs d) (ledger_op_time oper))\<^sup>*\<^sup>* (bookings d) (bookings (ledger_exec L oper d)) \<and>
    ledger_inv (ledger_exec L oper d)"
  using acts_ledger_exec [OF assms] by (simp add: acts_def)

definition ex_request :: ReservationRequest where
  "ex_request = \<lparr>rsv_TenantID = 1, rsv_RunID = 7, rsv_AttemptID = 8, rsv_AttemptNumber = 1,
     rsv_ClusterID = ''cluster-a'', rsv_CPUMillis = 500, rsv_MemoryMiB = 512,
     rsv_BudgetMinorUnits = 100, rsv_Now = 100, rsv_TTL = 10\<rparr>"

definition ex_other :: ReservationRequest where
  "ex_other = ex_request\<lparr>rsv_RunID := 9, rsv_AttemptID := 10, rsv_Now := 120\<rparr>"

definition ex_ops :: "ledger_op list" where
  "ex_ops = [OpReserve (Some 20, Some 21) ex_request, OpReserve (Some 22, Some 23) ex_other,
     OpSettle 1 9 1 125]"

lemma ex_ledger: "ledger_inv ex_db" "columns_ok ex_db" "within_budgets (limits ex_db) (bookings ex_db)"
  "within_capacity (allocs ex_db) 100 (bookings ex_db)" "in_order 100 ex_db" "db_capacity ex_db = []"
  by (auto simp: ledger_inv_def ex_db_def bookings_def ledger_wf_def usage_agrees_def day_sum_def
      columns_ok_def limits_def allocs_def within_budgets_def within_capacity_def held_def
      in_order_def open_latest_def latest_snapshot_def sql_latest_def ex_snapshot_def ex_policy_def split: if_splits)

lemma ex_ops_run:
  "map cr_State (db_capacity (fold (ledger_exec ex_lib) ex_ops ex_db)) = [ReservationReserved, ReservationSettled]"
  "db_usage (fold (ledger_exec ex_lib) ex_ops ex_db) =
     [\<lparr>bu_TenantID = 1, bu_UsageDate = 0, bu_Spent = 100, bu_Reserved = 100, bu_UpdatedAt = 125\<rparr>]"
  by code_simp+

theorem reservations_refine_ledger_witness:
  "ledger_inv ex_db \<and>
   (ledger_step (limits ex_db) (allocs ex_db) 100)\<^sup>*\<^sup>* (bookings ex_db)
     (bookings (ledger_exec ex_lib (OpReserve (Some 20, Some 21) ex_request) ex_db))"
  using reservations_refine_ledger [OF ex_ledger(1,2), of "OpReserve (Some 20, Some 21) ex_request" ex_lib]
    ex_ledger(1) by (simp add: ex_request_def)

text \<open>The safety of the ledger, read as sums over the tables.\<close>

lemma ledger_sums:
  assumes "ledger_inv d" "within_budgets (limits d) (bookings d)" "within_capacity (allocs d) now (bookings d)"
  shows "(\<forall>tenant day.
      sql_sum bu_Spent (usage_key tenant day) (db_usage d) = day_sum ReservationSettled tenant day (bookings d) \<and>
      sql_sum bu_Reserved (usage_key tenant day) (db_usage d) = day_sum ReservationReserved tenant day (bookings d) \<and>
      (\<forall>policy. db_policies d tenant = Some policy \<longrightarrow>
         sql_sum bu_Spent (usage_key tenant day) (db_usage d) + sql_sum bu_Reserved (usage_key tenant day) (db_usage d)
           \<le> pol_DailyBudgetMinorUnits policy)) \<and>
    (\<forall>cluster snapshot. latest_snapshot cluster d = Some snapshot \<longrightarrow>
       sql_sum cr_CPUMillis (holds_capacity cluster now) (db_capacity d) \<le> cap_AllocatableCPUMillis snapshot \<and>
       sql_sum cr_MemoryMiB (holds_capacity cluster now) (db_capacity d) \<le> cap_AllocatableMemoryMiB snapshot)"
proof -
  have inv: "usage_agrees d" "list_all2 paired (db_capacity d) (db_budget d)"
    using assms(1) by (simp_all add: ledger_inv_def)
  show ?thesis
  proof (intro conjI allI impI)
    fix tenant day policy assume "db_policies d tenant = Some policy"
    then have "limits d tenant = Some (pol_DailyBudgetMinorUnits policy)" by (simp add: limits_def)
    then show "sql_sum bu_Spent (usage_key tenant day) (db_usage d) + sql_sum bu_Reserved (usage_key tenant day) (db_usage d)
        \<le> pol_DailyBudgetMinorUnits policy"
      using assms(2) inv(1) by (simp add: usage_agrees_def within_budgets_def)
  next
    fix cluster snapshot assume "latest_snapshot cluster d = Some snapshot"
    then have "allocs d cluster = Some (cap_AllocatableCPUMillis snapshot, cap_AllocatableMemoryMiB snapshot)"
      by (simp add: allocs_def)
    then show "sql_sum cr_CPUMillis (holds_capacity cluster now) (db_capacity d) \<le> cap_AllocatableCPUMillis snapshot"
      "sql_sum cr_MemoryMiB (holds_capacity cluster now) (db_capacity d) \<le> cap_AllocatableMemoryMiB snapshot"
      using held_bookings [OF inv(2), folded bookings_def, of cluster now] assms(3) unfolding within_capacity_def by fastforce+
  qed (use inv(1) in \<open>simp_all add: usage_agrees_def\<close>)
qed

text \<open>Whatever sequence of reservations, releases, settlements and reclaims is run in the order of
  their instants, afterwards the usage row of every tenant and day is the sum of its
  settled and of its open reservations, the two together never exceed the daily budget of
  the tenant, and the unexpired open reservations on a cluster never exceed the latest
  capacity report of the cluster.\<close>

theorem reservations_never_overcommit:
  fixes L :: lib
  assumes "ledger_inv d" "columns_ok d" "within_budgets (limits d) (bookings d)"
    "within_capacity (allocs d) now (bookings d)" "sorted (now # map ledger_op_time ops)"
  defines "d' \<equiv> fold (ledger_exec L) ops d" and "t' \<equiv> last (now # map ledger_op_time ops)"
  shows "(\<forall>tenant day.
      sql_sum bu_Spent (usage_key tenant day) (db_usage d') = day_sum ReservationSettled tenant day (bookings d') \<and>
      sql_sum bu_Reserved (usage_key tenant day) (db_usage d') = day_sum ReservationReserved tenant day (bookings d') \<and>
      (\<forall>policy. db_policies d' tenant = Some policy \<longrightarrow>
         sql_sum bu_Spent (usage_key tenant day) (db_usage d') + sql_sum bu_Reserved (usage_key tenant day) (db_usage d')
           \<le> pol_DailyBudgetMinorUnits policy)) \<and>
    (\<forall>cluster snapshot. latest_snapshot cluster d' = Some snapshot \<longrightarrow>
       sql_sum cr_CPUMillis (holds_capacity cluster t') (db_capacity d') \<le> cap_AllocatableCPUMillis snapshot \<and>
       sql_sum cr_MemoryMiB (holds_capacity cluster t') (db_capacity d') \<le> cap_AllocatableMemoryMiB snapshot)"
  using ledger.run_safe [OF assms(1-5), of L, folded d'_def t'_def] by (intro ledger_sums) simp_all

theorem reservations_never_overcommit_witness:
  "sql_sum bu_Spent (usage_key 1 0) (db_usage (fold (ledger_exec ex_lib) ex_ops ex_db)) +
   sql_sum bu_Reserved (usage_key 1 0) (db_usage (fold (ledger_exec ex_lib) ex_ops ex_db)) \<le> 1000 \<and>
   sql_sum bu_Spent (usage_key 1 0) (db_usage (fold (ledger_exec ex_lib) ex_ops ex_db)) = 100"
proof -
  have "sorted (100 # map ledger_op_time ex_ops)" by (simp add: ex_ops_def ex_request_def ex_other_def)
  moreover have "db_policies (fold (ledger_exec ex_lib) ex_ops ex_db) 1 = Some ex_policy" by code_simp
  ultimately have "sql_sum bu_Spent (usage_key 1 0) (db_usage (fold (ledger_exec ex_lib) ex_ops ex_db)) +
      sql_sum bu_Reserved (usage_key 1 0) (db_usage (fold (ledger_exec ex_lib) ex_ops ex_db)) \<le> 1000"
    using reservations_never_overcommit [OF ex_ledger(1-4), of ex_ops ex_lib] by (fastforce simp: ex_policy_def)
  then show ?thesis by (simp add: ex_ops_run usage_key_def)
qed

text \<open>C27: Reclaiming is complete: after any such sequence, a reclaim with room for all expired reservations
  closes every one of them, reports their number and no error, and leaves the others as they were.\<close>

theorem reclaim_complete:
  fixes L :: lib
  assumes "ledger_inv d" "columns_ok d" "in_order t0 d" "sorted (t0 # map ledger_op_time ops)"
  defines "d' \<equiv> fold (ledger_exec L) ops d"
  assumes "last (t0 # map ledger_op_time ops) \<le> now" "\<not> IsZero now" "1 \<le> limit" "limit \<le> 1000"
    "int (sql_count (\<lambda>c. cr_State c = ReservationReserved \<and> cr_ExpiresAt c \<le> now) (db_capacity d')) \<le> limit"
  shows "fst (ReclaimExpired now limit d') =
      (int (sql_count (\<lambda>c. cr_State c = ReservationReserved \<and> cr_ExpiresAt c \<le> now) (db_capacity d')), None) \<and>
    db_capacity (snd (ReclaimExpired now limit d')) = map (expire now) (db_capacity d')"
proof -
  have "in_order (last (t0 # map ledger_op_time ops)) d'" "ledger_inv d'"
    using in_order_run [OF assms(1-4)] by (simp_all add: d'_def)
  then show ?thesis using ReclaimExpired_closes [OF _ _ assms(7-10)] by (fastforce simp: in_order_def)
qed

theorem reclaim_complete_witness:
  "fst (ReclaimExpired 130 10 (fold (ledger_exec ex_lib) ex_ops ex_db)) = (1, None) \<and>
   map cr_State (db_capacity (snd (ReclaimExpired 130 10 (fold (ledger_exec ex_lib) ex_ops ex_db)))) =
     [ReservationExpired, ReservationSettled]"
proof -
  let ?d = "fold (ledger_exec ex_lib) ex_ops ex_db"
  have "sorted (100 # map ledger_op_time ex_ops)" "last (100 # map ledger_op_time ex_ops) \<le> 130"
    by (simp_all add: ex_ops_def ex_request_def ex_other_def)
  moreover have "sql_count (\<lambda>c. cr_State c = ReservationReserved \<and> cr_ExpiresAt c \<le> 130) (db_capacity ?d) = 1"
    "map cr_State (map (expire 130) (db_capacity ?d)) = [ReservationExpired, ReservationSettled]" by code_simp+
  ultimately show ?thesis
    using reclaim_complete [OF ex_ledger(1,2,5), of ex_ops 130 10 ex_lib] by (simp add: IsZero_def del: map_map)
qed



text \<open>
  So a caller whose reservation has expired, and whose capacity has been given to another
  run, is still told that it is reserved: on a cluster with 600 millicores two requests for
  500 succeed at the instants 120 and 121.
\<close>

lemma expired_reservation_granted_again:
  "map_sum (\<lambda>_. ()) (cr_CPUMillis \<circ> rb_Capacity) (fst (Reserve ex_lib (Some 22, Some 23) ex_other
      (fold (ledger_exec ex_lib) [OpReserve (Some 20, Some 21) ex_request] ex_db))) = Inr 500"
  "map_sum (\<lambda>_. ()) (cr_CPUMillis \<circ> rb_Capacity) (fst (Reserve ex_lib (None, None) (ex_request\<lparr>rsv_Now := 121\<rparr>)
      (fold (ledger_exec ex_lib) [OpReserve (Some 20, Some 21) ex_request, OpReserve (Some 22, Some 23) ex_other] ex_db)))
     = Inr 500"
  by code_simp+

end
