(* ===== verification/Cluster_Registry.thy ===== *)
theory Cluster_Registry
  imports Reservations Sched_Strategy
begin

text \<open>
  The registry of execution clusters
  (\<^verbatim>\<open>services/platform-api/internal/adapters/postgres/clusters.go\<close>): registration, the update
  with optimistic locking, the listing of candidates for a run, and the authorisation of a
  tenant on a cluster (\<^verbatim>\<open>Authorize\<close> of \<^verbatim>\<open>handoff.go\<close>).
\<close>

section \<open>Writing\<close>

definition validateClusterWrite ::
  "ExecutionCluster \<Rightarrow> ClusterCapacity \<Rightarrow> uuid list \<Rightarrow> gtime \<Rightarrow> error option" where
  "validateClusterWrite cluster capacity allowedTenants now =
    (case Cluster_Validate cluster now of
       Some err \<Rightarrow> Some err
     | None \<Rightarrow>
       if Capacity_Validate capacity now \<noteq> None \<or> cap_ClusterID capacity \<noteq> cl_ID cluster then
         Some (Plain ''cluster capacity does not match cluster metadata'')
       else if \<not> unique_valid (\<lambda>t. t \<noteq> uuid_Nil) {} allowedTenants then
         Some (Plain ''cluster tenant allowlist is invalid'')
       else if cl_TenantRestricted cluster \<and> length allowedTenants = 0 then
         Some (Plain ''restricted cluster requires an allowlist'')
       else None)"

text \<open>
  The row of a cluster satisfies the check constraints of the table once it is validated; the
  integer columns are narrower than the fields.
\<close>

definition cluster_columns_fit :: "ExecutionCluster \<Rightarrow> bool" where
  "cluster_columns_fit cluster \<longleftrightarrow>
     in_i32 (cl_CPUCostMinorUnits cluster) \<and> in_i32 (cl_MemoryGiBCostMinorUnits cluster)"

fun insert_allowed :: "string \<Rightarrow> uuid list \<Rightarrow> db \<Rightarrow> db result" where
  "insert_allowed clusterID [] d = Inr d"
| "insert_allowed clusterID (tenantID # tenants) d =
    and_then (ensure ((clusterID, tenantID) \<notin> set (db_allowlist d)) (translateError UniqueViolation)) (\<lambda>_.
    and_then (ensure (tenantID \<in> fst ` set (db_tenants d)) (translateError ForeignKeyViolation)) (\<lambda>_.
    insert_allowed clusterID tenants (d\<lparr>db_allowlist := db_allowlist d @ [(clusterID, tenantID)]\<rparr>)))"

definition writeCapacityAndAllowlist :: "ClusterCapacity \<Rightarrow> uuid list \<Rightarrow> db \<Rightarrow> db result" where
  "writeCapacityAndAllowlist capacity allowedTenants d =
    and_then (ensure (in_i32 (cap_QueuedWorkloads capacity)) (translateError OtherFailure)) (\<lambda>_.
    and_then (ensure (\<forall>s \<in> set (db_snapshots d). cap_ClusterID s = cap_ClusterID capacity \<longrightarrow>
        cap_ObservedAt s \<noteq> cap_ObservedAt capacity) (translateError UniqueViolation)) (\<lambda>_.
    insert_allowed (cap_ClusterID capacity) allowedTenants
      (d\<lparr>db_snapshots := db_snapshots d @ [capacity],
         db_allowlist := filter (\<lambda>(k, t). k \<noteq> cap_ClusterID capacity) (db_allowlist d)\<rparr>)))"

definition Register_tx :: "ExecutionCluster \<Rightarrow> ClusterCapacity \<Rightarrow> uuid list \<Rightarrow> db \<Rightarrow> (unit \<times> db) result" where
  "Register_tx cluster capacity allowedTenants d =
    (case validateClusterWrite cluster capacity allowedTenants (cl_UpdatedAt cluster) of
       Some err \<Rightarrow> Inl err
     | None \<Rightarrow>
     and_then (ensure (cluster_columns_fit cluster) (translateError OtherFailure)) (\<lambda>_.
     and_then (ensure (\<forall>k \<in> set (db_clusters d). cl_ID k \<noteq> cl_ID cluster) (translateError UniqueViolation)) (\<lambda>_.
     and_then (writeCapacityAndAllowlist capacity allowedTenants
        (d\<lparr>db_clusters := db_clusters d @ [cluster]\<rparr>)) (\<lambda>d'.
     Inr ((), d')))))"

definition Register :: "ExecutionCluster \<Rightarrow> ClusterCapacity \<Rightarrow> uuid list \<Rightarrow> db \<Rightarrow> unit result \<times> db" where
  "Register cluster capacity allowedTenants = commits (Register_tx cluster capacity allowedTenants)"

definition Update_tx ::
  "ExecutionCluster \<Rightarrow> int \<Rightarrow> ClusterCapacity \<Rightarrow> uuid list \<Rightarrow> db \<Rightarrow> (ExecutionCluster \<times> db) result" where
  "Update_tx cluster expectedVersion capacity allowedTenants d =
    (if expectedVersion < 1 \<or> cl_Version cluster \<noteq> i64 (expectedVersion + 1) then
       Inl (Sentinel ErrVersionConflict)
     else case validateClusterWrite cluster capacity allowedTenants (cl_UpdatedAt cluster) of
       Some err \<Rightarrow> Inl err
     | None \<Rightarrow>
     and_then (ensure (cluster_columns_fit cluster) (translateError OtherFailure)) (\<lambda>_.
     let matching = (\<lambda>k. cl_ID k = cl_ID cluster \<and> cl_Version k = expectedVersion) in
     if sql_count matching (db_clusters d) = 0 then
       (if \<exists>k \<in> set (db_clusters d). cl_ID k = cl_ID cluster then Inl (Sentinel ErrVersionConflict)
        else Inl (Sentinel ErrNotFound))
     else
     and_then (writeCapacityAndAllowlist capacity allowedTenants
        (d\<lparr>db_clusters := sql_update matching (\<lambda>k. cluster\<lparr>cl_CreatedAt := cl_CreatedAt k\<rparr>) (db_clusters d)\<rparr>)) (\<lambda>d'.
     Inr (cluster, d'))))"

definition Update ::
  "ExecutionCluster \<Rightarrow> int \<Rightarrow> ClusterCapacity \<Rightarrow> uuid list \<Rightarrow> db \<Rightarrow> ExecutionCluster result \<times> db" where
  "Update cluster expectedVersion capacity allowedTenants =
    commits (Update_tx cluster expectedVersion capacity allowedTenants)"

section \<open>Reading\<close>

text \<open>\<^verbatim>\<open>clusterSelect\<close> joins every cluster with its latest capacity report.\<close>

definition with_capacity :: "db \<Rightarrow> ExecutionCluster \<Rightarrow> ClusterCandidate option" where
  "with_capacity d k = map_option (\<lambda>s. \<lparr>cand_Cluster = k, cand_Capacity = s\<lparr>cap_ClusterID := cl_ID k\<rparr>\<rparr>)
     (latest_snapshot (cl_ID k) d)"

definition clusterSelect :: "db \<Rightarrow> ClusterCandidate list" where
  "clusterSelect d = List.map_filter (with_capacity d) (db_clusters d)"

definition Registry_Get :: "string \<Rightarrow> db \<Rightarrow> (ExecutionCluster \<times> ClusterCapacity) result" where
  "Registry_Get clusterID d =
    and_then (required (sql_latest (\<lambda>c. cap_ObservedAt (cand_Capacity c))
        (\<lambda>c. cl_ID (cand_Cluster c) = clusterID) (clusterSelect d))) (\<lambda>c.
    Inr (cand_Cluster c, cand_Capacity c))"

definition admits_tenant :: "uuid \<Rightarrow> ExecutionCluster \<Rightarrow> db \<Rightarrow> bool" where
  "admits_tenant tenantID k d \<longleftrightarrow> \<not> cl_TenantRestricted k \<or> (cl_ID k, tenantID) \<in> set (db_allowlist d)"

definition usable :: "uuid \<Rightarrow> string \<Rightarrow> string \<Rightarrow> gtime \<Rightarrow> db \<Rightarrow> ClusterCandidate \<Rightarrow> bool" where
  "usable tenantID runtime profile since d c \<longleftrightarrow>
     cl_Status (cand_Cluster c) = ClusterActive \<and> \<not> cl_Maintenance (cand_Cluster c) \<and>
     cl_LastHeartbeatAt (cand_Cluster c) \<ge> since \<and>
     runtime \<in> set (cl_SupportedRuntimes (cand_Cluster c)) \<and>
     profile \<in> set (cl_SupportedExecutionProfiles (cand_Cluster c)) \<and>
     admits_tenant tenantID (cand_Cluster c) d \<and>
     cap_ObservedAt (cand_Capacity c) \<ge> since"

definition ListCandidates ::
  "uuid \<Rightarrow> string \<Rightarrow> string \<Rightarrow> gtime \<Rightarrow> duration \<Rightarrow> db \<Rightarrow> ClusterCandidate list result" where
  "ListCandidates tenantID runtime profile now freshness d =
    (if tenantID = uuid_Nil \<or> runtime = [] \<or> profile = [] \<or> IsZero now \<or> freshness \<le> 0 then
       Inl (Plain ''candidate query is invalid'')
     else Inr (sort_by (\<lambda>a b. cl_ID (cand_Cluster a) < cl_ID (cand_Cluster b))
       (filter (usable tenantID runtime profile (now - freshness) d) (clusterSelect d))))"

datatype handoff_error = ErrUnauthorizedCluster | ErrIntentMissing | ErrIntentInvalid

definition Authorize :: "string \<Rightarrow> uuid \<Rightarrow> db \<Rightarrow> handoff_error option" where
  "Authorize clusterID tenantID d =
    (case sql_row (\<lambda>k. cl_ID k = clusterID) (db_clusters d) of
       None \<Rightarrow> Some ErrUnauthorizedCluster
     | Some k \<Rightarrow> if admits_tenant tenantID k d then None else Some ErrUnauthorizedCluster)"

section \<open>The registry invariant\<close>

text \<open>
  Identifiers are unique, every row was validated when it was written, every cluster has a
  report, and the allowlist of a cluster names tenants once.
\<close>

definition registry_inv :: "db \<Rightarrow> bool" where
  "registry_inv d \<longleftrightarrow> distinct (map cl_ID (db_clusters d)) \<and>
     (\<forall>k \<in> set (db_clusters d). Cluster_Validate k (cl_UpdatedAt k) = None \<and> latest_snapshot (cl_ID k) d \<noteq> None \<and>
        (cl_TenantRestricted k \<longrightarrow> (\<exists>t. (cl_ID k, t) \<in> set (db_allowlist d)))) \<and>
     distinct (db_allowlist d) \<and>
     (\<forall>s \<in> set (db_snapshots d). cap_ClusterID s \<in> cl_ID ` set (db_clusters d))"

lemma insert_allowed_ok:
  assumes "insert_allowed clusterID tenants d = Inr d'"
  shows "d' = d\<lparr>db_allowlist := db_allowlist d @ map (Pair clusterID) tenants\<rparr>"
    "distinct (db_allowlist d) \<Longrightarrow> distinct (db_allowlist d')"
proof -
  have "d' = d\<lparr>db_allowlist := db_allowlist d @ map (Pair clusterID) tenants\<rparr> \<and>
    (distinct (db_allowlist d) \<longrightarrow> distinct (db_allowlist d'))"
    using assms
    by (induction clusterID tenants d arbitrary: d' rule: insert_allowed.induct) (auto simp: tx_simps)
  then show "d' = d\<lparr>db_allowlist := db_allowlist d @ map (Pair clusterID) tenants\<rparr>"
    "distinct (db_allowlist d) \<Longrightarrow> distinct (db_allowlist d')" by blast+
qed

lemma write_ok:
  assumes "writeCapacityAndAllowlist capacity allowed d = Inr d'" "distinct (db_allowlist d)"
  shows "d' = d\<lparr>db_snapshots := db_snapshots d @ [capacity],
      db_allowlist := filter (\<lambda>(k, t). k \<noteq> cap_ClusterID capacity) (db_allowlist d) @
        map (Pair (cap_ClusterID capacity)) allowed\<rparr>"
    "distinct (db_allowlist d')"
proof -
  let ?d = "d\<lparr>db_snapshots := db_snapshots d @ [capacity],
    db_allowlist := filter (\<lambda>(k, t). k \<noteq> cap_ClusterID capacity) (db_allowlist d)\<rparr>"
  have w: "insert_allowed (cap_ClusterID capacity) allowed ?d = Inr d'"
    using assms(1) by (auto simp: writeCapacityAndAllowlist_def tx_simps)
  show "d' = d\<lparr>db_snapshots := db_snapshots d @ [capacity],
      db_allowlist := filter (\<lambda>(k, t). k \<noteq> cap_ClusterID capacity) (db_allowlist d) @
        map (Pair (cap_ClusterID capacity)) allowed\<rparr>"
    using insert_allowed_ok(1) [OF w] by simp
  show "distinct (db_allowlist d')" using insert_allowed_ok(2) [OF w] assms(2) by simp
qed

lemma latest_snapshot_append:
  "latest_snapshot k (d\<lparr>db_snapshots := db_snapshots d @ [s]\<rparr>) \<noteq> None \<longleftrightarrow>
     latest_snapshot k d \<noteq> None \<or> cap_ClusterID s = k"
  by (auto simp: latest_snapshot_def sql_latest_def)

text \<open>Both writes set one cluster row and leave the others; that keeps the invariant.\<close>

lemma registry_inv_write:
  assumes inv: "registry_inv d" and w: "writeCapacityAndAllowlist capacity allowed (d\<lparr>db_clusters := ks\<rparr>) = Inr d'"
    and valid: "validateClusterWrite cluster capacity allowed (cl_UpdatedAt cluster) = None"
    and ks: "distinct (map cl_ID ks)" "cl_ID ` set ks = insert (cl_ID cluster) (cl_ID ` set (db_clusters d))"
      "\<And>k. k \<in> set ks \<Longrightarrow> k \<in> set (db_clusters d) \<and> cl_ID k \<noteq> cl_ID cluster \<or>
         (\<exists>t. k = cluster\<lparr>cl_CreatedAt := t\<rparr>)"
  shows "registry_inv d'"
proof -
  have d: "distinct (db_allowlist (d\<lparr>db_clusters := ks\<rparr>))" using inv by (simp add: registry_inv_def)
  note w' = write_ok [OF w d]
  have v: "Cluster_Validate cluster (cl_UpdatedAt cluster) = None" "cap_ClusterID capacity = cl_ID cluster"
    "cl_TenantRestricted cluster \<Longrightarrow> allowed \<noteq> []"
    using valid by (auto simp: validateClusterWrite_def split: option.splits if_splits)
  have snap: "latest_snapshot k d' \<noteq> None \<longleftrightarrow> latest_snapshot k d \<noteq> None \<or> k = cl_ID cluster" for k
    by (auto simp: w'(1) latest_snapshot_def sql_latest_def v(2))
  have row: "Cluster_Validate k (cl_UpdatedAt k) = None \<and> latest_snapshot (cl_ID k) d' \<noteq> None \<and>
      (cl_TenantRestricted k \<longrightarrow> (\<exists>t. (cl_ID k, t) \<in> set (db_allowlist d')))" if k: "k \<in> set ks" for k
    using ks(3) [OF k]
  proof
    assume k: "k \<in> set (db_clusters d) \<and> cl_ID k \<noteq> cl_ID cluster"
    then have "Cluster_Validate k (cl_UpdatedAt k) = None" "latest_snapshot (cl_ID k) d \<noteq> None"
      "cl_TenantRestricted k \<Longrightarrow> \<exists>t. (cl_ID k, t) \<in> set (db_allowlist d)"
      using inv by (simp_all add: registry_inv_def)
    then show ?thesis using k snap by (auto simp: w'(1) v(2))
  next
    assume "\<exists>t. k = cluster\<lparr>cl_CreatedAt := t\<rparr>"
    then obtain t where t: "k = cluster\<lparr>cl_CreatedAt := t\<rparr>" by blast
    have "Cluster_Validate k (cl_UpdatedAt k) = None" using v(1) by (simp add: t Cluster_Validate_def)
    moreover have "cl_TenantRestricted k \<Longrightarrow> \<exists>u. (cl_ID k, u) \<in> set (db_allowlist d')"
      using v(3) by (auto simp: t w'(1) v(2) neq_Nil_conv)
    ultimately show ?thesis using snap by (simp add: t)
  qed
  show ?thesis
    using inv ks(1,2) row w'(2) v(2) by (auto simp: registry_inv_def w'(1))
qed

lemma registry_inv_Register:
  assumes "registry_inv d"
  shows "registry_inv (snd (Register cluster capacity allowed d))"
proof (cases "Register_tx cluster capacity allowed d")
  case (Inr x)
  obtain d' where x: "x = ((), d')" by (cases x) simp
  have valid: "validateClusterWrite cluster capacity allowed (cl_UpdatedAt cluster) = None"
    and new: "\<forall>k \<in> set (db_clusters d). cl_ID k \<noteq> cl_ID cluster"
    and w: "writeCapacityAndAllowlist capacity allowed (d\<lparr>db_clusters := db_clusters d @ [cluster]\<rparr>) = Inr d'"
    using Inr unfolding x Register_tx_def by (auto simp: tx_simps split: option.splits)
  have "\<exists>t. cluster = cluster\<lparr>cl_CreatedAt := t\<rparr>" by (rule exI [of _ "cl_CreatedAt cluster"]) simp
  then have "registry_inv d'"
    using assms new by (intro registry_inv_write [OF assms w valid]) (auto simp: registry_inv_def)
  then show ?thesis by (simp add: Register_def commits_def Inr x)
qed (simp add: Register_def commits_def assms)

lemma registry_inv_Update:
  assumes inv: "registry_inv d"
  shows "registry_inv (snd (Update cluster v capacity allowed d))"
proof (cases "Update_tx cluster v capacity allowed d")
  case (Inr x)
  let ?m = "\<lambda>k. cl_ID k = cl_ID cluster \<and> cl_Version k = v"
  let ?f = "\<lambda>k. cluster\<lparr>cl_CreatedAt := cl_CreatedAt k\<rparr>"
  obtain c d' where x: "x = (c, d')" by fastforce
  have valid: "validateClusterWrite cluster capacity allowed (cl_UpdatedAt cluster) = None"
    and count: "sql_count ?m (db_clusters d) \<noteq> 0"
    and w: "writeCapacityAndAllowlist capacity allowed (d\<lparr>db_clusters := sql_update ?m ?f (db_clusters d)\<rparr>) = Inr d'"
    using Inr unfolding x Update_tx_def by (auto simp: tx_simps Let_def split: option.splits if_splits)
  obtain k0 where k0: "k0 \<in> set (db_clusters d)" "?m k0"
    using count by (auto simp: sql_count_def filter_empty_conv)
  have ids: "map cl_ID (sql_update ?m ?f (db_clusters d)) = map cl_ID (db_clusters d)"
    by (rule map_sql_update) simp
  have dist: "distinct (map cl_ID (db_clusters d))" using inv by (simp add: registry_inv_def)
  have "registry_inv d'"
  proof (rule registry_inv_write [OF inv w valid])
    show "distinct (map cl_ID (sql_update ?m ?f (db_clusters d)))" using ids dist by simp
    show "cl_ID ` set (sql_update ?m ?f (db_clusters d)) = insert (cl_ID cluster) (cl_ID ` set (db_clusters d))"
      using arg_cong [OF ids, of set] imageI [OF k0(1), of cl_ID] k0(2) by (simp add: insert_absorb)
    fix k assume "k \<in> set (sql_update ?m ?f (db_clusters d))"
    then obtain y where y: "y \<in> set (db_clusters d)" "k = (if ?m y then ?f y else y)"
      unfolding sql_update_def set_map by blast
    show "k \<in> set (db_clusters d) \<and> cl_ID k \<noteq> cl_ID cluster \<or> (\<exists>t. k = cluster\<lparr>cl_CreatedAt := t\<rparr>)"
    proof (cases "cl_ID y = cl_ID cluster")
      case True
      then have "y = k0" using distinct_map_eq [OF dist y(1) k0(1)] k0(2) by simp
      then show ?thesis using y k0 by auto
    next
      case False
      then show ?thesis using y by simp
    qed
  qed
  then show ?thesis by (simp add: Update_def commits_def Inr x)
qed (simp add: Update_def commits_def inv)

lemma clusterSelect_all:
  assumes "registry_inv d"
  shows "clusterSelect d =
    map (\<lambda>k. \<lparr>cand_Cluster = k, cand_Capacity = the (latest_snapshot (cl_ID k) d)\<rparr>) (db_clusters d)"
  unfolding clusterSelect_def
proof (rule map_filter_all)
  fix k assume "k \<in> set (db_clusters d)"
  then obtain s where s: "latest_snapshot (cl_ID k) d = Some s" using assms by (auto simp: registry_inv_def)
  then have "cap_ClusterID s = cl_ID k" by (auto simp: latest_snapshot_def dest: sql_latest_Some)
  then show "with_capacity d k = Some \<lparr>cand_Cluster = k, cand_Capacity = the (latest_snapshot (cl_ID k) d)\<rparr>"
    using s by (simp add: with_capacity_def)
qed

section \<open>Properties\<close>

text \<open>C30: The registry uses optimistic locking: an update that names the version it read is stored with the
  next version, and every other update that names the same version afterwards is refused and
  changes nothing, so no update is lost.\<close>

theorem Update_no_lost_update:
  assumes "registry_inv d" "Update c1 v cap1 allowed1 d = (Inr r, d1)" "cl_ID c2 = cl_ID c1" "in_i64 (v + 1)"
  shows "(\<exists>k \<in> set (db_clusters d1). k = c1\<lparr>cl_CreatedAt := cl_CreatedAt k\<rparr> \<and> cl_Version k = v + 1) \<and>
    (\<exists>e. Update c2 v cap2 allowed2 d1 = (Inl e, d1))"
proof -
  let ?m = "\<lambda>k. cl_ID k = cl_ID c1 \<and> cl_Version k = v"
  let ?f = "\<lambda>k. c1\<lparr>cl_CreatedAt := cl_CreatedAt k\<rparr>"
  have tx: "Update_tx c1 v cap1 allowed1 d = Inr (r, d1)" using assms(2) by (simp add: Update_def commits_Inr)
  then have ver: "cl_Version c1 = v + 1" using assms(4) by (auto simp: Update_tx_def split: if_splits)
  have w: "writeCapacityAndAllowlist cap1 allowed1 (d\<lparr>db_clusters := sql_update ?m ?f (db_clusters d)\<rparr>) = Inr d1"
    and count: "sql_count ?m (db_clusters d) \<noteq> 0"
    using tx unfolding Update_tx_def by (auto simp: tx_simps Let_def split: option.splits if_splits)
  have dist: "distinct (map cl_ID (db_clusters d))" and dl: "distinct (db_allowlist (d\<lparr>db_clusters := sql_update ?m ?f (db_clusters d)\<rparr>))"
    using assms(1) by (simp_all add: registry_inv_def)
  have d1: "db_clusters d1 = sql_update ?m ?f (db_clusters d)" using write_ok(1) [OF w dl] by simp
  obtain k0 where k0: "k0 \<in> set (db_clusters d)" "?m k0"
    using count by (auto simp: sql_count_def filter_empty_conv)
  have row: "?f k0 \<in> set (db_clusters d1)"
    unfolding d1 sql_update_def set_map by (rule image_eqI [OF _ k0(1)]) (simp add: k0(2))
  have "sql_count (\<lambda>k. cl_ID k = cl_ID c2 \<and> cl_Version k = v) (db_clusters d1) = 0"
    using ver assms(3) by (auto simp: sql_count_def d1 sql_update_def filter_empty_conv)
  then have "\<exists>e. Update_tx c2 v cap2 allowed2 d1 = Inl e"
    by (cases "validateClusterWrite c2 cap2 allowed2 (cl_UpdatedAt c2)"; cases "cluster_columns_fit c2")
      (simp_all add: Update_tx_def ensure_def)
  then have "\<exists>e. Update c2 v cap2 allowed2 d1 = (Inl e, d1)" by (simp add: Update_def commits_Inl)
  moreover have "?f k0 = c1\<lparr>cl_CreatedAt := cl_CreatedAt (?f k0)\<rparr> \<and> cl_Version (?f k0) = v + 1" using ver by simp
  ultimately show ?thesis using row by blast
qed

definition ex_node2 :: ExecutionCluster where
  "ex_node2 = ex_node\<lparr>cl_Version := 2, cl_UpdatedAt := 95\<rparr>"

definition ex_snapshot2 :: ClusterCapacity where
  "ex_snapshot2 = ex_snapshot\<lparr>cap_ObservedAt := 95\<rparr>"

lemma ex_registry: "registry_inv ex_db"
proof -
  have "Cluster_Validate ex_node 90 = None" by code_simp
  then show ?thesis
    by (simp add: registry_inv_def ex_db_def latest_snapshot_def sql_latest_def ex_snapshot_def) (simp add: ex_node_def)
qed

theorem Update_no_lost_update_witness:
  "\<exists>r d1. Update ex_node2 1 ex_snapshot2 [] ex_db = (Inr r, d1) \<and>
     (\<exists>e. Update (ex_node2\<lparr>cl_Maintenance := True\<rparr>) 1 ex_snapshot2 [] d1 = (Inl e, d1))"
proof -
  have "map_sum id cl_Version (fst (Update ex_node2 1 ex_snapshot2 [] ex_db)) = Inr 2" by code_simp
  then obtain r d1 where r: "Update ex_node2 1 ex_snapshot2 [] ex_db = (Inr r, d1)"
    by (cases "Update ex_node2 1 ex_snapshot2 [] ex_db"; cases "fst (Update ex_node2 1 ex_snapshot2 [] ex_db)") auto
  show ?thesis
    using Update_no_lost_update [OF ex_registry r, of "ex_node2\<lparr>cl_Maintenance := True\<rparr>"] r
    by (auto simp: in_i64_def)
qed



end
