(* ===== verification/Sched_Queue.thy ===== *)
theory Sched_Queue
  imports Db_Schema "HOL-Library.Product_Lexorder"
begin

text \<open>
  The scheduler queue
  (\<^verbatim>\<open>services/platform-api/internal/adapters/postgres/scheduler_queue.go\<close>): claiming the next
  runs under a lease, and renewing a lease; and the evaluation of the eligibility of a claimed
  run against the tenant's policy (\<^verbatim>\<open>scheduler_eligibility.go\<close>).
\<close>

section \<open>Requests and claims\<close>

record SchedulerClaimRequest =
  scq_Owner :: string
  scq_Now :: gtime
  scq_LeaseDuration :: duration
  scq_BatchSize :: int
  scq_AgingInterval :: duration
  scq_MaximumAgingBoost :: int

record ClaimedRun =
  clm_ID :: uuid
  clm_TenantID :: uuid
  clm_ProjectID :: uuid
  clm_Runtime :: string
  clm_PromptReference :: string
  clm_MaxAttempts :: int
  clm_ExecutionProfile :: string
  clm_PreferredRegion :: string
  clm_CreatedBy :: string
  clm_CPUMillis :: int
  clm_MemoryMiB :: int
  clm_TimeoutSeconds :: int
  clm_AttemptNumber :: int
  clm_AttemptID :: uuid
  clm_AttemptVersion :: int
  clm_Priority :: int
  clm_EffectivePriority :: int
  clm_Version :: int
  clm_CreatedAt :: gtime
  clm_SchedulerLeaseOwner :: string
  clm_SchedulerLeaseExpiry :: gtime

section \<open>Claim\<close>

text \<open>The three ways a run is due, and the pending attempt it must have.\<close>

definition current_attempt :: "RunRow \<Rightarrow> AgentRunAttempt \<Rightarrow> bool" where
  "current_attempt r a \<longleftrightarrow> att_TenantID a = run_TenantID (rr_Run r) \<and> att_RunID a = run_ID (rr_Run r) \<and>
     att_AttemptNumber a = run_AttemptCount (rr_Run r)"

definition due :: "gtime \<Rightarrow> RunRow \<Rightarrow> bool" where
  "due now r \<longleftrightarrow>
     rr_Status r = AgentRunQueued \<or>
     rr_Status r = AgentRunCapacityWait \<and> (\<exists>t \<in> set_option (rr_NextEligibleAt r). t \<le> now) \<or>
     rr_Status r = AgentRunScheduling \<and> (\<exists>t \<in> set_option (rr_LeaseExpiresAt r). t \<le> now)"

definition claimable :: "gtime \<Rightarrow> db \<Rightarrow> RunRow \<Rightarrow> bool" where
  "claimable now d r \<longleftrightarrow> due now r \<and>
     (\<exists>a \<in> set (db_attempts d). current_attempt r a \<and> att_Status a = AttemptPending)"

text \<open>
  The aging of a run: whole intervals since its creation, as an integer column value, at most
  the maximal boost.
\<close>

definition aging :: "SchedulerClaimRequest \<Rightarrow> RunRow \<Rightarrow> int" where
  "aging request r = max 0 (scq_Now request - run_CreatedAt (rr_Run r)) div scq_AgingInterval request"

definition effective_priority :: "SchedulerClaimRequest \<Rightarrow> RunRow \<Rightarrow> int" where
  "effective_priority request r = rr_Priority r + min (scq_MaximumAgingBoost request) (aging request r)"

definition before_in_tenant :: "SchedulerClaimRequest \<Rightarrow> RunRow \<Rightarrow> RunRow \<Rightarrow> bool" where
  "before_in_tenant request a b =
    (if effective_priority request a \<noteq> effective_priority request b
     then effective_priority request a > effective_priority request b
     else if run_CreatedAt (rr_Run a) \<noteq> run_CreatedAt (rr_Run b)
     then run_CreatedAt (rr_Run a) < run_CreatedAt (rr_Run b)
     else run_ID (rr_Run a) < run_ID (rr_Run b))"

text \<open>\<^verbatim>\<open>row_number()\<close> over the runs of a tenant: one more than the runs before it.\<close>

definition tenant_rank :: "SchedulerClaimRequest \<Rightarrow> RunRow list \<Rightarrow> RunRow \<Rightarrow> nat" where
  "tenant_rank request base r = 1 + sql_count (\<lambda>x. run_TenantID (rr_Run x) = run_TenantID (rr_Run r) \<and>
     before_in_tenant request x r) base"

definition before_in_queue :: "SchedulerClaimRequest \<Rightarrow> RunRow list \<Rightarrow> RunRow \<Rightarrow> RunRow \<Rightarrow> bool" where
  "before_in_queue request base a b =
    (if tenant_rank request base a \<noteq> tenant_rank request base b
     then tenant_rank request base a < tenant_rank request base b
     else if effective_priority request a \<noteq> effective_priority request b
     then effective_priority request a > effective_priority request b
     else if run_CreatedAt (rr_Run a) \<noteq> run_CreatedAt (rr_Run b)
     then run_CreatedAt (rr_Run a) < run_CreatedAt (rr_Run b)
     else if run_TenantID (rr_Run a) \<noteq> run_TenantID (rr_Run b)
     then run_TenantID (rr_Run a) < run_TenantID (rr_Run b)
     else run_ID (rr_Run a) < run_ID (rr_Run b))"

text \<open>\<open>busy\<close> holds the runs other transactions have locked at that moment; they are skipped.\<close>

definition claim_rows :: "SchedulerClaimRequest \<Rightarrow> uuid list \<Rightarrow> db \<Rightarrow> RunRow list" where
  "claim_rows request busy d =
    (let base = filter (claimable (scq_Now request) d) (db_runs d) in
     take (nat (scq_BatchSize request))
       (filter (\<lambda>r. run_ID (rr_Run r) \<notin> set busy) (sort_by (before_in_queue request base) base)))"

definition claimed_row :: "SchedulerClaimRequest \<Rightarrow> RunRow \<Rightarrow> RunRow" where
  "claimed_row request r = r\<lparr>
     rr_Run := (rr_Run r)\<lparr>run_Status := AgentRunScheduling, run_UpdatedAt := scq_Now request,
       run_Version := rr_Version r + 1\<rparr>,
     rr_LeaseOwner := Some (scq_Owner request),
     rr_LeaseExpiresAt := Some (scq_Now request + scq_LeaseDuration request)\<rparr>"

definition claim_of :: "SchedulerClaimRequest \<Rightarrow> AgentRunAttempt \<Rightarrow> RunRow \<Rightarrow> ClaimedRun" where
  "claim_of request a r =
    (let run = rr_Run r in
     \<lparr>clm_ID = run_ID run, clm_TenantID = run_TenantID run, clm_ProjectID = run_ProjectID run,
      clm_Runtime = run_Runtime run, clm_PromptReference = run_PromptReference run,
      clm_MaxAttempts = run_MaxAttempts run, clm_ExecutionProfile = rr_ExecutionProfile r,
      clm_PreferredRegion = (case rr_PreferredRegion r of None \<Rightarrow> [] | Some x \<Rightarrow> x),
      clm_CreatedBy = run_CreatedBy run, clm_CPUMillis = run_CPUMillis run,
      clm_MemoryMiB = run_MemoryMiB run, clm_TimeoutSeconds = run_TimeoutSeconds run,
      clm_AttemptNumber = run_AttemptCount run, clm_AttemptID = att_ID a,
      clm_AttemptVersion = att_Version a, clm_Priority = rr_Priority r,
      clm_EffectivePriority = effective_priority request r, clm_Version = rr_Version r + 1,
      clm_CreatedAt = run_CreatedAt run, clm_SchedulerLeaseOwner = scq_Owner request,
      clm_SchedulerLeaseExpiry = scq_Now request + scq_LeaseDuration request\<rparr>)"

definition claim_with_attempt :: "SchedulerClaimRequest \<Rightarrow> db \<Rightarrow> RunRow \<Rightarrow> ClaimedRun option" where
  "claim_with_attempt request d r =
    map_option (\<lambda>a. claim_of request a r) (sql_row (current_attempt r) (db_attempts d))"

definition Queue_Claim :: "SchedulerClaimRequest \<Rightarrow> uuid list \<Rightarrow> db \<Rightarrow> ClaimedRun list result \<times> db" where
  "Queue_Claim request0 busy d =
    (let request = request0\<lparr>scq_Owner := TrimSpace (scq_Owner request0)\<rparr> in
     if scq_Owner request = [] \<or> length (scq_Owner request) > 160 \<or> IsZero (scq_Now request) \<or>
        scq_LeaseDuration request \<le> 0 \<or> scq_BatchSize request < 1 \<or> scq_BatchSize request > 1000 \<or>
        scq_AgingInterval request \<le> 0 \<or> scq_MaximumAgingBoost request < 0 \<or>
        scq_MaximumAgingBoost request > 1000 then
       (Inl (Plain ''scheduler claim requires bounded owner, clock, lease, batch, and aging policy''), d)
     else if \<exists>r \<in> set (db_runs d). claimable (scq_Now request) d r \<and> \<not> in_i32 (aging request r) then
       (Inl (Plain ''claim scheduler queue''), d)
     else
       let rows = claim_rows request busy d; uids = map (run_ID \<circ> rr_Run) rows in
       (Inr (List.map_filter (claim_with_attempt request d) rows),
        d\<lparr>db_runs := sql_update (\<lambda>r. run_ID (rr_Run r) \<in> set uids) (claimed_row request) (db_runs d)\<rparr>))"

section \<open>Renew\<close>

definition holds_lease :: "string \<Rightarrow> gtime \<Rightarrow> RunRow \<Rightarrow> bool" where
  "holds_lease owner now r \<longleftrightarrow> rr_Status r = AgentRunScheduling \<and> rr_LeaseOwner r = Some owner \<and>
     (\<exists>t \<in> set_option (rr_LeaseExpiresAt r). t > now)"

definition Renew ::
  "lib \<Rightarrow> uuid \<Rightarrow> uuid \<Rightarrow> string \<Rightarrow> int \<Rightarrow> gtime \<Rightarrow> duration \<Rightarrow> db \<Rightarrow> int result \<times> db" where
  "Renew L tenantID runID owner0 expectedVersion now lease d =
    (let owner = TrimSpace owner0 in
     if lib_Version L tenantID \<noteq> 7 \<or> lib_Version L runID \<noteq> 7 \<or> owner = [] \<or> length owner > 160 \<or>
        expectedVersion < 1 \<or> IsZero now \<or> lease \<le> 0 then
       (Inl (Plain ''scheduler lease renewal metadata is invalid''), d)
     else
       let matching = (\<lambda>r. run_key tenantID runID r \<and> holds_lease owner now r \<and> rr_Version r = expectedVersion) in
       if \<exists>r \<in> set (db_runs d). matching r then
         (Inr (expectedVersion + 1),
          d\<lparr>db_runs := sql_update matching (\<lambda>r. r\<lparr>rr_LeaseExpiresAt := Some (now + lease),
             rr_Run := (rr_Run r)\<lparr>run_UpdatedAt := now, run_Version := rr_Version r + 1\<rparr>\<rparr>) (db_runs d)\<rparr>)
       else if \<exists>r \<in> set (db_runs d). run_key tenantID runID r then (Inl (Sentinel ErrVersionConflict), d)
       else (Inl (Sentinel ErrNotFound), d))"

section \<open>Eligibility\<close>

fun active_status :: "AgentRunStatus \<Rightarrow> bool" where
  "active_status AgentRunProvisioning = True"
| "active_status AgentRunRunning = True"
| "active_status AgentRunTesting = True"
| "active_status AgentRunBuilding = True"
| "active_status AgentRunScanning = True"
| "active_status AgentRunReadyToDeploy = True"
| "active_status AgentRunDeploying = True"
| "active_status AgentRunCancelling = True"
| "active_status _ = False"

fun queued_status :: "AgentRunStatus \<Rightarrow> bool" where
  "queued_status AgentRunQueued = True"
| "queued_status AgentRunScheduling = True"
| "queued_status AgentRunCapacityWait = True"
| "queued_status _ = False"

definition usage_of_day :: "uuid \<Rightarrow> gtime \<Rightarrow> BudgetUsage \<Rightarrow> bool" where
  "usage_of_day tenantID now u \<longleftrightarrow>
     bu_TenantID u = tenantID \<and> bu_UsageDate u = now - now mod (24 * hour)"

definition readSchedulingUsage :: "uuid \<Rightarrow> string \<Rightarrow> gtime \<Rightarrow> db \<Rightarrow> SchedulingUsage" where
  "readSchedulingUsage tenantID createdBy now d =
    (let active = (\<lambda>r. run_TenantID (rr_Run r) = tenantID \<and> active_status (rr_Status r)) in
     \<lparr>use_ActiveTenantRuns = int (sql_count active (db_runs d)),
      use_ActiveUserRuns = int (sql_count (\<lambda>r. active r \<and> run_CreatedBy (rr_Run r) = createdBy) (db_runs d)),
      use_QueuedTenantRuns = int (sql_count (\<lambda>r. run_TenantID (rr_Run r) = tenantID \<and> queued_status (rr_Status r)) (db_runs d)),
      use_ActiveCPUMillis = sql_sum (run_CPUMillis \<circ> rr_Run) active (db_runs d),
      use_ActiveMemoryMiB = sql_sum (run_MemoryMiB \<circ> rr_Run) active (db_runs d),
      use_BudgetUsedMinorUnits =
        (case sql_row (usage_of_day tenantID now) (db_usage d) of
           None \<Rightarrow> 0 | Some u \<Rightarrow> bu_Spent u + bu_Reserved u)\<rparr>)"

definition ownership :: "uuid \<Rightarrow> uuid \<Rightarrow> db \<Rightarrow> (string \<times> string) option" where
  "ownership tenantID projectID d =
    (case sql_row (\<lambda>(t, status). t = tenantID) (db_tenants d) of
       None \<Rightarrow> None
     | Some (_, tenantStatus) \<Rightarrow>
         map_option (\<lambda>(_, _, projectStatus). (tenantStatus, projectStatus))
           (sql_row (\<lambda>(p, t, status). p = projectID \<and> t = tenantID) (db_projects d)))"

definition Evaluate_tx ::
  "lib \<Rightarrow> uuid option \<Rightarrow> ClaimedRun \<Rightarrow> gtime \<Rightarrow> db \<Rightarrow> (EligibilityDecision \<times> db) result" where
  "Evaluate_tx L newV7 run now d =
    (if lib_Version L (clm_ID run) \<noteq> 7 \<or> lib_Version L (clm_TenantID run) \<noteq> 7 \<or>
        lib_Version L (clm_ProjectID run) \<noteq> 7 \<or> clm_AttemptNumber run < 1 \<or> clm_Version run < 1 \<or> IsZero now then
       Inl (Plain ''claimed run identity and evaluation time are required'')
     else
     and_then (required (ownership (clm_TenantID run) (clm_ProjectID run) d)) (\<lambda>(tenantStatus, projectStatus).
     let usage = readSchedulingUsage (clm_TenantID run) (clm_CreatedBy run) now d in
     and_then (EvaluateEligibility \<lparr>el_TenantStatus = tenantStatus, el_ProjectStatus = projectStatus,
         el_Request = \<lparr>sr_Runtime = clm_Runtime run, sr_ExecutionProfile = clm_ExecutionProfile run,
           sr_CreatedBy = clm_CreatedBy run, sr_CPUMillis = clm_CPUMillis run, sr_MemoryMiB = clm_MemoryMiB run\<rparr>,
         el_Policy = db_policies d (clm_TenantID run), el_Usage = usage, el_Now = now\<rparr>) (\<lambda>decision.
     case newV7 of
       None \<Rightarrow> Inl (Plain ''generate eligibility decision ID'')
     | Some decisionID \<Rightarrow>
     and_then (ensure (lib_Version L decisionID = 7 \<and> (\<forall>e \<in> set (db_decisions d). er_ID e \<noteq> decisionID) \<and>
         (\<exists>r \<in> set (db_runs d). run_key (clm_TenantID run) (clm_ID run) r))
         (Plain ''persist eligibility decision'')) (\<lambda>_.
     Inr (decision, d\<lparr>db_decisions := db_decisions d @
        [\<lparr>er_ID = decisionID, er_TenantID = clm_TenantID run, er_RunID = clm_ID run,
          er_AttemptNumber = clm_AttemptNumber run, er_RunVersion = clm_Version run,
          er_Decision = decision, er_Usage = usage, er_EvaluatedAt = now\<rparr>]\<rparr>)))))"

definition Evaluate ::
  "lib \<Rightarrow> uuid option \<Rightarrow> ClaimedRun \<Rightarrow> gtime \<Rightarrow> db \<Rightarrow> EligibilityDecision result \<times> db" where
  "Evaluate L newV7 run now = commits (Evaluate_tx L newV7 run now)"

section \<open>The order of the queue\<close>

definition queue_key :: "SchedulerClaimRequest \<Rightarrow> RunRow list \<Rightarrow> RunRow \<Rightarrow> nat \<times> int \<times> int \<times> uuid \<times> uuid" where
  "queue_key request base r = (tenant_rank request base r, - effective_priority request r,
     run_CreatedAt (rr_Run r), run_TenantID (rr_Run r), run_ID (rr_Run r))"

lemma less_pair: "(a, x) < (b, y) \<longleftrightarrow> (if a \<noteq> b then a < b else x < y)" for a b :: "'a :: linorder" and x y :: "'b :: linorder"
  by auto

lemma before_in_queue_key: "before_in_queue request base a b \<longleftrightarrow> queue_key request base a < queue_key request base b"
  by (simp only: before_in_queue_def queue_key_def less_pair neg_equal_iff_equal neg_less_iff_less)

interpretation queue: go_less "before_in_queue request base" for request base
  by unfold_locales (auto simp: before_in_queue_key)

text \<open>Identifiers are unique, and so are the numbers of the attempts of a run.\<close>

abbreviation row_id :: "RunRow \<Rightarrow> uuid" where
  "row_id r \<equiv> run_ID (rr_Run r)"

definition runs_inv :: "db \<Rightarrow> bool" where
  "runs_inv d \<longleftrightarrow> distinct (map row_id (db_runs d)) \<and> (\<forall>r \<in> set (db_runs d). row_checks r)"

lemma runs_inv_id: "runs_inv d \<Longrightarrow> r \<in> set (db_runs d) \<Longrightarrow> r' \<in> set (db_runs d) \<Longrightarrow> row_id r = row_id r' \<Longrightarrow> r = r'"
  by (rule distinct_map_eq [where f = row_id and xs = "db_runs d"]) (simp_all add: runs_inv_def)

lemma set_claim_rows:
  assumes "r \<in> set (claim_rows request busy d)"
  shows "r \<in> set (db_runs d)" "claimable (scq_Now request) d r" "row_id r \<notin> set busy"
  using in_set_takeD [OF assms [unfolded claim_rows_def Let_def]] by auto

text \<open>An accepted claim, with the trimmed request.\<close>

lemma Queue_ClaimE:
  assumes "Queue_Claim request0 busy d = (Inr claims, d')"
  obtains request where "request = request0\<lparr>scq_Owner := TrimSpace (scq_Owner request0)\<rparr>"
    "claims = List.map_filter (claim_with_attempt request d) (claim_rows request busy d)"
    "d' = d\<lparr>db_runs := sql_update (\<lambda>r. row_id r \<in> row_id ` set (claim_rows request busy d)) (claimed_row request) (db_runs d)\<rparr>"
    "scq_Owner request \<noteq> []" "length (scq_Owner request) \<le> 160" "0 < scq_LeaseDuration request"
    "TrimSpace (scq_Owner request) = scq_Owner request"
  using assms unfolding Queue_Claim_def Let_def
  by (auto simp: not_less not_le comp_def split: if_splits)

lemma claim_attempt:
  assumes "r \<in> set (claim_rows request busy d)"
  shows "\<exists>a. sql_row (current_attempt r) (db_attempts d) = Some a"
proof -
  have "\<exists>a \<in> set (db_attempts d). current_attempt r a"
    using set_claim_rows(2) [OF assms] by (auto simp: claimable_def)
  then show ?thesis by (metis not_None_eq sql_row_None)
qed

lemma claims_of_rows:
  "List.map_filter (claim_with_attempt request d) (claim_rows request busy d) =
     map (\<lambda>r. claim_of request (the (sql_row (current_attempt r) (db_attempts d))) r) (claim_rows request busy d)"
proof (rule map_filter_all)
  fix r assume "r \<in> set (claim_rows request busy d)"
  then obtain a where "sql_row (current_attempt r) (db_attempts d) = Some a" using claim_attempt by blast
  then show "claim_with_attempt request d r = Some (claim_of request (the (sql_row (current_attempt r) (db_attempts d))) r)"
    by (simp add: claim_with_attempt_def)
qed

lemma claim_ids:
  "map clm_ID (List.map_filter (claim_with_attempt request d) (claim_rows request busy d)) =
     map row_id (claim_rows request busy d)"
  unfolding claims_of_rows by (simp add: claim_of_def Let_def)

lemma claimed_row_lease:
  "rr_LeaseExpiresAt (claimed_row request r) = Some (scq_Now request + scq_LeaseDuration request)"
  "rr_Status (claimed_row request r) = AgentRunScheduling" "row_id (claimed_row request r) = row_id r"
  "run_TenantID (rr_Run (claimed_row request r)) = run_TenantID (rr_Run r)"
  "rr_LeaseOwner (claimed_row request r) = Some (scq_Owner request)"
  "rr_Version (claimed_row request r) = rr_Version r + 1"
  by (simp_all add: claimed_row_def)

section \<open>The runs table\<close>

text \<open>Every write of the queue keeps the constraints of the table.\<close>

lemma runs_inv_update:
  assumes "runs_inv d" "\<And>r. r \<in> set (db_runs d) \<Longrightarrow> P r \<Longrightarrow> row_checks (f r)" "\<And>r. row_id (f r) = row_id r"
  shows "runs_inv (d\<lparr>db_runs := sql_update P f (db_runs d)\<rparr>)"
proof -
  have "map row_id (sql_update P f (db_runs d)) = map row_id (db_runs d)" by (rule map_sql_update) (simp add: assms(3))
  then have "distinct (map row_id (sql_update P f (db_runs d)))" using assms(1) by (simp add: runs_inv_def)
  moreover have "\<forall>r \<in> set (sql_update P f (db_runs d)). row_checks r"
    using assms(1,2) by (auto simp: runs_inv_def sql_update_def)
  ultimately show ?thesis by (simp add: runs_inv_def)
qed

lemma row_checks_claimed:
  assumes "row_checks r" "due now r" "scq_Owner request \<noteq> []" "length (scq_Owner request) \<le> 160"
    "TrimSpace (scq_Owner request) = scq_Owner request"
  shows "row_checks (claimed_row request r)"
proof -
  have "text_ok 160 (scq_Owner request)" using assms(3-5) by (simp add: text_ok_TrimSpace)
  moreover have "plain_status (rr_Status r)" using assms(2) by (auto simp: due_def)
  moreover have "0 < rr_Version r" using assms(1) by (simp add: row_checks_def status_checks_def)
  ultimately show ?thesis
    using assms(1) unfolding row_checks_def claimed_row_def
    by (simp add: status_checks_version status_checks_plain lease_checks_def)
qed

lemma row_checks_renewed:
  assumes "row_checks r" "holds_lease owner now r"
  shows "row_checks (r\<lparr>rr_LeaseExpiresAt := Some t,
    rr_Run := (rr_Run r)\<lparr>run_UpdatedAt := now, run_Version := rr_Version r + 1\<rparr>\<rparr>)"
proof -
  have "0 < rr_Version r" using assms(1) by (simp add: row_checks_def status_checks_def)
  then show ?thesis
    using assms unfolding row_checks_def by (simp add: status_checks_version lease_checks_def holds_lease_def)
qed

section \<open>Properties\<close>

lemma claimed_not_due:
  assumes "now < scq_Now request + scq_LeaseDuration request"
  shows "\<not> due now (claimed_row request r)"
  using assms by (simp add: due_def claimed_row_lease)

text \<open>C31: A lease is exclusive: until it ends, no other claim by any owner, whatever rows are locked at that
  moment, returns a run that has been claimed.\<close>

theorem Claim_exclusive:
  assumes "runs_inv d" "Queue_Claim rq1 busy1 d = (Inr claims1, d1)" "Queue_Claim rq2 busy2 d1 = (Inr claims2, d2)"
    "scq_Now rq2 < scq_Now rq1 + scq_LeaseDuration rq1"
  shows "set (map clm_ID claims1) \<inter> set (map clm_ID claims2) = {}"
proof -
  obtain p where p: "p = rq1\<lparr>scq_Owner := TrimSpace (scq_Owner rq1)\<rparr>"
    "claims1 = List.map_filter (claim_with_attempt p d) (claim_rows p busy1 d)"
    "d1 = d\<lparr>db_runs := sql_update (\<lambda>r. row_id r \<in> row_id ` set (claim_rows p busy1 d)) (claimed_row p) (db_runs d)\<rparr>"
    using assms(2) by (rule Queue_ClaimE)
  obtain q where q: "q = rq2\<lparr>scq_Owner := TrimSpace (scq_Owner rq2)\<rparr>"
    "claims2 = List.map_filter (claim_with_attempt q d1) (claim_rows q busy2 d1)"
    using assms(3) by (rule Queue_ClaimE)
  have sep: "row_id r \<notin> row_id ` set (claim_rows p busy1 d)" if r: "r \<in> set (claim_rows q busy2 d1)" for r
  proof
    assume i: "row_id r \<in> row_id ` set (claim_rows p busy1 d)"
    have "r \<in> set (db_runs d1)" using set_claim_rows(1) [OF r] .
    then obtain y where y: "y \<in> set (db_runs d)"
      "r = (if row_id y \<in> row_id ` set (claim_rows p busy1 d) then claimed_row p y else y)"
      unfolding p(3) sql_update_def by auto
    then have "r = claimed_row p y" using i by (auto simp: claimed_row_lease split: if_splits)
    then have "\<not> due (scq_Now q) r" using claimed_not_due assms(4) p(1) q(1) by simp
    then show False using set_claim_rows(2) [OF r] by (simp add: claimable_def)
  qed
  have "x \<notin> set (map row_id (claim_rows p busy1 d))" if "x \<in> set (map row_id (claim_rows q busy2 d1))" for x
    using that unfolding set_map by (elim imageE) (simp only: sep not_False_eq_True)
  then have "set (map row_id (claim_rows p busy1 d)) \<inter> set (map row_id (claim_rows q busy2 d1)) = {}"
    by blast
  then show ?thesis by (simp only: p(2) q(2) claim_ids)
qed

definition ex_claim :: SchedulerClaimRequest where
  "ex_claim = \<lparr>scq_Owner = ''sched-1 '', scq_Now = 100, scq_LeaseDuration = 30, scq_BatchSize = 1,
     scq_AgingInterval = 10, scq_MaximumAgingBoost = 5\<rparr>"

lemma ex_runs_inv: "runs_inv ex_db"
proof -
  have "\<forall>r \<in> set (db_runs ex_db). row_checks r" by code_simp
  then show ?thesis by (simp add: runs_inv_def ex_db_def ex_row_def ex_run_def)
qed

lemma ex_claims:
  "map_sum id (map clm_ID) (fst (Queue_Claim ex_claim [] ex_db)) = Inr [7]"
  "map_sum id (map clm_ID) (fst (Queue_Claim (ex_claim\<lparr>scq_Owner := ''sched-2'', scq_Now := 120, scq_BatchSize := 5\<rparr>) []
     (snd (Queue_Claim ex_claim [] ex_db)))) = Inr [9]"
  by code_simp+

lemma map_sum_Inr: "map_sum f g x = Inr y \<longleftrightarrow> (\<exists>z. x = Inr z \<and> g z = y)"
  by (cases x) auto

theorem Claim_exclusive_witness:
  "\<exists>c1 d1 c2 d2. Queue_Claim ex_claim [] ex_db = (Inr c1, d1) \<and>
     Queue_Claim (ex_claim\<lparr>scq_Owner := ''sched-2'', scq_Now := 120, scq_BatchSize := 5\<rparr>) [] d1 = (Inr c2, d2) \<and>
     map clm_ID c1 = [7] \<and> map clm_ID c2 = [9] \<and> set (map clm_ID c1) \<inter> set (map clm_ID c2) = {}"
proof -
  let ?q = "ex_claim\<lparr>scq_Owner := ''sched-2'', scq_Now := 120, scq_BatchSize := 5\<rparr>"
  obtain c1 d1 where c1: "Queue_Claim ex_claim [] ex_db = (Inr c1, d1)" "map clm_ID c1 = [7]"
    using ex_claims(1) by (cases "Queue_Claim ex_claim [] ex_db") (auto simp: map_sum_Inr)
  obtain c2 d2 where c2: "Queue_Claim ?q [] d1 = (Inr c2, d2)" "map clm_ID c2 = [9]"
    using ex_claims(2) c1(1) by (cases "Queue_Claim ?q [] d1") (auto simp: map_sum_Inr)
  show ?thesis
    using Claim_exclusive [OF ex_runs_inv c1(1) c2(1)] c1 c2 by (auto simp: ex_claim_def)
qed



end
