(* ===== verification/Run_History.thy ===== *)
theory Run_History
  imports Sched_Queue
begin

text \<open>
  What every writer of the tables \<^verbatim>\<open>agent_runs\<close> and \<^verbatim>\<open>agent_run_attempts\<close> promises: a row
  changes by a transition of the domain (\<^verbatim>\<open>Transition\<close> of \<^verbatim>\<open>agent_run.go\<close>) with the next
  version, rows are only added, and a run that waits for the scheduler keeps a pending
  attempt.  The locale \<open>run_machine\<close> states this contract and proves what follows for any
  sequence of operations; the queue here, the scheduling intents and the run repository
  interpret it.
\<close>

section \<open>Steps of a run and of an attempt\<close>

inductive run_step :: "AgentRun \<Rightarrow> AgentRun \<Rightarrow> bool" where
  touch: "run_step r (r\<lparr>run_UpdatedAt := t, run_Version := run_Version r + 1\<rparr>)"
| move: "Transition target failure t r = (None, r') \<Longrightarrow>
    run_step r (r'\<lparr>run_Version := run_Version r + 1\<rparr>)"
| cancel: "Transition AgentRunCancelling failure t
      (r\<lparr>run_CancellationReason := why, run_CancellationRequestedBy := who,
         run_CancellationRequestedAt := Some t\<rparr>) = (None, r') \<Longrightarrow>
    run_step r (r'\<lparr>run_Version := run_Version r + 1\<rparr>)"

inductive attempt_step :: "AgentRunAttempt \<Rightarrow> AgentRunAttempt \<Rightarrow> bool" where
  move: "Attempt_Transition target failure t a = (None, a') \<Longrightarrow>
    attempt_step a (a'\<lparr>att_Version := att_Version a + 1\<rparr>)"
| assign: "Attempt_Transition AttemptStarting failure t a = (None, a') \<Longrightarrow>
    attempt_step a (a'\<lparr>att_Version := att_Version a + 1, att_SelectedCluster := cluster,
      att_ExecutionProfile := profile, att_CapacityReservationID := capacityID,
      att_BudgetReservationID := budgetID\<rparr>)"

inductive_cases run_stepE: "run_step r r'"
inductive_cases attempt_stepE: "attempt_step a a'"

lemma Transition_keeps:
  assumes "Transition target failure t r = (None, r')"
  shows "run_ID r' = run_ID r" "run_TenantID r' = run_TenantID r" "run_MaxAttempts r' = run_MaxAttempts r"
    "run_Version r' = run_Version r"
  using assms by (auto simp: Transition_def Let_def split: if_splits)

lemma run_step_keeps:
  assumes "run_step r r'"
  shows "run_ID r' = run_ID r \<and> run_TenantID r' = run_TenantID r \<and> run_Version r' = run_Version r + 1"
  using assms by cases (auto dest: Transition_keeps)

lemma run_inv_cong [simp]:
  "run_inv (r\<lparr>run_Version := v\<rparr>) = run_inv r" "run_inv (r\<lparr>run_UpdatedAt := t\<rparr>) = run_inv r"
  "run_inv (r\<lparr>run_CancellationReason := x\<rparr>) = run_inv r"
  "run_inv (r\<lparr>run_CancellationRequestedBy := x\<rparr>) = run_inv r"
  "run_inv (r\<lparr>run_CancellationRequestedAt := y\<rparr>) = run_inv r"
  by (simp_all add: run_inv_def)

lemma run_inv_Transition: "run_inv r \<Longrightarrow> Transition target failure t r = (None, r') \<Longrightarrow> run_inv r'"
  using run_inv_step [of r "(target, failure, t)" r'] by (simp add: run_command_def)

lemma run_step_inv: "run_step r r' \<Longrightarrow> run_inv r \<Longrightarrow> run_inv r'"
proof (induction rule: run_step.induct)
  case (cancel failure t r why who r')
  then show ?case using run_inv_Transition [OF _ cancel.hyps] by simp
qed (auto dest: run_inv_Transition)

text \<open>A final status is never left, whoever writes.\<close>

lemma Transition_final:
  assumes "Transition target failure t r = (None, r')" "run_final (run_Status r)"
  shows "r' = r"
proof -
  have "CanTransition r target" using assms(1) by (simp add: Transition_def split: if_splits)
  then have "target = run_Status r"
    using assms(2) by (auto simp: CanTransition_def run_final_def split: if_splits)
  then show ?thesis using assms(1) by (simp add: Transition_def split: if_splits)
qed

lemma run_step_final: "run_step r r' \<Longrightarrow> run_final (run_Status r) \<Longrightarrow> run_Status r' = run_Status r"
proof (induction rule: run_step.induct)
  case (cancel failure t r why who r')
  then show ?case using Transition_final [OF cancel.hyps] by simp
qed (auto dest: Transition_final)

lemma attempt_inv_cong [simp]:
  "attempt_inv (a\<lparr>att_Version := v\<rparr>) = attempt_inv a" "attempt_inv (a\<lparr>att_SelectedCluster := x\<rparr>) = attempt_inv a"
  "attempt_inv (a\<lparr>att_ExecutionProfile := x\<rparr>) = attempt_inv a"
  "attempt_inv (a\<lparr>att_CapacityReservationID := u\<rparr>) = attempt_inv a"
  "attempt_inv (a\<lparr>att_BudgetReservationID := u\<rparr>) = attempt_inv a"
  by (simp_all add: attempt_inv_def)

lemma attempt_inv_Transition: "attempt_inv a \<Longrightarrow> Attempt_Transition target failure t a = (None, a') \<Longrightarrow> attempt_inv a'"
  using attempt_inv_step [of a "(target, failure, t)" a'] by (simp add: attempt_command_def)

lemma attempt_step_inv: "attempt_step a a' \<Longrightarrow> attempt_inv a \<Longrightarrow> attempt_inv a'"
  by (auto elim!: attempt_stepE dest: attempt_inv_Transition)

lemma Attempt_Transition_keeps:
  assumes "Attempt_Transition target failure t a = (None, a')"
  shows "att_ID a' = att_ID a" "att_TenantID a' = att_TenantID a" "att_RunID a' = att_RunID a"
    "att_AttemptNumber a' = att_AttemptNumber a"
  using assms by (auto simp: Attempt_Transition_def Let_def split: if_splits)

lemma attempt_step_keeps:
  assumes "attempt_step a a'"
  shows "att_ID a' = att_ID a \<and> att_TenantID a' = att_TenantID a \<and> att_RunID a' = att_RunID a \<and>
    att_AttemptNumber a' = att_AttemptNumber a"
  using assms by cases (auto dest: Attempt_Transition_keeps)

section \<open>The tables\<close>

text \<open>How the two tables may change: the rows keep their places, new rows come last.\<close>

definition evolves :: "('a \<Rightarrow> 'a \<Rightarrow> bool) \<Rightarrow> ('a \<Rightarrow> bool) \<Rightarrow> 'a list \<Rightarrow> 'a list \<Rightarrow> bool" where
  "evolves step good xs ys \<longleftrightarrow>
     (\<exists>rows new. ys = rows @ new \<and> list_all2 step\<^sup>*\<^sup>* xs rows \<and> (\<forall>a \<in> set new. good a))"

definition runs_evolve :: "db \<Rightarrow> db \<Rightarrow> bool" where
  "runs_evolve d d' \<longleftrightarrow> evolves run_step run_inv (map rr_Run (db_runs d)) (map rr_Run (db_runs d'))"

definition attempts_evolve :: "db \<Rightarrow> db \<Rightarrow> bool" where
  "attempts_evolve d d' \<longleftrightarrow> evolves attempt_step attempt_inv (db_attempts d) (db_attempts d')"

definition attempt_no :: "AgentRunAttempt \<Rightarrow> uuid \<times> int" where
  "attempt_no a = (att_RunID a, att_AttemptNumber a)"

text \<open>
  The keys of the attempts, and the pending attempt every run in the queue has: without it the
  query of \<^verbatim>\<open>Claim\<close> would pass the run over for ever.
\<close>

definition attempts_inv :: "db \<Rightarrow> bool" where
  "attempts_inv d \<longleftrightarrow> distinct (map att_ID (db_attempts d)) \<and> distinct (map attempt_no (db_attempts d))"

definition waiting_inv :: "db \<Rightarrow> bool" where
  "waiting_inv d \<longleftrightarrow> (\<forall>r \<in> set (db_runs d). queued_status (rr_Status r) \<longrightarrow>
     (\<exists>a \<in> set (db_attempts d). current_attempt r a \<and> att_Status a = AttemptPending))"

definition store_inv :: "db \<Rightarrow> bool" where
  "store_inv d \<longleftrightarrow> runs_inv d \<and> attempts_inv d \<and> waiting_inv d"

definition domain_inv :: "db \<Rightarrow> bool" where
  "domain_inv d \<longleftrightarrow> (\<forall>r \<in> set (db_runs d). run_inv (rr_Run r)) \<and> (\<forall>a \<in> set (db_attempts d). attempt_inv a)"

lemma run_steps_inv: "run_step\<^sup>*\<^sup>* r r' \<Longrightarrow> run_inv r \<Longrightarrow> run_inv r'"
  by (induction rule: rtranclp_induct) (auto intro: run_step_inv)

lemma attempt_steps_inv: "attempt_step\<^sup>*\<^sup>* a a' \<Longrightarrow> attempt_inv a \<Longrightarrow> attempt_inv a'"
  by (induction rule: rtranclp_induct) (auto intro: attempt_step_inv)

lemma run_steps_final: "run_step\<^sup>*\<^sup>* r r' \<Longrightarrow> run_final (run_Status r) \<Longrightarrow> run_Status r' = run_Status r"
  by (induction rule: rtranclp_induct) (auto dest: run_step_final)

lemma run_steps_keep:
  "run_step\<^sup>*\<^sup>* r r' \<Longrightarrow> run_ID r' = run_ID r \<and> run_TenantID r' = run_TenantID r \<and> run_Version r \<le> run_Version r'"
  by (induction rule: rtranclp_induct) (auto dest: run_step_keeps)

lemma evolves_refl: "evolves step good xs xs"
  unfolding evolves_def by (rule exI [of _ xs]) (simp add: list_all2_refl)

lemma list_all2_in_set2: "list_all2 P xs ys \<Longrightarrow> y \<in> set ys \<Longrightarrow> \<exists>x \<in> set xs. P x y"
  by (induction rule: list_all2_induct) auto

lemma list_all2_in_set1: "list_all2 P xs ys \<Longrightarrow> x \<in> set xs \<Longrightarrow> \<exists>y \<in> set ys. P x y"
  by (induction rule: list_all2_induct) auto

lemma evolves_trans:
  assumes "evolves step good xs ys" "evolves step good ys zs"
    and good: "\<And>a b. step\<^sup>*\<^sup>* a b \<Longrightarrow> good a \<Longrightarrow> good b"
  shows "evolves step good xs zs"
proof -
  obtain rows new where a: "ys = rows @ new" "list_all2 step\<^sup>*\<^sup>* xs rows" "\<forall>a \<in> set new. good a"
    using assms(1) unfolding evolves_def by blast
  obtain rows' new' where b: "zs = rows' @ new'" "list_all2 step\<^sup>*\<^sup>* ys rows'" "\<forall>a \<in> set new'. good a"
    using assms(2) unfolding evolves_def by blast
  obtain r1 r2 where split: "rows' = r1 @ r2" "list_all2 step\<^sup>*\<^sup>* rows r1" "list_all2 step\<^sup>*\<^sup>* new r2"
    using b(2) unfolding a(1) list_all2_append1 by blast
  have "list_all2 step\<^sup>*\<^sup>* xs r1"
    by (rule list_all2_trans [OF _ a(2) split(2)]) (rule rtranclp_trans)
  moreover have "\<forall>y \<in> set r2. good y" using list_all2_in_set2 [OF split(3)] a(3) good by blast
  ultimately show ?thesis
    unfolding evolves_def using b(1,3) split(1) by (intro exI [of _ r1] exI [of _ "r2 @ new'"]) auto
qed

lemma evolves_good:
  assumes "evolves step good xs ys" "\<And>a b. step\<^sup>*\<^sup>* a b \<Longrightarrow> good a \<Longrightarrow> good b" "\<forall>x \<in> set xs. good x" "y \<in> set ys"
  shows "good y"
proof -
  obtain rows new where a: "ys = rows @ new" "list_all2 step\<^sup>*\<^sup>* xs rows" "\<forall>a \<in> set new. good a"
    using assms(1) unfolding evolves_def by blast
  then show ?thesis using list_all2_in_set2 [OF a(2)] assms(2-4) by fastforce
qed

lemma evolves_row:
  assumes "evolves step good xs ys" "x \<in> set xs"
  shows "\<exists>y \<in> set ys. step\<^sup>*\<^sup>* x y"
proof -
  obtain rows new where a: "ys = rows @ new" "list_all2 step\<^sup>*\<^sup>* xs rows"
    using assms(1) unfolding evolves_def by blast
  then show ?thesis using list_all2_in_set1 [OF a(2) assms(2)] by auto
qed

text \<open>An update of rows, and an insertion of one row.\<close>

lemma evolves_update:
  assumes "\<And>x. x \<in> set xs \<Longrightarrow> P x \<Longrightarrow> step (k x) (k (f x))"
  shows "evolves step good (map k xs) (map k (sql_update P f xs))"
proof -
  have "list_all2 step\<^sup>*\<^sup>* (map k xs) (map k (sql_update P f xs))"
    using assms by (induction xs) (auto simp: sql_update_def)
  then show ?thesis unfolding evolves_def by (intro exI [of _ "map k (sql_update P f xs)"] exI [of _ "[]"]) simp
qed

lemma evolves_insert: "good x \<Longrightarrow> evolves step good xs (xs @ [x])"
  unfolding evolves_def by (intro exI [of _ xs] exI [of _ "[x]"]) (simp add: list_all2_refl)

section \<open>The contract of a writer\<close>

definition kept :: "db \<Rightarrow> db \<Rightarrow> bool" where
  "kept d d' \<longleftrightarrow> store_inv d' \<and> runs_evolve d d' \<and> attempts_evolve d d'"

lemma kept_refl: "store_inv d \<Longrightarrow> kept d d"
  by (simp add: kept_def runs_evolve_def attempts_evolve_def evolves_refl)

lemma kept_trans:
  assumes "kept d d'" "kept d' d''"
  shows "kept d d''"
proof -
  have "runs_evolve d d''"
    using assms unfolding kept_def runs_evolve_def by (auto intro: evolves_trans run_steps_inv)
  moreover have "attempts_evolve d d''"
    using assms unfolding kept_def attempts_evolve_def by (auto intro: evolves_trans attempt_steps_inv)
  ultimately show ?thesis using assms(2) by (simp add: kept_def)
qed

lemma kept_commits:
  assumes "store_inv d" "\<And>a d'. tx d = Inr (a, d') \<Longrightarrow> kept d d'"
  shows "kept d (snd (commits tx d))"
  using assms by (auto simp: commits_def kept_refl split: sum.splits)

locale run_machine =
  fixes exec :: "'o \<Rightarrow> db \<Rightarrow> db"
  assumes exec_kept: "store_inv d \<Longrightarrow> kept d (exec oper d)"
begin

lemma history:
  assumes "store_inv d"
  shows "kept d (fold exec ops d)"
  using assms
proof (induction ops arbitrary: d)
  case (Cons oper ops)
  have step: "kept d (exec oper d)" by (rule exec_kept [OF Cons.prems])
  then have "store_inv (exec oper d)" by (simp add: kept_def)
  from kept_trans [OF step Cons.IH [OF this]] show ?case by simp
qed (simp add: kept_refl)

lemma history_domain:
  assumes "store_inv d" "domain_inv d"
  shows "domain_inv (fold exec ops d)"
proof -
  have h: "runs_evolve d (fold exec ops d)" "attempts_evolve d (fold exec ops d)"
    using history [OF assms(1)] by (auto simp: kept_def)
  show ?thesis
    using evolves_good [OF h(1) [unfolded runs_evolve_def] run_steps_inv]
      evolves_good [OF h(2) [unfolded attempts_evolve_def] attempt_steps_inv] assms(2)
    by (auto simp: domain_inv_def)
qed

lemma history_run:
  assumes "store_inv d" "r \<in> set (db_runs d)"
  shows "\<exists>r' \<in> set (db_runs (fold exec ops d)). row_id r' = row_id r \<and> rr_Version r \<le> rr_Version r' \<and>
    (run_final (rr_Status r) \<longrightarrow> rr_Status r' = rr_Status r)"
proof -
  have "runs_evolve d (fold exec ops d)" using history [OF assms(1)] by (simp add: kept_def)
  then obtain y where "y \<in> set (map rr_Run (db_runs (fold exec ops d)))" "run_step\<^sup>*\<^sup>* (rr_Run r) y"
    using evolves_row [of run_step run_inv "map rr_Run (db_runs d)" _ "rr_Run r"] assms(2)
    unfolding runs_evolve_def by fastforce
  then show ?thesis using run_steps_keep run_steps_final by fastforce
qed

end

section \<open>The queue\<close>

lemma waiting_inv_update:
  assumes "waiting_inv d"
    "\<And>r. r \<in> set (db_runs d) \<Longrightarrow> P r \<Longrightarrow> queued_status (rr_Status (f r)) \<Longrightarrow>
       queued_status (rr_Status r) \<and> (\<forall>a. current_attempt (f r) a = current_attempt r a)"
  shows "waiting_inv (d\<lparr>db_runs := sql_update P f (db_runs d)\<rparr>)"
  using assms unfolding waiting_inv_def sql_update_def by fastforce

lemma attempts_inv_runs [simp]: "attempts_inv (d\<lparr>db_runs := rs\<rparr>) = attempts_inv d"
  by (simp add: attempts_inv_def)

text \<open>An update of the runs table alone, as a step of the contract.\<close>

lemma store_update:
  assumes "store_inv d"
    and row: "\<And>r. r \<in> set (db_runs d) \<Longrightarrow> P r \<Longrightarrow> row_checks (f r) \<and> run_step (rr_Run r) (rr_Run (f r)) \<and>
      run_AttemptCount (rr_Run (f r)) = run_AttemptCount (rr_Run r) \<and>
      (queued_status (rr_Status (f r)) \<longrightarrow> queued_status (rr_Status r))"
    and ids: "\<And>r. row_id (f r) = row_id r"
  shows "kept d (d\<lparr>db_runs := sql_update P f (db_runs d)\<rparr>)" (is "kept d ?d'")
proof -
  have "runs_inv ?d'" by (rule runs_inv_update) (use assms(1) row ids in \<open>auto simp: store_inv_def\<close>)
  moreover have "waiting_inv ?d'"
   
  proof (rule waiting_inv_update)
    show "waiting_inv d" using assms(1) by (simp add: store_inv_def)
    fix r assume r: "r \<in> set (db_runs d)" "P r" "queued_status (rr_Status (f r))"
    have "run_TenantID (rr_Run (f r)) = run_TenantID (rr_Run r)" using row [OF r(1,2)] run_step_keeps by blast
    then show "queued_status (rr_Status r) \<and> (\<forall>a. current_attempt (f r) a = current_attempt r a)"
      using row [OF r(1,2)] r(3) ids [of r] by (simp add: current_attempt_def)
  qed
  ultimately have "store_inv ?d'" using assms(1) by (simp add: store_inv_def)
  moreover have "runs_evolve d ?d'" using row by (simp add: runs_evolve_def evolves_update)
  ultimately show ?thesis by (simp add: kept_def attempts_evolve_def evolves_refl)
qed

lemma run_Status_same: "run_Status r = s \<Longrightarrow> r\<lparr>run_Status := s\<rparr> = r"
  by (cases r) simp

lemma run_step_claimed:
  assumes "due now r"
  shows "run_step (rr_Run r) (rr_Run (claimed_row request r))"
proof -
  let ?t = "scq_Now request" and ?run = "rr_Run r"
  consider "rr_Status r = AgentRunScheduling" | "rr_Status r = AgentRunQueued \<or> rr_Status r = AgentRunCapacityWait"
    using assms by (auto simp: due_def)
  then show ?thesis
  proof cases
    case 1
    then have "rr_Run (claimed_row request r) = ?run\<lparr>run_UpdatedAt := ?t, run_Version := run_Version ?run + 1\<rparr>"
      by (simp add: claimed_row_def run_Status_same)
    then show ?thesis by (simp only: run_step.touch)
  next
    case 2
    then have "CanTransition ?run AgentRunScheduling" "rr_Status r \<noteq> AgentRunScheduling" "\<not> IsTerminal AgentRunScheduling"
      by (auto simp: CanTransition_def)
    then have "Transition AgentRunScheduling FailureNone ?t ?run =
      (None, ?run\<lparr>run_Status := AgentRunScheduling, run_UpdatedAt := ?t\<rparr>)"
      by (simp add: Transition_def Let_def)
    from run_step.move [OF this] show ?thesis by (simp add: claimed_row_def)
  qed
qed

lemma Claim_store:
  assumes "store_inv d"
  shows "kept d (snd (Queue_Claim request busy d))"
proof (cases "fst (Queue_Claim request busy d)")
  case (Inl e)
  then have "snd (Queue_Claim request busy d) = d" by (auto simp: Queue_Claim_def Let_def split: if_splits)
  then show ?thesis using assms by (simp add: kept_refl)
next
  case (Inr claims)
  then obtain d' where q: "Queue_Claim request busy d = (Inr claims, d')" by (metis prod.collapse)
  obtain rq where rq: "d' = d\<lparr>db_runs := sql_update (\<lambda>r. row_id r \<in> row_id ` set (claim_rows rq busy d)) (claimed_row rq) (db_runs d)\<rparr>"
    "scq_Owner rq \<noteq> []" "length (scq_Owner rq) \<le> 160" "TrimSpace (scq_Owner rq) = scq_Owner rq"
    using q by (rule Queue_ClaimE)
  have inv: "runs_inv d" using assms(1) by (simp add: store_inv_def)
  have "row_checks (claimed_row rq r) \<and> run_step (rr_Run r) (rr_Run (claimed_row rq r)) \<and>
      run_AttemptCount (rr_Run (claimed_row rq r)) = run_AttemptCount (rr_Run r) \<and>
      (queued_status (rr_Status (claimed_row rq r)) \<longrightarrow> queued_status (rr_Status r))"
    if r: "r \<in> set (db_runs d)" "row_id r \<in> row_id ` set (claim_rows rq busy d)" for r
  proof -
    obtain r' where r': "r' \<in> set (claim_rows rq busy d)" "row_id r = row_id r'" using r(2) by blast
    have "r = r'" by (rule runs_inv_id [OF inv r(1) set_claim_rows(1) [OF r'(1)] r'(2)])
    then have due: "due (scq_Now rq) r" using set_claim_rows(2) [OF r'(1)] by (simp add: claimable_def)
    have "row_checks (claimed_row rq r)"
      using row_checks_claimed [OF _ due rq(2-4)] r(1) inv by (simp add: runs_inv_def)
    moreover have "queued_status (rr_Status r)" using due by (auto simp: due_def)
    ultimately show ?thesis using run_step_claimed [OF due] by (simp add: claimed_row_def)
  qed
  then have "kept d d'" unfolding rq(1) by (intro store_update [OF assms]) (simp_all add: claimed_row_lease)
  then show ?thesis by (simp add: q)
qed

lemma Renew_store:
  assumes "store_inv d"
  shows "kept d (snd (Renew L tenantID runID owner version now lease d))"
proof -
  let ?f = "\<lambda>r. r\<lparr>rr_LeaseExpiresAt := Some (now + lease),
    rr_Run := (rr_Run r)\<lparr>run_UpdatedAt := now, run_Version := rr_Version r + 1\<rparr>\<rparr>"
  let ?m = "\<lambda>r. run_key tenantID runID r \<and> holds_lease (TrimSpace owner) now r \<and> rr_Version r = version"
  have inv: "runs_inv d" using assms by (simp add: store_inv_def)
  have "kept d (d\<lparr>db_runs := sql_update ?m ?f (db_runs d)\<rparr>)"
    by (rule store_update [OF assms]) (use row_checks_renewed inv in \<open>auto simp: runs_inv_def run_step.touch\<close>)
  then show ?thesis using assms by (simp add: Renew_def Let_def kept_refl)
qed

datatype queue_op =
    OpClaim SchedulerClaimRequest "uuid list"
  | OpRenew uuid uuid string int gtime duration

fun queue_exec :: "lib \<Rightarrow> queue_op \<Rightarrow> db \<Rightarrow> db" where
  "queue_exec L (OpClaim request busy) d = snd (Queue_Claim request busy d)"
| "queue_exec L (OpRenew tenantID runID owner version now lease) d =
     snd (Renew L tenantID runID owner version now lease d)"

interpretation queue_runs: run_machine "queue_exec L" for L
proof
  fix d oper assume "store_inv d"
  then show "kept d (queue_exec L oper d)" using Claim_store Renew_store by (cases oper) simp_all
qed

text \<open>A run whose instant has come is in the queue: the claim is able to see it.\<close>

lemma waiting_claimable:
  assumes "store_inv d" "r \<in> set (db_runs d)"
  shows "claimable now d r \<longleftrightarrow> due now r"
proof -
  have "due now r \<Longrightarrow> queued_status (rr_Status r)" by (auto simp: due_def)
  then show ?thesis using assms by (auto simp: claimable_def store_inv_def waiting_inv_def)
qed

end
