(* ===== verification/Outbox.thy ===== *)
theory Outbox
  imports Db_Schema "HOL-Library.Product_Lexorder"
begin

text \<open>
  The transactional outbox
  (\<^verbatim>\<open>services/platform-api/internal/adapters/postgres/outbox.go\<close>): the insertion of an event,
  the claim of due events, the recording of their fate and the removal of published rows; and
  the relay that publishes them (\<^verbatim>\<open>application/outbox/relay.go\<close>).  A relay round is run
  against the answers of the broker, the clock and the success of each write, so a crash, a
  lost write and a failing broker are inputs of the model.
\<close>

section \<open>Insertion\<close>

definition outbox_row :: "OutboxEvent \<Rightarrow> OutboxRow" where
  "outbox_row event =
    (let e = oe_Envelope event in
     \<lparr>ob_EventID = env_EventID e, ob_TenantID = env_TenantID e, ob_ProjectID = env_ProjectID e,
      ob_RunID = env_RunID e, ob_EventType = env_EventType e, ob_SchemaVersion = env_SchemaVersion e,
      ob_AggregateType = env_AggregateType e, ob_AggregateID = env_AggregateID e,
      ob_AggregateVersion = env_AggregateVersion e, ob_Topic = oe_Topic event,
      ob_PartitionKey = oe_PartitionKey event, ob_Envelope = oe_Serialized event,
      ob_Disposition = DispositionPending, ob_NextAttemptAt = oe_CreatedAt event,
      ob_PublicationAttempts = 0, ob_ClaimedBy = None, ob_ClaimExpiresAt = None,
      ob_PublishedAt = None, ob_BrokerPartition = None, ob_BrokerOffset = None,
      ob_LastFailureCategory = None, ob_LastFailureReason = None, ob_LastFailureAt = None,
      ob_CreatedAt = oe_CreatedAt event\<rparr>)"

definition outbox_checks :: "lib \<Rightarrow> OutboxRow \<Rightarrow> bool" where
  "outbox_checks L r \<longleftrightarrow> lib_Version L (ob_EventID r) = 7 \<and> text_ok 160 (ob_EventType r) \<and>
     ob_SchemaVersion r > 0 \<and> ob_AggregateVersion r > 0 \<and> text_ok 249 (ob_Topic r) \<and>
     text_ok 255 (ob_PartitionKey r) \<and> ob_PublicationAttempts r \<ge> 0 \<and>
     (ob_ClaimedBy r = None \<longleftrightarrow> ob_ClaimExpiresAt r = None) \<and>
     (ob_Disposition r = DispositionPublished \<longleftrightarrow> ob_PublishedAt r \<noteq> None) \<and>
     optional (\<lambda>s. char_length s \<le> 1000) (ob_LastFailureReason r)"

definition insertOutboxEvent :: "lib \<Rightarrow> OutboxEvent \<Rightarrow> db \<Rightarrow> db result" where
  "insertOutboxEvent L event d =
    (let r = outbox_row event in
     and_then (ensure (outbox_checks L r) (translateError OtherFailure)) (\<lambda>_.
     and_then (ensure (\<forall>r' \<in> set (db_outbox d). ob_EventID r' \<noteq> ob_EventID r)
         (translateError UniqueViolation)) (\<lambda>_.
     and_then (ensure (ob_TenantID r \<in> fst ` set (db_tenants d)) (translateError ForeignKeyViolation)) (\<lambda>_.
     Inr (d\<lparr>db_outbox := db_outbox d @ [r]\<rparr>)))))"

section \<open>Claim\<close>

record ClaimedOutboxEvent = OutboxEvent +
  coe_PublicationAttempts :: int
  coe_ClaimedBy :: string
  coe_ClaimExpiresAt :: gtime

text \<open>
  The JSON column: PostgreSQL returns a text of its own for the stored value, and
  \<^verbatim>\<open>json.Unmarshal\<close> fills an envelope that already holds the columns.
\<close>

record jsonb =
  jb_text :: "string \<Rightarrow> string"
  jb_unmarshal :: "string \<Rightarrow> Envelope \<Rightarrow> Envelope option"

definition column_envelope :: "OutboxRow \<Rightarrow> Envelope" where
  "column_envelope r = zero_Envelope\<lparr>env_EventID := ob_EventID r, env_TenantID := ob_TenantID r,
     env_ProjectID := ob_ProjectID r, env_RunID := ob_RunID r, env_EventType := ob_EventType r,
     env_SchemaVersion := ob_SchemaVersion r, env_AggregateType := ob_AggregateType r,
     env_AggregateID := ob_AggregateID r, env_AggregateVersion := ob_AggregateVersion r\<rparr>"

definition scanClaimedOutbox :: "jsonb \<Rightarrow> string \<Rightarrow> gtime \<Rightarrow> OutboxRow \<Rightarrow> ClaimedOutboxEvent result" where
  "scanClaimedOutbox J owner expires r =
    (let serialized = jb_text J (ob_Envelope r) in
     case jb_unmarshal J serialized (column_envelope r) of
       None \<Rightarrow> Inl (Plain ''decode claimed outbox envelope'')
     | Some e \<Rightarrow> Inr \<lparr>oe_Envelope = e, oe_Topic = ob_Topic r, oe_PartitionKey = ob_PartitionKey r,
         oe_Headers = [], oe_Serialized = serialized, oe_CreatedAt = ob_CreatedAt r,
         coe_PublicationAttempts = ob_PublicationAttempts r, coe_ClaimedBy = owner,
         coe_ClaimExpiresAt = expires\<rparr>)"

fun scan_all :: "('r \<Rightarrow> 'a result) \<Rightarrow> 'r list \<Rightarrow> 'a list result" where
  "scan_all scan [] = Inr []"
| "scan_all scan (r # rs) = and_then (scan r) (\<lambda>x. and_then (scan_all scan rs) (\<lambda>xs. Inr (x # xs)))"

definition relay_due :: "gtime \<Rightarrow> OutboxRow \<Rightarrow> bool" where
  "relay_due now r \<longleftrightarrow> ob_Disposition r = DispositionPending \<and> ob_PublishedAt r = None \<and>
     ob_NextAttemptAt r \<le> now \<and>
     (ob_ClaimedBy r = None \<or> (\<exists>t \<in> set_option (ob_ClaimExpiresAt r). t \<le> now))"

definition before_in_outbox :: "OutboxRow \<Rightarrow> OutboxRow \<Rightarrow> bool" where
  "before_in_outbox a b =
    (if ob_NextAttemptAt a \<noteq> ob_NextAttemptAt b then ob_NextAttemptAt a < ob_NextAttemptAt b
     else if ob_CreatedAt a \<noteq> ob_CreatedAt b then ob_CreatedAt a < ob_CreatedAt b
     else ob_EventID a < ob_EventID b)"

text \<open>
  \<open>busy\<close> holds the rows other transactions have locked; \<open>arrange\<close> is the order in which
  \<^verbatim>\<open>returning\<close> delivers the updated rows, which SQL leaves open.
\<close>

definition outbox_claim_rows :: "gtime \<Rightarrow> int \<Rightarrow> uuid list \<Rightarrow> db \<Rightarrow> OutboxRow list" where
  "outbox_claim_rows now limit busy d =
    take (nat limit) (filter (\<lambda>r. ob_EventID r \<notin> set busy)
      (sort_by before_in_outbox (filter (relay_due now) (db_outbox d))))"

definition Outbox_Claim ::
  "jsonb \<Rightarrow> (OutboxRow list \<Rightarrow> OutboxRow list) \<Rightarrow> string \<Rightarrow> gtime \<Rightarrow> duration \<Rightarrow> int \<Rightarrow> uuid list \<Rightarrow> db \<Rightarrow>
   ClaimedOutboxEvent list result \<times> db" where
  "Outbox_Claim J arrange owner now lease limit busy d =
    (if owner = [] \<or> lease \<le> 0 \<or> limit \<le> 0 \<or> limit > 1000 then
       (Inl (Plain ''outbox claim owner, lease, and bounded limit are required''), d)
     else
       let rows = outbox_claim_rows now limit busy d; uids = map ob_EventID rows in
       (case scan_all (scanClaimedOutbox J owner (now + lease)) (arrange rows) of
          Inl err \<Rightarrow> (Inl err, d)
        | Inr claimed \<Rightarrow> (Inr claimed,
            d\<lparr>db_outbox := sql_update (\<lambda>r. ob_EventID r \<in> set uids)
               (\<lambda>r. r\<lparr>ob_ClaimedBy := Some owner, ob_ClaimExpiresAt := Some (now + lease)\<rparr>) (db_outbox d)\<rparr>)))"

section \<open>The fate of a claimed event\<close>

text \<open>A write on the one pending row that its owner still holds.\<close>

definition claimed_by :: "uuid \<Rightarrow> string \<Rightarrow> OutboxRow \<Rightarrow> bool" where
  "claimed_by eventID owner r \<longleftrightarrow> ob_EventID r = eventID \<and> ob_Disposition r = DispositionPending \<and>
     ob_ClaimedBy r = Some owner"

definition requireOneOutboxRow ::
  "(OutboxRow \<Rightarrow> bool) \<Rightarrow> (OutboxRow \<Rightarrow> OutboxRow) \<Rightarrow> string \<Rightarrow> db \<Rightarrow> error option \<times> db" where
  "requireOneOutboxRow P f operation d =
    (if \<exists>r \<in> set (db_outbox d). P r \<and>
         (\<not> in_i32 (ob_PublicationAttempts (f r)) \<or> \<not> optional in_i32 (ob_BrokerPartition (f r))) then
       (Some (Plain operation), d)
     else if sql_count P (db_outbox d) \<noteq> 1 then (Some (Plain (operation @ '': claim is missing or expired'')),
       d\<lparr>db_outbox := sql_update P f (db_outbox d)\<rparr>)
     else (None, d\<lparr>db_outbox := sql_update P f (db_outbox d)\<rparr>))"

definition published_row :: "gtime \<Rightarrow> PublicationResult \<Rightarrow> OutboxRow \<Rightarrow> OutboxRow" where
  "published_row now result r = r\<lparr>ob_Disposition := DispositionPublished,
     ob_PublicationAttempts := ob_PublicationAttempts r + 1, ob_PublishedAt := Some now,
     ob_BrokerPartition := Some (pub_Partition result), ob_BrokerOffset := Some (pub_Offset result),
     ob_ClaimedBy := None, ob_ClaimExpiresAt := None, ob_LastFailureCategory := None,
     ob_LastFailureReason := None, ob_LastFailureAt := None\<rparr>"

definition MarkPublished ::
  "uuid \<Rightarrow> string \<Rightarrow> gtime \<Rightarrow> PublicationResult \<Rightarrow> db \<Rightarrow> error option \<times> db" where
  "MarkPublished eventID owner now result =
     requireOneOutboxRow (claimed_by eventID owner) (published_row now result) ''mark outbox event published''"

text \<open>
  The delays of the relay; \<open>hash\<close> stands for \<^verbatim>\<open>hashtextextended\<close> of the event identity seeded
  with the number of attempts.  \<^verbatim>\<open>left\<close> of SQL counts characters.
\<close>

definition backoff :: "int \<Rightarrow> duration" where
  "backoff attempts =
    (if attempts = 0 then second else if attempts = 1 then 5 * second else if attempts = 2 then 30 * second
     else if attempts = 3 then 2 * minute else 10 * minute)"

definition retry_delay :: "(uuid \<Rightarrow> int \<Rightarrow> int) \<Rightarrow> OutboxRow \<Rightarrow> duration" where
  "retry_delay hash r = backoff (ob_PublicationAttempts r) *
     (80 + \<bar>hash (ob_EventID r) (ob_PublicationAttempts r)\<bar> mod 41) div 100"

fun sql_left :: "nat \<Rightarrow> string \<Rightarrow> string" where
  "sql_left n [] = []"
| "sql_left n (c # cs) =
    (if of_char c < (128 :: nat) \<or> of_char c \<ge> (192 :: nat)
     then (case n of 0 \<Rightarrow> [] | Suc m \<Rightarrow> c # sql_left m cs) else c # sql_left n cs)"

definition failed_row ::
  "(uuid \<Rightarrow> int \<Rightarrow> int) \<Rightarrow> gtime \<Rightarrow> string \<Rightarrow> string \<Rightarrow> bool \<Rightarrow> OutboxRow \<Rightarrow> OutboxRow" where
  "failed_row hash now category reason permanent r = r\<lparr>
     ob_Disposition := (if permanent then DispositionTerminal else DispositionPending),
     ob_PublicationAttempts := ob_PublicationAttempts r + 1,
     ob_NextAttemptAt := (if permanent then now else now + retry_delay hash r),
     ob_ClaimedBy := None, ob_ClaimExpiresAt := None, ob_LastFailureCategory := Some category,
     ob_LastFailureReason := Some (sql_left 1000 reason), ob_LastFailureAt := Some now\<rparr>"

definition MarkFailed ::
  "(uuid \<Rightarrow> int \<Rightarrow> int) \<Rightarrow> uuid \<Rightarrow> string \<Rightarrow> gtime \<Rightarrow> string \<Rightarrow> string \<Rightarrow> bool \<Rightarrow> db \<Rightarrow> error option \<times> db" where
  "MarkFailed hash eventID owner now category reason permanent =
     requireOneOutboxRow (claimed_by eventID owner) (failed_row hash now category reason permanent)
       ''mark outbox event failed''"

definition published_before :: "gtime \<Rightarrow> OutboxRow \<Rightarrow> bool" where
  "published_before before r \<longleftrightarrow> ob_Disposition r = DispositionPublished \<and>
     (\<exists>t \<in> set_option (ob_PublishedAt r). t < before)"

definition older_publication :: "OutboxRow \<Rightarrow> OutboxRow \<Rightarrow> bool" where
  "older_publication a b =
    (if ob_PublishedAt a \<noteq> ob_PublishedAt b
     then (case (ob_PublishedAt a, ob_PublishedAt b) of (Some s, Some t) \<Rightarrow> s < t | _ \<Rightarrow> False)
     else ob_EventID a < ob_EventID b)"

definition CleanupPublished :: "gtime \<Rightarrow> int \<Rightarrow> db \<Rightarrow> int result \<times> db" where
  "CleanupPublished before limit d =
    (if limit \<le> 0 \<or> limit > 10000 then (Inl (Plain ''cleanup limit must be between 1 and 10000''), d)
     else
       let gone = map ob_EventID (take (nat limit)
         (sort_by older_publication (filter (published_before before) (db_outbox d)))) in
       (Inr (int (sql_count (\<lambda>r. ob_EventID r \<in> set gone) (db_outbox d))),
        d\<lparr>db_outbox := filter (\<lambda>r. ob_EventID r \<notin> set gone) (db_outbox d)\<rparr>))"

section \<open>The relay\<close>

definition safeFailureReason :: "PublicationError \<Rightarrow> string" where
  "safeFailureReason err =
    (let message = TrimSpace (pe_reason err) in
     if message \<noteq> [] then message else ''event publication failed'')"

definition failureCategory :: "bool \<Rightarrow> string" where
  "failureCategory permanent = (if permanent then ''PERMANENT'' else ''TRANSIENT'')"

text \<open>
  What the outside does while one event is handled: the answer of the broker to the record, the
  clock when the outcome is written, and whether that write reaches the database.
\<close>

record relay_input =
  ri_Answer :: "KafkaRecord \<Rightarrow> PublicationError + PublicationResult"
  ri_Now :: gtime
  ri_Stored :: bool

type_synonym relay_state = "db \<times> KafkaRecord list"

definition stored_or :: "bool \<Rightarrow> (db \<Rightarrow> error option \<times> db) \<Rightarrow> db \<Rightarrow> error option \<times> db" where
  "stored_or stored write d = (if stored then write d else (Some (Plain ''PostgreSQL operation failed''), d))"

definition relay_event ::
  "lib \<Rightarrow> nat \<Rightarrow> (uuid \<Rightarrow> int \<Rightarrow> int) \<Rightarrow> string \<Rightarrow> relay_input \<Rightarrow> ClaimedOutboxEvent \<Rightarrow> relay_state \<Rightarrow>
   error option \<times> relay_state" where
  "relay_event L maxBytes hash owner inp event = (\<lambda>(d, log).
    let eventID = env_EventID (oe_Envelope event); now = ri_Now inp in
    (case Publish L maxBytes (ri_Answer inp) (OutboxEvent.truncate event) of
       Inr result \<Rightarrow>
         (case stored_or (ri_Stored inp) (MarkPublished eventID owner now result) d of
            (e, d') \<Rightarrow> (e, d', log @ (case publish_record L maxBytes (OutboxEvent.truncate event) of
               Inl _ \<Rightarrow> [] | Inr rec \<Rightarrow> [rec])))
     | Inl err \<Rightarrow>
         (case stored_or (ri_Stored inp) (MarkFailed hash eventID owner now (failureCategory (pe_permanent err))
            (safeFailureReason err) (pe_permanent err)) d of (e, d') \<Rightarrow> (e, d', log))))"

text \<open>The loop over the batch; a relay that stops early has fewer inputs than events.\<close>

fun relay_loop ::
  "lib \<Rightarrow> nat \<Rightarrow> (uuid \<Rightarrow> int \<Rightarrow> int) \<Rightarrow> string \<Rightarrow> relay_input list \<Rightarrow> ClaimedOutboxEvent list \<Rightarrow> relay_state \<Rightarrow>
   error list \<times> relay_state" where
  "relay_loop L maxBytes hash owner (inp # inputs) (event # events) st =
    (case relay_event L maxBytes hash owner inp event st of (e, st1) \<Rightarrow>
     case relay_loop L maxBytes hash owner inputs events st1 of (es, st2) \<Rightarrow>
       ((case e of None \<Rightarrow> es | Some err \<Rightarrow> err # es), st2))"
| "relay_loop L maxBytes hash owner _ _ st = ([], st)"

definition RunOnce ::
  "lib \<Rightarrow> jsonb \<Rightarrow> (OutboxRow list \<Rightarrow> OutboxRow list) \<Rightarrow> nat \<Rightarrow> (uuid \<Rightarrow> int \<Rightarrow> int) \<Rightarrow> string \<Rightarrow> gtime \<Rightarrow>
   uuid list \<Rightarrow> relay_input list \<Rightarrow> relay_state \<Rightarrow> (nat \<times> error list) result \<times> relay_state" where
  "RunOnce L J arrange maxBytes hash owner now busy inputs = (\<lambda>(d, log).
    (case Outbox_Claim J arrange owner now (30 * second) 100 busy d of
       (Inl err, d1) \<Rightarrow> (Inl err, d1, log)
     | (Inr claimed, d1) \<Rightarrow>
         (case relay_loop L maxBytes hash owner inputs claimed (d1, log) of
            (failures, st) \<Rightarrow> (Inr (length claimed, failures), st))))"

section \<open>Delivery\<close>

text \<open>
  What a row says about its event never changes.  The JSON column decodes to the envelope whose
  fields the other columns repeat, and the text PostgreSQL returns decodes to the same value.
\<close>

definition event_of :: "OutboxRow \<Rightarrow> Envelope \<times> string \<times> string \<times> string \<times> gtime" where
  "event_of r = (column_envelope r, ob_Topic r, ob_PartitionKey r, ob_Envelope r, ob_CreatedAt r)"

definition envelope_columns :: "Envelope \<Rightarrow> Envelope" where
  "envelope_columns e = zero_Envelope\<lparr>env_EventID := env_EventID e, env_TenantID := env_TenantID e,
     env_ProjectID := env_ProjectID e, env_RunID := env_RunID e, env_EventType := env_EventType e,
     env_SchemaVersion := env_SchemaVersion e, env_AggregateType := env_AggregateType e,
     env_AggregateID := env_AggregateID e, env_AggregateVersion := env_AggregateVersion e\<rparr>"

definition encodes :: "lib \<Rightarrow> OutboxRow \<Rightarrow> bool" where
  "encodes L r \<longleftrightarrow> (\<exists>e. lib_unmarshal L (ob_Envelope r) = Some e \<and> column_envelope r = envelope_columns e)"

definition jsonb_laws :: "lib \<Rightarrow> jsonb \<Rightarrow> bool" where
  "jsonb_laws L J \<longleftrightarrow> (\<forall>s e. lib_unmarshal L s = Some e \<longrightarrow>
     jb_unmarshal J (jb_text J s) (envelope_columns e) = Some e)"

definition delivered :: "jsonb \<Rightarrow> KafkaRecord list \<Rightarrow> OutboxRow \<Rightarrow> bool" where
  "delivered J log r \<longleftrightarrow> (\<exists>rec \<in> set log. kr_Value rec = jb_text J (ob_Envelope r) \<and>
     kr_Topic rec = ob_Topic r \<and> kr_Key rec = ob_PartitionKey r)"

text \<open>Event identities are unique, rows are readable, and what counts as published was accepted.\<close>

definition outbox_inv :: "lib \<Rightarrow> jsonb \<Rightarrow> relay_state \<Rightarrow> bool" where
  "outbox_inv L J = (\<lambda>(d, log). distinct (map ob_EventID (db_outbox d)) \<and>
     (\<forall>r \<in> set (db_outbox d). encodes L r) \<and>
     (\<forall>r \<in> set (db_outbox d). ob_Disposition r = DispositionPublished \<longrightarrow> delivered J log r))"

lemma event_of_id: "event_of r' = event_of r \<Longrightarrow> ob_EventID r' = ob_EventID r"
proof -
  assume "event_of r' = event_of r"
  then have "env_EventID (column_envelope r') = env_EventID (column_envelope r)" by (simp add: event_of_def)
  then show ?thesis by (simp add: column_envelope_def)
qed

lemma encodes_cong: "event_of r' = event_of r \<Longrightarrow> encodes L r' = encodes L r"
  by (simp add: event_of_def encodes_def)

lemma delivered_cong: "event_of r' = event_of r \<Longrightarrow> delivered J log r' = delivered J log r"
  by (simp add: event_of_def delivered_def)

lemma delivered_mono: "delivered J log r \<Longrightarrow> set log \<subseteq> set log' \<Longrightarrow> delivered J log' r"
  unfolding delivered_def by blast

text \<open>Rows are rewritten in place, and become published only after the broker took the record.\<close>

definition rewritten :: "jsonb \<Rightarrow> KafkaRecord list \<Rightarrow> OutboxRow \<Rightarrow> OutboxRow \<Rightarrow> bool" where
  "rewritten J log r r' \<longleftrightarrow> event_of r' = event_of r \<and>
     (ob_Disposition r' = DispositionPublished \<longrightarrow> ob_Disposition r = DispositionPublished \<or> delivered J log r)"

definition relay_grows :: "jsonb \<Rightarrow> relay_state \<Rightarrow> relay_state \<Rightarrow> bool" where
  "relay_grows J = (\<lambda>(d, log) (d', log'). set log \<subseteq> set log' \<and>
     list_all2 (rewritten J log') (db_outbox d) (db_outbox d'))"

lemma relay_grows_refl: "relay_grows J st st"
  by (cases st) (auto simp: relay_grows_def rewritten_def intro: list_all2_refl)

lemma relay_grows_trans:
  assumes "relay_grows J st st'" "relay_grows J st' st''"
  shows "relay_grows J st st''"
proof -
  obtain d log d' log' d'' log'' where st: "st = (d, log)" "st' = (d', log')" "st'' = (d'', log'')"
    by (cases st; cases st'; cases st'')
  have logs: "set log \<subseteq> set log'" "set log' \<subseteq> set log''" using assms by (simp_all add: st relay_grows_def)
  have "rewritten J log'' a c" if "rewritten J log' a b" "rewritten J log'' b c" for a b c
    using that logs(2) delivered_mono [of J log' a log''] delivered_cong [of b a J log'']
    unfolding rewritten_def by auto
  then have "list_all2 (rewritten J log'') (db_outbox d) (db_outbox d'')"
    using assms list_all2_trans [of "rewritten J log'" "rewritten J log''" "rewritten J log''"]
    unfolding st relay_grows_def by blast
  then show ?thesis using logs by (auto simp: st relay_grows_def)
qed

lemma list_all2_sql_update:
  assumes "\<And>x. x \<in> set xs \<Longrightarrow> P x \<Longrightarrow> R x (f x)" "\<And>x. R x x"
  shows "list_all2 R xs (sql_update P f xs)"
  using assms by (induction xs) (auto simp: sql_update_def)

lemma map_rewritten: "list_all2 (rewritten J log) rs rs' \<Longrightarrow> map ob_EventID rs' = map ob_EventID rs"
  by (induction rule: list_all2_induct) (auto simp: rewritten_def dest: event_of_id)

lemma list_all2_set2: "list_all2 P xs ys \<Longrightarrow> y \<in> set ys \<Longrightarrow> \<exists>x \<in> set xs. P x y"
  by (induction rule: list_all2_induct) auto

lemma list_all2_set1: "list_all2 P xs ys \<Longrightarrow> x \<in> set xs \<Longrightarrow> \<exists>y \<in> set ys. P x y"
  by (induction rule: list_all2_induct) auto

lemma outbox_inv_grows:
  assumes "outbox_inv L J st" "relay_grows J st st'"
  shows "outbox_inv L J st'"
proof -
  obtain d log d' log' where st: "st = (d, log)" "st' = (d', log')" by (cases st; cases st')
  have rows: "list_all2 (rewritten J log') (db_outbox d) (db_outbox d')" and logs: "set log \<subseteq> set log'"
    using assms(2) by (simp_all add: st relay_grows_def)
  have "encodes L r' \<and> (ob_Disposition r' = DispositionPublished \<longrightarrow> delivered J log' r')"
    if r': "r' \<in> set (db_outbox d')" for r'
  proof -
    obtain r where r: "r \<in> set (db_outbox d)" "rewritten J log' r r'" using list_all2_set2 [OF rows r'] by blast
    have ev: "event_of r' = event_of r" using r(2) by (simp add: rewritten_def)
    have inv: "encodes L r" "ob_Disposition r = DispositionPublished \<Longrightarrow> delivered J log r"
      using assms(1) r(1) by (simp_all add: st outbox_inv_def)
    have "delivered J log' r" if "ob_Disposition r' = DispositionPublished"
      using that r(2) inv(2) delivered_mono [OF _ logs] unfolding rewritten_def by blast
    then show ?thesis using inv(1) by (simp add: encodes_cong [OF ev] delivered_cong [OF ev])
  qed
  then show ?thesis using assms(1) map_rewritten [OF rows] by (simp add: st outbox_inv_def)
qed

subsection \<open>Claiming\<close>

lemma outbox_key: "before_in_outbox a b \<longleftrightarrow>
  (ob_NextAttemptAt a, ob_CreatedAt a, ob_EventID a) < (ob_NextAttemptAt b, ob_CreatedAt b, ob_EventID b)"
  by (auto simp: before_in_outbox_def)

interpretation outbox_order: go_less before_in_outbox
  by unfold_locales (auto simp: outbox_key)

lemma scan_all_Inr: "scan_all scan rs = Inr xs \<longleftrightarrow> list_all2 (\<lambda>r x. scan r = Inr x) rs xs"
proof (induction rs arbitrary: xs)
  case (Cons r rs)
  then show ?case by (cases xs) (auto simp: tx_simps)
qed auto

text \<open>A claimed event carries the contents of its row.\<close>

definition stands_for :: "jsonb \<Rightarrow> ClaimedOutboxEvent \<Rightarrow> OutboxRow \<Rightarrow> bool" where
  "stands_for J ev r \<longleftrightarrow> env_EventID (oe_Envelope ev) = ob_EventID r \<and> oe_Headers ev = [] \<and>
     oe_Serialized ev = jb_text J (ob_Envelope r) \<and> oe_Topic ev = ob_Topic r \<and>
     oe_PartitionKey ev = ob_PartitionKey r"

lemma scan_stands:
  assumes "jsonb_laws L J" "encodes L r" "scanClaimedOutbox J owner expires r = Inr ev"
  shows "stands_for J ev r"
proof -
  obtain e where e: "lib_unmarshal L (ob_Envelope r) = Some e" "column_envelope r = envelope_columns e"
    using assms(2) by (auto simp: encodes_def)
  have "env_EventID (column_envelope r) = env_EventID (envelope_columns e)" by (simp add: e(2))
  then have "ob_EventID r = env_EventID e" by (simp add: column_envelope_def envelope_columns_def)
  moreover have "jb_unmarshal J (jb_text J (ob_Envelope r)) (column_envelope r) = Some e"
    using assms(1) e by (simp add: jsonb_laws_def)
  ultimately show ?thesis using assms(3) by (auto simp: scanClaimedOutbox_def Let_def stands_for_def)
qed

lemma scan_succeeds:
  assumes "jsonb_laws L J" "encodes L r"
  shows "\<exists>ev. scanClaimedOutbox J owner expires r = Inr ev"
  using assms by (auto simp: encodes_def jsonb_laws_def scanClaimedOutbox_def Let_def)

definition arranges :: "(OutboxRow list \<Rightarrow> OutboxRow list) \<Rightarrow> bool" where
  "arranges arrange \<longleftrightarrow> (\<forall>rows. mset (arrange rows) = mset rows)"

lemma arranges_set: "arranges arrange \<Longrightarrow> set (arrange rows) = set rows"
  unfolding arranges_def by (metis set_mset_mset)

lemma set_outbox_claim_rows:
  assumes "r \<in> set (outbox_claim_rows now limit busy d)"
  shows "r \<in> set (db_outbox d)" "relay_due now r" "ob_EventID r \<notin> set busy"
  using in_set_takeD [OF assms [unfolded outbox_claim_rows_def]] by simp_all

lemma event_of_claim: "event_of (r\<lparr>ob_ClaimedBy := c, ob_ClaimExpiresAt := t\<rparr>) = event_of r"
  by (simp add: event_of_def column_envelope_def)

lemma Outbox_ClaimE:
  assumes "Outbox_Claim J arrange owner now lease limit busy d = (Inr claimed, d')"
  obtains "list_all2 (\<lambda>r ev. scanClaimedOutbox J owner (now + lease) r = Inr ev) (arrange (outbox_claim_rows now limit busy d)) claimed"
    "d' = d\<lparr>db_outbox := sql_update (\<lambda>r. ob_EventID r \<in> ob_EventID ` set (outbox_claim_rows now limit busy d))
       (\<lambda>r. r\<lparr>ob_ClaimedBy := Some owner, ob_ClaimExpiresAt := Some (now + lease)\<rparr>) (db_outbox d)\<rparr>"
  using assms unfolding Outbox_Claim_def Let_def
  by (auto simp: scan_all_Inr split: if_splits sum.splits)

lemma Outbox_Claim_grows:
  assumes "Outbox_Claim J arrange owner now lease limit busy d = (Inr claimed, d')"
  shows "relay_grows J (d, log) (d', log)"
proof -
  have "list_all2 (rewritten J log) (db_outbox d) (db_outbox d')"
    using assms
    by (rule Outbox_ClaimE) (auto simp: rewritten_def event_of_claim intro!: list_all2_sql_update)
  then show ?thesis by (simp add: relay_grows_def)
qed

lemma Outbox_Claim_stands:
  assumes "Outbox_Claim J arrange owner now lease limit busy d = (Inr claimed, d')"
    and laws: "jsonb_laws L J" "arranges arrange" and inv: "outbox_inv L J (d, log)" and ev: "ev \<in> set claimed"
  shows "\<exists>r \<in> set (outbox_claim_rows now limit busy d). stands_for J ev r"
proof -
  let ?rows = "outbox_claim_rows now limit busy d"
  have scan: "list_all2 (\<lambda>r ev. scanClaimedOutbox J owner (now + lease) r = Inr ev) (arrange ?rows) claimed"
    using assms(1) by (rule Outbox_ClaimE)
  obtain r where r: "r \<in> set (arrange ?rows)" "scanClaimedOutbox J owner (now + lease) r = Inr ev"
    using list_all2_set2 [OF scan ev] by blast
  then have m: "r \<in> set ?rows" using arranges_set [OF laws(2)] by simp
  have "encodes L r" using set_outbox_claim_rows(1) [OF m] inv by (simp add: outbox_inv_def)
  then show ?thesis using scan_stands [OF laws(1) _ r(2)] m by blast
qed

text \<open>Rows with the identity of the event are the row it stands for, before and after.\<close>

definition owns :: "jsonb \<Rightarrow> ClaimedOutboxEvent \<Rightarrow> db \<Rightarrow> bool" where
  "owns J ev d \<longleftrightarrow> (\<forall>r \<in> set (db_outbox d). ob_EventID r = env_EventID (oe_Envelope ev) \<longrightarrow> stands_for J ev r)"

lemma owns_grows:
  assumes "owns J ev d" "relay_grows J (d, log) (d', log')"
  shows "owns J ev d'"
  unfolding owns_def
proof (intro ballI impI)
  fix r' assume r': "r' \<in> set (db_outbox d')" "ob_EventID r' = env_EventID (oe_Envelope ev)"
  have "list_all2 (rewritten J log') (db_outbox d) (db_outbox d')" using assms(2) by (simp add: relay_grows_def)
  then obtain r where r: "r \<in> set (db_outbox d)" "event_of r' = event_of r"
    using list_all2_set2 r'(1) by (metis rewritten_def)
  have id: "ob_EventID r' = ob_EventID r" using r(2) by (rule event_of_id)
  then have "stands_for J ev r" using assms(1) r(1) r'(2) by (simp add: owns_def)
  then show "stands_for J ev r'" using r(2) id by (simp add: stands_for_def event_of_def)
qed

lemma Outbox_Claim_owns:
  assumes claim: "Outbox_Claim J arrange owner now lease limit busy d = (Inr claimed, d')"
    and laws: "jsonb_laws L J" "arranges arrange" and inv: "outbox_inv L J (d, log)" and ev: "ev \<in> set claimed"
  shows "owns J ev d'"
proof (rule owns_grows [OF _ Outbox_Claim_grows [OF claim, of log]])
  obtain r where r: "r \<in> set (outbox_claim_rows now limit busy d)" "stands_for J ev r"
    using Outbox_Claim_stands [OF assms] by blast
  note m = set_outbox_claim_rows(1) [OF r(1)]
  have dist: "distinct (map ob_EventID (db_outbox d))" using inv by (simp add: outbox_inv_def)
  show "owns J ev d"
    unfolding owns_def
  proof (intro ballI impI)
    fix r' assume "r' \<in> set (db_outbox d)" "ob_EventID r' = env_EventID (oe_Envelope ev)"
    then have "r' = r" using distinct_map_eq [OF dist _ m] r(2) by (simp add: stands_for_def)
    then show "stands_for J ev r'" using r(2) by simp
  qed
qed

subsection \<open>One event\<close>

lemma requireOne_rows:
  "snd (requireOneOutboxRow P f operation d) = d \<or>
   snd (requireOneOutboxRow P f operation d) = d\<lparr>db_outbox := sql_update P f (db_outbox d)\<rparr>"
  by (simp add: requireOneOutboxRow_def)

lemma MarkPublished_rows:
  "snd (MarkPublished eventID owner now result d) = d \<or>
   snd (MarkPublished eventID owner now result d) =
     d\<lparr>db_outbox := sql_update (claimed_by eventID owner) (published_row now result) (db_outbox d)\<rparr>"
  unfolding MarkPublished_def by (rule requireOne_rows)

lemma MarkFailed_rows:
  "snd (MarkFailed hash eventID owner now category reason permanent d) = d \<or>
   snd (MarkFailed hash eventID owner now category reason permanent d) =
     d\<lparr>db_outbox := sql_update (claimed_by eventID owner) (failed_row hash now category reason permanent) (db_outbox d)\<rparr>"
  unfolding MarkFailed_def by (rule requireOne_rows)

lemma publish_record_fields:
  assumes "publish_record L m ev = Inr rec"
  shows "kr_Value rec = oe_Serialized ev" "kr_Topic rec = oe_Topic ev" "kr_Key rec = oe_PartitionKey ev"
  using assms by (auto simp: publish_record_def Let_def split: if_splits sum.splits option.splits)

lemma event_of_marks [simp]:
  "event_of (published_row now result r) = event_of r" "event_of (failed_row hash now c reason p r) = event_of r"
  by (simp_all add: event_of_def column_envelope_def published_row_def failed_row_def)

lemma stored_rows:
  assumes "\<And>d. snd (write d) = d \<or> snd (write d) = d\<lparr>db_outbox := sql_update P f (db_outbox d)\<rparr>"
    and rows: "\<And>r. r \<in> set (db_outbox d) \<Longrightarrow> P r \<Longrightarrow> rewritten J log r (f r)"
  shows "list_all2 (rewritten J log) (db_outbox d) (db_outbox (snd (stored_or stored write d)))"
proof -
  have refl: "rewritten J log r r" for r by (simp add: rewritten_def)
  have "list_all2 (rewritten J log) (db_outbox d) (sql_update P f (db_outbox d))"
    by (rule list_all2_sql_update) (use rows refl in auto)
  moreover have "list_all2 (rewritten J log) (db_outbox d) (db_outbox d)" using refl by (simp add: list_all2_refl)
  ultimately show ?thesis using assms(1) [of d] by (auto simp: stored_or_def)
qed

lemma relay_event_grows:
  assumes "owns J ev d"
  shows "relay_grows J (d, log) (snd (relay_event L m hash owner inp ev (d, log)))"
proof (cases "Publish L m (ri_Answer inp) (OutboxEvent.truncate ev)")
  case (Inl err)
  let ?w = "MarkFailed hash (env_EventID (oe_Envelope ev)) owner (ri_Now inp) (failureCategory (pe_permanent err))
    (safeFailureReason err) (pe_permanent err)"
  have "list_all2 (rewritten J log) (db_outbox d) (db_outbox (snd (stored_or (ri_Stored inp) ?w d)))"
    by (rule stored_rows [OF MarkFailed_rows])
      (simp add: rewritten_def failed_row_def event_of_def column_envelope_def)
  then show ?thesis by (simp add: relay_event_def Inl Let_def relay_grows_def case_prod_unfold)
next
  case (Inr result)
  then obtain rec where rec: "publish_record L m (OutboxEvent.truncate ev) = Inr rec"
    by (auto simp: Publish_def split: sum.splits)
  let ?w = "MarkPublished (env_EventID (oe_Envelope ev)) owner (ri_Now inp) result"
  have "list_all2 (rewritten J (log @ [rec])) (db_outbox d) (db_outbox (snd (stored_or (ri_Stored inp) ?w d)))"
  proof (rule stored_rows [OF MarkPublished_rows])
    fix r assume r: "r \<in> set (db_outbox d)" "claimed_by (env_EventID (oe_Envelope ev)) owner r"
    then have "stands_for J ev r" using assms by (simp add: owns_def claimed_by_def)
    then have "delivered J (log @ [rec]) r"
      using publish_record_fields [OF rec] by (simp add: delivered_def stands_for_def OutboxEvent.defs)
    then show "rewritten J (log @ [rec]) r (published_row (ri_Now inp) result r)" by (simp add: rewritten_def)
  qed
  then show ?thesis by (auto simp: relay_event_def Inr rec Let_def relay_grows_def case_prod_unfold)
qed

lemma relay_loop_grows:
  assumes "\<forall>ev \<in> set events. owns J ev d"
  shows "relay_grows J (d, log) (snd (relay_loop L m hash owner inputs events (d, log)))"
  using assms
proof (induction L m hash owner inputs events "(d, log)" arbitrary: d log rule: relay_loop.induct)
  case (1 L m hash owner inp inputs ev events)
  let ?st = "relay_event L m hash owner inp ev (d, log)"
  obtain e d1 log1 where st: "?st = (e, d1, log1)" by (cases ?st)
  have g: "relay_grows J (d, log) (d1, log1)" using relay_event_grows [of J ev d log L m hash owner inp] 1(2) by (simp add: st)
  have "\<forall>ev \<in> set events. owns J ev d1" using owns_grows [OF _ g] 1(2) by simp
  then have "relay_grows J (d1, log1) (snd (relay_loop L m hash owner inputs events (d1, log1)))"
    using 1(1) st by simp
  then show ?case using relay_grows_trans [OF g] st by (simp add: case_prod_unfold)
qed (simp_all add: relay_grows_refl)

lemma RunOnce_grows:
  assumes "jsonb_laws L J" "arranges arrange" "outbox_inv L J st"
  shows "relay_grows J st (snd (RunOnce L J arrange m hash owner now busy inputs st))"
proof -
  obtain d log where st: "st = (d, log)" by (cases st)
  show ?thesis
  proof (cases "Outbox_Claim J arrange owner now (30 * second) 100 busy d")
    case (Pair r d1)
    show ?thesis
    proof (cases r)
      case (Inl e)
      then have "d1 = d" using Pair by (auto simp: Outbox_Claim_def Let_def split: if_splits sum.splits)
      then show ?thesis using Pair Inl by (simp add: RunOnce_def st relay_grows_refl)
    next
      case (Inr claimed)
      have "relay_grows J (d1, log) (snd (relay_loop L m hash owner inputs claimed (d1, log)))"
        using Outbox_Claim_owns [OF Pair [unfolded Inr] assms(1,2)] assms(3) st by (intro relay_loop_grows) blast
      then show ?thesis
        using relay_grows_trans [OF Outbox_Claim_grows [OF Pair [unfolded Inr], of log]] Pair Inr
        by (simp add: RunOnce_def st case_prod_unfold)
    qed
  qed
qed

subsection \<open>Nothing is lost\<close>

datatype outbox_op =
    OpInsert OutboxEvent
  | OpRelay string gtime "uuid list" "relay_input list"
  | OpCleanup gtime int

fun outbox_exec ::
  "lib \<Rightarrow> jsonb \<Rightarrow> (OutboxRow list \<Rightarrow> OutboxRow list) \<Rightarrow> nat \<Rightarrow> (uuid \<Rightarrow> int \<Rightarrow> int) \<Rightarrow> outbox_op \<Rightarrow> relay_state \<Rightarrow> relay_state" where
  "outbox_exec L J arrange m hash (OpInsert event) st =
     (case insertOutboxEvent L event (fst st) of Inl _ \<Rightarrow> st | Inr d \<Rightarrow> (d, snd st))"
| "outbox_exec L J arrange m hash (OpRelay owner now busy inputs) st =
     snd (RunOnce L J arrange m hash owner now busy inputs st)"
| "outbox_exec L J arrange m hash (OpCleanup before limit) st = (snd (CleanupPublished before limit (fst st)), snd st)"

fun op_encodes :: "lib \<Rightarrow> outbox_op \<Rightarrow> bool" where
  "op_encodes L (OpInsert event) = encodes L (outbox_row event)"
| "op_encodes L _ = True"

definition not_lost :: "jsonb \<Rightarrow> relay_state \<Rightarrow> relay_state \<Rightarrow> bool" where
  "not_lost J = (\<lambda>(d, log) (d', log'). set log \<subseteq> set log' \<and>
     (\<forall>r \<in> set (db_outbox d). delivered J log' r \<or> (\<exists>r' \<in> set (db_outbox d'). event_of r' = event_of r)))"

lemma not_lost_trans:
  assumes "not_lost J st st'" "not_lost J st' st''"
  shows "not_lost J st st''"
proof -
  obtain d log d' log' d'' log'' where st: "st = (d, log)" "st' = (d', log')" "st'' = (d'', log'')"
    by (cases st; cases st'; cases st'')
  have logs: "set log \<subseteq> set log'" "set log' \<subseteq> set log''" using assms by (simp_all add: st not_lost_def)
  have "delivered J log'' r \<or> (\<exists>r'' \<in> set (db_outbox d''). event_of r'' = event_of r)" if r: "r \<in> set (db_outbox d)" for r
  proof -
    consider "delivered J log' r" | r' where "r' \<in> set (db_outbox d')" "event_of r' = event_of r"
      using assms(1) r unfolding st not_lost_def by blast
    then show ?thesis
    proof cases
      case 1
      then show ?thesis using delivered_mono [OF _ logs(2)] by blast
    next
      case 2
      then have "delivered J log'' r' \<or> (\<exists>r'' \<in> set (db_outbox d''). event_of r'' = event_of r')"
        using assms(2) unfolding st not_lost_def by blast
      then show ?thesis by (simp add: 2(2) delivered_cong [OF 2(2)])
    qed
  qed
  then show ?thesis using logs by (auto simp: st not_lost_def)
qed

lemma not_lost_grows:
  assumes "relay_grows J st st'"
  shows "not_lost J st st'"
proof -
  obtain d log d' log' where st: "st = (d, log)" "st' = (d', log')" by (cases st; cases st')
  have rows: "list_all2 (rewritten J log') (db_outbox d) (db_outbox d')" and logs: "set log \<subseteq> set log'"
    using assms by (simp_all add: st relay_grows_def)
  have "\<exists>r' \<in> set (db_outbox d'). event_of r' = event_of r" if "r \<in> set (db_outbox d)" for r
    using list_all2_set1 [OF rows that] by (auto simp: rewritten_def)
  then show ?thesis using logs by (simp add: st not_lost_def)
qed

lemma outbox_exec_safe:
  assumes "jsonb_laws L J" "arranges arrange" "outbox_inv L J st" "op_encodes L oper"
  shows "outbox_inv L J (outbox_exec L J arrange m hash oper st) \<and> not_lost J st (outbox_exec L J arrange m hash oper st)"
proof (cases oper)
  case (OpInsert event)
  obtain a log where st: "st = (a, log)" by (cases st)
  show ?thesis
  proof (cases "insertOutboxEvent L event a")
    case (Inl e)
    then show ?thesis using assms(3) OpInsert st not_lost_grows [OF relay_grows_refl, of J st] by simp
  next
    case (Inr d)
    then have "d = a\<lparr>db_outbox := db_outbox a @ [outbox_row event]\<rparr>"
      "\<forall>r \<in> set (db_outbox a). ob_EventID r \<noteq> ob_EventID (outbox_row event)"
      by (auto simp: insertOutboxEvent_def Let_def tx_simps)
    moreover have "ob_Disposition (outbox_row event) = DispositionPending" by (simp add: outbox_row_def Let_def)
    ultimately show ?thesis
      using assms(3,4) by (auto simp: OpInsert Inr st outbox_inv_def not_lost_def)
  qed
next
  case (OpRelay owner now busy inputs)
  have "relay_grows J st (snd (RunOnce L J arrange m hash owner now busy inputs st))"
    by (rule RunOnce_grows [OF assms(1-3)])
  then show ?thesis using OpRelay outbox_inv_grows [OF assms(3)] not_lost_grows by simp
next
  case (OpCleanup before limit)
  obtain d log where st: "st = (d, log)" by (cases st)
  define gone where "gone = map ob_EventID (take (nat limit)
    (sort_by older_publication (filter (published_before before) (db_outbox d))))"
  have dist: "distinct (map ob_EventID (db_outbox d))" using assms(3) by (simp add: st outbox_inv_def)
  have cases: "snd (CleanupPublished before limit d) = d \<or>
    snd (CleanupPublished before limit d) = d\<lparr>db_outbox := filter (\<lambda>r. ob_EventID r \<notin> set gone) (db_outbox d)\<rparr>"
    by (simp add: CleanupPublished_def Let_def gone_def)
  have "delivered J log r" if r: "r \<in> set (db_outbox d)" "ob_EventID r \<in> set gone" for r
  proof -
    obtain x where x: "x \<in> set (take (nat limit) (sort_by older_publication (filter (published_before before) (db_outbox d))))"
      "ob_EventID r = ob_EventID x" using r(2) unfolding gone_def by auto
    have m: "x \<in> set (db_outbox d)" "published_before before x" using in_set_takeD [OF x(1)] by simp_all
    have "r = x" by (rule distinct_map_eq [OF dist r(1) m(1) x(2)])
    then show ?thesis using m assms(3) by (simp add: published_before_def st outbox_inv_def)
  qed
  then have "not_lost J (d, log) (snd (CleanupPublished before limit d), log)"
    using cases unfolding not_lost_def by fastforce
  moreover have "outbox_inv L J (snd (CleanupPublished before limit d), log)"
    using cases assms(3) by (auto simp: st outbox_inv_def distinct_map_filter)
  ultimately show ?thesis by (simp add: OpCleanup st)
qed

text \<open>C33: No committed event is lost: through any sequence of insertions, relay rounds (by any owners, with any
  answers of the broker, lost writes and early ends) and cleanups, every event of the outbox has
  reached the broker or is still in the table unpublished; and a row counts as published only
  when the broker accepted its record.\<close>

theorem outbox_at_least_once:
  assumes "jsonb_laws L J" "arranges arrange" "outbox_inv L J (d, log)" "list_all (op_encodes L) ops"
    "fold (outbox_exec L J arrange m hash) ops (d, log) = (d', log')"
  shows "outbox_inv L J (d', log') \<and>
    (\<forall>r \<in> set (db_outbox d). delivered J log' r \<or>
      (\<exists>r' \<in> set (db_outbox d'). event_of r' = event_of r \<and> ob_Disposition r' \<noteq> DispositionPublished))"
proof -
  have "outbox_inv L J st \<Longrightarrow> list_all (op_encodes L) ops \<Longrightarrow>
    outbox_inv L J (fold (outbox_exec L J arrange m hash) ops st) \<and> not_lost J st (fold (outbox_exec L J arrange m hash) ops st)" for st
  proof (induction ops arbitrary: st)
    case Nil
    then show ?case using not_lost_grows [OF relay_grows_refl] by simp
  next
    case (Cons oper ops)
    have s: "outbox_inv L J (outbox_exec L J arrange m hash oper st)" "not_lost J st (outbox_exec L J arrange m hash oper st)"
      using outbox_exec_safe [OF assms(1,2) Cons.prems(1)] Cons.prems(2) by simp_all
    then show ?case using Cons.IH [OF s(1)] Cons.prems(2) not_lost_trans by fastforce
  qed
  from this [OF assms(3,4)] have fin: "outbox_inv L J (d', log')" "not_lost J (d, log) (d', log')"
    by (simp_all add: assms(5))
  have "delivered J log' r \<or> (\<exists>r' \<in> set (db_outbox d'). event_of r' = event_of r \<and> ob_Disposition r' \<noteq> DispositionPublished)"
    if r: "r \<in> set (db_outbox d)" for r
  proof (cases "delivered J log' r")
    case False
    then obtain r' where r': "r' \<in> set (db_outbox d')" "event_of r' = event_of r"
      using fin(2) r unfolding not_lost_def by blast
    then have "ob_Disposition r' \<noteq> DispositionPublished"
      using False fin(1) delivered_cong [OF r'(2)] by (auto simp: outbox_inv_def)
    then show ?thesis using r' by blast
  qed simp
  then show ?thesis using fin(1) by blast
qed

definition ex_json :: jsonb where
  "ex_json = \<lparr>jb_text = id, jb_unmarshal = (\<lambda>s _. lib_unmarshal ex_lib s)\<rparr>"

definition ex_outbox :: db where
  "ex_outbox = ex_db\<lparr>db_outbox := [outbox_row ex_event]\<rparr>"

definition ex_good :: relay_input where
  "ex_good = \<lparr>ri_Answer = (\<lambda>_. Inr \<lparr>pub_Partition = 1, pub_Offset = 3\<rparr>), ri_Now = 100, ri_Stored = True\<rparr>"

text \<open>The broker takes the record but the write is lost; the event is published again and removed.\<close>

definition ex_outbox_ops :: "outbox_op list" where
  "ex_outbox_ops = [OpRelay ''relay-a'' 60 [] [ex_good\<lparr>ri_Now := 61, ri_Stored := False\<rparr>],
     OpRelay ''relay-b'' (70 + 40 * second) [] [ex_good], OpCleanup 200 10]"

lemma ex_outbox_start:
  "jsonb_laws ex_lib ex_json" "arranges id" "outbox_inv ex_lib ex_json (ex_outbox, [])"
  "list_all (op_encodes ex_lib) ex_outbox_ops"
proof -
  have "encodes ex_lib (outbox_row ex_event)" 
    by (simp add: encodes_def outbox_row_def Let_def ex_event_def ex_lib_def ex_bytes_def column_envelope_def envelope_columns_def)
  then show "outbox_inv ex_lib ex_json (ex_outbox, [])"
    by (simp add: outbox_inv_def ex_outbox_def outbox_row_def Let_def)
qed (simp_all add: jsonb_laws_def ex_json_def arranges_def ex_outbox_ops_def)

lemma ex_outbox_run:
  "map_prod db_outbox (map kr_Value) (fold (outbox_exec ex_lib ex_json id 1000 (\<lambda>_ _. 0)) ex_outbox_ops (ex_outbox, [])) =
     ([], [ex_bytes, ex_bytes])"
  by code_simp

theorem outbox_at_least_once_witness:
  "\<exists>d' log'. fold (outbox_exec ex_lib ex_json id 1000 (\<lambda>_ _. 0)) ex_outbox_ops (ex_outbox, []) = (d', log') \<and>
     db_outbox d' = [] \<and> delivered ex_json log' (outbox_row ex_event)"
proof -
  obtain d' log' where run: "fold (outbox_exec ex_lib ex_json id 1000 (\<lambda>_ _. 0)) ex_outbox_ops (ex_outbox, []) = (d', log')"
    by (cases "fold (outbox_exec ex_lib ex_json id 1000 (\<lambda>_ _. 0)) ex_outbox_ops (ex_outbox, [])")
  have gone: "db_outbox d' = []" using ex_outbox_run by (simp add: run)
  then show ?thesis
    using outbox_at_least_once [OF ex_outbox_start run] run by (simp add: ex_outbox_def)
qed

subsection \<open>A round with a working broker\<close>

text \<open>The event the producer gets for a row, and whether it is fit to be published.\<close>

definition row_event :: "jsonb \<Rightarrow> OutboxRow \<Rightarrow> OutboxEvent" where
  "row_event J r = \<lparr>oe_Envelope = column_envelope r, oe_Topic = ob_Topic r, oe_PartitionKey = ob_PartitionKey r,
     oe_Headers = [], oe_Serialized = jb_text J (ob_Envelope r), oe_CreatedAt = ob_CreatedAt r\<rparr>"

definition settled :: "lib \<Rightarrow> jsonb \<Rightarrow> nat \<Rightarrow> KafkaRecord list \<Rightarrow> OutboxRow \<Rightarrow> bool" where
  "settled L J m log r \<longleftrightarrow>
    (case publish_record L m (row_event J r) of
       Inr _ \<Rightarrow> ob_Disposition r = DispositionPublished \<and> delivered J log r
     | Inl _ \<Rightarrow> ob_Disposition r = DispositionTerminal)"

definition accepting :: "relay_input \<Rightarrow> bool" where
  "accepting inp \<longleftrightarrow> ri_Stored inp \<and> (\<forall>rec. \<exists>result. ri_Answer inp rec = Inr result \<and> in_i32 (pub_Partition result))"

definition countable_row :: "OutboxRow \<Rightarrow> bool" where
  "countable_row r \<longleftrightarrow> in_i32 (ob_PublicationAttempts r + 1) \<and> optional in_i32 (ob_BrokerPartition r)"

lemma publish_record_cong:
  assumes "oe_Serialized ev = oe_Serialized ev'" "oe_Topic ev = oe_Topic ev'" "oe_PartitionKey ev = oe_PartitionKey ev'"
    "oe_Headers ev = oe_Headers ev'" "env_EventID (oe_Envelope ev) = env_EventID (oe_Envelope ev')"
  shows "publish_record L m ev = publish_record L m ev'"
  unfolding publish_record_def assms ..

lemma publish_record_stands:
  assumes "stands_for J ev r"
  shows "publish_record L m (OutboxEvent.truncate ev) = publish_record L m (row_event J r)"
  by (rule publish_record_cong)
    (use assms in \<open>simp_all add: row_event_def OutboxEvent.defs stands_for_def column_envelope_def\<close>)

lemma publish_record_permanent: "publish_record L m ev = Inl err \<Longrightarrow> pe_permanent err"
  by (auto simp: publish_record_def Let_def split: if_splits sum.splits option.splits)

lemma row_event_cong: "event_of r' = event_of r \<Longrightarrow> row_event J r' = row_event J r"
  by (simp add: event_of_def row_event_def)

lemma settled_mono: "settled L J m log r \<Longrightarrow> set log \<subseteq> set log' \<Longrightarrow> settled L J m log' r"
  unfolding settled_def using delivered_mono [of J log r log'] by (auto split: sum.splits)

lemma sql_count_key:
  assumes "distinct (map key rows)" "r \<in> set rows" "P r" "\<And>x. P x \<Longrightarrow> key x = key r"
  shows "sql_count P rows = 1"
  using assms(1,2)
proof (induction rows)
  case (Cons x rows)
  show ?case
  proof (cases "x = r")
    case True
    have "\<not> P y" if "y \<in> set rows" for y
    proof
      assume "P y"
      from assms(4) [OF this] have "key x = key y" by (simp only: True)
      moreover have "key x \<notin> key ` set rows" using Cons.prems(1) by simp
      ultimately show False using that by blast
    qed
    then show ?thesis using True assms(3) by (simp add: sql_count_def)
  next
    case False
    then have r: "r \<in> set rows" using Cons.prems(2) by simp
    then have "key r \<in> key ` set rows" by simp
    then have "key x \<noteq> key r" using Cons.prems(1) by auto
    then have "\<not> P x" using assms(4) [of x] by blast
    moreover have "sql_count P rows = 1" by (rule Cons.IH [OF _ r]) (use Cons.prems(1) in simp)
    ultimately show ?thesis by (simp add: sql_count_def)
  qed
qed simp

lemma requireOne_ok:
  assumes "distinct (map ob_EventID (db_outbox d))" "r \<in> set (db_outbox d)" "claimed_by (ob_EventID r) owner r"
    "in_i32 (ob_PublicationAttempts (f r))" "optional in_i32 (ob_BrokerPartition (f r))"
  shows "requireOneOutboxRow (claimed_by (ob_EventID r) owner) f operation d =
    (None, d\<lparr>db_outbox := sql_update (\<lambda>x. ob_EventID x = ob_EventID r) f (db_outbox d)\<rparr>)"
proof -
  have only: "x = r" if "x \<in> set (db_outbox d)" "ob_EventID x = ob_EventID r" for x
    by (rule distinct_map_eq [OF assms(1) that(1) assms(2) that(2)])
  have "sql_count (claimed_by (ob_EventID r) owner) (db_outbox d) = 1"
    by (rule sql_count_key [where key = ob_EventID, OF assms(1,2)]) (use assms(3) in \<open>simp_all add: claimed_by_def\<close>)
  moreover have "sql_update (claimed_by (ob_EventID r) owner) f (db_outbox d) =
      sql_update (\<lambda>x. ob_EventID x = ob_EventID r) f (db_outbox d)"
    unfolding sql_update_def by (rule map_cong) (use only assms(3) in \<open>auto simp: claimed_by_def\<close>)
  moreover have "\<not> (\<exists>x \<in> set (db_outbox d). claimed_by (ob_EventID r) owner x \<and>
      (\<not> in_i32 (ob_PublicationAttempts (f x)) \<or> \<not> optional in_i32 (ob_BrokerPartition (f x))))"
    using only assms(4,5) by (auto simp: claimed_by_def)
  ultimately show ?thesis unfolding requireOneOutboxRow_def by simp
qed

lemma relay_event_settles:
  assumes "distinct (map ob_EventID (db_outbox d))" "r \<in> set (db_outbox d)" "stands_for J ev r"
    "claimed_by (ob_EventID r) owner r" "countable_row r" "accepting inp"
  obtains f log' where "relay_event L m hash owner inp ev (d, log) =
      (None, d\<lparr>db_outbox := sql_update (\<lambda>x. ob_EventID x = ob_EventID r) f (db_outbox d)\<rparr>, log')"
    "set log \<subseteq> set log'" "event_of (f r) = event_of r" "settled L J m log' (f r)"
proof -
  note same = publish_record_stands [OF assms(3), of L m]
  have uid: "env_EventID (oe_Envelope ev) = ob_EventID r" using assms(3) by (simp add: stands_for_def)
  have ok: "in_i32 (ob_PublicationAttempts r + 1)" "optional in_i32 (ob_BrokerPartition r)"
    using assms(5) by (simp_all add: countable_row_def)
  show thesis
  proof (cases "publish_record L m (row_event J r)")
    case (Inl err)
    define f where "f = failed_row hash (ri_Now inp) (failureCategory True) (safeFailureReason err) True"
    have perm: "pe_permanent err" by (rule publish_record_permanent [OF Inl])
    have "requireOneOutboxRow (claimed_by (ob_EventID r) owner) f ''mark outbox event failed'' d =
      (None, d\<lparr>db_outbox := sql_update (\<lambda>x. ob_EventID x = ob_EventID r) f (db_outbox d)\<rparr>)"
      by (rule requireOne_ok [OF assms(1,2,4)]) (use ok in \<open>simp_all add: f_def failed_row_def\<close>)
    then have "relay_event L m hash owner inp ev (d, log) =
        (None, d\<lparr>db_outbox := sql_update (\<lambda>x. ob_EventID x = ob_EventID r) f (db_outbox d)\<rparr>, log)"
      using assms(6) by (simp add: relay_event_def Publish_def same Inl perm MarkFailed_def stored_or_def accepting_def uid f_def)
    moreover have "row_event J (f r) = row_event J r" by (rule row_event_cong) (simp add: f_def)
    then have "settled L J m log (f r)" by (simp add: settled_def Inl) (simp add: f_def failed_row_def)
    ultimately show ?thesis using that by (simp add: f_def)
  next
    case (Inr rec)
    obtain result where res: "ri_Answer inp rec = Inr result" "in_i32 (pub_Partition result)"
      using assms(6) by (auto simp: accepting_def)
    define f where "f = published_row (ri_Now inp) result"
    have "requireOneOutboxRow (claimed_by (ob_EventID r) owner) f ''mark outbox event published'' d =
      (None, d\<lparr>db_outbox := sql_update (\<lambda>x. ob_EventID x = ob_EventID r) f (db_outbox d)\<rparr>)"
      by (rule requireOne_ok [OF assms(1,2,4)]) (use ok res in \<open>simp_all add: f_def published_row_def\<close>)
    then have e: "relay_event L m hash owner inp ev (d, log) =
        (None, d\<lparr>db_outbox := sql_update (\<lambda>x. ob_EventID x = ob_EventID r) f (db_outbox d)\<rparr>, log @ [rec])"
      using assms(6) by (simp add: relay_event_def Publish_def same Inr res(1) MarkPublished_def stored_or_def accepting_def uid f_def)
    have "delivered J (log @ [rec]) r"
      using publish_record_fields [OF Inr] by (simp add: delivered_def row_event_def)
    then have "delivered J (log @ [rec]) (f r)" using delivered_cong [of "f r" r] by (simp add: f_def)
    moreover have "row_event J (f r) = row_event J r" by (rule row_event_cong) (simp add: f_def)
    ultimately have "settled L J m (log @ [rec]) (f r)" by (simp add: settled_def Inr) (simp add: f_def published_row_def)
    then show ?thesis using that [OF e] by (auto simp: f_def)
  qed
qed

text \<open>The rows an update by identity leaves alone, and the one it rewrites.\<close>

lemma update_by_id:
  assumes "distinct (map ob_EventID rows)" "r \<in> set rows"
    "x \<in> set (sql_update (\<lambda>y. ob_EventID y = ob_EventID r) f rows)" "ob_EventID (f r) = ob_EventID r"
  shows "if ob_EventID x = ob_EventID r then x = f r else x \<in> set rows"
proof -
  obtain y where y: "y \<in> set rows" "x = (if ob_EventID y = ob_EventID r then f y else y)"
    using assms(3) by (auto simp: sql_update_def)
  show ?thesis
  proof (cases "ob_EventID y = ob_EventID r")
    case True
    then have "y = r" using distinct_map_eq [OF assms(1) y(1) assms(2)] by simp
    then show ?thesis using y assms(4) by simp
  next
    case False
    then show ?thesis using y by simp
  qed
qed

lemma sql_update_in:
  assumes "x \<in> set rows" "P x"
  shows "f x \<in> set (sql_update P f rows)"
proof -
  have "(if P x then f x else x) \<in> (\<lambda>r. if P r then f r else r) ` set rows" using assms(1) by (rule imageI)
  then show ?thesis using assms(2) by (simp add: sql_update_def)
qed

lemma list_all2_swap:
  "list_all2 P rs es \<Longrightarrow> (\<And>r e. r \<in> set rs \<Longrightarrow> P r e \<Longrightarrow> Q e (c r)) \<Longrightarrow> list_all2 Q es (map c rs)"
  by (induction rule: list_all2_induct) auto

lemma scan_all_total: "\<forall>r \<in> set rs. \<exists>x. scan r = Inr x \<Longrightarrow> \<exists>xs. scan_all scan rs = Inr xs"
  by (induction rs) auto

lemma relay_loop_settles:
  assumes "distinct (map ob_EventID (db_outbox d))" "distinct (map ob_EventID rows)"
    "list_all2 (\<lambda>ev r. stands_for J ev r \<and> r \<in> set (db_outbox d) \<and> claimed_by (ob_EventID r) owner r \<and> countable_row r) events rows"
    "length events \<le> length inputs" "list_all accepting inputs"
  shows "\<exists>d' log'. relay_loop L m hash owner inputs events (d, log) = ([], d', log') \<and> set log \<subseteq> set log' \<and>
    (\<forall>r' \<in> set (db_outbox d'). if ob_EventID r' \<in> ob_EventID ` set rows then settled L J m log' r' else r' \<in> set (db_outbox d))"
  using assms
proof (induction events arbitrary: rows inputs d log)
  case Nil
  then show ?case by (cases inputs) auto
next
  case (Cons ev events rows0)
  obtain r rows where rows: "rows0 = r # rows" "stands_for J ev r" "r \<in> set (db_outbox d)"
    "claimed_by (ob_EventID r) owner r" "countable_row r"
    "list_all2 (\<lambda>ev r. stands_for J ev r \<and> r \<in> set (db_outbox d) \<and> claimed_by (ob_EventID r) owner r \<and> countable_row r) events rows"
    using Cons.prems(3) unfolding list_all2_Cons1 by blast
  obtain inp inputs' where inp: "inputs = inp # inputs'" "accepting inp" "length events \<le> length inputs'" "list_all accepting inputs'"
    using Cons.prems(4,5) by (cases inputs) auto
  obtain f log1 where st: "relay_event L m hash owner inp ev (d, log) =
      (None, d\<lparr>db_outbox := sql_update (\<lambda>x. ob_EventID x = ob_EventID r) f (db_outbox d)\<rparr>, log1)"
    "set log \<subseteq> set log1" "event_of (f r) = event_of r" "settled L J m log1 (f r)"
    using Cons.prems(1) rows(3,2,4,5) inp(2) by (rule relay_event_settles)
  let ?d1 = "d\<lparr>db_outbox := sql_update (\<lambda>x. ob_EventID x = ob_EventID r) f (db_outbox d)\<rparr>"
  have fid: "ob_EventID (f r) = ob_EventID r" by (rule event_of_id [OF st(3)])
  have only: "x = r" if "x \<in> set (db_outbox d)" "ob_EventID x = ob_EventID r" for x
    by (rule distinct_map_eq [OF Cons.prems(1) that(1) rows(3) that(2)])
  have "map ob_EventID (db_outbox ?d1) = map ob_EventID (db_outbox d)"
    using only fid by (auto simp: sql_update_def)
  then have dist: "distinct (map ob_EventID (db_outbox ?d1))" using Cons.prems(1) by simp
  have other: "x \<in> set (db_outbox ?d1)" if "x \<in> set (db_outbox d)" "ob_EventID x \<noteq> ob_EventID r" for x
    using that by (auto simp: sql_update_def image_iff intro!: bexI [of _ x])
  have new: "ob_EventID r \<notin> ob_EventID ` set rows" "distinct (map ob_EventID rows)" using Cons.prems(2) rows(1) by auto
  have "list_all2 (\<lambda>ev r. stands_for J ev r \<and> r \<in> set (db_outbox ?d1) \<and> claimed_by (ob_EventID r) owner r \<and> countable_row r) events rows"
    using rows(6)
  proof (rule list.rel_mono_strong)
    fix e y assume y: "y \<in> set rows" "stands_for J e y \<and> y \<in> set (db_outbox d) \<and> claimed_by (ob_EventID y) owner y \<and> countable_row y"
    have "ob_EventID y \<in> ob_EventID ` set rows" using y(1) by simp
    then have "ob_EventID y \<noteq> ob_EventID r" using new(1) by metis
    then show "stands_for J e y \<and> y \<in> set (db_outbox ?d1) \<and> claimed_by (ob_EventID y) owner y \<and> countable_row y"
      using y(2) other by blast
  qed
  from Cons.IH [OF dist new(2) this inp(3,4), of log1] obtain d' log' where
    loop: "relay_loop L m hash owner inputs' events (?d1, log1) = ([], d', log')" "set log1 \<subseteq> set log'"
      "\<forall>r' \<in> set (db_outbox d'). if ob_EventID r' \<in> ob_EventID ` set rows then settled L J m log' r' else r' \<in> set (db_outbox ?d1)"
    by blast
  have "if ob_EventID r' \<in> ob_EventID ` set rows0 then settled L J m log' r' else r' \<in> set (db_outbox d)"
    if r': "r' \<in> set (db_outbox d')" for r'
  proof (cases "ob_EventID r' \<in> ob_EventID ` set rows")
    case True
    then show ?thesis using loop(3) r' by (simp add: rows(1))
  next
    case False
    then have "r' \<in> set (db_outbox ?d1)" using loop(3) r' by auto
    then have "if ob_EventID r' = ob_EventID r then r' = f r else r' \<in> set (db_outbox d)"
      using update_by_id [where f = f, OF Cons.prems(1) rows(3) _ fid] by simp
    then show ?thesis using False settled_mono [OF st(4) loop(2)] fid by (auto simp: rows(1))
  qed
  moreover have "relay_loop L m hash owner inputs (ev # events) (d, log) = ([], d', log')"
    by (simp add: inp(1) st(1) loop(1))
  ultimately show ?case using st(2) loop(2) by blast
qed

lemma claim_due:
  assumes "jsonb_laws L J" "arranges arrange" "outbox_inv L J (d, log)" "owner \<noteq> []"
    "list_all countable_row (db_outbox d)" "sql_count (relay_due now) (db_outbox d) \<le> 100"
  obtains claimed d1 rows where "Outbox_Claim J arrange owner now (30 * second) 100 [] d = (Inr claimed, d1)"
    "distinct (map ob_EventID (db_outbox d1))" "distinct (map ob_EventID rows)"
    "list_all2 (\<lambda>ev r. stands_for J ev r \<and> r \<in> set (db_outbox d1) \<and> claimed_by (ob_EventID r) owner r \<and> countable_row r) claimed rows"
    "length claimed = sql_count (relay_due now) (db_outbox d)"
    "\<forall>r \<in> set (db_outbox d). relay_due now r \<longrightarrow> ob_EventID r \<in> set (map ob_EventID rows)"
proof -
  let ?due = "outbox_claim_rows now 100 [] d"
  let ?c = "\<lambda>r. r\<lparr>ob_ClaimedBy := Some owner, ob_ClaimExpiresAt := Some (now + 30 * second)\<rparr>"
  let ?scan = "scanClaimedOutbox J owner (now + 30 * second)"
  have due: "?due = sort_by before_in_outbox (filter (relay_due now) (db_outbox d))"
    using assms(6) by (simp add: outbox_claim_rows_def sql_count_def)
  have dist: "distinct (map ob_EventID (db_outbox d))" using assms(3) by (simp add: outbox_inv_def)
  have marr: "mset (arrange ?due) = mset (filter (relay_due now) (db_outbox d))"
    using assms(2) by (simp add: arranges_def due)
  have arr: "set (arrange ?due) = {r \<in> set (db_outbox d). relay_due now r}"
    using arranges_set [OF assms(2), of ?due] by (simp only: due set_sort_by set_filter)
  have count: "length (arrange ?due) = sql_count (relay_due now) (db_outbox d)"
    using arg_cong [OF marr, of size] by (simp only: size_mset sql_count_def)
  have "mset (map ob_EventID (arrange ?due)) = mset (map ob_EventID (filter (relay_due now) (db_outbox d)))"
    by (simp add: marr)
  from mset_eq_imp_distinct_iff [OF this] have ddue: "distinct (map ob_EventID (arrange ?due))"
    using dist by (simp add: distinct_map_filter)
  have "\<forall>r \<in> set (arrange ?due). \<exists>ev. ?scan r = Inr ev"
    using scan_succeeds [OF assms(1)] assms(3) arr by (simp add: outbox_inv_def)
  then obtain claimed where scan: "scan_all ?scan (arrange ?due) = Inr claimed" using scan_all_total by blast
  define d1 where "d1 = d\<lparr>db_outbox := sql_update (\<lambda>r. ob_EventID r \<in> set (map ob_EventID ?due)) ?c (db_outbox d)\<rparr>"
  have rows1: "?c r \<in> set (db_outbox d1)" if r: "r \<in> set (db_outbox d)" "relay_due now r" for r
  proof -
    have "ob_EventID r \<in> set (map ob_EventID ?due)" using r by (simp add: due)
    then have "?c r \<in> set (sql_update (\<lambda>r. ob_EventID r \<in> set (map ob_EventID ?due)) ?c (db_outbox d))"
      by (rule sql_update_in [OF r(1)])
    then show ?thesis by (simp add: d1_def)
  qed
  show thesis
  proof (rule that [of claimed d1 "map ?c (arrange ?due)"])
    show "Outbox_Claim J arrange owner now (30 * second) 100 [] d = (Inr claimed, d1)"
      using assms(4) scan by (simp add: Outbox_Claim_def d1_def second_def)
    show "distinct (map ob_EventID (map ?c (arrange ?due)))" using ddue by (simp add: comp_def)
    have "map ob_EventID (db_outbox d1) = map ob_EventID (db_outbox d)" by (simp add: d1_def map_sql_update)
    then show "distinct (map ob_EventID (db_outbox d1))" using dist by simp
    show "length claimed = sql_count (relay_due now) (db_outbox d)"
      using list_all2_lengthD [OF scan [unfolded scan_all_Inr]] count by simp
    have "map ob_EventID (map ?c (arrange ?due)) = map ob_EventID (arrange ?due)" by simp
    then show "\<forall>r \<in> set (db_outbox d). relay_due now r \<longrightarrow> ob_EventID r \<in> set (map ob_EventID (map ?c (arrange ?due)))"
      using arr by (simp only: set_map) blast
    show "list_all2 (\<lambda>ev r. stands_for J ev r \<and> r \<in> set (db_outbox d1) \<and> claimed_by (ob_EventID r) owner r \<and> countable_row r)
      claimed (map ?c (arrange ?due))"
    proof (rule list_all2_swap [OF scan [unfolded scan_all_Inr]])
      fix r ev assume r: "r \<in> set (arrange ?due)" "?scan r = Inr ev"
      then have m: "r \<in> set (db_outbox d)" "relay_due now r" using arr by simp_all
      then have "stands_for J ev r" using scan_stands [OF assms(1) _ r(2)] assms(3) by (simp add: outbox_inv_def)
      then have "stands_for J ev (?c r)" by (simp add: stands_for_def)
      moreover have "countable_row r" using assms(5) m(1) by (simp add: list_all_iff)
      then have "countable_row (?c r)" by (simp add: countable_row_def)
      moreover have "claimed_by (ob_EventID (?c r)) owner (?c r)" using m(2) by (simp add: claimed_by_def relay_due_def)
      ultimately show "stands_for J ev (?c r) \<and> ?c r \<in> set (db_outbox d1) \<and>
          claimed_by (ob_EventID (?c r)) owner (?c r) \<and> countable_row (?c r)"
        using rows1 [OF m] by blast
    qed
  qed
qed

text \<open>C34: A relay round with a working broker and database settles all that is due: every due event, up to the
  batch size, is published, or marked terminal where the producer refuses it for good, and the
  round reports their number and no failure.\<close>

theorem RunOnce_settles:
  assumes "jsonb_laws L J" "arranges arrange" "outbox_inv L J (d, log)" "owner \<noteq> []"
    "list_all countable_row (db_outbox d)" "sql_count (relay_due now) (db_outbox d) \<le> 100"
    "list_all accepting inputs" "sql_count (relay_due now) (db_outbox d) \<le> length inputs"
  shows "\<exists>d' log'. RunOnce L J arrange m hash owner now [] inputs (d, log) =
      (Inr (sql_count (relay_due now) (db_outbox d), []), d', log') \<and>
    (\<forall>r \<in> set (db_outbox d). relay_due now r \<longrightarrow>
       (\<exists>r' \<in> set (db_outbox d'). event_of r' = event_of r \<and> settled L J m log' r'))"
proof -
  obtain claimed d1 rows where claim: "Outbox_Claim J arrange owner now (30 * second) 100 [] d = (Inr claimed, d1)"
    and rows: "distinct (map ob_EventID (db_outbox d1))" "distinct (map ob_EventID rows)"
      "list_all2 (\<lambda>ev r. stands_for J ev r \<and> r \<in> set (db_outbox d1) \<and> claimed_by (ob_EventID r) owner r \<and> countable_row r) claimed rows"
    and len: "length claimed = sql_count (relay_due now) (db_outbox d)"
    and due: "\<forall>r \<in> set (db_outbox d). relay_due now r \<longrightarrow> ob_EventID r \<in> set (map ob_EventID rows)"
    using assms(1-6) by (rule claim_due)
  have "length claimed \<le> length inputs" using len assms(8) by simp
  from relay_loop_settles [OF rows this assms(7), of L m hash log] obtain d' log' where
    loop: "relay_loop L m hash owner inputs claimed (d1, log) = ([], d', log')"
      "\<forall>r' \<in> set (db_outbox d'). if ob_EventID r' \<in> ob_EventID ` set rows then settled L J m log' r' else r' \<in> set (db_outbox d1)"
    by blast
  have run: "RunOnce L J arrange m hash owner now [] inputs (d, log) = (Inr (length claimed, []), d', log')"
    by (simp add: RunOnce_def claim loop(1))
  have "relay_grows J (d, log) (d', log')"
    using RunOnce_grows [OF assms(1-3), of m hash owner now "[]" inputs] by (simp add: run)
  then have rew: "list_all2 (rewritten J log') (db_outbox d) (db_outbox d')" by (simp add: relay_grows_def)
  have "\<exists>r' \<in> set (db_outbox d'). event_of r' = event_of r \<and> settled L J m log' r'"
    if r: "r \<in> set (db_outbox d)" "relay_due now r" for r
  proof -
    obtain r' where r': "r' \<in> set (db_outbox d')" "event_of r' = event_of r"
      using list_all2_set1 [OF rew r(1)] unfolding rewritten_def by blast
    have "ob_EventID r' \<in> ob_EventID ` set rows" using due r by (simp add: event_of_id [OF r'(2)])
    then have "settled L J m log' r'" using loop(2) r'(1) by (simp only: if_True split: if_splits)
    then show ?thesis using r' by blast
  qed
  then show ?thesis using run unfolding len by blast
qed

theorem RunOnce_settles_witness:
  "\<exists>d' log'. RunOnce ex_lib ex_json id 1000 (\<lambda>_ _. 0) ''relay-a'' 60 [] [ex_good] (ex_outbox, []) = (Inr (1, []), d', log') \<and>
     list_ex (\<lambda>r'. settled ex_lib ex_json 1000 log' r') (db_outbox d')"
proof -
  have facts: "list_all countable_row (db_outbox ex_outbox)" "sql_count (relay_due 60) (db_outbox ex_outbox) = 1"
    by code_simp+
  have acc: "list_all accepting [ex_good]" by (simp add: accepting_def ex_good_def in_i32_def)
  have row: "outbox_row ex_event \<in> set (db_outbox ex_outbox)" "relay_due 60 (outbox_row ex_event)"
    by (simp add: ex_outbox_def) code_simp
  show ?thesis
    using RunOnce_settles [OF ex_outbox_start(1-3), of "''relay-a''" 60 "[ex_good]" 1000 "\<lambda>_ _. 0"] facts acc row
    by (force simp: list_ex_iff)
qed

end
