(* ===== verification/Sched_Intent.thy ===== *)
theory Sched_Intent
  imports Cluster_Registry Run_History Outbox
begin

text \<open>
  Final admission of a claimed run
  (\<^verbatim>\<open>services/platform-api/internal/adapters/postgres/scheduling_intent.go\<close>): \<^verbatim>\<open>Schedule\<close> reserves
  capacity and budget, assigns the attempt, moves the run to PROVISIONING and records the event
  and the handoff intent in one transaction; \<^verbatim>\<open>DeferCapacity\<close> and \<^verbatim>\<open>Reject\<close> end a claim
  without an assignment.  Each of them repeats its answer when it is called again.
\<close>

section \<open>Requests\<close>

record SchedulingIntentRequest =
  sir_Claim :: ClaimedRun
  sir_LeaseOwner :: string
  sir_AttemptID :: uuid
  sir_AttemptVersion :: int
  sir_ClusterID :: string
  sir_ClusterFreshness :: duration
  sir_Strategy :: string
  sir_SelectionScore :: int
  sir_BudgetMinorUnits :: int
  sir_ReservationTTL :: duration
  sir_CorrelationID :: string
  sir_CausationID :: string
  sir_Now :: gtime
  sir_DesiredState :: AgentRunDesiredState

record CapacityWaitRequest =
  cwr_Claim :: ClaimedRun
  cwr_LeaseOwner :: string
  cwr_ReasonCode :: string
  cwr_Reason :: string
  cwr_NextEligibleAt :: gtime
  cwr_CorrelationID :: string
  cwr_CausationID :: string
  cwr_Now :: gtime

record SchedulingRejectRequest =
  srr_Claim :: ClaimedRun
  srr_LeaseOwner :: string
  srr_ReasonCode :: string
  srr_Reason :: string
  srr_CorrelationID :: string
  srr_CausationID :: string
  srr_Now :: gtime

record SchedulingIntentResult =
  sres_RunVersion :: int
  sres_AttemptVersion :: int
  sres_CapacityReservationID :: uuid
  sres_BudgetReservationID :: uuid
  sres_EventID :: uuid
  sres_Replayed :: bool

text \<open>The error \<^verbatim>\<open>EligibilityDeniedError\<close> carries the decision; every other one is an error value.\<close>

datatype sched_error = EligibilityDeniedError EligibilityDecision | Failed error

definition failing :: "'a result \<Rightarrow> sched_error + 'a" where
  "failing m = map_sum Failed id m"

definition validateSchedulingIntent :: "SchedulingIntentRequest \<Rightarrow> error option" where
  "validateSchedulingIntent request =
    (let claim = sir_Claim request; desired = sir_DesiredState request in
     if clm_TenantID claim = uuid_Nil \<or> clm_ID claim = uuid_Nil \<or> sir_AttemptID request = uuid_Nil \<or>
        clm_Version claim < 1 \<or> sir_AttemptVersion request < 1 \<or> TrimSpace (sir_LeaseOwner request) = [] \<or>
        sir_ClusterID request = [] \<or> sir_ClusterFreshness request \<le> 0 \<or> sir_Strategy request = [] \<or>
        sir_SelectionScore request < 0 \<or> sir_BudgetMinorUnits request < 0 \<or>
        sir_ReservationTTL request \<le> 0 \<or> sir_ReservationTTL request > 24 * hour \<or>
        IsZero (sir_Now request) \<or> TrimSpace (sir_CorrelationID request) = [] \<or>
        TrimSpace (sir_CausationID request) = [] then
       Some (Plain ''scheduling intent request is invalid'')
     else if ds_Runtime desired \<noteq> clm_Runtime claim \<or> ds_ExecutionProfile desired \<noteq> clm_ExecutionProfile claim \<or>
        ds_TaskReference desired \<noteq> clm_PromptReference claim \<or>
        ds_TimeoutSeconds desired \<noteq> clm_TimeoutSeconds claim \<or> ds_MaxAttempts desired \<noteq> clm_MaxAttempts claim \<or>
        ds_CPUMillis desired \<noteq> clm_CPUMillis claim \<or> ds_MemoryMiB desired \<noteq> clm_MemoryMiB claim then
       Some (Plain ''scheduling desired state does not match claimed run'')
     else Desired_Validate desired (clm_AttemptNumber claim))"

section \<open>Statements\<close>

text \<open>Only the selected columns are read; the other fields keep their zero values.\<close>

definition scheduling_columns :: "AgentRun \<Rightarrow> AgentRun" where
  "scheduling_columns run = run\<lparr>run_FailureCategory := FailureNone, run_IdempotencyKey := [],
     run_RequestHash := [], run_CancellationReason := [], run_CancellationRequestedBy := [],
     run_CancellationRequestedAt := None, run_CreatedAt := 0, run_CompletedAt := None\<rparr>"

definition coalesce :: "string option \<Rightarrow> string" where
  "coalesce s = (case s of None \<Rightarrow> [] | Some x \<Rightarrow> x)"

definition lockSchedulingRun ::
  "uuid \<Rightarrow> uuid \<Rightarrow> db \<Rightarrow> (AgentRun \<times> string \<times> gtime option \<times> string) result" where
  "lockSchedulingRun tenantID runID d =
    and_then (required (sql_row (run_key tenantID runID) (db_runs d))) (\<lambda>r.
    Inr (scheduling_columns (rr_Run r), coalesce (rr_LeaseOwner r), rr_LeaseExpiresAt r, rr_ExecutionProfile r))"

definition attempt_columns :: "AgentRunAttempt \<Rightarrow> AgentRunAttempt" where
  "attempt_columns a = a\<lparr>att_FailureCategory := FailureNone, att_SelectedCluster := [],
     att_ExecutionProfile := [], att_CapacityReservationID := uuid_Nil, att_BudgetReservationID := uuid_Nil,
     att_WorkloadReference := [], att_CreatedAt := 0, att_UpdatedAt := 0, att_StartedAt := None,
     att_CompletedAt := None\<rparr>"

definition lockPendingAttempt :: "AgentRun \<Rightarrow> uuid \<Rightarrow> int \<Rightarrow> db \<Rightarrow> AgentRunAttempt result" where
  "lockPendingAttempt run attemptID expectedVersion d =
    and_then (required (sql_row (\<lambda>a. att_TenantID a = run_TenantID run \<and> att_RunID a = run_ID run \<and>
        att_ID a = attemptID \<and> att_AttemptNumber a = run_AttemptCount run) (db_attempts d))) (\<lambda>a.
    if att_Status a \<noteq> AttemptPending \<or> att_Version a \<noteq> expectedVersion then Inl (Sentinel ErrVersionConflict)
    else Inr (attempt_columns a))"

definition lockEligibleCluster ::
  "uuid \<Rightarrow> string \<Rightarrow> string \<Rightarrow> string \<Rightarrow> gtime \<Rightarrow> duration \<Rightarrow> db \<Rightarrow> (ExecutionCluster \<times> ClusterCapacity) result" where
  "lockEligibleCluster tenantID clusterID runtime profile now freshness d =
    (case sql_row (\<lambda>c. cl_ID (cand_Cluster c) = clusterID \<and>
        usable tenantID runtime profile (now - freshness) d c) (clusterSelect d) of
       None \<Rightarrow> Inl (Sentinel ErrCapacityUnavailable)
     | Some c \<Rightarrow>
         if Cluster_Validate (cand_Cluster c) now \<noteq> None \<or> Capacity_Validate (cand_Capacity c) now \<noteq> None then
           Inl (Sentinel ErrCapacityUnavailable)
         else Inr (cand_Cluster c, cand_Capacity c))"

text \<open>
  The updates of the two tables.  A row that would violate a check constraint makes the
  statement fail; the number of the updated runs is compared with one.
\<close>

definition attempt_checks :: "AgentRunAttempt \<Rightarrow> bool" where
  "attempt_checks a \<longleftrightarrow> att_AttemptNumber a > 0 \<and> att_Version a > 0 \<and>
     (att_FailureCategory a = FailureNone \<or> FailureCategory_IsValid (att_FailureCategory a)) \<and>
     (att_ExecutionProfile a = [] \<or> MatchString desiredProfilePattern (att_ExecutionProfile a)) \<and>
     (att_SelectedCluster a = [] \<and> att_ExecutionProfile a = [] \<and> att_CapacityReservationID a = uuid_Nil \<and>
        att_BudgetReservationID a = uuid_Nil \<or>
      att_SelectedCluster a \<noteq> [] \<and> att_ExecutionProfile a \<noteq> [] \<and> att_CapacityReservationID a \<noteq> uuid_Nil \<and>
        att_BudgetReservationID a \<noteq> uuid_Nil)"

definition update_attempts ::
  "(AgentRunAttempt \<Rightarrow> bool) \<Rightarrow> (AgentRunAttempt \<Rightarrow> AgentRunAttempt) \<Rightarrow> db \<Rightarrow> db result" where
  "update_attempts P f d =
    and_then (ensure (\<forall>a \<in> set (db_attempts d). P a \<longrightarrow> attempt_checks (f a)) (translateError OtherFailure)) (\<lambda>_.
    Inr (d\<lparr>db_attempts := sql_update P f (db_attempts d)\<rparr>))"

definition update_run :: "(RunRow \<Rightarrow> bool) \<Rightarrow> (RunRow \<Rightarrow> RunRow) \<Rightarrow> db \<Rightarrow> db result" where
  "update_run P f d =
    and_then (ensure (\<forall>r \<in> set (db_runs d). P r \<longrightarrow> row_checks (f r)) (translateError OtherFailure)) (\<lambda>_.
    and_then (ensure (sql_count P (db_runs d) = 1) (Sentinel ErrVersionConflict)) (\<lambda>_.
    Inr (d\<lparr>db_runs := sql_update P f (db_runs d)\<rparr>)))"

abbreviation run_at :: "AgentRun \<Rightarrow> int \<Rightarrow> RunRow \<Rightarrow> bool" where
  "run_at run version r \<equiv> run_key (run_TenantID run) (run_ID run) r \<and> rr_Version r = version"

abbreviation attempt_at :: "AgentRunAttempt \<Rightarrow> int \<Rightarrow> AgentRunAttempt \<Rightarrow> bool" where
  "attempt_at attempt version a \<equiv>
     att_TenantID a = att_TenantID attempt \<and> att_ID a = att_ID attempt \<and> att_Version a = version"

definition insertHandoffIntent ::
  "lib \<Rightarrow> uuid \<Rightarrow> AgentRun \<Rightarrow> AgentRunAttempt \<Rightarrow> AgentRunDesiredState \<Rightarrow> db \<Rightarrow> db result" where
  "insertHandoffIntent L eventID run attempt desired d =
    and_then (ensure (lib_Version L eventID = 7 \<and> lib_Version L (att_ID attempt) = 7 \<and>
        1 \<le> att_AttemptNumber attempt \<and> att_AttemptNumber attempt \<le> 10 \<and>
        MatchString clusterIDPattern (att_SelectedCluster attempt)) (translateError OtherFailure)) (\<lambda>_.
    and_then (ensure (\<forall>h \<in> set (db_handoff d). hi_EventID h \<noteq> eventID \<and>
        \<not> (hi_TenantID h = run_TenantID run \<and> hi_RunID h = run_ID run \<and>
           hi_AttemptNumber h = att_AttemptNumber attempt)) (translateError UniqueViolation)) (\<lambda>_.
    and_then (ensure (run_TenantID run \<in> fst ` set (db_tenants d)) (translateError ForeignKeyViolation)) (\<lambda>_.
    Inr (d\<lparr>db_handoff := db_handoff d @
      [\<lparr>hi_EventID = eventID, hi_TenantID = run_TenantID run, hi_RunID = run_ID run,
        hi_AttemptID = att_ID attempt, hi_AttemptNumber = att_AttemptNumber attempt,
        hi_ClusterID = att_SelectedCluster attempt, hi_DesiredState = desired,
        hi_CreatedAt = run_UpdatedAt run\<rparr>]\<rparr>))))"

text \<open>
  Two desired states match when they have the same JSON text, that is the same fields; a nil
  and an empty slice are one list here.
\<close>

definition desiredStateMatches :: "AgentRunDesiredState \<Rightarrow> AgentRunDesiredState \<Rightarrow> bool" where
  "desiredStateMatches stored desired \<longleftrightarrow> stored = desired"

definition event_recorded :: "AgentRun \<Rightarrow> string \<Rightarrow> OutboxRow \<Rightarrow> bool" where
  "event_recorded run eventType o1 \<longleftrightarrow> ob_TenantID o1 = run_TenantID run \<and> ob_RunID o1 = Some (run_ID run) \<and>
     ob_EventType o1 = eventType \<and> ob_AggregateVersion o1 = run_Version run"

section \<open>Replays\<close>

text \<open>The attempt joined with its two reservations.\<close>

definition assigned :: "db \<Rightarrow> (AgentRunAttempt \<times> CapacityReservation \<times> BudgetReservation) list" where
  "assigned d = List.map_filter (\<lambda>a.
     case (sql_row (\<lambda>c. att_CapacityReservationID a \<noteq> uuid_Nil \<and> cr_ID c = att_CapacityReservationID a) (db_capacity d),
           sql_row (\<lambda>b. att_BudgetReservationID a \<noteq> uuid_Nil \<and> br_ID b = att_BudgetReservationID a) (db_budget d)) of
       (Some c, Some b) \<Rightarrow> Some (a, c, b)
     | _ \<Rightarrow> None) (db_attempts d)"

definition same_intent ::
  "AgentRun \<Rightarrow> SchedulingIntentRequest \<Rightarrow> RunRow \<Rightarrow> AgentRunAttempt \<times> CapacityReservation \<times> BudgetReservation \<Rightarrow> bool" where
  "same_intent run request r = (\<lambda>(a, c, b).
     att_SelectedCluster a = sir_ClusterID request \<and>
     att_ExecutionProfile a = clm_ExecutionProfile (sir_Claim request) \<and>
     cr_CPUMillis c = run_CPUMillis run \<and> cr_MemoryMiB c = run_MemoryMiB run \<and>
     br_AmountMinorUnits b = sir_BudgetMinorUnits request \<and>
     cr_ExpiresAt c - cr_CreatedAt c = sir_ReservationTTL request \<and>
     rr_Strategy r = Some (sir_Strategy request) \<and> rr_SelectionScore r = Some (sir_SelectionScore request))"

definition replaySchedulingIntent ::
  "AgentRun \<Rightarrow> SchedulingIntentRequest \<Rightarrow> db \<Rightarrow> SchedulingIntentResult result" where
  "replaySchedulingIntent run request d =
    and_then (required (sql_row (\<lambda>(a, c, b). att_TenantID a = run_TenantID run \<and> att_RunID a = run_ID run \<and>
        att_AttemptNumber a = run_AttemptCount run) (assigned d))) (\<lambda>(a, c, b).
    and_then (required (sql_row (run_key (run_TenantID run) (run_ID run)) (db_runs d))) (\<lambda>r.
    if rr_Strategy r = None \<or> rr_SelectionScore r = None then Inl (translateError OtherFailure)
    else if \<not> same_intent run request r (a, c, b) then Inl (Sentinel ErrConflict)
    else
    and_then (required (sql_row (event_recorded run AgentRunScheduledType) (db_outbox d))) (\<lambda>e.
    and_then (required (sql_row (\<lambda>h. hi_EventID h = ob_EventID e \<and> hi_TenantID h = run_TenantID run \<and>
        hi_RunID h = run_ID run \<and> hi_AttemptNumber h = run_AttemptCount run) (db_handoff d))) (\<lambda>h.
    if \<not> desiredStateMatches (hi_DesiredState h) (sir_DesiredState request) then Inl (Sentinel ErrConflict)
    else Inr \<lparr>sres_RunVersion = run_Version run, sres_AttemptVersion = att_Version a,
      sres_CapacityReservationID = att_CapacityReservationID a,
      sres_BudgetReservationID = att_BudgetReservationID a, sres_EventID = ob_EventID e,
      sres_Replayed = True\<rparr>))))"

section \<open>Schedule\<close>

definition lease_valid :: "string \<Rightarrow> gtime option \<Rightarrow> string \<Rightarrow> gtime \<Rightarrow> bool" where
  "lease_valid owner expiry requestOwner now \<longleftrightarrow>
     owner = requestOwner \<and> (\<exists>t \<in> set_option expiry. t > now)"

definition admission ::
  "AgentRun \<Rightarrow> string \<Rightarrow> gtime \<Rightarrow> db \<Rightarrow> EligibilityDecision result" where
  "admission run executionProfile now d =
    and_then (required (ownership (run_TenantID run) (run_ProjectID run) d)) (\<lambda>(tenantStatus, projectStatus).
    EvaluateEligibility \<lparr>el_TenantStatus = tenantStatus, el_ProjectStatus = projectStatus,
      el_Request = \<lparr>sr_Runtime = run_Runtime run, sr_ExecutionProfile = executionProfile,
        sr_CreatedBy = run_CreatedBy run, sr_CPUMillis = run_CPUMillis run, sr_MemoryMiB = run_MemoryMiB run\<rparr>,
      el_Policy = db_policies d (run_TenantID run),
      el_Usage = readSchedulingUsage (run_TenantID run) (run_CreatedBy run) now d, el_Now = now\<rparr>)"

definition reservation_request ::
  "SchedulingIntentRequest \<Rightarrow> AgentRun \<Rightarrow> AgentRunAttempt \<Rightarrow> ExecutionCluster \<Rightarrow> ReservationRequest" where
  "reservation_request request run attempt cluster =
    \<lparr>rsv_TenantID = run_TenantID run, rsv_RunID = run_ID run, rsv_AttemptID = att_ID attempt,
     rsv_AttemptNumber = att_AttemptNumber attempt, rsv_ClusterID = cl_ID cluster,
     rsv_CPUMillis = run_CPUMillis run, rsv_MemoryMiB = run_MemoryMiB run,
     rsv_BudgetMinorUnits = sir_BudgetMinorUnits request, rsv_Now = sir_Now request,
     rsv_TTL = sir_ReservationTTL request\<rparr>"

definition started_attempt ::
  "gtime \<Rightarrow> string \<Rightarrow> string \<Rightarrow> ReservationBundle \<Rightarrow> AgentRunAttempt \<Rightarrow> AgentRunAttempt" where
  "started_attempt now clusterID executionProfile bundle a = a\<lparr>att_Status := AttemptStarting,
     att_Version := att_Version a + 1, att_SelectedCluster := clusterID,
     att_ExecutionProfile := executionProfile, att_CapacityReservationID := cr_ID (rb_Capacity bundle),
     att_BudgetReservationID := br_ID (rb_Budget bundle), att_UpdatedAt := now\<rparr>"

definition scheduled_row :: "SchedulingIntentRequest \<Rightarrow> RunRow \<Rightarrow> RunRow" where
  "scheduled_row request r = r\<lparr>rr_Run := (rr_Run r)\<lparr>run_Status := AgentRunProvisioning,
     run_UpdatedAt := sir_Now request, run_Version := rr_Version r + 1\<rparr>,
     rr_LeaseOwner := None, rr_LeaseExpiresAt := None, rr_NextEligibleAt := None,
     rr_DecisionCode := Some ''SCHEDULED'',
     rr_DecisionReason := Some ''cluster selected and resources reserved'',
     rr_Strategy := Some (sir_Strategy request), rr_SelectionScore := Some (sir_SelectionScore request)\<rparr>"

text \<open>
  The reservation of capacity and budget is \<open>book\<close>, which \<^verbatim>\<open>Reserve\<close> shares.  A tenant without a
  policy is never eligible.  \<open>ids\<close> are the identities of the reservations and \<open>newV7\<close> the one of
  the event.
\<close>

definition admit ::
  "lib \<Rightarrow> uuid option \<times> uuid option \<Rightarrow> uuid option \<Rightarrow> SchedulingIntentRequest \<Rightarrow> AgentRun \<Rightarrow> string \<Rightarrow>
   AgentRunAttempt \<Rightarrow> db \<Rightarrow> (SchedulingIntentResult \<times> db) result" where
  "admit L ids newV7 request run0 executionProfile attempt0 d =
    and_then (lockEligibleCluster (run_TenantID run0) (sir_ClusterID request) (run_Runtime run0) executionProfile
        (sir_Now request) (sir_ClusterFreshness request) d) (\<lambda>(cluster, capacity).
    case db_policies d (run_TenantID run0) of None \<Rightarrow> Inl (Sentinel ErrBudgetUnavailable) | Some policy \<Rightarrow>
    and_then (book L ids (reservation_request request run0 attempt0 cluster) capacity
        (pol_DailyBudgetMinorUnits policy) d) (\<lambda>(bundle, d1).
    let attempt = started_attempt (sir_Now request) (cl_ID cluster) executionProfile bundle attempt0;
        run = run0\<lparr>run_Status := AgentRunProvisioning, run_UpdatedAt := sir_Now request,
          run_Version := run_Version run0 + 1\<rparr> in
    and_then (update_attempts (attempt_at attempt0 (sir_AttemptVersion request))
        (started_attempt (sir_Now request) (cl_ID cluster) executionProfile bundle) d1) (\<lambda>d2.
    and_then (update_run (run_at run0 (clm_Version (sir_Claim request))) (scheduled_row request) d2) (\<lambda>d3.
    and_then (NewAgentRunScheduled L newV7 run attempt (cr_ID (rb_Capacity bundle)) (br_ID (rb_Budget bundle))
        (sir_CorrelationID request) (sir_CausationID request)) (\<lambda>event.
    and_then (insertOutboxEvent L event d3) (\<lambda>d4.
    and_then (insertHandoffIntent L (env_EventID (oe_Envelope event)) run attempt (sir_DesiredState request) d4) (\<lambda>d5.
    Inr (\<lparr>sres_RunVersion = run_Version run, sres_AttemptVersion = att_Version attempt,
       sres_CapacityReservationID = cr_ID (rb_Capacity bundle),
       sres_BudgetReservationID = br_ID (rb_Budget bundle),
       sres_EventID = env_EventID (oe_Envelope event), sres_Replayed = False\<rparr>, d5))))))))"

text \<open>The lease, the version and the request the claim was made for.\<close>

definition intent_guard ::
  "SchedulingIntentRequest \<Rightarrow> AgentRun \<Rightarrow> string \<Rightarrow> gtime option \<Rightarrow> string \<Rightarrow> error option" where
  "intent_guard request run leaseOwner leaseExpiry executionProfile =
    (if run_Status run \<noteq> AgentRunScheduling \<or>
        \<not> lease_valid leaseOwner leaseExpiry (sir_LeaseOwner request) (sir_Now request) \<or>
        run_Version run \<noteq> clm_Version (sir_Claim request) \<or>
        executionProfile \<noteq> clm_ExecutionProfile (sir_Claim request) then
       Some (Sentinel ErrVersionConflict)
     else if ds_Runtime (sir_DesiredState request) \<noteq> run_Runtime run \<or>
        ds_TaskReference (sir_DesiredState request) \<noteq> run_PromptReference run \<or>
        ds_TimeoutSeconds (sir_DesiredState request) \<noteq> run_TimeoutSeconds run \<or>
        ds_MaxAttempts (sir_DesiredState request) \<noteq> run_MaxAttempts run then
       Some (Sentinel ErrConflict)
     else None)"

definition Schedule_tx ::
  "lib \<Rightarrow> uuid option \<times> uuid option \<Rightarrow> uuid option \<Rightarrow> SchedulingIntentRequest \<Rightarrow> db \<Rightarrow>
   sched_error + (SchedulingIntentResult \<times> db)" where
  "Schedule_tx L ids newV7 request d =
    (case validateSchedulingIntent request of Some err \<Rightarrow> Inl (Failed err) | None \<Rightarrow>
    and_then (failing (lockSchedulingRun (clm_TenantID (sir_Claim request)) (clm_ID (sir_Claim request)) d))
      (\<lambda>(run, leaseOwner, leaseExpiry, executionProfile).
    if run_Status run = AgentRunProvisioning then
      failing (and_then (replaySchedulingIntent run request d) (\<lambda>result. Inr (result, d)))
    else
    case intent_guard request run leaseOwner leaseExpiry executionProfile of Some err \<Rightarrow> Inl (Failed err) | None \<Rightarrow>
    and_then (failing (lockPendingAttempt run (sir_AttemptID request) (sir_AttemptVersion request) d)) (\<lambda>attempt.
    and_then (failing (admission run executionProfile (sir_Now request) d)) (\<lambda>decision.
    if dec_Outcome decision \<noteq> EligibilityEligible then Inl (EligibilityDeniedError decision)
    else failing (admit L ids newV7 request run executionProfile attempt d)))))"

definition Schedule ::
  "lib \<Rightarrow> uuid option \<times> uuid option \<Rightarrow> uuid option \<Rightarrow> SchedulingIntentRequest \<Rightarrow> db \<Rightarrow>
   (sched_error + SchedulingIntentResult) \<times> db" where
  "Schedule L ids newV7 request = commits (Schedule_tx L ids newV7 request)"

section \<open>DeferCapacity and Reject\<close>

definition only_event :: "int \<Rightarrow> int \<Rightarrow> uuid \<Rightarrow> bool \<Rightarrow> SchedulingIntentResult" where
  "only_event runVersion attemptVersion eventID replayed =
    \<lparr>sres_RunVersion = runVersion, sres_AttemptVersion = attemptVersion, sres_CapacityReservationID = uuid_Nil,
     sres_BudgetReservationID = uuid_Nil, sres_EventID = eventID, sres_Replayed = replayed\<rparr>"

definition reason_valid :: "string \<Rightarrow> string \<Rightarrow> bool" where
  "reason_valid code reason \<longleftrightarrow> TrimSpace code \<noteq> [] \<and> length code \<le> 80 \<and> TrimSpace reason \<noteq> [] \<and> length reason \<le> 500"

definition deferred_row :: "CapacityWaitRequest \<Rightarrow> RunRow \<Rightarrow> RunRow" where
  "deferred_row request r = r\<lparr>rr_Run := (rr_Run r)\<lparr>run_Status := AgentRunCapacityWait,
     run_UpdatedAt := cwr_Now request, run_Version := rr_Version r + 1\<rparr>,
     rr_LeaseOwner := None, rr_LeaseExpiresAt := None, rr_NextEligibleAt := Some (cwr_NextEligibleAt request),
     rr_DecisionCode := Some (cwr_ReasonCode request), rr_DecisionReason := Some (cwr_Reason request)\<rparr>"

definition defer_invalid :: "CapacityWaitRequest \<Rightarrow> bool" where
  "defer_invalid request \<longleftrightarrow> clm_TenantID (cwr_Claim request) = uuid_Nil \<or> clm_ID (cwr_Claim request) = uuid_Nil \<or>
     TrimSpace (cwr_LeaseOwner request) = [] \<or> clm_Version (cwr_Claim request) < 1 \<or>
     IsZero (cwr_Now request) \<or> \<not> cwr_NextEligibleAt request > cwr_Now request \<or>
     \<not> reason_valid (cwr_ReasonCode request) (cwr_Reason request) \<or>
     TrimSpace (cwr_CorrelationID request) = [] \<or> TrimSpace (cwr_CausationID request) = []"

definition claim_lost :: "AgentRun \<Rightarrow> string \<Rightarrow> gtime option \<Rightarrow> ClaimedRun \<Rightarrow> string \<Rightarrow> gtime \<Rightarrow> bool" where
  "claim_lost run owner expiry claim requestOwner now \<longleftrightarrow> run_Status run \<noteq> AgentRunScheduling \<or>
     \<not> lease_valid owner expiry requestOwner now \<or> run_Version run \<noteq> clm_Version claim"

definition defer_replay :: "CapacityWaitRequest \<Rightarrow> AgentRun \<Rightarrow> db \<Rightarrow> SchedulingIntentResult result" where
  "defer_replay request run d =
    and_then (required (sql_row (run_key (run_TenantID run) (run_ID run)) (db_runs d))) (\<lambda>r.
    if rr_DecisionCode r = None \<or> rr_DecisionReason r = None \<or> rr_NextEligibleAt r = None then
      Inl (translateError OtherFailure)
    else if run_Version run = clm_Version (cwr_Claim request) + 1 \<and>
      rr_DecisionCode r = Some (cwr_ReasonCode request) \<and> rr_DecisionReason r = Some (cwr_Reason request) \<and>
      rr_NextEligibleAt r = Some (cwr_NextEligibleAt request) then
      and_then (required (sql_row (event_recorded run AgentRunCapacityWaitType) (db_outbox d))) (\<lambda>e.
      Inr (only_event (run_Version run) 0 (ob_EventID e) True))
    else Inl (Sentinel ErrVersionConflict))"

definition defer_fresh ::
  "lib \<Rightarrow> uuid option \<Rightarrow> CapacityWaitRequest \<Rightarrow> AgentRun \<Rightarrow> db \<Rightarrow> (SchedulingIntentResult \<times> db) result" where
  "defer_fresh L newV7 request run0 d =
    (let run = run0\<lparr>run_Status := AgentRunCapacityWait, run_UpdatedAt := cwr_Now request,
           run_Version := run_Version run0 + 1\<rparr> in
     and_then (update_run (run_at run0 (clm_Version (cwr_Claim request))) (deferred_row request) d) (\<lambda>d1.
     and_then (NewAgentRunCapacityWait L newV7 run (cwr_ReasonCode request) (cwr_Reason request)
         (cwr_NextEligibleAt request) (cwr_CorrelationID request) (cwr_CausationID request)) (\<lambda>event.
     and_then (insertOutboxEvent L event d1) (\<lambda>d2.
     Inr (only_event (run_Version run) 0 (env_EventID (oe_Envelope event)) False, d2)))))"

definition DeferCapacity_tx ::
  "lib \<Rightarrow> uuid option \<Rightarrow> CapacityWaitRequest \<Rightarrow> db \<Rightarrow> (SchedulingIntentResult \<times> db) result" where
  "DeferCapacity_tx L newV7 request d =
    (if defer_invalid request then Inl (Plain ''capacity-wait request is invalid'')
     else
     and_then (lockSchedulingRun (clm_TenantID (cwr_Claim request)) (clm_ID (cwr_Claim request)) d)
       (\<lambda>(run, owner, expiry, _).
     if run_Status run = AgentRunCapacityWait then
       and_then (defer_replay request run d) (\<lambda>result. Inr (result, d))
     else if claim_lost run owner expiry (cwr_Claim request) (cwr_LeaseOwner request) (cwr_Now request) then
       Inl (Sentinel ErrVersionConflict)
     else defer_fresh L newV7 request run d))"

definition DeferCapacity ::
  "lib \<Rightarrow> uuid option \<Rightarrow> CapacityWaitRequest \<Rightarrow> db \<Rightarrow> SchedulingIntentResult result \<times> db" where
  "DeferCapacity L newV7 request = commits (DeferCapacity_tx L newV7 request)"

definition cancelled_attempt :: "gtime \<Rightarrow> AgentRunAttempt \<Rightarrow> AgentRunAttempt" where
  "cancelled_attempt now a = a\<lparr>att_Status := AttemptCancelled, att_Version := att_Version a + 1,
     att_UpdatedAt := now, att_CompletedAt := Some now\<rparr>"

definition rejected_row :: "SchedulingRejectRequest \<Rightarrow> RunRow \<Rightarrow> RunRow" where
  "rejected_row request r = r\<lparr>rr_Run := (rr_Run r)\<lparr>run_CompletedAt := Some (srr_Now request),
     run_FailureCategory := FailurePolicy, run_Status := AgentRunPolicyRejected,
     run_UpdatedAt := srr_Now request, run_Version := rr_Version r + 1\<rparr>,
     rr_LeaseOwner := None, rr_LeaseExpiresAt := None, rr_NextEligibleAt := None,
     rr_DecisionCode := Some (srr_ReasonCode request), rr_DecisionReason := Some (srr_Reason request)\<rparr>"

definition reject_invalid :: "SchedulingRejectRequest \<Rightarrow> bool" where
  "reject_invalid request \<longleftrightarrow> clm_TenantID (srr_Claim request) = uuid_Nil \<or> clm_ID (srr_Claim request) = uuid_Nil \<or>
     clm_Version (srr_Claim request) < 1 \<or> TrimSpace (srr_LeaseOwner request) = [] \<or> IsZero (srr_Now request) \<or>
     \<not> reason_valid (srr_ReasonCode request) (srr_Reason request) \<or>
     TrimSpace (srr_CorrelationID request) = [] \<or> TrimSpace (srr_CausationID request) = []"

definition reject_replay :: "SchedulingRejectRequest \<Rightarrow> AgentRun \<Rightarrow> db \<Rightarrow> SchedulingIntentResult result" where
  "reject_replay request run d =
    and_then (required (sql_row (run_key (run_TenantID run) (run_ID run)) (db_runs d))) (\<lambda>r.
    if rr_DecisionCode r = None \<or> rr_DecisionReason r = None then Inl (translateError OtherFailure)
    else if run_Version run \<noteq> clm_Version (srr_Claim request) + 1 \<or>
      rr_DecisionCode r \<noteq> Some (srr_ReasonCode request) \<or> rr_DecisionReason r \<noteq> Some (srr_Reason request) then
      Inl (Sentinel ErrConflict)
    else
    and_then (required (sql_row (event_recorded run AgentRunFailedType) (db_outbox d))) (\<lambda>e.
    and_then (required (sql_row (\<lambda>a. att_TenantID a = run_TenantID run \<and> att_RunID a = run_ID run \<and>
        att_AttemptNumber a = run_AttemptCount run \<and> att_Status a = AttemptCancelled) (db_attempts d))) (\<lambda>a.
    Inr (only_event (run_Version run) (att_Version a) (ob_EventID e) True))))"

definition reject_fresh ::
  "lib \<Rightarrow> uuid option \<Rightarrow> SchedulingRejectRequest \<Rightarrow> AgentRun \<Rightarrow> AgentRunAttempt \<Rightarrow> db \<Rightarrow> (SchedulingIntentResult \<times> db) result" where
  "reject_fresh L newV7 request run0 attempt d =
    and_then (update_attempts (attempt_at attempt (att_Version attempt)) (cancelled_attempt (srr_Now request)) d) (\<lambda>d1.
    and_then (ensure (sql_count (attempt_at attempt (att_Version attempt)) (db_attempts d) = 1)
        (Sentinel ErrVersionConflict)) (\<lambda>_.
    let run = run0\<lparr>run_CompletedAt := Some (srr_Now request), run_FailureCategory := FailurePolicy,
          run_Status := AgentRunPolicyRejected, run_UpdatedAt := srr_Now request,
          run_Version := run_Version run0 + 1\<rparr> in
    and_then (update_run (run_at run0 (clm_Version (srr_Claim request))) (rejected_row request) d1) (\<lambda>d2.
    and_then (NewAgentRunSchedulingRejected L newV7 run (srr_ReasonCode request) (srr_Reason request)
        (srr_CorrelationID request) (srr_CausationID request)) (\<lambda>event.
    and_then (insertOutboxEvent L event d2) (\<lambda>d3.
    Inr (only_event (run_Version run) (att_Version attempt + 1) (env_EventID (oe_Envelope event)) False, d3))))))"

definition Reject_tx ::
  "lib \<Rightarrow> uuid option \<Rightarrow> SchedulingRejectRequest \<Rightarrow> db \<Rightarrow> (SchedulingIntentResult \<times> db) result" where
  "Reject_tx L newV7 request d =
    (if reject_invalid request then Inl (Plain ''scheduling rejection request is invalid'')
     else
     and_then (lockSchedulingRun (clm_TenantID (srr_Claim request)) (clm_ID (srr_Claim request)) d)
       (\<lambda>(run, owner, expiry, _).
     if run_Status run = AgentRunPolicyRejected then
       and_then (reject_replay request run d) (\<lambda>result. Inr (result, d))
     else if claim_lost run owner expiry (srr_Claim request) (srr_LeaseOwner request) (srr_Now request) then
       Inl (Sentinel ErrVersionConflict)
     else
     and_then (lockPendingAttempt run (clm_AttemptID (srr_Claim request)) (clm_AttemptVersion (srr_Claim request)) d)
       (\<lambda>attempt. reject_fresh L newV7 request run attempt d)))"

definition Reject ::
  "lib \<Rightarrow> uuid option \<Rightarrow> SchedulingRejectRequest \<Rightarrow> db \<Rightarrow> SchedulingIntentResult result \<times> db" where
  "Reject L newV7 request = commits (Reject_tx L newV7 request)"

section \<open>What the statements change\<close>

lemma failing_Inr [tx_simps]: "failing m = Inr x \<longleftrightarrow> m = Inr x"
  by (cases m) (simp_all add: failing_def)

lemma update_run_ok:
  assumes "update_run P f d = Inr d'"
  shows "d' = d\<lparr>db_runs := sql_update P f (db_runs d)\<rparr>" "\<And>r. r \<in> set (db_runs d) \<Longrightarrow> P r \<Longrightarrow> row_checks (f r)"
  using assms by (auto simp: update_run_def tx_simps)

lemma update_attempts_ok:
  assumes "update_attempts P f d = Inr d'"
  shows "d' = d\<lparr>db_attempts := sql_update P f (db_attempts d)\<rparr>"
    "\<And>a. a \<in> set (db_attempts d) \<Longrightarrow> P a \<Longrightarrow> attempt_checks (f a)"
  using assms by (auto simp: update_attempts_def tx_simps)

lemma insertOutboxEvent_ok:
  assumes "insertOutboxEvent L event d = Inr d'"
  shows "d' = d\<lparr>db_outbox := db_outbox d @ [outbox_row event]\<rparr>"
    "\<And>r. r \<in> set (db_outbox d) \<Longrightarrow> ob_EventID r \<noteq> env_EventID (oe_Envelope event)"
  using assms by (auto simp: insertOutboxEvent_def Let_def tx_simps outbox_row_def)

lemma insertHandoffIntent_ok:
  assumes "insertHandoffIntent L eventID run attempt desired d = Inr d'"
  shows "d' = d\<lparr>db_handoff := db_handoff d @
      [\<lparr>hi_EventID = eventID, hi_TenantID = run_TenantID run, hi_RunID = run_ID run,
        hi_AttemptID = att_ID attempt, hi_AttemptNumber = att_AttemptNumber attempt,
        hi_ClusterID = att_SelectedCluster attempt, hi_DesiredState = desired,
        hi_CreatedAt = run_UpdatedAt run\<rparr>]\<rparr>"
    "\<And>h. h \<in> set (db_handoff d) \<Longrightarrow> hi_EventID h \<noteq> eventID"
  using assms by (auto simp: insertHandoffIntent_def tx_simps)

lemma insert_usage_frame:
  assumes "insert_usage t day now d = Inr d'"
  shows "\<exists>us. d' = d\<lparr>db_usage := us\<rparr>"
proof (cases "\<exists>u \<in> set (db_usage d). usage_key t day u")
  case True
  then have "d' = d\<lparr>db_usage := db_usage d\<rparr>" using assms by (simp add: insert_usage_def)
  then show ?thesis by blast
next
  case False
  then show ?thesis using assms unfolding insert_usage_def by (auto simp: tx_simps)
qed

text \<open>A booking touches the ledger tables only.\<close>

lemma book_frame:
  assumes "book L ids request snapshot l d = Inr (bundle, d')"
  shows "\<exists>us. d' = d\<lparr>db_capacity := db_capacity d @ [rb_Capacity bundle],
      db_budget := db_budget d @ [rb_Budget bundle], db_usage := us\<rparr>"
proof -
  obtain d1 d2 where d1: "insert_usage (rsv_TenantID request) (Truncate (rsv_Now request) (24 * hour)) (rsv_Now request) d = Inr d1"
    and d2: "insertReservationBundle L bundle d1 = Inr d2"
    and d3: "update_usage (rsv_TenantID request) (Truncate (rsv_Now request) (24 * hour)) 0
      (rsv_BudgetMinorUnits request) (rsv_Now request) d2 = Inr d'"
    using assms by (rule bookE)
  obtain us where us: "d1 = d\<lparr>db_usage := us\<rparr>" using insert_usage_frame [OF d1] by blast
  obtain us' where us': "d' = d2\<lparr>db_usage := us'\<rparr>"
    using d3 unfolding update_usage_def Let_def by (auto simp: tx_simps)
  show ?thesis
    by (rule exI [of _ us']) (simp add: us' us insertReservationBundle_ok(1) [OF d2])
qed

section \<open>The contract of the run tables\<close>

lemma map_update_in:
  assumes "\<And>x. x \<in> set xs \<Longrightarrow> P x \<Longrightarrow> key (f x) = key x"
  shows "map key (sql_update P f xs) = map key xs"
  using assms by (induction xs) (auto simp: sql_update_def)

text \<open>A run leaves the queue together with its attempt.\<close>

lemma store_leave:
  assumes "store_inv d"
    and row: "\<And>r. r \<in> set (db_runs d) \<Longrightarrow> P r \<Longrightarrow> row_checks (f r) \<and> run_step (rr_Run r) (rr_Run (f r)) \<and>
      \<not> queued_status (rr_Status (f r))"
    and ids: "\<And>r. row_id (f r) = row_id r"
    and att: "\<And>a. a \<in> set (db_attempts d) \<Longrightarrow> Q a \<Longrightarrow> attempt_step a (g a) \<and>
      (\<exists>r \<in> set (db_runs d). P r \<and> att_RunID a = row_id r)"
    and d': "db_runs d' = sql_update P f (db_runs d)" "db_attempts d' = sql_update Q g (db_attempts d)"
  shows "kept d d'"
proof -
  have inv: "runs_inv d" "attempts_inv d" "waiting_inv d" using assms(1) by (simp_all add: store_inv_def)
  have "runs_inv (d\<lparr>db_runs := sql_update P f (db_runs d)\<rparr>)"
    by (rule runs_inv_update) (use inv(1) row ids in auto)
  then have "runs_inv d'" by (simp add: runs_inv_def d')
  moreover have "map att_ID (db_attempts d') = map att_ID (db_attempts d)"
    "map attempt_no (db_attempts d') = map attempt_no (db_attempts d)"
    unfolding d' by (rule map_update_in, use att attempt_step_keeps in \<open>fastforce simp: attempt_no_def\<close>)+
  then have "attempts_inv d'" using inv(2) by (simp add: attempts_inv_def)
  moreover have "waiting_inv d'"
    unfolding waiting_inv_def
  proof (intro ballI impI)
    fix r' assume r': "r' \<in> set (db_runs d')" "queued_status (rr_Status r')"
    then obtain r where r: "r \<in> set (db_runs d)" "r' = (if P r then f r else r)"
      unfolding d' sql_update_def by auto
    then have nP: "\<not> P r" "r' = r" using row [OF r(1)] r'(2) by (auto split: if_splits)
    obtain a where a: "a \<in> set (db_attempts d)" "current_attempt r a" "att_Status a = AttemptPending"
      using inv(3) r(1) nP r'(2) by (auto simp: waiting_inv_def)
    have "\<not> Q a"
    proof
      assume "Q a"
      then obtain r2 where r2: "r2 \<in> set (db_runs d)" "P r2" "att_RunID a = row_id r2" using att [OF a(1)] by blast
      have "r = r2" using a(2) r2(3) by (intro runs_inv_id [OF inv(1) r(1) r2(1)]) (simp add: current_attempt_def)
      then show False using nP(1) r2(2) by simp
    qed
    then have "a \<in> set (db_attempts d')" using a(1) unfolding d' sql_update_def by force
    then show "\<exists>a \<in> set (db_attempts d'). current_attempt r' a \<and> att_Status a = AttemptPending"
      using a(2,3) nP(2) by blast
  qed
  moreover have "runs_evolve d d'" unfolding runs_evolve_def d' using row by (intro evolves_update) blast
  moreover have "attempts_evolve d d'"
    using evolves_update [of "db_attempts d" Q attempt_step "\<lambda>a. a" g attempt_inv] att
    unfolding attempts_evolve_def d' by simp
  ultimately show ?thesis by (simp add: kept_def store_inv_def)
qed

lemma locked_run:
  assumes "store_inv d" "lockSchedulingRun t i d = Inr (run, owner, expiry, profile)"
  obtains r where "r \<in> set (db_runs d)" "run_key t i r" "run = scheduling_columns (rr_Run r)"
    "owner = coalesce (rr_LeaseOwner r)" "expiry = rr_LeaseExpiresAt r" "profile = rr_ExecutionProfile r"
    "\<And>r'. r' \<in> set (db_runs d) \<Longrightarrow> run_key t i r' \<Longrightarrow> r' = r"
proof -
  obtain r where r: "sql_row (run_key t i) (db_runs d) = Some r" "run = scheduling_columns (rr_Run r)"
    "owner = coalesce (rr_LeaseOwner r)" "expiry = rr_LeaseExpiresAt r" "profile = rr_ExecutionProfile r"
    using assms(2) by (auto simp: lockSchedulingRun_def tx_simps)
  have m: "r \<in> set (db_runs d)" "run_key t i r" using sql_row_Some [OF r(1)] by simp_all
  have "r' = r" if "r' \<in> set (db_runs d)" "run_key t i r'" for r'
    using runs_inv_id [OF _ that(1) m(1)] assms(1) that(2) m(2) by (simp add: store_inv_def)
  then show thesis using that m r by blast
qed

lemma locked_attempt:
  assumes "store_inv d" "lockPendingAttempt run attemptID version d = Inr attempt"
  obtains a where "a \<in> set (db_attempts d)" "attempt = attempt_columns a" "att_Status a = AttemptPending"
    "att_Version a = version" "att_RunID a = run_ID run" "att_TenantID a = run_TenantID run"
    "att_AttemptNumber a = run_AttemptCount run" "att_ID a = attemptID"
    "\<And>a'. a' \<in> set (db_attempts d) \<Longrightarrow> att_ID a' = attemptID \<Longrightarrow> a' = a"
proof -
  obtain a where a: "sql_row (\<lambda>a. att_TenantID a = run_TenantID run \<and> att_RunID a = run_ID run \<and>
        att_ID a = attemptID \<and> att_AttemptNumber a = run_AttemptCount run) (db_attempts d) = Some a"
    "attempt = attempt_columns a" "att_Status a = AttemptPending" "att_Version a = version"
    using assms(2) by (auto simp: lockPendingAttempt_def tx_simps split: if_splits)
  have m: "a \<in> set (db_attempts d)" "att_RunID a = run_ID run" "att_TenantID a = run_TenantID run"
    "att_AttemptNumber a = run_AttemptCount run" "att_ID a = attemptID"
    using sql_row_Some [OF a(1)] by simp_all
  have dist: "distinct (map att_ID (db_attempts d))" using assms(1) by (simp add: store_inv_def attempts_inv_def)
  have "a' = a" if "a' \<in> set (db_attempts d)" "att_ID a' = attemptID" for a'
    using distinct_map_eq [OF dist that(1) m(1)] that(2) m(5) by simp
  then show thesis using that m a by blast
qed

text \<open>What an admission leaves in the database.\<close>

lemma admitE:
  assumes "admit L ids newV7 request run0 profile attempt0 d = Inr (res, d')"
  obtains c policy rb us event d1 d2 where
    "sql_row (\<lambda>c. cl_ID (cand_Cluster c) = sir_ClusterID request \<and>
        usable (run_TenantID run0) (run_Runtime run0) profile (sir_Now request - sir_ClusterFreshness request) d c)
        (clusterSelect d) = Some c"
    "db_policies d (run_TenantID run0) = Some policy"
    "book L ids (reservation_request request run0 attempt0 (cand_Cluster c)) (cand_Capacity c)
        (pol_DailyBudgetMinorUnits policy) d = Inr (rb, d1)"
    "d1 = d\<lparr>db_capacity := db_capacity d @ [rb_Capacity rb],
      db_budget := db_budget d @ [rb_Budget rb], db_usage := us\<rparr>"
    "d2 = d1\<lparr>db_attempts := sql_update (attempt_at attempt0 (sir_AttemptVersion request))
        (started_attempt (sir_Now request) (cl_ID (cand_Cluster c)) profile rb) (db_attempts d),
      db_runs := sql_update (run_at run0 (clm_Version (sir_Claim request))) (scheduled_row request) (db_runs d)\<rparr>"
    "\<And>r. r \<in> set (db_runs d) \<Longrightarrow> run_at run0 (clm_Version (sir_Claim request)) r \<Longrightarrow> row_checks (scheduled_row request r)"
    "NewAgentRunScheduled L newV7 (run0\<lparr>run_Status := AgentRunProvisioning, run_UpdatedAt := sir_Now request,
          run_Version := run_Version run0 + 1\<rparr>)
        (started_attempt (sir_Now request) (cl_ID (cand_Cluster c)) profile rb attempt0)
        (cr_ID (rb_Capacity rb)) (br_ID (rb_Budget rb)) (sir_CorrelationID request) (sir_CausationID request) = Inr event"
    "insertOutboxEvent L event d2 = Inr (d2\<lparr>db_outbox := db_outbox d @ [outbox_row event]\<rparr>)"
    "insertHandoffIntent L (env_EventID (oe_Envelope event)) (run0\<lparr>run_Status := AgentRunProvisioning, run_UpdatedAt := sir_Now request,
          run_Version := run_Version run0 + 1\<rparr>)
        (started_attempt (sir_Now request) (cl_ID (cand_Cluster c)) profile rb attempt0) (sir_DesiredState request)
        (d2\<lparr>db_outbox := db_outbox d @ [outbox_row event]\<rparr>) = Inr d'"
    "res = \<lparr>sres_RunVersion = run_Version run0 + 1, sres_AttemptVersion = att_Version attempt0 + 1,
       sres_CapacityReservationID = cr_ID (rb_Capacity rb), sres_BudgetReservationID = br_ID (rb_Budget rb),
       sres_EventID = env_EventID (oe_Envelope event), sres_Replayed = False\<rparr>"
    "\<And>a. a \<in> set (db_attempts d) \<Longrightarrow> attempt_at attempt0 (sir_AttemptVersion request) a \<Longrightarrow>
       attempt_checks (started_attempt (sir_Now request) (cl_ID (cand_Cluster c)) profile rb a)"
proof -
  let ?run = "run0\<lparr>run_Status := AgentRunProvisioning, run_UpdatedAt := sir_Now request, run_Version := run_Version run0 + 1\<rparr>"
  obtain k capacity where k: "lockEligibleCluster (run_TenantID run0) (sir_ClusterID request) (run_Runtime run0) profile
      (sir_Now request) (sir_ClusterFreshness request) d = Inr (k, capacity)"
    using assms by (auto simp: admit_def and_then_Inr)
  obtain policy where policy: "db_policies d (run_TenantID run0) = Some policy"
    using assms k by (auto simp: admit_def and_then_Inr split: option.splits)
  let ?att = "\<lambda>rb. started_attempt (sir_Now request) (cl_ID k) profile rb"
  obtain rb d1 where book: "book L ids (reservation_request request run0 attempt0 k) capacity
        (pol_DailyBudgetMinorUnits policy) d = Inr (rb, d1)"
    using assms k policy by (auto simp: admit_def and_then_Inr)
  obtain d2a where a: "update_attempts (attempt_at attempt0 (sir_AttemptVersion request)) (?att rb) d1 = Inr d2a"
    using assms k policy book by (auto simp: admit_def Let_def and_then_Inr)
  obtain d2 where r: "update_run (run_at run0 (clm_Version (sir_Claim request))) (scheduled_row request) d2a = Inr d2"
    using assms k policy book a by (auto simp: admit_def Let_def and_then_Inr)
  obtain event where ev: "NewAgentRunScheduled L newV7 ?run (?att rb attempt0) (cr_ID (rb_Capacity rb))
      (br_ID (rb_Budget rb)) (sir_CorrelationID request) (sir_CausationID request) = Inr event"
    using assms k policy book a r by (auto simp: admit_def Let_def and_then_Inr)
  obtain d4 where o: "insertOutboxEvent L event d2 = Inr d4"
    using assms k policy book a r ev by (auto simp: admit_def Let_def and_then_Inr)
  have h: "insertHandoffIntent L (env_EventID (oe_Envelope event)) ?run (?att rb attempt0) (sir_DesiredState request) d4 = Inr d'"
    and res: "res = \<lparr>sres_RunVersion = run_Version run0 + 1, sres_AttemptVersion = att_Version attempt0 + 1,
       sres_CapacityReservationID = cr_ID (rb_Capacity rb), sres_BudgetReservationID = br_ID (rb_Budget rb),
       sres_EventID = env_EventID (oe_Envelope event), sres_Replayed = False\<rparr>"
    using assms k policy book a r ev o by (auto simp: admit_def Let_def and_then_Inr started_attempt_def)
  obtain c where c: "sql_row (\<lambda>c. cl_ID (cand_Cluster c) = sir_ClusterID request \<and>
        usable (run_TenantID run0) (run_Runtime run0) profile (sir_Now request - sir_ClusterFreshness request) d c)
        (clusterSelect d) = Some c" "k = cand_Cluster c" "capacity = cand_Capacity c"
    using k by (auto simp: lockEligibleCluster_def split: option.splits if_splits)
  obtain us where us: "d1 = d\<lparr>db_capacity := db_capacity d @ [rb_Capacity rb],
      db_budget := db_budget d @ [rb_Budget rb], db_usage := us\<rparr>"
    using book_frame [OF book] by blast
  note a' = update_attempts_ok [OF a] and r' = update_run_ok [OF r] and o' = insertOutboxEvent_ok(1) [OF o]
  show thesis
  proof (rule that [OF c(1) policy _ us _ _ ev [unfolded c]])
    show "book L ids (reservation_request request run0 attempt0 (cand_Cluster c)) (cand_Capacity c)
        (pol_DailyBudgetMinorUnits policy) d = Inr (rb, d1)" using book by (simp add: c)
    show "d2 = d1\<lparr>db_attempts := sql_update (attempt_at attempt0 (sir_AttemptVersion request))
        (started_attempt (sir_Now request) (cl_ID (cand_Cluster c)) profile rb) (db_attempts d),
      db_runs := sql_update (run_at run0 (clm_Version (sir_Claim request))) (scheduled_row request) (db_runs d)\<rparr>"
      by (simp add: r'(1) a'(1) us c)
    show "row_checks (scheduled_row request r)"
      if "r \<in> set (db_runs d)" "run_at run0 (clm_Version (sir_Claim request)) r" for r
      using r'(2) that by (simp add: a'(1) us)
    have d4: "d4 = d2\<lparr>db_outbox := db_outbox d @ [outbox_row event]\<rparr>" by (simp add: o' r'(1) a'(1) us)
    show "insertOutboxEvent L event d2 = Inr (d2\<lparr>db_outbox := db_outbox d @ [outbox_row event]\<rparr>)"
      using o by (simp add: d4)
    show "insertHandoffIntent L (env_EventID (oe_Envelope event)) ?run
        (started_attempt (sir_Now request) (cl_ID (cand_Cluster c)) profile rb attempt0) (sir_DesiredState request)
        (d2\<lparr>db_outbox := db_outbox d @ [outbox_row event]\<rparr>) = Inr d'" using h by (simp add: d4 c)
    show "res = \<lparr>sres_RunVersion = run_Version run0 + 1, sres_AttemptVersion = att_Version attempt0 + 1,
       sres_CapacityReservationID = cr_ID (rb_Capacity rb), sres_BudgetReservationID = br_ID (rb_Budget rb),
       sres_EventID = env_EventID (oe_Envelope event), sres_Replayed = False\<rparr>" by (rule res)
    show "attempt_checks (started_attempt (sir_Now request) (cl_ID (cand_Cluster c)) profile rb a)"
      if "a \<in> set (db_attempts d)" "attempt_at attempt0 (sir_AttemptVersion request) a" for a
      using a'(2) that by (simp add: us c)
  qed
qed

lemma Schedule_txE:
  assumes "Schedule_tx L ids newV7 request d = Inr (res, d')"
  obtains (replay) run owner expiry profile where
      "lockSchedulingRun (clm_TenantID (sir_Claim request)) (clm_ID (sir_Claim request)) d = Inr (run, owner, expiry, profile)"
      "run_Status run = AgentRunProvisioning" "replaySchedulingIntent run request d = Inr res" "d' = d"
  | (fresh) run owner expiry profile attempt where
      "lockSchedulingRun (clm_TenantID (sir_Claim request)) (clm_ID (sir_Claim request)) d = Inr (run, owner, expiry, profile)"
      "run_Status run = AgentRunScheduling" "lease_valid owner expiry (sir_LeaseOwner request) (sir_Now request)"
      "run_Version run = clm_Version (sir_Claim request)" "profile = clm_ExecutionProfile (sir_Claim request)"
      "lockPendingAttempt run (sir_AttemptID request) (sir_AttemptVersion request) d = Inr attempt"
      "admit L ids newV7 request run profile attempt d = Inr (res, d')"
proof -
  have v: "validateSchedulingIntent request = None"
    using assms unfolding Schedule_tx_def by (cases "validateSchedulingIntent request") simp_all
  obtain run owner expiry profile where l:
    "lockSchedulingRun (clm_TenantID (sir_Claim request)) (clm_ID (sir_Claim request)) d = Inr (run, owner, expiry, profile)"
    using assms [unfolded Schedule_tx_def v option.case and_then_Inr failing_Inr] by (metis prod_cases4)
  then have lf: "failing (lockSchedulingRun (clm_TenantID (sir_Claim request)) (clm_ID (sir_Claim request)) d) =
      Inr (run, owner, expiry, profile)" by (simp add: failing_def)
  note tx = assms [unfolded Schedule_tx_def v option.case lf and_then.simps prod.case]
  show thesis
  proof (cases "run_Status run = AgentRunProvisioning")
    case True
    have "replaySchedulingIntent run request d = Inr res \<and> d' = d"
      using tx [unfolded if_P [OF True] failing_Inr and_then_Inr] by auto
    then show ?thesis using replay [OF l True] by blast
  next
    case False
    have g: "intent_guard request run owner expiry profile = None"
      using tx [unfolded if_not_P [OF False]] by (cases "intent_guard request run owner expiry profile") simp_all
    then have ok: "run_Status run = AgentRunScheduling" "lease_valid owner expiry (sir_LeaseOwner request) (sir_Now request)"
      "run_Version run = clm_Version (sir_Claim request)" "profile = clm_ExecutionProfile (sir_Claim request)"
      unfolding intent_guard_def by (metis option.distinct(1))+
    note tx2 = tx [unfolded if_not_P [OF False] g option.case]
    obtain attempt where a: "lockPendingAttempt run (sir_AttemptID request) (sir_AttemptVersion request) d = Inr attempt"
      using tx2 unfolding and_then_Inr failing_Inr by blast
    then have af: "failing (lockPendingAttempt run (sir_AttemptID request) (sir_AttemptVersion request) d) = Inr attempt"
      by (simp add: failing_def)
    have "admit L ids newV7 request run profile attempt d = Inr (res, d')"
      using tx2 [unfolded af and_then.simps] unfolding and_then_Inr
      by (elim exE conjE) (simp only: failing_Inr split: if_splits, simp)
    then show ?thesis by (rule fresh [OF l ok a])
  qed
qed

lemma DeferCapacity_txE:
  assumes "DeferCapacity_tx L newV7 request d = Inr (res, d')"
  obtains (replay) run where "defer_replay request run d = Inr res" "d' = d"
  | (fresh) run owner expiry profile event where
      "lockSchedulingRun (clm_TenantID (cwr_Claim request)) (clm_ID (cwr_Claim request)) d = Inr (run, owner, expiry, profile)"
      "\<not> defer_invalid request"
      "\<not> claim_lost run owner expiry (cwr_Claim request) (cwr_LeaseOwner request) (cwr_Now request)"
      "d' = d\<lparr>db_runs := sql_update (run_at run (clm_Version (cwr_Claim request))) (deferred_row request) (db_runs d),
        db_outbox := db_outbox d @ [outbox_row event]\<rparr>"
      "\<And>r. r \<in> set (db_runs d) \<Longrightarrow> run_at run (clm_Version (cwr_Claim request)) r \<Longrightarrow> row_checks (deferred_row request r)"
      "NewAgentRunCapacityWait L newV7 (run\<lparr>run_Status := AgentRunCapacityWait, run_UpdatedAt := cwr_Now request,
           run_Version := run_Version run + 1\<rparr>) (cwr_ReasonCode request) (cwr_Reason request)
         (cwr_NextEligibleAt request) (cwr_CorrelationID request) (cwr_CausationID request) = Inr event"
      "res = only_event (run_Version run + 1) 0 (env_EventID (oe_Envelope event)) False"
proof -
  have v: "\<not> defer_invalid request" using assms unfolding DeferCapacity_tx_def by (metis Inl_Inr_False)
  obtain run owner expiry profile where l:
    "lockSchedulingRun (clm_TenantID (cwr_Claim request)) (clm_ID (cwr_Claim request)) d = Inr (run, owner, expiry, profile)"
    using assms [unfolded DeferCapacity_tx_def if_not_P [OF v] and_then_Inr] by (metis prod_cases4)
  note tx = assms [unfolded DeferCapacity_tx_def if_not_P [OF v] l and_then.simps prod.case]
  show thesis
  proof (cases "run_Status run = AgentRunCapacityWait")
    case True
    have "defer_replay request run d = Inr res \<and> d' = d" using tx [unfolded if_P [OF True] and_then_Inr] by auto
    then show ?thesis using replay by blast
  next
    case False
    have ok: "\<not> claim_lost run owner expiry (cwr_Claim request) (cwr_LeaseOwner request) (cwr_Now request)"
      using tx [unfolded if_not_P [OF False]] by (metis Inl_Inr_False)
    have df: "defer_fresh L newV7 request run d = Inr (res, d')"
      using tx [unfolded if_not_P [OF False] if_not_P [OF ok]] .
    then obtain d1 event where u: "update_run (run_at run (clm_Version (cwr_Claim request))) (deferred_row request) d = Inr d1"
      and ev: "NewAgentRunCapacityWait L newV7 (run\<lparr>run_Status := AgentRunCapacityWait, run_UpdatedAt := cwr_Now request,
           run_Version := run_Version run + 1\<rparr>) (cwr_ReasonCode request) (cwr_Reason request)
         (cwr_NextEligibleAt request) (cwr_CorrelationID request) (cwr_CausationID request) = Inr event"
      and o: "insertOutboxEvent L event d1 = Inr d'"
      and res: "res = only_event (run_Version run + 1) 0 (env_EventID (oe_Envelope event)) False"
      by (auto simp: defer_fresh_def Let_def and_then_Inr)
    show ?thesis
      by (rule fresh [OF l v ok _ _ ev res])
        (use update_run_ok [OF u] insertOutboxEvent_ok(1) [OF o] in simp_all)
  qed
qed

lemma Reject_txE:
  assumes "Reject_tx L newV7 request d = Inr (res, d')"
  obtains (replay) run where "reject_replay request run d = Inr res" "d' = d"
  | (fresh) run owner expiry profile attempt event where
      "lockSchedulingRun (clm_TenantID (srr_Claim request)) (clm_ID (srr_Claim request)) d = Inr (run, owner, expiry, profile)"
      "\<not> reject_invalid request"
      "\<not> claim_lost run owner expiry (srr_Claim request) (srr_LeaseOwner request) (srr_Now request)"
      "lockPendingAttempt run (clm_AttemptID (srr_Claim request)) (clm_AttemptVersion (srr_Claim request)) d = Inr attempt"
      "d' = d\<lparr>db_attempts := sql_update (attempt_at attempt (att_Version attempt)) (cancelled_attempt (srr_Now request)) (db_attempts d),
        db_runs := sql_update (run_at run (clm_Version (srr_Claim request))) (rejected_row request) (db_runs d),
        db_outbox := db_outbox d @ [outbox_row event]\<rparr>"
      "\<And>r. r \<in> set (db_runs d) \<Longrightarrow> run_at run (clm_Version (srr_Claim request)) r \<Longrightarrow> row_checks (rejected_row request r)"
      "NewAgentRunSchedulingRejected L newV7 (run\<lparr>run_CompletedAt := Some (srr_Now request), run_FailureCategory := FailurePolicy,
          run_Status := AgentRunPolicyRejected, run_UpdatedAt := srr_Now request,
          run_Version := run_Version run + 1\<rparr>) (srr_ReasonCode request) (srr_Reason request)
         (srr_CorrelationID request) (srr_CausationID request) = Inr event"
      "res = only_event (run_Version run + 1) (att_Version attempt + 1) (env_EventID (oe_Envelope event)) False"
proof -
  have v: "\<not> reject_invalid request" using assms unfolding Reject_tx_def by (metis Inl_Inr_False)
  obtain run owner expiry profile where l:
    "lockSchedulingRun (clm_TenantID (srr_Claim request)) (clm_ID (srr_Claim request)) d = Inr (run, owner, expiry, profile)"
    using assms [unfolded Reject_tx_def if_not_P [OF v] and_then_Inr] by (metis prod_cases4)
  note tx = assms [unfolded Reject_tx_def if_not_P [OF v] l and_then.simps prod.case]
  show thesis
  proof (cases "run_Status run = AgentRunPolicyRejected")
    case True
    have "reject_replay request run d = Inr res \<and> d' = d" using tx [unfolded if_P [OF True] and_then_Inr] by auto
    then show ?thesis using replay by blast
  next
    case False
    have ok: "\<not> claim_lost run owner expiry (srr_Claim request) (srr_LeaseOwner request) (srr_Now request)"
      using tx [unfolded if_not_P [OF False]] by (metis Inl_Inr_False)
    obtain attempt where a: "lockPendingAttempt run (clm_AttemptID (srr_Claim request)) (clm_AttemptVersion (srr_Claim request)) d = Inr attempt"
      and rf: "reject_fresh L newV7 request run attempt d = Inr (res, d')"
      using tx [unfolded if_not_P [OF False] if_not_P [OF ok] and_then_Inr] by blast
    then obtain d1 d2 event where
      ua: "update_attempts (attempt_at attempt (att_Version attempt)) (cancelled_attempt (srr_Now request)) d = Inr d1"
      and u: "update_run (run_at run (clm_Version (srr_Claim request))) (rejected_row request) d1 = Inr d2"
      and ev: "NewAgentRunSchedulingRejected L newV7 (run\<lparr>run_CompletedAt := Some (srr_Now request), run_FailureCategory := FailurePolicy,
          run_Status := AgentRunPolicyRejected, run_UpdatedAt := srr_Now request,
          run_Version := run_Version run + 1\<rparr>) (srr_ReasonCode request) (srr_Reason request)
         (srr_CorrelationID request) (srr_CausationID request) = Inr event"
      and o: "insertOutboxEvent L event d2 = Inr d'"
      and res: "res = only_event (run_Version run + 1) (att_Version attempt + 1) (env_EventID (oe_Envelope event)) False"
      by (auto simp: reject_fresh_def Let_def and_then_Inr)
    show ?thesis
      by (rule fresh [OF l v ok a _ _ ev res])
        (use update_attempts_ok [OF ua] update_run_ok [OF u] insertOutboxEvent_ok(1) [OF o] in simp_all)
  qed
qed

lemma scheduling_columns_sel [simp]:
  "run_ID (scheduling_columns run) = run_ID run" "run_TenantID (scheduling_columns run) = run_TenantID run"
  "run_ProjectID (scheduling_columns run) = run_ProjectID run" "run_Status (scheduling_columns run) = run_Status run"
  "run_Version (scheduling_columns run) = run_Version run" "run_AttemptCount (scheduling_columns run) = run_AttemptCount run"
  "run_Runtime (scheduling_columns run) = run_Runtime run" "run_CPUMillis (scheduling_columns run) = run_CPUMillis run"
  "run_MemoryMiB (scheduling_columns run) = run_MemoryMiB run" "run_CreatedBy (scheduling_columns run) = run_CreatedBy run"
  by (simp_all add: scheduling_columns_def)

lemma attempt_columns_sel [simp]:
  "att_ID (attempt_columns a) = att_ID a" "att_TenantID (attempt_columns a) = att_TenantID a"
  "att_RunID (attempt_columns a) = att_RunID a" "att_AttemptNumber (attempt_columns a) = att_AttemptNumber a"
  "att_Version (attempt_columns a) = att_Version a"
  by (simp_all add: attempt_columns_def)

text \<open>The three rows a claim ends with are transitions of the domain.\<close>

lemma run_step_scheduled:
  assumes "rr_Status r = AgentRunScheduling"
  shows "run_step (rr_Run r) (rr_Run (scheduled_row request r))"
proof -
  have "Transition AgentRunProvisioning FailureNone (sir_Now request) (rr_Run r) =
    (None, (rr_Run r)\<lparr>run_Status := AgentRunProvisioning, run_UpdatedAt := sir_Now request\<rparr>)"
    using assms by (simp add: Transition_def CanTransition_def Let_def)
  from run_step.move [OF this] show ?thesis by (simp add: scheduled_row_def)
qed

lemma run_step_deferred:
  assumes "rr_Status r = AgentRunScheduling"
  shows "run_step (rr_Run r) (rr_Run (deferred_row request r))"
proof -
  have "Transition AgentRunCapacityWait FailureNone (cwr_Now request) (rr_Run r) =
    (None, (rr_Run r)\<lparr>run_Status := AgentRunCapacityWait, run_UpdatedAt := cwr_Now request\<rparr>)"
    using assms by (simp add: Transition_def CanTransition_def Let_def)
  from run_step.move [OF this] show ?thesis by (simp add: deferred_row_def)
qed

lemma run_step_rejected:
  assumes "rr_Status r = AgentRunScheduling"
  shows "run_step (rr_Run r) (rr_Run (rejected_row request r))"
proof -
  have "Transition AgentRunPolicyRejected FailurePolicy (srr_Now request) (rr_Run r) =
    (None, (rr_Run r)\<lparr>run_CompletedAt := Some (srr_Now request), run_FailureCategory := FailurePolicy,
       run_Status := AgentRunPolicyRejected, run_UpdatedAt := srr_Now request\<rparr>)"
    using assms by (simp add: Transition_def CanTransition_def Let_def)
  from run_step.move [OF this] show ?thesis by (simp add: rejected_row_def)
qed

lemma attempt_step_started:
  assumes "att_Status a = AttemptPending"
  shows "attempt_step a (started_attempt now clusterID profile rb a)"
proof -
  have "Attempt_Transition AttemptStarting FailureNone now a = (None, a\<lparr>att_Status := AttemptStarting, att_UpdatedAt := now\<rparr>)"
    using assms by (simp add: Attempt_Transition_def Attempt_CanTransition_def Let_def)
  from attempt_step.assign [OF this, where cluster = clusterID and profile = profile
      and capacityID = "cr_ID (rb_Capacity rb)" and budgetID = "br_ID (rb_Budget rb)"]
  show ?thesis by - (cases a, simp add: started_attempt_def)
qed

lemma attempt_step_cancelled:
  assumes "att_Status a = AttemptPending"
  shows "attempt_step a (cancelled_attempt now a)"
proof -
  have "Attempt_Transition AttemptCancelled FailureNone now a =
    (None, a\<lparr>att_CompletedAt := Some now, att_Status := AttemptCancelled, att_UpdatedAt := now\<rparr>)"
    using assms by (simp add: Attempt_Transition_def Attempt_CanTransition_def Let_def)
  from attempt_step.move [OF this] show ?thesis by - (cases a, simp add: cancelled_attempt_def)
qed

lemma row_id_end [simp]:
  "row_id (scheduled_row request r) = row_id r" "row_id (deferred_row request' r) = row_id r"
  "row_id (rejected_row request'' r) = row_id r"
  by (simp_all add: scheduled_row_def deferred_row_def rejected_row_def)

lemma admit_writes:
  assumes "admit L ids newV7 request run profile attempt d = Inr (res, d')"
  obtains clusterID rb where
    "db_runs d' = sql_update (run_at run (clm_Version (sir_Claim request))) (scheduled_row request) (db_runs d)"
    "db_attempts d' = sql_update (attempt_at attempt (sir_AttemptVersion request))
       (started_attempt (sir_Now request) clusterID profile rb) (db_attempts d)"
    "\<And>r. r \<in> set (db_runs d) \<Longrightarrow> run_at run (clm_Version (sir_Claim request)) r \<Longrightarrow> row_checks (scheduled_row request r)"
  using assms
proof (cases rule: admitE)
  case (1 c policy rb us event d1 d2)
  show thesis
    by (rule that [of "cl_ID (cand_Cluster c)" rb]) (simp_all add: insertHandoffIntent_ok(1) [OF 1(9)] 1(5) 1(6))
qed

lemma Schedule_kept:
  assumes "store_inv d"
  shows "kept d (snd (Schedule L ids newV7 request d))"
  unfolding Schedule_def
proof (rule kept_commits [OF assms])
  fix res d' assume "Schedule_tx L ids newV7 request d = Inr (res, d')"
  then show "kept d d'"
  proof (cases rule: Schedule_txE)
    case replay
    then show ?thesis using assms by (simp add: kept_refl)
  next
    case (fresh run owner expiry profile attempt)
    obtain r where r: "r \<in> set (db_runs d)" "run_key (clm_TenantID (sir_Claim request)) (clm_ID (sir_Claim request)) r"
      "run = scheduling_columns (rr_Run r)"
      "\<And>r'. r' \<in> set (db_runs d) \<Longrightarrow> run_key (clm_TenantID (sir_Claim request)) (clm_ID (sir_Claim request)) r' \<Longrightarrow> r' = r"
      using assms fresh(1) by (rule locked_run) (rule that; assumption)
    obtain a where a: "att_Status a = AttemptPending" "att_RunID a = run_ID run"
      "\<And>a'. a' \<in> set (db_attempts d) \<Longrightarrow> att_ID a' = att_ID attempt \<Longrightarrow> a' = a"
      using locked_attempt [OF assms fresh(6)] by (metis attempt_columns_sel(1))
    obtain clusterID rb where d': "db_runs d' = sql_update (run_at run (clm_Version (sir_Claim request))) (scheduled_row request) (db_runs d)"
        "db_attempts d' = sql_update (attempt_at attempt (sir_AttemptVersion request))
          (started_attempt (sir_Now request) clusterID profile rb) (db_attempts d)"
      and checks: "\<And>r. r \<in> set (db_runs d) \<Longrightarrow> run_at run (clm_Version (sir_Claim request)) r \<Longrightarrow> row_checks (scheduled_row request r)"
      using fresh(7) by (rule admit_writes) (rule that; assumption)
    have st: "rr_Status r = AgentRunScheduling" using fresh(2) r(3) by simp
    have here: "\<exists>r \<in> set (db_runs d). run_at run (clm_Version (sir_Claim request)) r \<and> att_RunID a = row_id r"
      using r(2,3) fresh(4) a(2) by (intro bexI [OF _ r(1)]) simp
    show ?thesis
    proof (rule store_leave [OF assms _ _ _ d'])
      fix r' assume r': "r' \<in> set (db_runs d)" "run_at run (clm_Version (sir_Claim request)) r'"
      have "r' = r" using r' by (intro r(4)) (simp_all add: r(2,3))
      then show "row_checks (scheduled_row request r') \<and> run_step (rr_Run r') (rr_Run (scheduled_row request r')) \<and>
          \<not> queued_status (rr_Status (scheduled_row request r'))"
        using checks [OF r'] run_step_scheduled st by (simp add: scheduled_row_def)
    next
      fix a' assume "a' \<in> set (db_attempts d)" "attempt_at attempt (sir_AttemptVersion request) a'"
      then have "a' = a" by (intro a(3)) simp_all
      with attempt_step_started [OF a(1)] here
      show "attempt_step a' (started_attempt (sir_Now request) clusterID profile rb a') \<and>
          (\<exists>r \<in> set (db_runs d). run_at run (clm_Version (sir_Claim request)) r \<and> att_RunID a' = row_id r)"
        by fast
    qed simp
  qed
qed

lemma DeferCapacity_kept:
  assumes "store_inv d"
  shows "kept d (snd (DeferCapacity L newV7 request d))"
  unfolding DeferCapacity_def
proof (rule kept_commits [OF assms])
  fix res d' assume "DeferCapacity_tx L newV7 request d = Inr (res, d')"
  then show "kept d d'"
  proof (cases rule: DeferCapacity_txE)
    case replay
    then show ?thesis using assms by (simp add: kept_refl)
  next
    case (fresh run owner expiry profile event)
    obtain r where r: "run_key (clm_TenantID (cwr_Claim request)) (clm_ID (cwr_Claim request)) r"
      "run = scheduling_columns (rr_Run r)"
      "\<And>r'. r' \<in> set (db_runs d) \<Longrightarrow> run_key (clm_TenantID (cwr_Claim request)) (clm_ID (cwr_Claim request)) r' \<Longrightarrow> r' = r"
      using assms fresh(1) by (rule locked_run) (rule that; assumption)
    have st: "rr_Status r = AgentRunScheduling" using fresh(3) r(2) by (simp add: claim_lost_def)
    have "kept d (d\<lparr>db_runs := sql_update (run_at run (clm_Version (cwr_Claim request))) (deferred_row request) (db_runs d)\<rparr>)"
    proof (rule store_update [OF assms])
      fix r' assume r': "r' \<in> set (db_runs d)" "run_at run (clm_Version (cwr_Claim request)) r'"
      then have "r' = r" using r by simp
      then show "row_checks (deferred_row request r') \<and> run_step (rr_Run r') (rr_Run (deferred_row request r')) \<and>
          run_AttemptCount (rr_Run (deferred_row request r')) = run_AttemptCount (rr_Run r') \<and>
          (queued_status (rr_Status (deferred_row request r')) \<longrightarrow> queued_status (rr_Status r'))"
        using fresh(5) [OF r'] run_step_deferred st by (simp add: deferred_row_def)
    qed simp
    then show ?thesis
      by (simp add: fresh(4) kept_def store_inv_def runs_inv_def attempts_inv_def waiting_inv_def runs_evolve_def attempts_evolve_def)
  qed
qed

lemma Reject_kept:
  assumes "store_inv d"
  shows "kept d (snd (Reject L newV7 request d))"
  unfolding Reject_def
proof (rule kept_commits [OF assms])
  fix res d' assume "Reject_tx L newV7 request d = Inr (res, d')"
  then show "kept d d'"
  proof (cases rule: Reject_txE)
    case replay
    then show ?thesis using assms by (simp add: kept_refl)
  next
    case (fresh run owner expiry profile attempt event)
    obtain r where r: "r \<in> set (db_runs d)" "run_key (clm_TenantID (srr_Claim request)) (clm_ID (srr_Claim request)) r"
      "run = scheduling_columns (rr_Run r)"
      "\<And>r'. r' \<in> set (db_runs d) \<Longrightarrow> run_key (clm_TenantID (srr_Claim request)) (clm_ID (srr_Claim request)) r' \<Longrightarrow> r' = r"
      using assms fresh(1) by (rule locked_run) (rule that; assumption)
    obtain a where a: "att_Status a = AttemptPending" "att_RunID a = run_ID run"
      "\<And>a'. a' \<in> set (db_attempts d) \<Longrightarrow> att_ID a' = att_ID attempt \<Longrightarrow> a' = a"
      using locked_attempt [OF assms fresh(4)] by (metis attempt_columns_sel(1))
    have st: "rr_Status r = AgentRunScheduling" "run_Version run = clm_Version (srr_Claim request)"
      using fresh(3) r(3) by (simp_all add: claim_lost_def)
    have here: "\<exists>r \<in> set (db_runs d). run_at run (clm_Version (srr_Claim request)) r \<and> att_RunID a = row_id r"
      using r(1-3) st(2) a(2) by (intro bexI [OF _ r(1)]) simp
    show ?thesis
    proof (rule store_leave [OF assms])
      show "db_runs d' = sql_update (run_at run (clm_Version (srr_Claim request))) (rejected_row request) (db_runs d)"
        "db_attempts d' = sql_update (attempt_at attempt (att_Version attempt)) (cancelled_attempt (srr_Now request)) (db_attempts d)"
        by (simp_all add: fresh(5))
      fix r' assume r': "r' \<in> set (db_runs d)" "run_at run (clm_Version (srr_Claim request)) r'"
      have "r' = r" using r' by (intro r(4)) (simp_all add: r(2,3))
      then show "row_checks (rejected_row request r') \<and> run_step (rr_Run r') (rr_Run (rejected_row request r')) \<and>
          \<not> queued_status (rr_Status (rejected_row request r'))"
        using fresh(6) [OF r'] run_step_rejected st by (simp add: rejected_row_def)
    next
      fix a' assume "a' \<in> set (db_attempts d)" "attempt_at attempt (att_Version attempt) a'"
      then have "a' = a" by (intro a(3)) simp_all
      with attempt_step_cancelled [OF a(1)] here
      show "attempt_step a' (cancelled_attempt (srr_Now request) a') \<and>
          (\<exists>r \<in> set (db_runs d). run_at run (clm_Version (srr_Claim request)) r \<and> att_RunID a' = row_id r)"
        by fast
    qed simp
  qed
qed

datatype intent_op =
    OpSchedule "uuid option \<times> uuid option" "uuid option" SchedulingIntentRequest
  | OpDefer "uuid option" CapacityWaitRequest
  | OpReject "uuid option" SchedulingRejectRequest

fun intent_exec :: "lib \<Rightarrow> intent_op \<Rightarrow> db \<Rightarrow> db" where
  "intent_exec L (OpSchedule ids newV7 request) d = snd (Schedule L ids newV7 request d)"
| "intent_exec L (OpDefer newV7 request) d = snd (DeferCapacity L newV7 request d)"
| "intent_exec L (OpReject newV7 request) d = snd (Reject L newV7 request d)"

interpretation intent_runs: run_machine "intent_exec L" for L
proof
  fix d oper assume "store_inv d"
  then show "kept d (intent_exec L oper d)"
    using Schedule_kept DeferCapacity_kept Reject_kept by (cases oper) simp_all
qed

section \<open>Assignments in the ledger\<close>

lemma candidate_snapshot:
  assumes "sql_row P (clusterSelect d) = Some c"
  shows "latest_snapshot (cl_ID (cand_Cluster c)) d = Some (cand_Capacity c)"
proof -
  have "c \<in> set (clusterSelect d)" using sql_row_Some [OF assms] by simp
  then obtain k s where c: "c = \<lparr>cand_Cluster = k, cand_Capacity = s\<lparr>cap_ClusterID := cl_ID k\<rparr>\<rparr>"
    and s: "latest_snapshot (cl_ID k) d = Some s"
    by (auto simp: clusterSelect_def with_capacity_def List.map_filter_def)
  then have "cap_ClusterID s = cl_ID k"
    by (auto simp: latest_snapshot_def dest: sql_latest_Some)
  with c s show ?thesis by (cases s) simp
qed

lemma acts_same_ledger:
  assumes "ledger_inv d" "db_capacity d' = db_capacity d" "db_budget d' = db_budget d" "db_usage d' = db_usage d"
    "db_policies d' = db_policies d" "db_snapshots d' = db_snapshots d"
  shows "acts now d d'"
proof -
  have "bookings d' = bookings d" "limits d' = limits d" "allocs d' = allocs d" "usage_agrees d' = usage_agrees d"
    using assms(2-)
    by (auto simp: bookings_def limits_def allocs_def latest_snapshot_def usage_agrees_def fun_eq_iff)
  then show ?thesis using assms(1-3) by (simp add: acts_def ledger_inv_def)
qed

lemma acts_commits:
  assumes "ledger_inv d" "\<And>x d'. tx d = Inr (x, d') \<Longrightarrow> acts now d d'"
  shows "acts now d (snd (commits tx d))"
  using assms by (auto simp: commits_def acts_refl split: sum.splits)

lemma acts_Schedule:
  assumes inv: "ledger_inv d" and cols: "columns_ok d"
  shows "acts (sir_Now request) d (snd (Schedule L ids newV7 request d))"
  unfolding Schedule_def
proof (rule acts_commits [OF inv])
  fix res d' assume "Schedule_tx L ids newV7 request d = Inr (res, d')"
  then show "acts (sir_Now request) d d'"
  proof (cases rule: Schedule_txE)
    case replay
    then show ?thesis using inv by (simp add: acts_refl)
  next
    case (fresh run owner expiry profile attempt)
    from fresh(7) show ?thesis
    proof (cases rule: admitE)
      case (1 c policy rb us event d1 d2)
      let ?q = "reservation_request request run attempt (cand_Cluster c)"
      have l: "limits d (rsv_TenantID ?q) = Some (pol_DailyBudgetMinorUnits policy)"
        using 1(2) by (simp add: limits_def reservation_request_def)
      have snap: "latest_snapshot (rsv_ClusterID ?q) d = Some (cand_Capacity c)"
        using candidate_snapshot [OF 1(1)] by (simp add: reservation_request_def)
      have same: "limits d1 = limits d" "allocs d1 = allocs d"
        by (auto simp: 1(4) limits_def allocs_def latest_snapshot_def fun_eq_iff)
      have "rsv_Now ?q = sir_Now request" by (simp add: reservation_request_def)
      then have a: "acts (sir_Now request) d d1" "ledger_inv d1"
        using book_refines [OF inv cols 1(3) l snap] same by (auto simp: acts_def)
      have "acts (sir_Now request) d1 d'"
        by (rule acts_same_ledger [OF a(2)]) (simp_all add: insertHandoffIntent_ok(1) [OF 1(9)] 1(5))
      with a(1) show ?thesis by (rule acts_trans)
    qed
  qed
qed

lemma acts_Defer:
  assumes inv: "ledger_inv d"
  shows "acts now d (snd (DeferCapacity L newV7 request d))"
  unfolding DeferCapacity_def
proof (rule acts_commits [OF inv])
  fix res d' assume "DeferCapacity_tx L newV7 request d = Inr (res, d')"
  then show "acts now d d'"
    by (cases rule: DeferCapacity_txE) (simp_all add: acts_refl acts_same_ledger inv)
qed

lemma acts_Reject:
  assumes inv: "ledger_inv d"
  shows "acts now d (snd (Reject L newV7 request d))"
  unfolding Reject_def
proof (rule acts_commits [OF inv])
  fix res d' assume "Reject_tx L newV7 request d = Inr (res, d')"
  then show "acts now d d'"
    by (cases rule: Reject_txE) (simp_all add: acts_refl acts_same_ledger inv)
qed

fun intent_op_time :: "intent_op \<Rightarrow> gtime" where
  "intent_op_time (OpSchedule ids newV7 request) = sir_Now request"
| "intent_op_time (OpDefer newV7 request) = cwr_Now request"
| "intent_op_time (OpReject newV7 request) = srr_Now request"

lemma acts_intent_exec:
  "ledger_inv d \<Longrightarrow> columns_ok d \<Longrightarrow> acts (intent_op_time oper) d (intent_exec L oper d)"
  by (cases oper) (simp_all add: acts_Schedule acts_Defer acts_Reject)

interpretation intent_ledger: ledger_machine "intent_exec L" intent_op_time for L
  using acts_intent_exec by unfold_locales (auto simp: acts_def)

section \<open>All or nothing\<close>

lemma newEvent_names:
  assumes "newEvent l newV7 eventType schemaVersion occurredAt producer tenantID projectID runID aggregateType
    aggregateID aggregateVersion correlationID causationID payload = Inr event"
  shows "env_TenantID (oe_Envelope event) = tenantID" "env_RunID (oe_Envelope event) = runID"
    "env_EventType (oe_Envelope event) = eventType" "env_AggregateVersion (oe_Envelope event) = aggregateVersion"
  using assms by (auto simp: newEvent_def Let_def split: if_splits option.splits)

lemma outbox_row_sel [simp]:
  "ob_EventID (outbox_row event) = env_EventID (oe_Envelope event)"
  "ob_TenantID (outbox_row event) = env_TenantID (oe_Envelope event)"
  "ob_RunID (outbox_row event) = env_RunID (oe_Envelope event)"
  "ob_EventType (outbox_row event) = env_EventType (oe_Envelope event)"
  "ob_AggregateVersion (outbox_row event) = env_AggregateVersion (oe_Envelope event)"
  by (simp_all add: outbox_row_def Let_def)

lemma book_bundle:
  assumes "book L ids request snapshot l d = Inr (bundle, d')"
  shows "newReservationBundle L ids request (Truncate (rsv_Now request) (24 * hour)) = Inr bundle"
    "\<And>c. c \<in> set (db_capacity d) \<Longrightarrow> cr_ID c \<noteq> cr_ID (rb_Capacity bundle)"
    "\<And>b. b \<in> set (db_budget d) \<Longrightarrow> br_ID b \<noteq> br_ID (rb_Budget bundle)"
proof -
  obtain d1 d2 where d1: "insert_usage (rsv_TenantID request) (Truncate (rsv_Now request) (24 * hour)) (rsv_Now request) d = Inr d1"
    and b: "newReservationBundle L ids request (Truncate (rsv_Now request) (24 * hour)) = Inr bundle"
    and d2: "insertReservationBundle L bundle d1 = Inr d2"
    using assms by (rule bookE)
  obtain us where us: "d1 = d\<lparr>db_usage := us\<rparr>" using insert_usage_frame [OF d1] by blast
  show "newReservationBundle L ids request (Truncate (rsv_Now request) (24 * hour)) = Inr bundle" by (rule b)
  show "\<And>c. c \<in> set (db_capacity d) \<Longrightarrow> cr_ID c \<noteq> cr_ID (rb_Capacity bundle)"
    "\<And>b. b \<in> set (db_budget d) \<Longrightarrow> br_ID b \<noteq> br_ID (rb_Budget bundle)"
    using insertReservationBundle_ok(2,3) [OF d2] by (auto simp: us)
qed

text \<open>What a successful assignment did to the tables.\<close>

definition assignment ::
  "SchedulingIntentRequest \<Rightarrow> SchedulingIntentResult \<Rightarrow> RunRow \<Rightarrow> AgentRunAttempt \<Rightarrow> CapacityReservation \<Rightarrow>
   BudgetReservation \<Rightarrow> OutboxRow \<Rightarrow> HandoffIntent \<Rightarrow> bool" where
  "assignment request res r a c b e h \<longleftrightarrow>
     run_key (clm_TenantID (sir_Claim request)) (clm_ID (sir_Claim request)) r \<and>
     rr_Status r = AgentRunScheduling \<and> rr_Version r = clm_Version (sir_Claim request) \<and>
     lease_valid (coalesce (rr_LeaseOwner r)) (rr_LeaseExpiresAt r) (sir_LeaseOwner request) (sir_Now request) \<and>
     att_ID a = sir_AttemptID request \<and> att_RunID a = row_id r \<and>
     att_AttemptNumber a = run_AttemptCount (rr_Run r) \<and> att_Status a = AttemptPending \<and>
     cr_TenantID c = run_TenantID (rr_Run r) \<and> cr_RunID c = row_id r \<and> cr_AttemptNumber c = att_AttemptNumber a \<and>
     cr_ClusterID c = sir_ClusterID request \<and> cr_State c = ReservationReserved \<and>
     cr_CPUMillis c = run_CPUMillis (rr_Run r) \<and> cr_MemoryMiB c = run_MemoryMiB (rr_Run r) \<and>
     cr_CreatedAt c = sir_Now request \<and> cr_ExpiresAt c = sir_Now request + sir_ReservationTTL request \<and>
     paired c b \<and> br_AmountMinorUnits b = sir_BudgetMinorUnits request \<and>
     ob_TenantID e = run_TenantID (rr_Run r) \<and> ob_RunID e = Some (row_id r) \<and>
     ob_EventType e = AgentRunScheduledType \<and> ob_AggregateVersion e = rr_Version r + 1 \<and>
     h = \<lparr>hi_EventID = ob_EventID e, hi_TenantID = run_TenantID (rr_Run r), hi_RunID = row_id r,
       hi_AttemptID = att_ID a, hi_AttemptNumber = att_AttemptNumber a, hi_ClusterID = sir_ClusterID request,
       hi_DesiredState = sir_DesiredState request, hi_CreatedAt = sir_Now request\<rparr> \<and>
     res = \<lparr>sres_RunVersion = rr_Version r + 1, sres_AttemptVersion = att_Version a + 1,
       sres_CapacityReservationID = cr_ID c, sres_BudgetReservationID = br_ID b,
       sres_EventID = ob_EventID e, sres_Replayed = False\<rparr>"

definition with_assignment ::
  "SchedulingIntentRequest \<Rightarrow> RunRow \<Rightarrow> AgentRunAttempt \<Rightarrow> CapacityReservation \<Rightarrow> BudgetReservation \<Rightarrow>
   OutboxRow \<Rightarrow> HandoffIntent \<Rightarrow> BudgetUsage list \<Rightarrow> db \<Rightarrow> db" where
  "with_assignment request r a c b e h us d = d\<lparr>
     db_runs := sql_update (\<lambda>x. x = r) (scheduled_row request) (db_runs d),
     db_attempts := sql_update (\<lambda>x. x = a) (started_attempt (sir_Now request) (sir_ClusterID request)
       (clm_ExecutionProfile (sir_Claim request)) \<lparr>rb_Capacity = c, rb_Budget = b\<rparr>) (db_attempts d),
     db_capacity := db_capacity d @ [c], db_budget := db_budget d @ [b], db_usage := us,
     db_outbox := db_outbox d @ [e], db_handoff := db_handoff d @ [h]\<rparr>"

lemma sql_update_cong:
  "(\<And>x. x \<in> set xs \<Longrightarrow> P x = Q x) \<Longrightarrow> sql_update P f xs = sql_update Q f xs"
  by (simp add: sql_update_def)

lemma Schedule_tx_valid: "Schedule_tx L ids newV7 request d = Inr x \<Longrightarrow> validateSchedulingIntent request = None"
  unfolding Schedule_tx_def by (cases "validateSchedulingIntent request") simp_all

lemma Schedule_fresh:
  assumes inv: "store_inv d" and tx: "Schedule_tx L ids newV7 request d = Inr (res, d')" and new: "\<not> sres_Replayed res"
  obtains r a c b e h us where "r \<in> set (db_runs d)" "a \<in> set (db_attempts d)"
    "assignment request res r a c b e h" "d' = with_assignment request r a c b e h us d"
    "\<And>c'. c' \<in> set (db_capacity d) \<Longrightarrow> cr_ID c' \<noteq> cr_ID c" "\<And>b'. b' \<in> set (db_budget d) \<Longrightarrow> br_ID b' \<noteq> br_ID b"
    "\<And>h'. h' \<in> set (db_handoff d) \<Longrightarrow> hi_EventID h' \<noteq> ob_EventID e" "att_TenantID a = run_TenantID (rr_Run r)"
    "cr_ID c \<noteq> uuid_Nil" "br_ID b \<noteq> uuid_Nil"
  using tx
proof (cases rule: Schedule_txE)
  case replay
  then have "sres_Replayed res" by (auto simp: replaySchedulingIntent_def tx_simps split: if_splits prod.splits)
  with new show thesis by contradiction
next
  case (fresh run owner expiry profile attempt)
  let ?v = "clm_Version (sir_Claim request)"
  obtain r where r: "r \<in> set (db_runs d)" "run_key (clm_TenantID (sir_Claim request)) (clm_ID (sir_Claim request)) r"
    "run = scheduling_columns (rr_Run r)" "owner = coalesce (rr_LeaseOwner r)" "expiry = rr_LeaseExpiresAt r"
    "profile = rr_ExecutionProfile r"
    "\<And>r'. r' \<in> set (db_runs d) \<Longrightarrow> run_key (clm_TenantID (sir_Claim request)) (clm_ID (sir_Claim request)) r' \<Longrightarrow> r' = r"
    using inv fresh(1) by (rule locked_run) (rule that; assumption)
  obtain a where a: "a \<in> set (db_attempts d)" "attempt = attempt_columns a" "att_Status a = AttemptPending"
    "att_Version a = sir_AttemptVersion request" "att_RunID a = run_ID run" "att_TenantID a = run_TenantID run"
    "att_AttemptNumber a = run_AttemptCount run" "att_ID a = sir_AttemptID request"
    "\<And>a'. a' \<in> set (db_attempts d) \<Longrightarrow> att_ID a' = sir_AttemptID request \<Longrightarrow> a' = a"
    using inv fresh(6) by (rule locked_attempt) (rule that; assumption)
  from fresh(7) show thesis
  proof (cases rule: admitE)
    case (1 c policy rb us event d1 d2)
    let ?c = "rb_Capacity rb" and ?b = "rb_Budget rb"
    let ?q = "reservation_request request run attempt (cand_Cluster c)"
    note rb = newReservationBundle_ok [OF book_bundle(1) [OF 1(3)], unfolded reservation_request_def, simplified]
    note ev = newEvent_names [OF 1(7) [unfolded NewAgentRunScheduled_def]]
    have id: "cl_ID (cand_Cluster c) = sir_ClusterID request" using sql_row_Some [OF 1(1)] by simp
    have rb_eq: "rb = \<lparr>rb_Capacity = ?c, rb_Budget = ?b\<rparr>" by (cases rb) simp
    have runs: "sql_update (run_at run ?v) (scheduled_row request) (db_runs d) =
        sql_update (\<lambda>x. x = r) (scheduled_row request) (db_runs d)"
    proof (rule sql_update_cong)
      fix x assume x: "x \<in> set (db_runs d)"
      show "run_at run ?v x = (x = r)"
      proof
        assume "run_at run ?v x"
        with r(2,3) show "x = r" by (intro r(7) [OF x]) simp
      next
        assume "x = r"
        with r(2,3) fresh(4) show "run_at run ?v x" by simp
      qed
    qed
    have atts: "sql_update (attempt_at attempt (sir_AttemptVersion request)) f (db_attempts d) =
        sql_update (\<lambda>x. x = a) f (db_attempts d)" for f
    proof (rule sql_update_cong)
      fix x assume x: "x \<in> set (db_attempts d)"
      show "attempt_at attempt (sir_AttemptVersion request) x = (x = a)"
      proof
        assume "attempt_at attempt (sir_AttemptVersion request) x"
        with a(2,8) show "x = a" by (intro a(9) [OF x]) simp
      next
        assume "x = a"
        with a(2,4) show "attempt_at attempt (sir_AttemptVersion request) x" by simp
      qed
    qed
    note h = insertHandoffIntent_ok [OF 1(9)]
    let ?h = "\<lparr>hi_EventID = env_EventID (oe_Envelope event), hi_TenantID = run_TenantID (rr_Run r), hi_RunID = row_id r,
       hi_AttemptID = att_ID a, hi_AttemptNumber = att_AttemptNumber a, hi_ClusterID = sir_ClusterID request,
       hi_DesiredState = sir_DesiredState request, hi_CreatedAt = sir_Now request\<rparr>"
    show thesis
    proof (rule that [OF r(1) a(1), of ?c ?b "outbox_row event" ?h us])
      show "assignment request res r a ?c ?b (outbox_row event) ?h"
        using r(2-6) a(3-8) fresh(2-4) rb ev 1(10) id
        by (simp add: assignment_def a(2))
      show "d' = with_assignment request r a ?c ?b (outbox_row event) ?h us d"
        unfolding h(1) 1(4) 1(5) runs atts with_assignment_def
        by (simp add: id fresh(5) r(3) a(2) started_attempt_def flip: rb_eq)
      show "\<And>c'. c' \<in> set (db_capacity d) \<Longrightarrow> cr_ID c' \<noteq> cr_ID ?c" "\<And>b'. b' \<in> set (db_budget d) \<Longrightarrow> br_ID b' \<noteq> br_ID ?b"
        using book_bundle(2,3) [OF 1(3)] by blast+
      show "\<And>h'. h' \<in> set (db_handoff d) \<Longrightarrow> hi_EventID h' \<noteq> ob_EventID (outbox_row event)"
        using h(2) by (simp add: 1(4,5))
      show "att_TenantID a = run_TenantID (rr_Run r)" using a(6) r(3) by simp
      have "attempt_checks (started_attempt (sir_Now request) (cl_ID (cand_Cluster c)) profile rb a)"
        using 1(11) [OF a(1)] a(2,4) by simp
      moreover have "sir_ClusterID request \<noteq> []"
        using Schedule_tx_valid [OF tx] by (auto simp: validateSchedulingIntent_def Let_def)
      ultimately show "cr_ID ?c \<noteq> uuid_Nil" "br_ID ?b \<noteq> uuid_Nil"
        by (auto simp: attempt_checks_def started_attempt_def id)
    qed
  qed
qed

section \<open>An example assignment\<close>

definition ex_claimed_db :: db where
  "ex_claimed_db = snd (Queue_Claim ex_claim [] ex_db)"

definition ex_claimed :: ClaimedRun where
  "ex_claimed = \<lparr>clm_ID = 7, clm_TenantID = 1, clm_ProjectID = 2, clm_Runtime = ''go1.24'',
     clm_PromptReference = ''s3://prompts/1'', clm_MaxAttempts = 2, clm_ExecutionProfile = ''small'',
     clm_PreferredRegion = [], clm_CreatedBy = ''dev'', clm_CPUMillis = 500, clm_MemoryMiB = 512,
     clm_TimeoutSeconds = 60, clm_AttemptNumber = 1, clm_AttemptID = 8, clm_AttemptVersion = 1,
     clm_Priority = 0, clm_EffectivePriority = 5, clm_Version = 2, clm_CreatedAt = 5,
     clm_SchedulerLeaseOwner = ''sched-1'', clm_SchedulerLeaseExpiry = 130\<rparr>"

definition ex_intent :: SchedulingIntentRequest where
  "ex_intent = \<lparr>sir_Claim = ex_claimed, sir_LeaseOwner = ''sched-1'', sir_AttemptID = 8, sir_AttemptVersion = 1,
     sir_ClusterID = ''cluster-a'', sir_ClusterFreshness = 50, sir_Strategy = ''most-available'',
     sir_SelectionScore = 100, sir_BudgetMinorUnits = 60, sir_ReservationTTL = 1000, sir_CorrelationID = ''c-1'',
     sir_CausationID = ''c-1'', sir_Now = 110, sir_DesiredState = ex_desired\<lparr>ds_TaskReference := ''s3://prompts/1'',
       ds_TimeoutSeconds := 60, ds_MaxAttempts := 2\<rparr>\<rparr>"

lemma ex_claimed_ok: "fst (Queue_Claim ex_claim [] ex_db) = Inr [ex_claimed]"
  by code_simp

lemma ex_scheduled: "fst (Schedule ex_lib (Some 30, Some 31) (Some 32) ex_intent ex_claimed_db) =
  Inr \<lparr>sres_RunVersion = 3, sres_AttemptVersion = 2, sres_CapacityReservationID = 30,
    sres_BudgetReservationID = 31, sres_EventID = 32, sres_Replayed = False\<rparr>"
  by code_simp

lemma ex_store_inv: "store_inv ex_db"
proof -
  have "attempts_inv ex_db" by (simp add: attempts_inv_def attempt_no_def ex_db_def ex_attempt_def)
  moreover have "waiting_inv ex_db"
    by (simp add: waiting_inv_def ex_db_def ex_attempt_def ex_row_def ex_run_def current_attempt_def)
  ultimately show ?thesis using ex_runs_inv by (simp add: store_inv_def)
qed

lemma ex_claimed_store: "store_inv ex_claimed_db"
  using Claim_store [OF ex_store_inv] by (simp add: ex_claimed_db_def kept_def)

text \<open>C35: A scheduling intent is all or nothing.  An error or a repeated answer leaves every table as it
  was.  A first success means that the caller held the lease of the SCHEDULING run at the claimed
  version; then, in one commit, exactly this run becomes PROVISIONING, exactly its pending attempt becomes
  STARTING on the requested cluster, and one capacity reservation, its budget reservation, one scheduled event of the
  new version and one handoff intent with the requested desired state are added, all for this attempt and
  with the identities that the result names.\<close>

theorem Schedule_all_or_nothing:
  assumes "store_inv d" "Schedule L ids newV7 request d = (answer, d')"
  shows "case answer of
      Inl e \<Rightarrow> d' = d
    | Inr res \<Rightarrow> if sres_Replayed res then d' = d
        else \<exists>r \<in> set (db_runs d). \<exists>a \<in> set (db_attempts d). \<exists>c b e h us.
          assignment request res r a c b e h \<and> d' = with_assignment request r a c b e h us d"
proof (cases "Schedule_tx L ids newV7 request d")
  case (Inl e)
  then show ?thesis using assms(2) by (auto simp: Schedule_def commits_def)
next
  case (Inr x)
  obtain res d1 where x: "x = (res, d1)" by fastforce
  have a: "answer = Inr res" "d' = d1" using assms(2) by (simp_all add: Schedule_def commits_def Inr x)
  show ?thesis
  proof (cases "sres_Replayed res")
    case True
    from Inr [unfolded x] have "d1 = d"
    proof (cases rule: Schedule_txE)
      case (fresh run owner expiry profile attempt)
      from fresh(7) have "\<not> sres_Replayed res" by (rule admitE) simp
      with True show ?thesis by contradiction
    qed
    then show ?thesis by (simp add: a True)
  next
    case False
    obtain r a0 c b e h us where "r \<in> set (db_runs d)" "a0 \<in> set (db_attempts d)"
      "assignment request res r a0 c b e h" "d1 = with_assignment request r a0 c b e h us d"
      using assms(1) Inr [unfolded x] False by (rule Schedule_fresh) (rule that; assumption)
    then show ?thesis unfolding a sum.case if_not_P [OF False] by blast
  qed
qed

theorem Schedule_all_or_nothing_witness:
  "\<exists>res d'. Schedule ex_lib (Some 30, Some 31) (Some 32) ex_intent ex_claimed_db = (Inr res, d') \<and>
     sres_EventID res = 32 \<and> \<not> sres_Replayed res \<and>
     (\<exists>r a c b e h us. assignment ex_intent res r a c b e h \<and>
        d' = with_assignment ex_intent r a c b e h us ex_claimed_db)"
proof -
  obtain res d' where s: "Schedule ex_lib (Some 30, Some 31) (Some 32) ex_intent ex_claimed_db = (Inr res, d')"
    and res: "sres_EventID res = 32" "\<not> sres_Replayed res"
    using ex_scheduled by (cases "Schedule ex_lib (Some 30, Some 31) (Some 32) ex_intent ex_claimed_db") auto
  show ?thesis
    using Schedule_all_or_nothing [OF ex_claimed_store s, unfolded sum.case if_not_P [OF res(2)]] s res by blast
qed

section \<open>Repeated calls\<close>

lemma replay_now: "replaySchedulingIntent run (request\<lparr>sir_Now := now\<rparr>) d = replaySchedulingIntent run request d"
proof -
  have "same_intent run (request\<lparr>sir_Now := now\<rparr>) = same_intent run request"
    "sir_DesiredState (request\<lparr>sir_Now := now\<rparr>) = sir_DesiredState request"
    by (simp_all add: same_intent_def fun_eq_iff)
  then show ?thesis unfolding replaySchedulingIntent_def by (simp only:)
qed

lemma validate_now: "\<not> IsZero now \<Longrightarrow> validateSchedulingIntent request = None \<Longrightarrow>
    validateSchedulingIntent (request\<lparr>sir_Now := now\<rparr>) = None"
  by (simp add: validateSchedulingIntent_def Let_def split: if_splits)

lemma set_map_filter_iff: "x \<in> set (List.map_filter f xs) \<longleftrightarrow> (\<exists>y \<in> set xs. f y = Some x)"
  by (force simp: List.map_filter_def)

lemma set_assigned:
  "(a, c, b) \<in> set (assigned d) \<longleftrightarrow> a \<in> set (db_attempts d) \<and>
     sql_row (\<lambda>c. att_CapacityReservationID a \<noteq> uuid_Nil \<and> cr_ID c = att_CapacityReservationID a) (db_capacity d) = Some c \<and>
     sql_row (\<lambda>b. att_BudgetReservationID a \<noteq> uuid_Nil \<and> br_ID b = att_BudgetReservationID a) (db_budget d) = Some b"
proof -
  have "(case (m, n) of (Some c, Some b) \<Rightarrow> Some (y, c, b) | _ \<Rightarrow> None) = Some (a, c, b) \<longleftrightarrow>
      y = a \<and> m = Some c \<and> n = Some b" for m n and y :: AgentRunAttempt
    by (cases m; cases n) auto
  then show ?thesis unfolding assigned_def set_map_filter_iff by metis
qed

lemma assigned_row:
  assumes "a \<in> set (db_attempts d)" "att_CapacityReservationID a = cr_ID c" "att_BudgetReservationID a = br_ID b"
    "cr_ID c \<noteq> uuid_Nil" "br_ID b \<noteq> uuid_Nil"
    "sql_row (\<lambda>x. cr_ID x = cr_ID c) (db_capacity d) = Some c" "sql_row (\<lambda>x. br_ID x = br_ID b) (db_budget d) = Some b"
    "P a" "\<And>a'. a' \<in> set (db_attempts d) \<Longrightarrow> P a' \<Longrightarrow> a' = a"
  shows "sql_row (\<lambda>(a, c, b). P a) (assigned d) = Some (a, c, b)"
proof (rule sql_row_unique)
  show "(a, c, b) \<in> set (assigned d)" using assms(1-7) by (simp add: set_assigned)
  fix x assume x: "x \<in> set (assigned d)" "(\<lambda>(a, c, b). P a) x"
  obtain a' c' b' where x': "x = (a', c', b')" by (cases x)
  have "a' = a" using x assms(9) [of a'] by (simp add: x' set_assigned)
  then show "x = (a, c, b)" using x(1) assms(2-7) by (simp add: x' set_assigned)
qed (use assms(8) in simp)

text \<open>The run that was just assigned, read again.\<close>

lemma scheduled_columns:
  assumes "store_inv d'" "r \<in> set (db_runs d)" "db_runs d' = sql_update (\<lambda>x. x = r) (scheduled_row request) (db_runs d)"
    "run_key t i r"
  shows "lockSchedulingRun t i d' = Inr (scheduling_columns (rr_Run (scheduled_row request r)), [], None, rr_ExecutionProfile r)"
    "sql_row (run_key t i) (db_runs d') = Some (scheduled_row request r)"
proof -
  have m: "scheduled_row request r \<in> set (db_runs d')" using assms(2,3) by (auto simp: sql_update_def)
  have k: "run_key t i (scheduled_row request r)" using assms(4) by (simp add: scheduled_row_def)
  have "inj_on row_id (set (db_runs d'))" using assms(1) by (simp add: store_inv_def runs_inv_def distinct_map)
  then show s: "sql_row (run_key t i) (db_runs d') = Some (scheduled_row request r)"
    using m k by (intro sql_row_unique) (auto simp: inj_on_def)
  show "lockSchedulingRun t i d' = Inr (scheduling_columns (rr_Run (scheduled_row request r)), [], None, rr_ExecutionProfile r)"
    unfolding lockSchedulingRun_def s by (simp add: required_def scheduled_row_def coalesce_def)
qed

lemma with_assignment_sel [simp]:
  "db_runs (with_assignment request r a c b e h us d) = sql_update (\<lambda>x. x = r) (scheduled_row request) (db_runs d)"
  "db_attempts (with_assignment request r a c b e h us d) = sql_update (\<lambda>x. x = a)
     (started_attempt (sir_Now request) (sir_ClusterID request) (clm_ExecutionProfile (sir_Claim request))
       \<lparr>rb_Capacity = c, rb_Budget = b\<rparr>) (db_attempts d)"
  "db_capacity (with_assignment request r a c b e h us d) = db_capacity d @ [c]"
  "db_budget (with_assignment request r a c b e h us d) = db_budget d @ [b]"
  "db_outbox (with_assignment request r a c b e h us d) = db_outbox d @ [e]"
  "db_handoff (with_assignment request r a c b e h us d) = db_handoff d @ [h]"
  by (simp_all add: with_assignment_def)

lemma replay_assignment:
  assumes inv: "store_inv d'" and d': "d' = with_assignment request r a c b e h us d"
    and r: "r \<in> set (db_runs d)" and a: "a \<in> set (db_attempts d)" "att_TenantID a = run_TenantID (rr_Run r)"
    and f: "assignment request res r a c b e h"
    and ids: "\<And>c'. c' \<in> set (db_capacity d) \<Longrightarrow> cr_ID c' \<noteq> cr_ID c" "\<And>b'. b' \<in> set (db_budget d) \<Longrightarrow> br_ID b' \<noteq> br_ID b"
      "\<And>h'. h' \<in> set (db_handoff d) \<Longrightarrow> hi_EventID h' \<noteq> ob_EventID e" "cr_ID c \<noteq> uuid_Nil" "br_ID b \<noteq> uuid_Nil"
    and events: "\<And>e'. e' \<in> set (db_outbox d) \<Longrightarrow> ob_RunID e' = Some (row_id r) \<Longrightarrow> ob_AggregateVersion e' \<le> rr_Version r"
  shows "replaySchedulingIntent (scheduling_columns (rr_Run (scheduled_row request r))) request d' =
    Inr (res\<lparr>sres_Replayed := True\<rparr>)"
proof -
  let ?a = "started_attempt (sir_Now request) (sir_ClusterID request) (clm_ExecutionProfile (sir_Claim request))
    \<lparr>rb_Capacity = c, rb_Budget = b\<rparr> a"
  let ?r = "scheduled_row request r"
  let ?run = "scheduling_columns (rr_Run ?r)"
  note f' = f [unfolded assignment_def]
  have run: "run_TenantID ?run = run_TenantID (rr_Run r)" "run_ID ?run = row_id r"
    "run_AttemptCount ?run = run_AttemptCount (rr_Run r)" "run_Version ?run = rr_Version r + 1"
    by (simp_all add: scheduled_row_def)
  have am: "?a \<in> set (db_attempts d')" using a(1) by (auto simp: d' sql_update_def)
  have "inj_on attempt_no (set (db_attempts d'))" using inv by (simp add: store_inv_def attempts_inv_def distinct_map)
  then have au: "x = ?a" if "x \<in> set (db_attempts d')" "att_RunID x = row_id r" "att_AttemptNumber x = run_AttemptCount (rr_Run r)" for x
    using that am f' by (auto simp: inj_on_def attempt_no_def started_attempt_def)
  have "sql_row (\<lambda>(a, c, b). att_TenantID a = run_TenantID ?run \<and> att_RunID a = run_ID ?run \<and>
      att_AttemptNumber a = run_AttemptCount ?run) (assigned d') = Some (?a, c, b)"
  proof (rule assigned_row [OF am _ _ ids(4,5)])
    show "sql_row (\<lambda>x. cr_ID x = cr_ID c) (db_capacity d') = Some c"
      "sql_row (\<lambda>x. br_ID x = br_ID b) (db_budget d') = Some b"
      using ids(1,2) by (auto simp: d' intro!: sql_row_unique)
    show "att_TenantID ?a = run_TenantID ?run \<and> att_RunID ?a = run_ID ?run \<and> att_AttemptNumber ?a = run_AttemptCount ?run"
      using f' a(2) unfolding run by (simp add: started_attempt_def)
    show "x = ?a" if "x \<in> set (db_attempts d')"
      "att_TenantID x = run_TenantID ?run \<and> att_RunID x = run_ID ?run \<and> att_AttemptNumber x = run_AttemptCount ?run" for x
      using that unfolding run by (intro au) simp_all
  qed (simp_all add: started_attempt_def)
  moreover have "sql_row (run_key (run_TenantID ?run) (run_ID ?run)) (db_runs d') = Some ?r"
    unfolding run by (rule scheduled_columns(2) [OF inv r]) (simp_all add: d')
  moreover have "rr_Strategy ?r = Some (sir_Strategy request)" "rr_SelectionScore ?r = Some (sir_SelectionScore request)"
    by (simp_all add: scheduled_row_def)
  moreover have "rr_Version ?r = rr_Version r + 1" by (simp add: scheduled_row_def)
  moreover have "same_intent ?run request ?r (?a, c, b)"
    using f' by (simp add: same_intent_def started_attempt_def scheduled_row_def)
  moreover have "sql_row (event_recorded ?run AgentRunScheduledType) (db_outbox d') = Some e"
  proof (rule sql_row_unique)
    show "event_recorded ?run AgentRunScheduledType e" using f' unfolding event_recorded_def run by simp
    show "x = e" if "x \<in> set (db_outbox d')" "event_recorded ?run AgentRunScheduledType x" for x
      using that events [of x] unfolding event_recorded_def run by (auto simp: d')
  qed (simp add: d')
  moreover have "sql_row (\<lambda>h. hi_EventID h = ob_EventID e \<and> hi_TenantID h = run_TenantID ?run \<and>
      hi_RunID h = run_ID ?run \<and> hi_AttemptNumber h = run_AttemptCount ?run) (db_handoff d') = Some h"
    unfolding run by (rule sql_row_unique) (use f' ids(3) in \<open>auto simp: d'\<close>)
  moreover have "desiredStateMatches (hi_DesiredState h) (sir_DesiredState request)"
    using f' by (simp add: desiredStateMatches_def)
  ultimately show ?thesis
    using f' unfolding replaySchedulingIntent_def by (simp add: required_def run started_attempt_def)
qed

text \<open>C36: A scheduling intent is idempotent.  After a success, the same request, sent again at any instant and by
  whoever lost the answer, gets the same result, marked as a replay, and changes no table; so one claim makes
  at most one reservation, one event and one handoff intent.  (The events recorded for a run never carry a version the
  run has not reached.)\<close>

theorem Schedule_idempotent:
  assumes inv: "store_inv d" and call: "Schedule L ids newV7 request d = (Inr res, d')" and now: "\<not> IsZero now"
    and events: "\<And>e r. e \<in> set (db_outbox d) \<Longrightarrow> r \<in> set (db_runs d) \<Longrightarrow> ob_RunID e = Some (row_id r) \<Longrightarrow>
      ob_AggregateVersion e \<le> rr_Version r"
  shows "Schedule L ids' newV7' (request\<lparr>sir_Now := now\<rparr>) d' = (Inr (res\<lparr>sres_Replayed := True\<rparr>), d')"
proof -
  let ?again = "request\<lparr>sir_Now := now\<rparr>"
  have tx: "Schedule_tx L ids newV7 request d = Inr (res, d')"
    using call by (auto simp: Schedule_def commits_def split: sum.splits)
  note valid = validate_now [OF now Schedule_tx_valid [OF tx]]
  have again: "Schedule L ids' newV7' ?again d' = (Inr res', d')"
    if l: "lockSchedulingRun (clm_TenantID (sir_Claim request)) (clm_ID (sir_Claim request)) d' = Inr (run, x)"
      "run_Status run = AgentRunProvisioning" "replaySchedulingIntent run request d' = Inr res'" for run x res'
    using l unfolding Schedule_def Schedule_tx_def commits_def valid
    by (cases x) (simp add: replay_now failing_def)
  show ?thesis
  proof (cases "sres_Replayed res")
    case True
    from tx show ?thesis
    proof (cases rule: Schedule_txE)
      case (replay run owner expiry profile)
      have "res\<lparr>sres_Replayed := True\<rparr> = res" using True by (cases res) simp
      then show ?thesis using again replay by simp
    next
      case (fresh run owner expiry profile attempt)
      from fresh(7) have "\<not> sres_Replayed res" by (rule admitE) simp
      with True show ?thesis by contradiction
    qed
  next
    case False
    obtain r a c b e h us where f: "r \<in> set (db_runs d)" "a \<in> set (db_attempts d)"
      "assignment request res r a c b e h" "d' = with_assignment request r a c b e h us d"
      "\<And>c'. c' \<in> set (db_capacity d) \<Longrightarrow> cr_ID c' \<noteq> cr_ID c" "\<And>b'. b' \<in> set (db_budget d) \<Longrightarrow> br_ID b' \<noteq> br_ID b"
      "\<And>h'. h' \<in> set (db_handoff d) \<Longrightarrow> hi_EventID h' \<noteq> ob_EventID e" "att_TenantID a = run_TenantID (rr_Run r)"
      "cr_ID c \<noteq> uuid_Nil" "br_ID b \<noteq> uuid_Nil"
      using inv tx False by (rule Schedule_fresh) (rule that; assumption)
    have inv': "store_inv d'" using Schedule_kept [OF inv, of L ids newV7 request] call by (simp add: kept_def)
    have key: "run_key (clm_TenantID (sir_Claim request)) (clm_ID (sir_Claim request)) r"
      using f(3) by (simp add: assignment_def)
    have runs: "db_runs d' = sql_update (\<lambda>x. x = r) (scheduled_row request) (db_runs d)" by (simp add: f(4))
    show ?thesis
    proof (rule again)
      show "lockSchedulingRun (clm_TenantID (sir_Claim request)) (clm_ID (sir_Claim request)) d' =
          Inr (scheduling_columns (rr_Run (scheduled_row request r)), [], None, rr_ExecutionProfile r)"
        by (rule scheduled_columns(1) [OF inv' f(1) runs key])
      show "replaySchedulingIntent (scheduling_columns (rr_Run (scheduled_row request r))) request d' =
          Inr (res\<lparr>sres_Replayed := True\<rparr>)"
        by (rule replay_assignment [OF inv' f(4,1,2,8,3)]) (simp_all add: f(5-7,9,10) events f(1))
    qed (simp add: scheduled_row_def)
  qed
qed

theorem Schedule_idempotent_witness:
  "\<exists>res d'. Schedule ex_lib (Some 30, Some 31) (Some 32) ex_intent ex_claimed_db = (Inr res, d') \<and>
     Schedule ex_lib (Some 40, Some 41) (Some 42) (ex_intent\<lparr>sir_Now := 200\<rparr>) d' =
       (Inr (res\<lparr>sres_Replayed := True\<rparr>), d')"
proof -
  obtain res d' where s: "Schedule ex_lib (Some 30, Some 31) (Some 32) ex_intent ex_claimed_db = (Inr res, d')"
    using ex_scheduled by (cases "Schedule ex_lib (Some 30, Some 31) (Some 32) ex_intent ex_claimed_db") auto
  have "db_outbox ex_claimed_db = []" by code_simp
  then show ?thesis
    using Schedule_idempotent [OF ex_claimed_store s, of 200 "(Some 40, Some 41)" "Some 42"] s by (auto simp: IsZero_def)
qed

section \<open>Lost claims\<close>


definition ex_wait :: CapacityWaitRequest where
  "ex_wait = \<lparr>cwr_Claim = ex_claimed, cwr_LeaseOwner = ''sched-1'', cwr_ReasonCode = ''CAPACITY_UNAVAILABLE'',
     cwr_Reason = ''no cluster'', cwr_NextEligibleAt = 500, cwr_CorrelationID = ''c-1'', cwr_CausationID = ''c-1'',
     cwr_Now = 130\<rparr>"

definition ex_rejection :: SchedulingRejectRequest where
  "ex_rejection = \<lparr>srr_Claim = ex_claimed, srr_LeaseOwner = ''sched-1'', srr_ReasonCode = ''RUNTIME_DENIED'',
     srr_Reason = ''runtime is not allowed'', srr_CorrelationID = ''c-1'', srr_CausationID = ''c-1'', srr_Now = 130\<rparr>"

text \<open>At the instant 130 the lease of \<^verbatim>\<open>sched-1\<close> has expired; before it, both calls succeed.\<close>

lemma ex_ends:
  "fst (DeferCapacity ex_lib (Some 32) (ex_wait\<lparr>cwr_Now := 129\<rparr>) ex_claimed_db) = Inr (only_event 3 0 32 False)"
  "fst (Reject ex_lib (Some 32) (ex_rejection\<lparr>srr_Now := 129\<rparr>) ex_claimed_db) = Inr (only_event 3 2 32 False)"
  by code_simp+

lemma ex_claimed_run:
  "\<exists>r \<in> set (db_runs ex_claimed_db). run_key 1 7 r \<and> rr_Status r = AgentRunScheduling \<and> rr_LeaseExpiresAt r = Some 130"
  by code_simp

lemma ex_requests_valid:
  "validateSchedulingIntent (ex_intent\<lparr>sir_Now := 130\<rparr>) = None" "\<not> defer_invalid ex_wait" "\<not> reject_invalid ex_rejection"
  by code_simp+


end
