(* ===== verification/Run_Repo.thy ===== *)
theory Run_Repo
  imports Sched_Intent
begin

text \<open>
  The run repository
  (\<^verbatim>\<open>services/platform-api/internal/adapters/postgres/agent_runs.go\<close>) and the service above it
  (\<^verbatim>\<open>internal/application/runs/service.go\<close>): acceptance of a run with its first attempt and its
  event, the queries with keyset pagination, the optimistic updates, and the two commands
  \<^verbatim>\<open>Cancel\<close> and \<^verbatim>\<open>Retry\<close> with the receipt that makes them idempotent.  Every statement of a
  \<^verbatim>\<open>TenantTx\<close> names the tenant in its condition, as the row policies do.
\<close>

section \<open>Values\<close>

record AgentRunPage =
  pg_ProjectID :: "uuid option"
  pg_AfterCreatedAt :: "gtime option"
  pg_AfterID :: "uuid option"
  pg_Limit :: int

record CancelRunRequest =
  crq_TenantID :: uuid
  crq_RunID :: uuid
  crq_CommandID :: string
  crq_Reason :: string
  crq_Actor :: string
  crq_Now :: gtime

record RetryRunRequest =
  rrq_TenantID :: uuid
  rrq_RunID :: uuid
  rrq_CommandID :: string
  rrq_Actor :: string
  rrq_Now :: gtime

record RunCommandResult =
  rcr_Run :: AgentRun
  rcr_Replayed :: bool

section \<open>Stored responses\<close>

definition marshalIdempotencyResponse :: "AgentRun \<Rightarrow> idempotencyResponse" where
  "marshalIdempotencyResponse run =
    \<lparr>ir_ID = run_ID run, ir_ProjectID = run_ProjectID run, ir_Runtime = run_Runtime run,
     ir_CPUMillis = run_CPUMillis run, ir_MemoryMiB = run_MemoryMiB run,
     ir_TimeoutSeconds = run_TimeoutSeconds run, ir_MaxAttempts = run_MaxAttempts run,
     ir_AttemptCount = run_AttemptCount run, ir_Status = run_Status run,
     ir_CreatedAt = run_CreatedAt run, ir_UpdatedAt = run_UpdatedAt run\<rparr>"

definition with_response :: "idempotencyResponse \<Rightarrow> AgentRun \<Rightarrow> AgentRun" where
  "with_response response run = run\<lparr>run_Runtime := ir_Runtime response, run_CPUMillis := ir_CPUMillis response,
     run_MemoryMiB := ir_MemoryMiB response, run_TimeoutSeconds := ir_TimeoutSeconds response,
     run_MaxAttempts := ir_MaxAttempts response, run_AttemptCount := ir_AttemptCount response,
     run_Status := ir_Status response, run_CreatedAt := ir_CreatedAt response,
     run_UpdatedAt := ir_UpdatedAt response\<rparr>"

text \<open>The column holds \<^verbatim>\<open>{}\<close>, here \<open>None\<close>, for a run that was created before the column was added.\<close>

definition applyIdempotencyResponse :: "idempotencyResponse option \<Rightarrow> AgentRun \<Rightarrow> AgentRun result" where
  "applyIdempotencyResponse payload run =
    (case payload of None \<Rightarrow> Inr run | Some response \<Rightarrow>
     if ir_ID response \<noteq> run_ID run \<or> ir_ProjectID response \<noteq> run_ProjectID run \<or>
        ir_Status response \<noteq> AgentRunQueued \<or> ir_AttemptCount response \<noteq> 1 \<or>
        IsZero (ir_CreatedAt response) \<or> IsZero (ir_UpdatedAt response) then
       Inl (Plain ''stored idempotency response is invalid'')
     else Inr (with_response response run))"

definition applyCommandResponse :: "idempotencyResponse option \<Rightarrow> AgentRun \<Rightarrow> AgentRun result" where
  "applyCommandResponse payload run =
    (case payload of None \<Rightarrow> Inl (Plain ''stored command response is missing'') | Some response \<Rightarrow>
     if ir_ID response \<noteq> run_ID run \<or> ir_ProjectID response \<noteq> run_ProjectID run \<or>
        AgentRunStatus_string (ir_Status response) = [] \<or> ir_AttemptCount response < 1 \<or>
        IsZero (ir_CreatedAt response) \<or> IsZero (ir_UpdatedAt response) then
       Inl (Plain ''stored command response is invalid'')
     else Inr (with_response response run))"

section \<open>Statements\<close>

text \<open>The row of a new run; the columns the statement does not name have their defaults.\<close>

definition new_row :: "AgentRun \<Rightarrow> RunRow" where
  "new_row run = \<lparr>rr_Run = run, rr_Priority = 0, rr_ExecutionProfile = ''standard'', rr_PreferredRegion = None,
     rr_NextEligibleAt = None, rr_LeaseOwner = None, rr_LeaseExpiresAt = None, rr_DecisionCode = None,
     rr_DecisionReason = None, rr_Strategy = None, rr_SelectionScore = None,
     rr_IdempotencyResponse = Some (marshalIdempotencyResponse run), rr_LastCommandType = None,
     rr_LastCommandID = None, rr_LastCommandResponse = None\<rparr>"

definition insert_run :: "lib \<Rightarrow> RunRow \<Rightarrow> db \<Rightarrow> db result" where
  "insert_run L r d =
    and_then (ensure (lib_Version L (row_id r) = 7 \<and> row_checks r) (translateError OtherFailure)) (\<lambda>_.
    and_then (ensure (\<forall>x \<in> set (db_runs d). row_id x \<noteq> row_id r \<and>
        \<not> (run_TenantID (rr_Run x) = run_TenantID (rr_Run r) \<and>
           run_IdempotencyKey (rr_Run x) = run_IdempotencyKey (rr_Run r))) (translateError UniqueViolation)) (\<lambda>_.
    and_then (ensure (run_TenantID (rr_Run r) \<in> fst ` set (db_tenants d) \<and>
        (\<exists>(p, t, s) \<in> set (db_projects d). p = run_ProjectID (rr_Run r) \<and> t = run_TenantID (rr_Run r)))
        (translateError ForeignKeyViolation)) (\<lambda>_.
    Inr (d\<lparr>db_runs := db_runs d @ [r]\<rparr>))))"

text \<open>The statement does not write the columns of the assignment.\<close>

definition attempt_row :: "AgentRunAttempt \<Rightarrow> AgentRunAttempt" where
  "attempt_row attempt = attempt\<lparr>att_ExecutionProfile := [], att_CapacityReservationID := uuid_Nil,
     att_BudgetReservationID := uuid_Nil\<rparr>"

definition insertAttempt :: "lib \<Rightarrow> AgentRunAttempt \<Rightarrow> db \<Rightarrow> db result" where
  "insertAttempt L attempt d =
    (let a = attempt_row attempt in
     and_then (ensure (lib_Version L (att_ID a) = 7 \<and> attempt_checks a) (translateError OtherFailure)) (\<lambda>_.
     and_then (ensure (\<forall>x \<in> set (db_attempts d). att_ID x \<noteq> att_ID a \<and>
         \<not> (att_RunID x = att_RunID a \<and> att_AttemptNumber x = att_AttemptNumber a))
         (translateError UniqueViolation)) (\<lambda>_.
     and_then (ensure (att_TenantID a \<in> fst ` set (db_tenants d) \<and>
         (\<exists>r \<in> set (db_runs d). run_key (att_TenantID a) (att_RunID a) r))
         (translateError ForeignKeyViolation)) (\<lambda>_.
     Inr (d\<lparr>db_attempts := db_attempts d @ [a]\<rparr>)))))"

definition validateInitialAttempt :: "AgentRun \<Rightarrow> AgentRunAttempt \<Rightarrow> error option" where
  "validateInitialAttempt run attempt =
    (if run_Status run \<noteq> AgentRunQueued \<or> run_AttemptCount run \<noteq> 1 \<or> att_TenantID attempt \<noteq> run_TenantID run \<or>
        att_RunID attempt \<noteq> run_ID run \<or> att_AttemptNumber attempt \<noteq> 1 \<or> att_Status attempt \<noteq> AttemptPending then
       Some (Plain ''initial run and attempt state is invalid'')
     else None)"

definition updated_run :: "AgentRun \<Rightarrow> RunRow \<Rightarrow> RunRow" where
  "updated_run run r = r\<lparr>rr_Run := (rr_Run r)\<lparr>run_Status := run_Status run,
     run_FailureCategory := run_FailureCategory run, run_AttemptCount := run_AttemptCount run,
     run_Version := rr_Version r + 1, run_UpdatedAt := run_UpdatedAt run,
     run_CancellationReason := run_CancellationReason run,
     run_CancellationRequestedBy := run_CancellationRequestedBy run,
     run_CancellationRequestedAt := run_CancellationRequestedAt run, run_CompletedAt := run_CompletedAt run\<rparr>\<rparr>"

definition updateRun :: "AgentRun \<Rightarrow> int \<Rightarrow> bool \<Rightarrow> db \<Rightarrow> pg_error + (AgentRun \<times> db)" where
  "updateRun run expectedVersion requireAttemptIncrease d =
    (let P = (\<lambda>r. run_at run expectedVersion r \<and>
       (\<not> requireAttemptIncrease \<or> run_AttemptCount (rr_Run r) + 1 = run_AttemptCount run)) in
     case sql_row P (db_runs d) of None \<Rightarrow> Inl NoRows | Some r \<Rightarrow>
     and_then (ensure (row_checks (updated_run run r)) OtherFailure) (\<lambda>_.
     Inr (rr_Run (updated_run run r), d\<lparr>db_runs := sql_update P (updated_run run) (db_runs d)\<rparr>)))"

definition saveError :: "uuid \<Rightarrow> uuid \<Rightarrow> pg_error \<Rightarrow> db \<Rightarrow> error" where
  "saveError tenantID runID cause d =
    (if cause \<noteq> NoRows then translateError cause
     else if \<not> (\<exists>r \<in> set (db_runs d). run_key tenantID runID r) then Sentinel ErrNotFound
     else Sentinel ErrVersionConflict)"

definition saving :: "uuid \<Rightarrow> uuid \<Rightarrow> db \<Rightarrow> pg_error + 'a \<Rightarrow> 'a result" where
  "saving tenantID runID d m = map_sum (\<lambda>cause. saveError tenantID runID cause d) id m"

definition lockedCommandRun ::
  "uuid \<Rightarrow> uuid \<Rightarrow> db \<Rightarrow> (AgentRun \<times> string \<times> string \<times> idempotencyResponse option) result" where
  "lockedCommandRun tenantID runID d =
    and_then (required (sql_row (run_key tenantID runID) (db_runs d))) (\<lambda>r.
    Inr (rr_Run r, coalesce (rr_LastCommandType r), coalesce (rr_LastCommandID r), rr_LastCommandResponse r))"

section \<open>The repository\<close>

definition Repo_Create_tx :: "lib \<Rightarrow> uuid option \<Rightarrow> AgentRun \<Rightarrow> AgentRunAttempt \<Rightarrow> db \<Rightarrow> (unit \<times> db) result" where
  "Repo_Create_tx L newV7 run attempt d =
    (case validateInitialAttempt run attempt of Some err \<Rightarrow> Inl err | None \<Rightarrow>
     and_then (NewAgentRunRequested L newV7 run attempt) (\<lambda>event.
     and_then (insert_run L (new_row run) d) (\<lambda>d1.
     and_then (insertAttempt L attempt d1) (\<lambda>d2.
     and_then (insertOutboxEvent L event d2) (\<lambda>d3.
     Inr ((), d3))))))"

definition Repo_Create :: "lib \<Rightarrow> uuid option \<Rightarrow> AgentRun \<Rightarrow> AgentRunAttempt \<Rightarrow> db \<Rightarrow> unit result \<times> db" where
  "Repo_Create L newV7 run attempt = commits (Repo_Create_tx L newV7 run attempt)"

definition Repo_Get :: "uuid \<Rightarrow> uuid \<Rightarrow> db \<Rightarrow> AgentRun result" where
  "Repo_Get tenantID runID d =
    and_then (required (sql_row (run_key tenantID runID) (db_runs d))) (\<lambda>r. Inr (rr_Run r))"

definition GetByIdempotencyKey :: "uuid \<Rightarrow> string \<Rightarrow> db \<Rightarrow> AgentRun result" where
  "GetByIdempotencyKey tenantID key d =
    and_then (required (sql_row (\<lambda>r. run_TenantID (rr_Run r) = tenantID \<and> run_IdempotencyKey (rr_Run r) = key)
        (db_runs d))) (\<lambda>r.
    applyIdempotencyResponse (rr_IdempotencyResponse r) (rr_Run r))"

text \<open>The order of a page, latest first, and the rows behind its cursor.\<close>

definition newer :: "RunRow \<Rightarrow> RunRow \<Rightarrow> bool" where
  "newer r r' \<longleftrightarrow> run_CreatedAt (rr_Run r') < run_CreatedAt (rr_Run r) \<or>
     run_CreatedAt (rr_Run r') = run_CreatedAt (rr_Run r) \<and> row_id r' < row_id r"

definition behind :: "gtime option \<Rightarrow> uuid option \<Rightarrow> RunRow \<Rightarrow> bool" where
  "behind afterCreatedAt afterID r =
    (case (afterCreatedAt, afterID) of
       (Some t, Some i) \<Rightarrow> run_CreatedAt (rr_Run r) < t \<or> run_CreatedAt (rr_Run r) = t \<and> row_id r < i
     | _ \<Rightarrow> True)"

definition Repo_List :: "uuid \<Rightarrow> AgentRunPage \<Rightarrow> db \<Rightarrow> AgentRun list result" where
  "Repo_List tenantID page d =
    (if (pg_AfterCreatedAt page = None) \<noteq> (pg_AfterID page = None) then
       Inl (Plain ''run page cursor must include creation time and ID'')
     else
     let limit = (if pg_Limit page \<le> 0 \<or> pg_Limit page > 100 then 50 else pg_Limit page) in
     Inr (map rr_Run (take (nat limit) (sort_by newer (filter (\<lambda>r. run_TenantID (rr_Run r) = tenantID \<and>
       (case pg_ProjectID page of None \<Rightarrow> True | Some p \<Rightarrow> run_ProjectID (rr_Run r) = p) \<and>
       behind (pg_AfterCreatedAt page) (pg_AfterID page) r) (db_runs d))))))"

definition Save :: "AgentRun \<Rightarrow> int \<Rightarrow> db \<Rightarrow> AgentRun result \<times> db" where
  "Save run expectedVersion =
     commits (\<lambda>d. saving (run_TenantID run) (run_ID run) d (updateRun run expectedVersion False d))"

definition CreateNextAttempt_tx ::
  "lib \<Rightarrow> AgentRun \<Rightarrow> AgentRunAttempt \<Rightarrow> int \<Rightarrow> db \<Rightarrow> (AgentRun \<times> db) result" where
  "CreateNextAttempt_tx L run attempt expectedVersion d =
    (if att_TenantID attempt \<noteq> run_TenantID run \<or> att_RunID attempt \<noteq> run_ID run \<or>
        att_Status attempt \<noteq> AttemptPending \<or> att_AttemptNumber attempt \<noteq> run_AttemptCount run then
       Inl (Plain ''next attempt does not match run state'')
     else
     and_then (saving (run_TenantID run) (run_ID run) d (updateRun run expectedVersion True d)) (\<lambda>(updated, d1).
     and_then (insertAttempt L attempt d1) (\<lambda>d2.
     Inr (updated, d2))))"

definition CreateNextAttempt ::
  "lib \<Rightarrow> AgentRun \<Rightarrow> AgentRunAttempt \<Rightarrow> int \<Rightarrow> db \<Rightarrow> AgentRun result \<times> db" where
  "CreateNextAttempt L run attempt expectedVersion = commits (CreateNextAttempt_tx L run attempt expectedVersion)"

definition GetAttempt :: "uuid \<Rightarrow> uuid \<Rightarrow> int \<Rightarrow> db \<Rightarrow> AgentRunAttempt result" where
  "GetAttempt tenantID runID number d =
    required (sql_row (\<lambda>a. att_TenantID a = tenantID \<and> att_RunID a = runID \<and> att_AttemptNumber a = number)
      (db_attempts d))"

definition ListAttempts :: "uuid \<Rightarrow> uuid \<Rightarrow> db \<Rightarrow> AgentRunAttempt list result" where
  "ListAttempts tenantID runID d =
    Inr (sort_key att_AttemptNumber (filter (\<lambda>a. att_TenantID a = tenantID \<and> att_RunID a = runID) (db_attempts d)))"

definition updated_attempt :: "AgentRunAttempt \<Rightarrow> AgentRunAttempt \<Rightarrow> AgentRunAttempt" where
  "updated_attempt attempt a = a\<lparr>att_Status := att_Status attempt, att_FailureCategory := att_FailureCategory attempt,
     att_SelectedCluster := att_SelectedCluster attempt, att_ExecutionProfile := att_ExecutionProfile attempt,
     att_CapacityReservationID := att_CapacityReservationID attempt,
     att_BudgetReservationID := att_BudgetReservationID attempt,
     att_WorkloadReference := att_WorkloadReference attempt, att_Version := att_Version a + 1,
     att_UpdatedAt := att_UpdatedAt attempt, att_StartedAt := att_StartedAt attempt,
     att_CompletedAt := att_CompletedAt attempt\<rparr>"

definition reservations_exist :: "AgentRunAttempt \<Rightarrow> db \<Rightarrow> bool" where
  "reservations_exist a d \<longleftrightarrow>
     (att_CapacityReservationID a = uuid_Nil \<or> att_CapacityReservationID a \<in> cr_ID ` set (db_capacity d)) \<and>
     (att_BudgetReservationID a = uuid_Nil \<or> att_BudgetReservationID a \<in> br_ID ` set (db_budget d))"

definition SaveAttempt_tx :: "AgentRunAttempt \<Rightarrow> int \<Rightarrow> db \<Rightarrow> (AgentRunAttempt \<times> db) result" where
  "SaveAttempt_tx attempt expectedVersion d =
    saving (att_TenantID attempt) (att_RunID attempt) d
     (case sql_row (attempt_at attempt expectedVersion) (db_attempts d) of None \<Rightarrow> Inl NoRows | Some a \<Rightarrow>
      and_then (ensure (attempt_checks (updated_attempt attempt a)) OtherFailure) (\<lambda>_.
      and_then (ensure (reservations_exist (updated_attempt attempt a) d) ForeignKeyViolation) (\<lambda>_.
      Inr (updated_attempt attempt a,
        d\<lparr>db_attempts := sql_update (attempt_at attempt expectedVersion) (updated_attempt attempt) (db_attempts d)\<rparr>))))"

definition SaveAttempt :: "AgentRunAttempt \<Rightarrow> int \<Rightarrow> db \<Rightarrow> AgentRunAttempt result \<times> db" where
  "SaveAttempt attempt expectedVersion = commits (SaveAttempt_tx attempt expectedVersion)"

section \<open>Commands\<close>

definition validateCancelRequest :: "CancelRunRequest \<Rightarrow> error option" where
  "validateCancelRequest request =
    (if crq_TenantID request = uuid_Nil \<or> crq_RunID request = uuid_Nil \<or>
        TrimSpace (crq_CommandID request) = [] \<or> length (crq_CommandID request) > 255 \<or>
        TrimSpace (crq_Actor request) = [] \<or> length (crq_Actor request) > 255 \<or>
        TrimSpace (crq_Reason request) = [] \<or> length (crq_Reason request) > 500 \<or> IsZero (crq_Now request) then
       Some (Wrap ErrValidation '': cancellation command is invalid'')
     else None)"

definition validateRetryRequest :: "RetryRunRequest \<Rightarrow> error option" where
  "validateRetryRequest request =
    (if rrq_TenantID request = uuid_Nil \<or> rrq_RunID request = uuid_Nil \<or>
        TrimSpace (rrq_CommandID request) = [] \<or> length (rrq_CommandID request) > 255 \<or>
        TrimSpace (rrq_Actor request) = [] \<or> length (rrq_Actor request) > 255 \<or> IsZero (rrq_Now request) then
       Some (Wrap ErrValidation '': retry command is invalid'')
     else None)"

definition cancelling :: "CancelRunRequest \<Rightarrow> AgentRun \<Rightarrow> AgentRun" where
  "cancelling request run = run\<lparr>run_CancellationReason := crq_Reason request,
     run_CancellationRequestedBy := crq_Actor request, run_CancellationRequestedAt := Some (crq_Now request)\<rparr>"

definition cancelled_row :: "CancelRunRequest \<Rightarrow> AgentRun \<Rightarrow> RunRow \<Rightarrow> RunRow" where
  "cancelled_row request run r = r\<lparr>rr_Run := (rr_Run r)\<lparr>run_Status := run_Status run,
     run_Version := rr_Version r + 1, run_UpdatedAt := run_UpdatedAt run,
     run_CancellationReason := run_CancellationReason run,
     run_CancellationRequestedBy := run_CancellationRequestedBy run,
     run_CancellationRequestedAt := run_CancellationRequestedAt run\<rparr>,
     rr_LeaseOwner := None, rr_LeaseExpiresAt := None, rr_NextEligibleAt := None,
     rr_LastCommandType := Some ''CANCEL'', rr_LastCommandID := Some (crq_CommandID request),
     rr_LastCommandResponse := Some (marshalIdempotencyResponse run)\<rparr>"

definition cancel_run ::
  "lib \<Rightarrow> uuid option \<Rightarrow> CancelRunRequest \<Rightarrow> AgentRun \<Rightarrow> db \<Rightarrow> (RunCommandResult \<times> db) result" where
  "cancel_run L newV7 request run0 d =
    (case Transition AgentRunCancelling FailureNone (crq_Now request) (cancelling request run0) of
       (Some err, _) \<Rightarrow> Inl err
     | (None, run1) \<Rightarrow>
       let run = run1\<lparr>run_Version := run_Version run1 + 1\<rparr> in
       and_then (update_run (run_at run (run_Version run0)) (cancelled_row request run) d) (\<lambda>d1.
       and_then (NewAgentRunCancelRequested L newV7 run (crq_CommandID request)) (\<lambda>event.
       and_then (insertOutboxEvent L event d1) (\<lambda>d2.
       Inr (\<lparr>rcr_Run = run, rcr_Replayed = False\<rparr>, d2)))))"

definition Repo_Cancel_tx ::
  "lib \<Rightarrow> uuid option \<Rightarrow> CancelRunRequest \<Rightarrow> db \<Rightarrow> (RunCommandResult \<times> db) result" where
  "Repo_Cancel_tx L newV7 request d =
    (case validateCancelRequest request of Some err \<Rightarrow> Inl err | None \<Rightarrow>
     and_then (lockedCommandRun (crq_TenantID request) (crq_RunID request) d)
       (\<lambda>(run, commandType, commandID, commandResponse).
     if commandType = ''CANCEL'' \<and> commandID = crq_CommandID request then
       and_then (applyCommandResponse commandResponse run) (\<lambda>run. Inr (\<lparr>rcr_Run = run, rcr_Replayed = True\<rparr>, d))
     else if run_Status run = AgentRunCancelling \<or> run_Status run = AgentRunCancelled then
       Inr (\<lparr>rcr_Run = run, rcr_Replayed = True\<rparr>, d)
     else if IsTerminal (run_Status run) then Inl (Sentinel ErrRunTerminal)
     else cancel_run L newV7 request run d))"

definition Repo_Cancel :: "lib \<Rightarrow> uuid option \<Rightarrow> CancelRunRequest \<Rightarrow> db \<Rightarrow> RunCommandResult result \<times> db" where
  "Repo_Cancel L newV7 request = commits (Repo_Cancel_tx L newV7 request)"

definition retried_row :: "RetryRunRequest \<Rightarrow> AgentRun \<Rightarrow> RunRow \<Rightarrow> RunRow" where
  "retried_row request run r = r\<lparr>rr_Run := (rr_Run r)\<lparr>run_Status := AgentRunQueued,
     run_FailureCategory := FailureNone, run_AttemptCount := run_AttemptCount run,
     run_Version := rr_Version r + 1, run_UpdatedAt := run_UpdatedAt run, run_CompletedAt := None\<rparr>,
     rr_LeaseOwner := None, rr_LeaseExpiresAt := None, rr_NextEligibleAt := None,
     rr_LastCommandType := Some ''RETRY'', rr_LastCommandID := Some (rrq_CommandID request),
     rr_LastCommandResponse := Some (marshalIdempotencyResponse run)\<rparr>"

definition retry_run ::
  "lib \<Rightarrow> uuid option \<Rightarrow> uuid option \<Rightarrow> RetryRunRequest \<Rightarrow> AgentRun \<Rightarrow> db \<Rightarrow> (RunCommandResult \<times> db) result" where
  "retry_run L attemptV7 newV7 request run0 d =
    (case Transition AgentRunQueued FailureNone (rrq_Now request) run0 of
       (Some err, _) \<Rightarrow> Inl err
     | (None, run1) \<Rightarrow>
       let run = run1\<lparr>run_Version := run_Version run1 + 1\<rparr> in
       and_then (NewAgentRunAttempt attemptV7 (run_TenantID run) (run_ID run) (run_AttemptCount run) (rrq_Now request)) (\<lambda>attempt.
       and_then (update_run (run_at run (run_Version run0)) (retried_row request run) d) (\<lambda>d1.
       and_then (insertAttempt L attempt d1) (\<lambda>d2.
       and_then (NewAgentRunRetryRequested L newV7 run (run_Status run0) (run_FailureCategory run0)
           (rrq_Actor request) (rrq_CommandID request)) (\<lambda>event.
       and_then (insertOutboxEvent L event d2) (\<lambda>d3.
       Inr (\<lparr>rcr_Run = run, rcr_Replayed = False\<rparr>, d3)))))))"

definition Repo_Retry_tx ::
  "lib \<Rightarrow> uuid option \<Rightarrow> uuid option \<Rightarrow> RetryRunRequest \<Rightarrow> db \<Rightarrow> (RunCommandResult \<times> db) result" where
  "Repo_Retry_tx L attemptV7 newV7 request d =
    (case validateRetryRequest request of Some err \<Rightarrow> Inl err | None \<Rightarrow>
     and_then (lockedCommandRun (rrq_TenantID request) (rrq_RunID request) d)
       (\<lambda>(run, commandType, commandID, commandResponse).
     if commandType = ''RETRY'' \<and> commandID = rrq_CommandID request then
       and_then (applyCommandResponse commandResponse run) (\<lambda>run. Inr (\<lparr>rcr_Run = run, rcr_Replayed = True\<rparr>, d))
     else if \<not> CanRetry run then Inl (Sentinel ErrRetryNotAllowed)
     else retry_run L attemptV7 newV7 request run d))"

definition Repo_Retry ::
  "lib \<Rightarrow> uuid option \<Rightarrow> uuid option \<Rightarrow> RetryRunRequest \<Rightarrow> db \<Rightarrow> RunCommandResult result \<times> db" where
  "Repo_Retry L attemptV7 newV7 request = commits (Repo_Retry_tx L attemptV7 newV7 request)"

section \<open>The service\<close>

record Identity =
  idn_TenantID :: uuid
  idn_Subject :: string
  idn_Role :: string

definition CanManageRuns :: "Identity \<Rightarrow> bool" where
  "CanManageRuns identity \<longleftrightarrow> idn_Role identity = ''developer'' \<or> idn_Role identity = ''project-administrator''"

record CreateInput =
  cin_PromptReference :: string
  cin_Runtime :: string
  cin_CPUMillis :: int
  cin_MemoryMiB :: int
  cin_TimeoutSeconds :: int
  cin_MaxAttempts :: int
  cin_IdempotencyKey :: string

datatype api_error = ErrUnauthorized | ErrIdempotencyKeyReused | ApiFailed error

text \<open>
  The JSON text of the effective request is a parameter; it does not contain the idempotency key.
\<close>

type_synonym request_json = "uuid \<Rightarrow> CreateInput \<Rightarrow> string"

definition hashRequest :: "lib \<Rightarrow> request_json \<Rightarrow> uuid \<Rightarrow> CreateInput \<Rightarrow> string" where
  "hashRequest L marshal projectID input = ''sha256:'' @ lib_sha256 L (marshal projectID (input\<lparr>cin_IdempotencyKey := []\<rparr>))"

definition Project_Get :: "uuid \<Rightarrow> uuid \<Rightarrow> db \<Rightarrow> unit result" where
  "Project_Get tenantID projectID d =
    and_then (required (sql_row (\<lambda>(p, t, s). t = tenantID \<and> p = projectID) (db_projects d))) (\<lambda>_. Inr ())"

definition run_input :: "lib \<Rightarrow> request_json \<Rightarrow> Identity \<Rightarrow> uuid \<Rightarrow> CreateInput \<Rightarrow> NewAgentRunInput" where
  "run_input L marshal caller projectID input =
    \<lparr>in_TenantID = idn_TenantID caller, in_ProjectID = projectID, in_PromptReference = cin_PromptReference input,
     in_Runtime = cin_Runtime input, in_CPUMillis = cin_CPUMillis input, in_MemoryMiB = cin_MemoryMiB input,
     in_TimeoutSeconds = cin_TimeoutSeconds input, in_MaxAttempts = cin_MaxAttempts input,
     in_IdempotencyKey = cin_IdempotencyKey input, in_RequestHash = hashRequest L marshal projectID input,
     in_CreatedBy = idn_Subject caller\<rparr>"

definition accepted ::
  "lib \<Rightarrow> request_json \<Rightarrow> Identity \<Rightarrow> uuid \<Rightarrow> CreateInput \<Rightarrow> unit result \<times> db \<Rightarrow> AgentRun \<Rightarrow>
   (api_error + (AgentRun \<times> bool)) \<times> db" where
  "accepted L marshal caller projectID input created run =
    (case created of
       (Inr _, d') \<Rightarrow> (Inr (run, False), d')
     | (Inl err, d') \<Rightarrow>
         if \<not> errors_Is err ErrConflict then (Inl (ApiFailed err), d')
         else (case GetByIdempotencyKey (idn_TenantID caller) (cin_IdempotencyKey input) d' of
             Inl err \<Rightarrow> (Inl (ApiFailed err), d')
           | Inr existing \<Rightarrow>
               if run_RequestHash existing \<noteq> hashRequest L marshal projectID input then
                 (Inl ErrIdempotencyKeyReused, d')
               else (Inr (existing, True), d')))"

text \<open>\<open>ids\<close> are the identities of the run, of the attempt and of the event, \<open>now\<close> and \<open>now'\<close> two readings of the clock.\<close>

definition Service_Create ::
  "lib \<Rightarrow> request_json \<Rightarrow> uuid option \<times> uuid option \<times> uuid option \<Rightarrow> gtime \<times> gtime \<Rightarrow> Identity \<Rightarrow> uuid \<Rightarrow>
   CreateInput \<Rightarrow> db \<Rightarrow> (api_error + (AgentRun \<times> bool)) \<times> db" where
  "Service_Create L marshal ids instants caller projectID input d =
    (if \<not> CanManageRuns caller then (Inl ErrUnauthorized, d)
     else (case Project_Get (idn_TenantID caller) projectID d of Inl err \<Rightarrow> (Inl (ApiFailed err), d) | Inr _ \<Rightarrow>
     (case NewAgentRun (fst ids) (run_input L marshal caller projectID input) (fst instants) of
        Inl err \<Rightarrow> (Inl (ApiFailed err), d)
      | Inr run \<Rightarrow>
     (case NewAgentRunAttempt (fst (snd ids)) (idn_TenantID caller) (run_ID run) 1 (snd instants) of
        Inl err \<Rightarrow> (Inl (ApiFailed err), d)
      | Inr attempt \<Rightarrow>
          accepted L marshal caller projectID input (Repo_Create L (snd (snd ids)) run attempt d) run))))"

definition authorized :: "Identity \<Rightarrow> 'a result \<times> db \<Rightarrow> db \<Rightarrow> (api_error + 'a) \<times> db" where
  "authorized caller outcome d =
    (if \<not> CanManageRuns caller then (Inl ErrUnauthorized, d)
     else (map_sum ApiFailed id (fst outcome), snd outcome))"

definition Service_Get :: "Identity \<Rightarrow> uuid \<Rightarrow> db \<Rightarrow> (api_error + AgentRun) \<times> db" where
  "Service_Get caller runID d = authorized caller (Repo_Get (idn_TenantID caller) runID d, d) d"

definition Service_List :: "Identity \<Rightarrow> uuid \<Rightarrow> AgentRunPage \<Rightarrow> db \<Rightarrow> (api_error + AgentRun list) \<times> db" where
  "Service_List caller projectID page d =
    authorized caller (and_then (Project_Get (idn_TenantID caller) projectID d) (\<lambda>_.
      Repo_List (idn_TenantID caller) (page\<lparr>pg_ProjectID := Some projectID\<rparr>) d), d) d"

definition Service_Cancel ::
  "lib \<Rightarrow> uuid option \<Rightarrow> gtime \<Rightarrow> Identity \<Rightarrow> uuid \<Rightarrow> string \<Rightarrow> string \<Rightarrow> db \<Rightarrow> (api_error + RunCommandResult) \<times> db" where
  "Service_Cancel L newV7 now caller runID commandID reason d =
    authorized caller (Repo_Cancel L newV7 \<lparr>crq_TenantID = idn_TenantID caller, crq_RunID = runID,
      crq_CommandID = commandID, crq_Reason = reason, crq_Actor = idn_Subject caller, crq_Now = now\<rparr> d) d"

definition Service_Retry ::
  "lib \<Rightarrow> uuid option \<times> uuid option \<Rightarrow> gtime \<Rightarrow> Identity \<Rightarrow> uuid \<Rightarrow> string \<Rightarrow> db \<Rightarrow> (api_error + RunCommandResult) \<times> db" where
  "Service_Retry L ids now caller runID commandID d =
    authorized caller (Repo_Retry L (fst ids) (snd ids) \<lparr>rrq_TenantID = idn_TenantID caller, rrq_RunID = runID,
      rrq_CommandID = commandID, rrq_Actor = idn_Subject caller, rrq_Now = now\<rparr> d) d"

section \<open>What the statements change\<close>

lemma insert_run_ok:
  assumes "insert_run L r d = Inr d'"
  shows "d' = d\<lparr>db_runs := db_runs d @ [r]\<rparr>" "row_checks r" "\<And>x. x \<in> set (db_runs d) \<Longrightarrow> row_id x \<noteq> row_id r"
    "\<And>x. x \<in> set (db_runs d) \<Longrightarrow> run_TenantID (rr_Run x) = run_TenantID (rr_Run r) \<Longrightarrow>
      run_IdempotencyKey (rr_Run x) \<noteq> run_IdempotencyKey (rr_Run r)"
  using assms unfolding insert_run_def by (auto simp: tx_simps)

lemma insertAttempt_ok:
  assumes "insertAttempt L a d = Inr d'"
  shows "d' = d\<lparr>db_attempts := db_attempts d @ [attempt_row a]\<rparr>"
    "\<And>x. x \<in> set (db_attempts d) \<Longrightarrow> att_ID x \<noteq> att_ID a \<and> attempt_no x \<noteq> attempt_no a"
  using assms unfolding insertAttempt_def Let_def by (auto simp: tx_simps attempt_row_def attempt_no_def)

lemma attempt_row_sel [simp]:
  "att_ID (attempt_row a) = att_ID a" "att_TenantID (attempt_row a) = att_TenantID a"
  "att_RunID (attempt_row a) = att_RunID a" "att_AttemptNumber (attempt_row a) = att_AttemptNumber a"
  "att_Status (attempt_row a) = att_Status a" "attempt_no (attempt_row a) = attempt_no a"
  "attempt_inv (attempt_row a) = attempt_inv a"
  by (simp_all add: attempt_row_def attempt_no_def attempt_inv_def)

lemma attempts_inv_insert:
  assumes "attempts_inv d" "\<And>x. x \<in> set (db_attempts d) \<Longrightarrow> att_ID x \<noteq> att_ID a \<and> attempt_no x \<noteq> attempt_no a"
    "db_attempts d' = db_attempts d @ [a]"
  shows "attempts_inv d'"
proof -
  have "att_ID a \<notin> att_ID ` set (db_attempts d)" "attempt_no a \<notin> attempt_no ` set (db_attempts d)"
    using assms(2) by (metis imageE)+
  then show ?thesis using assms(1,3) by (simp add: attempts_inv_def)
qed

text \<open>A run that is put into the queue comes with its pending attempt.\<close>

lemma waiting_inv_enqueue:
  assumes "waiting_inv d" "db_attempts d' = db_attempts d @ [a]" "att_Status a = AttemptPending"
    "\<And>r. r \<in> set (db_runs d') \<Longrightarrow> r \<in> set (db_runs d) \<or> current_attempt r a \<or> \<not> queued_status (rr_Status r)"
  shows "waiting_inv d'"
  unfolding waiting_inv_def
proof (intro ballI impI)
  fix r assume r: "r \<in> set (db_runs d')" "queued_status (rr_Status r)"
  from assms(4) [OF r(1)] show "\<exists>a \<in> set (db_attempts d'). current_attempt r a \<and> att_Status a = AttemptPending"
  proof (elim disjE)
    assume "r \<in> set (db_runs d)"
    then show ?thesis using assms(1) r(2) unfolding waiting_inv_def assms(2) by auto
  next
    assume "current_attempt r a"
    then show ?thesis using assms(3) by (auto simp: assms(2))
  next
    assume "\<not> queued_status (rr_Status r)"
    with r(2) show ?thesis by contradiction
  qed
qed

lemma store_insert:
  assumes "store_inv d" "db_runs d' = db_runs d @ [r]" "db_attempts d' = db_attempts d @ [a]"
    "row_checks r" "\<And>x. x \<in> set (db_runs d) \<Longrightarrow> row_id x \<noteq> row_id r"
    "\<And>x. x \<in> set (db_attempts d) \<Longrightarrow> att_ID x \<noteq> att_ID a \<and> attempt_no x \<noteq> attempt_no a"
    "run_inv (rr_Run r)" "attempt_inv a" "current_attempt r a" "att_Status a = AttemptPending"
  shows "kept d d'"
proof -
  have inv: "runs_inv d" "attempts_inv d" "waiting_inv d" using assms(1) by (simp_all add: store_inv_def)
  have "row_id r \<notin> row_id ` set (db_runs d)" using assms(5) by (metis imageE)
  then have "runs_inv d'" using inv(1) assms(4) by (auto simp: runs_inv_def assms(2))
  moreover have "attempts_inv d'" using inv(2) assms(6,3) by (rule attempts_inv_insert)
  moreover have "waiting_inv d'"
    using assms(9) by (intro waiting_inv_enqueue [OF inv(3) assms(3,10)]) (auto simp: assms(2))
  moreover have "runs_evolve d d'" unfolding runs_evolve_def assms(2) by (simp add: evolves_insert assms(7))
  moreover have "attempts_evolve d d'" unfolding attempts_evolve_def assms(3) by (simp add: evolves_insert assms(8))
  ultimately show ?thesis by (simp add: kept_def store_inv_def)
qed

lemma store_requeue:
  assumes "store_inv d"
    and row: "\<And>r. r \<in> set (db_runs d) \<Longrightarrow> P r \<Longrightarrow> row_checks (f r) \<and> run_step (rr_Run r) (rr_Run (f r)) \<and> current_attempt (f r) a"
    and ids: "\<And>r. row_id (f r) = row_id r"
    and d': "db_runs d' = sql_update P f (db_runs d)" "db_attempts d' = db_attempts d @ [a]"
    and a: "\<And>x. x \<in> set (db_attempts d) \<Longrightarrow> att_ID x \<noteq> att_ID a \<and> attempt_no x \<noteq> attempt_no a"
      "attempt_inv a" "att_Status a = AttemptPending"
  shows "kept d d'"
proof -
  have inv: "runs_inv d" "attempts_inv d" "waiting_inv d" using assms(1) by (simp_all add: store_inv_def)
  have "runs_inv (d\<lparr>db_runs := sql_update P f (db_runs d)\<rparr>)"
    by (rule runs_inv_update) (use inv(1) row ids in auto)
  then have "runs_inv d'" by (simp add: runs_inv_def d')
  moreover have "attempts_inv d'" using inv(2) a(1) d'(2) by (rule attempts_inv_insert)
  moreover have "waiting_inv d'"
    by (rule waiting_inv_enqueue [OF inv(3) d'(2) a(3)]) (use row in \<open>auto simp: d'(1) sql_update_def\<close>)
  moreover have "runs_evolve d d'" unfolding runs_evolve_def d' using row by (intro evolves_update) blast
  moreover have "attempts_evolve d d'" unfolding attempts_evolve_def d'(2) by (simp add: evolves_insert a(2))
  ultimately show ?thesis by (simp add: kept_def store_inv_def)
qed

lemma current_attempt_row:
  "current_attempt r a \<longleftrightarrow> att_TenantID a = run_TenantID (rr_Run r) \<and> att_RunID a = row_id r \<and>
     att_AttemptNumber a = run_AttemptCount (rr_Run r)"
  by (simp add: current_attempt_def)

lemma NewAgentRunAttempt_ok:
  assumes "NewAgentRunAttempt newV7 tenantID runID number now = Inr a"
  shows "att_TenantID a = tenantID" "att_RunID a = runID" "att_AttemptNumber a = number" "att_Status a = AttemptPending"
    "attempt_inv a" "attempt_row a = a"
  using assms by (auto simp: NewAgentRunAttempt_def attempt_inv_def attempt_final_def attempt_row_def split: if_splits option.splits)

lemma NewAgentRun_fresh:
  assumes "NewAgentRun newV7 i now = Inr run"
  shows "run_inv run" "run_TenantID run = in_TenantID i" "run_ProjectID run = in_ProjectID i" "run_Status run = AgentRunQueued"
    "run_AttemptCount run = 1" "run_IdempotencyKey run = TrimSpace (in_IdempotencyKey i)" "run_Version run = 1"
    "run_CreatedAt run = now" "run_UpdatedAt run = now" "run_RequestHash run = TrimSpace (in_RequestHash i)"
  using assms
  by (auto simp: NewAgentRun_def Let_def trim_input_def run_inv_def failed_status_def split: if_splits option.splits)

lemma Repo_CreateE:
  assumes "Repo_Create_tx L newV7 run attempt d = Inr (u, d')"
  obtains event where "validateInitialAttempt run attempt = None" "NewAgentRunRequested L newV7 run attempt = Inr event"
    "d' = d\<lparr>db_runs := db_runs d @ [new_row run], db_attempts := db_attempts d @ [attempt_row attempt],
      db_outbox := db_outbox d @ [outbox_row event]\<rparr>"
    "row_checks (new_row run)" "\<And>x. x \<in> set (db_runs d) \<Longrightarrow> row_id x \<noteq> run_ID run"
    "\<And>x. x \<in> set (db_runs d) \<Longrightarrow> run_TenantID (rr_Run x) = run_TenantID run \<Longrightarrow> run_IdempotencyKey (rr_Run x) \<noteq> run_IdempotencyKey run"
    "\<And>x. x \<in> set (db_attempts d) \<Longrightarrow> att_ID x \<noteq> att_ID attempt \<and> attempt_no x \<noteq> attempt_no attempt"
proof -
  have v: "validateInitialAttempt run attempt = None"
    using assms by (auto simp: Repo_Create_tx_def split: option.splits)
  obtain event where e: "NewAgentRunRequested L newV7 run attempt = Inr event"
    using assms v by (auto simp: Repo_Create_tx_def tx_simps)
  obtain d1 where d1: "insert_run L (new_row run) d = Inr d1"
    using assms v e by (auto simp: Repo_Create_tx_def tx_simps)
  obtain d2 where d2: "insertAttempt L attempt d1 = Inr d2"
    using assms v e d1 by (auto simp: Repo_Create_tx_def tx_simps)
  have d3: "insertOutboxEvent L event d2 = Inr d'"
    using assms v e d1 d2 by (auto simp: Repo_Create_tx_def tx_simps)
  note o1 = insert_run_ok [OF d1] and o2 = insertAttempt_ok [OF d2] and o3 = insertOutboxEvent_ok(1) [OF d3]
  have key: "rr_Run (new_row run) = run" by (simp add: new_row_def)
  show thesis
    by (rule that [OF v e]) (use o1(2-4) o2(2) in \<open>auto simp: o1(1) o2(1) o3 key\<close>)
qed

lemma Repo_Create_kept:
  assumes "store_inv d" "run_inv run" "attempt_inv attempt"
  shows "kept d (snd (Repo_Create L newV7 run attempt d))"
  unfolding Repo_Create_def
proof (rule kept_commits [OF assms(1)])
  fix u d' assume "Repo_Create_tx L newV7 run attempt d = Inr (u, d')"
  then show "kept d d'"
  proof (cases rule: Repo_CreateE)
    case (1 event)
    have v: "att_TenantID attempt = run_TenantID run" "att_RunID attempt = run_ID run" "att_AttemptNumber attempt = run_AttemptCount run"
      "att_Status attempt = AttemptPending"
      using 1(1) by (auto simp: validateInitialAttempt_def split: if_splits)
    have key: "rr_Run (new_row run) = run" by (simp add: new_row_def)
    show ?thesis
      by (rule store_insert [OF assms(1), where r = "new_row run" and a = "attempt_row attempt"])
        (use 1(4,5,7) assms(2,3) v in \<open>simp_all add: 1(3) key current_attempt_row\<close>)
  qed
qed

lemma accepted_db: "snd (accepted L marshal caller projectID input created run) = snd created"
proof (cases created)
  case (Pair r d')
  then show ?thesis
    by (cases r; cases "GetByIdempotencyKey (idn_TenantID caller) (cin_IdempotencyKey input) d'")
      (simp_all add: accepted_def)
qed

lemma Service_Create_kept:
  assumes "store_inv d"
  shows "kept d (snd (Service_Create L marshal ids instants caller projectID input d))"
  using assms
  by (auto simp: Service_Create_def accepted_db kept_refl split: sum.splits
      intro!: Repo_Create_kept NewAgentRun_fresh(1) NewAgentRunAttempt_ok(5))

section \<open>What the commands change\<close>

lemma locked_command:
  assumes "store_inv d" "lockedCommandRun t i d = Inr (run, kind, commandID, response)"
  obtains r where "r \<in> set (db_runs d)" "run_key t i r" "run = rr_Run r" "kind = coalesce (rr_LastCommandType r)"
    "commandID = coalesce (rr_LastCommandID r)" "response = rr_LastCommandResponse r"
    "\<And>r'. r' \<in> set (db_runs d) \<Longrightarrow> run_key t i r' \<Longrightarrow> r' = r"
proof -
  obtain r where r: "sql_row (run_key t i) (db_runs d) = Some r" "run = rr_Run r" "kind = coalesce (rr_LastCommandType r)"
    "commandID = coalesce (rr_LastCommandID r)" "response = rr_LastCommandResponse r"
    using assms(2) by (auto simp: lockedCommandRun_def tx_simps)
  have m: "r \<in> set (db_runs d)" "run_key t i r" using sql_row_Some [OF r(1)] by simp_all
  have "runs_inv d" using assms(1) by (simp add: store_inv_def)
  then have "r' = r" if "r' \<in> set (db_runs d)" "run_key t i r'" for r'
    using m that by (intro runs_inv_id) simp_all
  then show thesis using that m r(2-5) by blast
qed

lemma lockedCommandRun_unique:
  assumes "store_inv d" "r \<in> set (db_runs d)" "run_key t i r"
  shows "lockedCommandRun t i d = Inr (rr_Run r, coalesce (rr_LastCommandType r), coalesce (rr_LastCommandID r), rr_LastCommandResponse r)"
proof -
  have "runs_inv d" using assms(1) by (simp add: store_inv_def)
  then have "sql_row (run_key t i) (db_runs d) = Some r"
    using assms(2,3) by (intro sql_row_unique) (auto dest: runs_inv_id)
  then show ?thesis by (simp add: lockedCommandRun_def)
qed

lemma Transition_cancelling:
  assumes "Transition AgentRunCancelling failure now r = (None, r')" "run_Status r \<noteq> AgentRunCancelling"
  shows "r' = r\<lparr>run_Status := AgentRunCancelling, run_UpdatedAt := now\<rparr>"
  using assms by (auto simp: Transition_def Let_def split: if_splits)

lemma Transition_requeue:
  assumes "Transition AgentRunQueued failure now r = (None, r')" "CanRetry r"
  shows "r' = r\<lparr>run_AttemptCount := i64 (run_AttemptCount r + 1), run_FailureCategory := FailureNone,
    run_CompletedAt := None, run_Status := AgentRunQueued, run_UpdatedAt := now\<rparr>"
  using assms by (auto simp: Transition_def CanRetry_def Let_def split: if_splits)

definition cancel_result :: "CancelRunRequest \<Rightarrow> AgentRun \<Rightarrow> AgentRun" where
  "cancel_result request run = (cancelling request run)\<lparr>run_Status := AgentRunCancelling,
     run_UpdatedAt := crq_Now request, run_Version := run_Version run + 1\<rparr>"

definition retry_result :: "RetryRunRequest \<Rightarrow> AgentRun \<Rightarrow> AgentRun" where
  "retry_result request run = run\<lparr>run_AttemptCount := i64 (run_AttemptCount run + 1),
     run_FailureCategory := FailureNone, run_CompletedAt := None, run_Status := AgentRunQueued,
     run_UpdatedAt := rrq_Now request, run_Version := run_Version run + 1\<rparr>"

lemma cancelled_row_run:
  "rr_Run (cancelled_row request (cancel_result request (rr_Run r)) r) = cancel_result request (rr_Run r)"
  by (cases "rr_Run r") (simp add: cancelled_row_def cancel_result_def cancelling_def)

lemma retried_row_run:
  "rr_Run (retried_row request (retry_result request (rr_Run r)) r) = retry_result request (rr_Run r)"
  by (cases "rr_Run r") (simp add: retried_row_def retry_result_def)

lemma result_keys [simp]:
  "run_TenantID (cancel_result request run) = run_TenantID run" "run_ID (cancel_result request run) = run_ID run"
  "run_TenantID (retry_result request' run) = run_TenantID run" "run_ID (retry_result request' run) = run_ID run"
  by (simp_all add: cancel_result_def cancelling_def retry_result_def)

lemma update_only:
  assumes "runs_inv d" "r \<in> set (db_runs d)" "run_TenantID run = run_TenantID (rr_Run r)" "run_ID run = row_id r"
  shows "sql_update (run_at run (rr_Version r)) f (db_runs d) = sql_update (\<lambda>x. x = r) f (db_runs d)"
proof (rule sql_update_cong)
  fix x assume x: "x \<in> set (db_runs d)"
  show "run_at run (rr_Version r) x = (x = r)"
  proof
    assume "run_at run (rr_Version r) x"
    then show "x = r" using assms(3,4) by (intro runs_inv_id [OF assms(1) x assms(2)]) simp
  next
    assume "x = r"
    then show "run_at run (rr_Version r) x" using assms(3,4) by simp
  qed
qed

lemma Repo_Cancel_txE:
  assumes inv: "store_inv d" and tx: "Repo_Cancel_tx L newV7 request d = Inr (res, d')"
  obtains (replay) "d' = d" "rcr_Replayed res"
  | (fresh) r event where "r \<in> set (db_runs d)" "run_key (crq_TenantID request) (crq_RunID request) r"
      "\<not> IsTerminal (rr_Status r)" "rr_Status r \<noteq> AgentRunCancelling"
      "res = \<lparr>rcr_Run = cancel_result request (rr_Run r), rcr_Replayed = False\<rparr>"
      "d' = d\<lparr>db_runs := sql_update (\<lambda>x. x = r) (cancelled_row request (rcr_Run res)) (db_runs d),
        db_outbox := db_outbox d @ [outbox_row event]\<rparr>"
      "row_checks (cancelled_row request (rcr_Run res) r)"
      "NewAgentRunCancelRequested L newV7 (rcr_Run res) (crq_CommandID request) = Inr event"
proof -
  have v: "validateCancelRequest request = None" using tx by (auto simp: Repo_Cancel_tx_def split: option.splits)
  obtain run kind commandID response where l: "lockedCommandRun (crq_TenantID request) (crq_RunID request) d = Inr (run, kind, commandID, response)"
    using tx v by (auto simp: Repo_Cancel_tx_def tx_simps)
  note tx1 = tx [unfolded Repo_Cancel_tx_def v option.case l and_then.simps prod.case]
  show thesis
  proof (cases "kind = ''CANCEL'' \<and> commandID = crq_CommandID request")
    case True
    then show thesis using tx1 replay by (auto simp: tx_simps)
  next
    case new: False
    note tx2 = tx1 [unfolded if_not_P [OF new]]
    show thesis
    proof (cases "run_Status run = AgentRunCancelling \<or> run_Status run = AgentRunCancelled")
      case True
      then show thesis using tx2 replay by auto
    next
      case active: False
      note tx3 = tx2 [unfolded if_not_P [OF active]]
      have alive: "\<not> IsTerminal (run_Status run)" using tx3 by (auto split: if_splits)
      note tx4 = tx3 [unfolded if_not_P [OF alive] cancel_run_def]
      obtain run1 where t: "Transition AgentRunCancelling FailureNone (crq_Now request) (cancelling request run) = (None, run1)"
        using tx4 by (cases "Transition AgentRunCancelling FailureNone (crq_Now request) (cancelling request run)")
          (auto split: option.splits)
      have st: "run_Status (cancelling request run) = run_Status run" "run_Version (cancelling request run) = run_Version run"
        by (simp_all add: cancelling_def)
      have run1: "run1\<lparr>run_Version := run_Version run1 + 1\<rparr> = cancel_result request run"
        using Transition_cancelling [OF t] active st by (simp add: cancel_result_def)
      note tx5 = tx4 [unfolded t prod.case option.case Let_def run1]
      obtain d1 where d1: "update_run (run_at (cancel_result request run) (run_Version run)) (cancelled_row request (cancel_result request run)) d = Inr d1"
        using tx5 by (auto simp: tx_simps)
      obtain event where e: "NewAgentRunCancelRequested L newV7 (cancel_result request run) (crq_CommandID request) = Inr event"
        using tx5 d1 by (auto simp: tx_simps)
      have o: "insertOutboxEvent L event d1 = Inr d'" "res = \<lparr>rcr_Run = cancel_result request run, rcr_Replayed = False\<rparr>"
        using tx5 d1 e by (auto simp: tx_simps)
      obtain r where r: "r \<in> set (db_runs d)" "run_key (crq_TenantID request) (crq_RunID request) r" "run = rr_Run r"
        using inv l by (rule locked_command) (rule that; assumption)
      have "runs_inv d" using inv by (simp add: store_inv_def)
      note u = update_only [OF this r(1), of "cancel_result request run", unfolded r(3) result_keys, OF refl refl]
      note d1' = update_run_ok [OF d1, unfolded r(3) u]
      show thesis
      proof (rule fresh [OF r(1,2)])
        show "d' = d\<lparr>db_runs := sql_update (\<lambda>x. x = r) (cancelled_row request (rcr_Run res)) (db_runs d),
            db_outbox := db_outbox d @ [outbox_row event]\<rparr>"
          using insertOutboxEvent_ok(1) [OF o(1)] by (simp add: d1'(1) o(2) r(3) u [simplified])
        show "row_checks (cancelled_row request (rcr_Run res) r)" using d1'(2) [OF r(1)] by (simp add: o(2) r(3))
      qed (use alive active e o(2) in \<open>simp_all add: r(3)\<close>)
    qed
  qed
qed

lemma Repo_Cancel_kept:
  assumes "store_inv d"
  shows "kept d (snd (Repo_Cancel L newV7 request d))"
  unfolding Repo_Cancel_def
proof (rule kept_commits [OF assms])
  fix res d' assume "Repo_Cancel_tx L newV7 request d = Inr (res, d')"
  with assms show "kept d d'"
  proof (cases rule: Repo_Cancel_txE)
    case replay
    then show ?thesis using assms by (simp add: kept_refl)
  next
    case (fresh r event)
    have "Transition AgentRunCancelling FailureNone (crq_Now request) (cancelling request (rr_Run r)) =
        (None, (cancelling request (rr_Run r))\<lparr>run_Status := AgentRunCancelling, run_UpdatedAt := crq_Now request\<rparr>)"
      using fresh(3,4) by (auto simp: Transition_def CanTransition_def Let_def cancelling_def)
    from run_step.cancel [OF this [unfolded cancelling_def]]
    have step: "run_step (rr_Run r) (cancel_result request (rr_Run r))"
      by (simp add: cancel_result_def cancelling_def)
    have "kept d (d\<lparr>db_runs := sql_update (\<lambda>x. x = r) (cancelled_row request (rcr_Run res)) (db_runs d)\<rparr>)"
    proof (rule store_update [OF assms])
      show "row_id (cancelled_row request (rcr_Run res) x) = row_id x" for x by (simp add: cancelled_row_def)
      have "rr_Run (cancelled_row request (rcr_Run res) r) = cancel_result request (rr_Run r)"
        by (simp add: fresh(5) cancelled_row_run)
      then show "row_checks (cancelled_row request (rcr_Run res) x) \<and> run_step (rr_Run x) (rr_Run (cancelled_row request (rcr_Run res) x)) \<and>
          run_AttemptCount (rr_Run (cancelled_row request (rcr_Run res) x)) = run_AttemptCount (rr_Run x) \<and>
          (queued_status (rr_Status (cancelled_row request (rcr_Run res) x)) \<longrightarrow> queued_status (rr_Status x))"
        if "x \<in> set (db_runs d)" "x = r" for x
        using that step fresh(7) by (simp add: cancel_result_def cancelling_def)
    qed
    then show ?thesis
      by (simp add: fresh(6) kept_def store_inv_def runs_inv_def attempts_inv_def waiting_inv_def runs_evolve_def attempts_evolve_def)
  qed
qed

lemma Repo_Retry_txE:
  assumes inv: "store_inv d" and tx: "Repo_Retry_tx L attemptV7 newV7 request d = Inr (res, d')"
  obtains (replay) "d' = d" "rcr_Replayed res"
  | (fresh) r attempt event where "r \<in> set (db_runs d)" "run_key (rrq_TenantID request) (rrq_RunID request) r"
      "CanRetry (rr_Run r)" "res = \<lparr>rcr_Run = retry_result request (rr_Run r), rcr_Replayed = False\<rparr>"
      "d' = d\<lparr>db_runs := sql_update (\<lambda>x. x = r) (retried_row request (rcr_Run res)) (db_runs d),
        db_attempts := db_attempts d @ [attempt], db_outbox := db_outbox d @ [outbox_row event]\<rparr>"
      "row_checks (retried_row request (rcr_Run res) r)"
      "NewAgentRunAttempt attemptV7 (run_TenantID (rr_Run r)) (row_id r) (run_AttemptCount (rcr_Run res)) (rrq_Now request) = Inr attempt"
      "\<And>x. x \<in> set (db_attempts d) \<Longrightarrow> att_ID x \<noteq> att_ID attempt \<and> attempt_no x \<noteq> attempt_no attempt"
      "NewAgentRunRetryRequested L newV7 (rcr_Run res) (rr_Status r) (run_FailureCategory (rr_Run r))
        (rrq_Actor request) (rrq_CommandID request) = Inr event"
      "CanTransition (rr_Run r) AgentRunQueued"
proof -
  have v: "validateRetryRequest request = None" using tx by (auto simp: Repo_Retry_tx_def split: option.splits)
  obtain run kind commandID response where l: "lockedCommandRun (rrq_TenantID request) (rrq_RunID request) d = Inr (run, kind, commandID, response)"
    using tx v by (auto simp: Repo_Retry_tx_def tx_simps)
  note tx1 = tx [unfolded Repo_Retry_tx_def v option.case l and_then.simps prod.case]
  show thesis
  proof (cases "kind = ''RETRY'' \<and> commandID = rrq_CommandID request")
    case True
    then show thesis using tx1 replay by (auto simp: tx_simps)
  next
    case new: False
    note tx2 = tx1 [unfolded if_not_P [OF new]]
    have can: "CanRetry run" using tx2 by (auto split: if_splits)
    note tx3 = tx2 [unfolded if_not_P [OF iffD2 [OF not_not can]] retry_run_def]
    obtain run1 where t: "Transition AgentRunQueued FailureNone (rrq_Now request) run = (None, run1)"
      using tx3 by (cases "Transition AgentRunQueued FailureNone (rrq_Now request) run") (auto split: option.splits)
    have move: "CanTransition run AgentRunQueued" using t by (auto simp: Transition_def split: if_splits)
    have run1: "run1\<lparr>run_Version := run_Version run1 + 1\<rparr> = retry_result request run"
      using Transition_requeue [OF t can] by (simp add: retry_result_def)
    note tx4 = tx3 [unfolded t prod.case option.case Let_def run1 result_keys]
    obtain attempt where a: "NewAgentRunAttempt attemptV7 (run_TenantID run) (run_ID run) (run_AttemptCount (retry_result request run)) (rrq_Now request) = Inr attempt"
      using tx4 by (auto simp: tx_simps)
    obtain d1 where d1: "update_run (run_at run (run_Version run)) (retried_row request (retry_result request run)) d = Inr d1"
      using tx4 a by (auto simp: tx_simps)
    obtain d2 where d2: "insertAttempt L attempt d1 = Inr d2"
      using tx4 a d1 by (auto simp: tx_simps)
    obtain event where e: "NewAgentRunRetryRequested L newV7 (retry_result request run) (run_Status run) (run_FailureCategory run)
        (rrq_Actor request) (rrq_CommandID request) = Inr event"
      using tx4 a d1 d2 by (auto simp: tx_simps)
    have o: "insertOutboxEvent L event d2 = Inr d'" "res = \<lparr>rcr_Run = retry_result request run, rcr_Replayed = False\<rparr>"
      using tx4 a d1 d2 e by (auto simp: tx_simps)
    obtain r where r: "r \<in> set (db_runs d)" "run_key (rrq_TenantID request) (rrq_RunID request) r" "run = rr_Run r"
      using inv l by (rule locked_command) (rule that; assumption)
    have "runs_inv d" using inv by (simp add: store_inv_def)
    note u = update_only [OF this r(1), of run, unfolded r(3), OF refl refl]
    note d1' = update_run_ok [OF d1, unfolded r(3)] and d2' = insertAttempt_ok [OF d2]
    show thesis
    proof (rule fresh [OF r(1,2)])
      show "d' = d\<lparr>db_runs := sql_update (\<lambda>x. x = r) (retried_row request (rcr_Run res)) (db_runs d),
          db_attempts := db_attempts d @ [attempt], db_outbox := db_outbox d @ [outbox_row event]\<rparr>"
        using insertOutboxEvent_ok(1) [OF o(1)]
        by (simp add: d2'(1) d1'(1) o(2) r(3) u [simplified] NewAgentRunAttempt_ok(6) [OF a])
      show "row_checks (retried_row request (rcr_Run res) r)" using d1'(2) [OF r(1)] by (simp add: o(2) r(3))
      show "att_ID x \<noteq> att_ID attempt \<and> attempt_no x \<noteq> attempt_no attempt" if "x \<in> set (db_attempts d)" for x
        using d2'(2) that by (simp add: d1'(1))
    qed (use can move a e o(2) in \<open>simp_all add: r(3)\<close>)
  qed
qed

lemma Repo_Retry_kept:
  assumes "store_inv d"
  shows "kept d (snd (Repo_Retry L attemptV7 newV7 request d))"
  unfolding Repo_Retry_def
proof (rule kept_commits [OF assms])
  fix res d' assume "Repo_Retry_tx L attemptV7 newV7 request d = Inr (res, d')"
  with assms show "kept d d'"
  proof (cases rule: Repo_Retry_txE)
    case replay
    then show ?thesis using assms by (simp add: kept_refl)
  next
    case (fresh r attempt event)
    have "Transition AgentRunQueued FailureNone (rrq_Now request) (rr_Run r) = (None, (rr_Run r)\<lparr>run_AttemptCount := i64 (run_AttemptCount (rr_Run r) + 1),
        run_FailureCategory := FailureNone, run_CompletedAt := None, run_Status := AgentRunQueued, run_UpdatedAt := rrq_Now request\<rparr>)"
      using fresh(3,10) by (auto simp: Transition_def CanRetry_def Let_def)
    from run_step.move [OF this]
    have step: "run_step (rr_Run r) (retry_result request (rr_Run r))" by (simp add: retry_result_def)
    note a = NewAgentRunAttempt_ok [OF fresh(7)]
    have run: "rr_Run (retried_row request (rcr_Run res) r) = retry_result request (rr_Run r)"
      by (simp add: fresh(4) retried_row_run)
    show ?thesis
    proof (rule store_requeue [OF assms])
      show "db_runs d' = sql_update (\<lambda>x. x = r) (retried_row request (rcr_Run res)) (db_runs d)"
        "db_attempts d' = db_attempts d @ [attempt]" by (simp_all add: fresh(5))
      show "row_checks (retried_row request (rcr_Run res) x) \<and> run_step (rr_Run x) (rr_Run (retried_row request (rcr_Run res) x)) \<and>
          current_attempt (retried_row request (rcr_Run res) x) attempt" if "x \<in> set (db_runs d)" "x = r" for x
        using that step fresh(6) a(1-3) run by (simp add: current_attempt_row fresh(4))
      show "row_id (retried_row request (rcr_Run res) x) = row_id x" for x by (simp add: retried_row_def)
    qed (use fresh(8) a(4,5) in auto)
  qed
qed

section \<open>The operations of the API\<close>

text \<open>Queries carry the instant of the call as well, which they do not read.\<close>

datatype api_op =
    OpCreate "uuid option \<times> uuid option \<times> uuid option" "gtime \<times> gtime" Identity uuid CreateInput
  | OpGet gtime Identity uuid
  | OpList gtime Identity uuid AgentRunPage
  | OpCancel "uuid option" gtime Identity uuid string string
  | OpRetry "uuid option \<times> uuid option" gtime Identity uuid string

fun api_exec :: "lib \<Rightarrow> request_json \<Rightarrow> api_op \<Rightarrow> db \<Rightarrow> db" where
  "api_exec L marshal (OpCreate ids instants caller projectID input) d =
     snd (Service_Create L marshal ids instants caller projectID input d)"
| "api_exec L marshal (OpGet now caller runID) d = snd (Service_Get caller runID d)"
| "api_exec L marshal (OpList now caller projectID page) d = snd (Service_List caller projectID page d)"
| "api_exec L marshal (OpCancel newV7 now caller runID commandID reason) d =
     snd (Service_Cancel L newV7 now caller runID commandID reason d)"
| "api_exec L marshal (OpRetry ids now caller runID commandID) d = snd (Service_Retry L ids now caller runID commandID d)"

lemma authorized_db: "snd (authorized caller outcome d) = (if CanManageRuns caller then snd outcome else d)"
  by (simp add: authorized_def)

lemma api_kept:
  assumes "store_inv d"
  shows "kept d (api_exec L marshal oper d)"
  using assms
  by (cases oper)
    (auto simp: Service_Create_kept Service_Get_def Service_List_def Service_Cancel_def Service_Retry_def authorized_db
      intro: kept_refl Repo_Cancel_kept Repo_Retry_kept)

interpretation api_runs: run_machine "api_exec L marshal" for L marshal
  by unfold_locales (rule api_kept)

section \<open>Pages\<close>

interpretation run_pages: go_less newer
  by unfold_locales (auto simp: newer_def)

lemma newer_total: "row_id x \<noteq> row_id y \<Longrightarrow> \<not> newer y x \<Longrightarrow> newer x y"
  by (auto simp: newer_def)

lemma sorted_newer:
  "sorted_wrt (\<lambda>a b. \<not> newer b a) rows \<Longrightarrow> distinct (map row_id rows) \<Longrightarrow> sorted_wrt newer rows"
proof (induction rows)
  case (Cons x xs)
  then have "newer x y" if "y \<in> set xs" for y using that by (intro newer_total) auto
  with Cons show ?case by simp
qed simp

lemma newer_strict:
  assumes "distinct (map row_id rows)"
  shows "sorted_wrt newer (sort_by newer rows)"
proof (rule sorted_newer [OF run_pages.sorted_sort_by])
  have "mset (map row_id (sort_by newer rows)) = mset (map row_id rows)" by simp
  then show "distinct (map row_id (sort_by newer rows))" using assms mset_eq_imp_distinct_iff by blast
qed

lemma newer_unique:
  "sorted_wrt newer xs \<Longrightarrow> sorted_wrt newer ys \<Longrightarrow> set xs = set ys \<Longrightarrow> xs = ys"
proof (induction xs arbitrary: ys)
  case (Cons x xs)
  then obtain y zs where ys: "ys = y # zs" by (cases ys) auto
  have "x = y"
  proof (rule ccontr)
    assume "x \<noteq> y"
    then have "newer y x" "newer x y" using Cons.prems unfolding ys by auto
    then show False using run_pages.lt_asym by blast
  qed
  moreover have "x \<notin> set xs" "y \<notin> set zs" using Cons.prems run_pages.lt_irrefl unfolding ys by auto
  ultimately have "set xs = set zs" using Cons.prems(3) unfolding ys by auto
  with Cons \<open>x = y\<close> show ?case unfolding ys by simp
qed simp

lemma filter_behind:
  assumes "sorted_wrt newer rows" "k < length rows"
  shows "filter (\<lambda>r. newer (rows ! k) r) rows = drop (Suc k) rows"
  using assms
proof (induction rows arbitrary: k)
  case (Cons x xs)
  show ?case
  proof (cases k)
    case 0
    then show ?thesis using Cons.prems(1) run_pages.lt_irrefl by simp
  next
    case (Suc j)
    then have "newer x (xs ! j)" using Cons.prems by simp
    then have "\<not> newer (xs ! j) x" by (rule run_pages.lt_asym)
    then show ?thesis using Cons Suc by simp
  qed
qed simp

lemma sort_by_filter:
  assumes "distinct (map row_id rows)"
  shows "sort_by newer (filter P rows) = filter P (sort_by newer rows)"
  by (rule newer_unique) (use assms distinct_map_filter in \<open>auto intro!: newer_strict sorted_wrt_filter\<close>)

text \<open>The runs of a tenant, or of one of its projects, latest first.\<close>

definition of_project :: "uuid \<Rightarrow> uuid option \<Rightarrow> RunRow \<Rightarrow> bool" where
  "of_project tenantID project r \<longleftrightarrow> run_TenantID (rr_Run r) = tenantID \<and>
     (case project of None \<Rightarrow> True | Some p \<Rightarrow> run_ProjectID (rr_Run r) = p)"

definition runs_of :: "uuid \<Rightarrow> uuid option \<Rightarrow> db \<Rightarrow> RunRow list" where
  "runs_of tenantID project d = sort_by newer (filter (of_project tenantID project) (db_runs d))"

lemma List_runs:
  assumes "1 \<le> limit" "limit \<le> 100" "(after = None) = (afterID = None)"
  shows "Repo_List tenantID \<lparr>pg_ProjectID = project, pg_AfterCreatedAt = after, pg_AfterID = afterID, pg_Limit = limit\<rparr> d =
    Inr (map rr_Run (take (nat limit) (sort_by newer (filter (behind after afterID) (filter (of_project tenantID project) (db_runs d))))))"
proof -
  have "filter (\<lambda>r. run_TenantID (rr_Run r) = tenantID \<and>
      (case project of None \<Rightarrow> True | Some p \<Rightarrow> run_ProjectID (rr_Run r) = p) \<and> behind after afterID r) (db_runs d) =
      filter (behind after afterID) (filter (of_project tenantID project) (db_runs d))"
    by (auto simp: of_project_def intro!: filter_cong)
  then show ?thesis using assms by (simp add: Repo_List_def Let_def)
qed

text \<open>C38: The pages of a run list are complete: the runs of a tenant, or of one of its projects, have one
  strict order, latest first; the first page is its beginning, and the page behind the cursor of any run is what follows
  that run, up to the limit.  So following the cursor of the last run of each page lists every run
  exactly once.\<close>

theorem List_pages:
  assumes "store_inv d" "1 \<le> limit" "limit \<le> 100"
  shows "sorted_wrt newer (runs_of tenantID project d) \<and>
    set (runs_of tenantID project d) = {r \<in> set (db_runs d). of_project tenantID project r} \<and>
    Repo_List tenantID \<lparr>pg_ProjectID = project, pg_AfterCreatedAt = None, pg_AfterID = None, pg_Limit = limit\<rparr> d =
      Inr (map rr_Run (take (nat limit) (runs_of tenantID project d))) \<and>
    (\<forall>k < length (runs_of tenantID project d). Repo_List tenantID \<lparr>pg_ProjectID = project,
        pg_AfterCreatedAt = Some (run_CreatedAt (rr_Run (runs_of tenantID project d ! k))),
        pg_AfterID = Some (row_id (runs_of tenantID project d ! k)), pg_Limit = limit\<rparr> d =
      Inr (map rr_Run (take (nat limit) (drop (Suc k) (runs_of tenantID project d)))))"
proof -
  let ?all = "runs_of tenantID project d"
  have "distinct (map row_id (db_runs d))" using assms(1) by (simp add: store_inv_def runs_inv_def)
  then have ids: "distinct (map row_id (filter (of_project tenantID project) (db_runs d)))" by (rule distinct_map_filter)
  then have s: "sorted_wrt newer ?all" unfolding runs_of_def by (rule newer_strict)
  have first: "behind None None = (\<lambda>r. True)" by (simp add: behind_def fun_eq_iff)
  have later: "behind (Some (run_CreatedAt (rr_Run x))) (Some (row_id x)) = newer x" for x
    by (simp add: behind_def newer_def fun_eq_iff)
  have "sort_by newer (filter (newer (?all ! k)) (filter (of_project tenantID project) (db_runs d))) = drop (Suc k) ?all"
    if "k < length ?all" for k
    using sort_by_filter [OF ids] filter_behind [OF s that] by (simp add: runs_of_def)
  then show ?thesis
    using s by (simp add: List_runs [OF assms(2,3)] first later flip: runs_of_def) (auto simp: runs_of_def)
qed

theorem List_pages_witness:
  "Repo_List 1 \<lparr>pg_ProjectID = None, pg_AfterCreatedAt = None, pg_AfterID = None, pg_Limit = 1\<rparr> ex_db =
     Inr [ex_run\<lparr>run_ID := 9, run_IdempotencyKey := ''key-2''\<rparr>] \<and>
   Repo_List 1 \<lparr>pg_ProjectID = None, pg_AfterCreatedAt = Some 5, pg_AfterID = Some 9, pg_Limit = 1\<rparr> ex_db = Inr [ex_run]"
proof -
  have all: "runs_of 1 None ex_db = [ex_row\<lparr>rr_Run := ex_run\<lparr>run_ID := 9, run_IdempotencyKey := ''key-2''\<rparr>\<rparr>, ex_row]"
    by (simp add: runs_of_def of_project_def ex_db_def ex_row_def ex_run_def newer_def)
  let ?r = "ex_row\<lparr>rr_Run := ex_run\<lparr>run_ID := 9, run_IdempotencyKey := ''key-2''\<rparr>\<rparr>"
  have r: "run_CreatedAt (rr_Run ?r) = 5" "row_id ?r = 9" "rr_Run ?r = ex_run\<lparr>run_ID := 9, run_IdempotencyKey := ''key-2''\<rparr>"
    "rr_Run ex_row = ex_run" "run_CreatedAt ex_run = 5"
    by (simp_all add: ex_row_def ex_run_def)
  have one: "(1 :: int) \<le> 1" "(1 :: int) \<le> 100" by simp_all
  note pages = List_pages [OF ex_store_inv one, of 1 None, unfolded all, THEN conjunct2, THEN conjunct2]
  note p0 = pages [THEN conjunct1] and p1 = pages [THEN conjunct2, rule_format, of 0, unfolded nth_Cons_0 r]
  show ?thesis using p0 p1 by (simp add: r)
qed

section \<open>Tenants\<close>

definition op_tenant :: "api_op \<Rightarrow> uuid" where
  "op_tenant oper = idn_TenantID (case oper of
       OpCreate ids instants caller projectID input \<Rightarrow> caller
     | OpGet now caller runID \<Rightarrow> caller
     | OpList now caller projectID page \<Rightarrow> caller
     | OpCancel newV7 now caller runID commandID reason \<Rightarrow> caller
     | OpRetry ids now caller runID commandID \<Rightarrow> caller)"

definition untouched :: "uuid \<Rightarrow> db \<Rightarrow> db \<Rightarrow> bool" where
  "untouched t d d' \<longleftrightarrow>
     filter (\<lambda>r. run_TenantID (rr_Run r) \<noteq> t) (db_runs d') = filter (\<lambda>r. run_TenantID (rr_Run r) \<noteq> t) (db_runs d) \<and>
     filter (\<lambda>a. att_TenantID a \<noteq> t) (db_attempts d') = filter (\<lambda>a. att_TenantID a \<noteq> t) (db_attempts d) \<and>
     filter (\<lambda>e. ob_TenantID e \<noteq> t) (db_outbox d') = filter (\<lambda>e. ob_TenantID e \<noteq> t) (db_outbox d) \<and>
     d' = d\<lparr>db_runs := db_runs d', db_attempts := db_attempts d', db_outbox := db_outbox d'\<rparr>"

lemma untouched_refl: "untouched t d d"
  by (simp add: untouched_def)

lemma filter_update_other:
  "\<not> P (k r) \<Longrightarrow> \<not> P (k (f r)) \<Longrightarrow> filter (\<lambda>x. P (k x)) (sql_update (\<lambda>x. x = r) f xs) = filter (\<lambda>x. P (k x)) xs"
  by (induction xs) (auto simp: sql_update_def)

lemma untouched_Create:
  assumes "Repo_Create L newV7 run attempt d = (x, d')"
  shows "untouched (run_TenantID run) d d'"
proof (cases "Repo_Create_tx L newV7 run attempt d")
  case (Inl e)
  then show ?thesis using assms by (simp add: Repo_Create_def commits_def untouched_refl)
next
  case (Inr p)
  then obtain u where tx: "Repo_Create_tx L newV7 run attempt d = Inr (u, d')"
    using assms by (cases p) (simp add: Repo_Create_def commits_def)
  then show ?thesis
  proof (cases rule: Repo_CreateE)
    case (1 event)
    have "att_TenantID attempt = run_TenantID run"
      using 1(1) by (auto simp: validateInitialAttempt_def split: if_splits)
    moreover have "env_TenantID (oe_Envelope event) = run_TenantID run"
      using newEvent_names(1) [OF 1(2) [unfolded NewAgentRunRequested_def]] .
    ultimately show ?thesis by (simp add: untouched_def 1(3) new_row_def)
  qed
qed

lemma untouched_Cancel:
  assumes "store_inv d" "Repo_Cancel L newV7 request d = (x, d')"
  shows "untouched (crq_TenantID request) d d'"
proof (cases "Repo_Cancel_tx L newV7 request d")
  case (Inl e)
  then show ?thesis using assms(2) by (simp add: Repo_Cancel_def commits_def untouched_refl)
next
  case (Inr p)
  then obtain res where tx: "Repo_Cancel_tx L newV7 request d = Inr (res, d')"
    using assms(2) by (cases p) (simp add: Repo_Cancel_def commits_def)
  from assms(1) tx show ?thesis
  proof (cases rule: Repo_Cancel_txE)
    case (fresh r event)
    have "env_TenantID (oe_Envelope event) = crq_TenantID request"
      using newEvent_names(1) [OF fresh(8) [unfolded NewAgentRunCancelRequested_def]] fresh(2) by (simp add: fresh(5))
    moreover have "filter (\<lambda>x. run_TenantID (rr_Run x) \<noteq> crq_TenantID request)
        (sql_update (\<lambda>x. x = r) (cancelled_row request (rcr_Run res)) (db_runs d)) =
        filter (\<lambda>x. run_TenantID (rr_Run x) \<noteq> crq_TenantID request) (db_runs d)"
      using fresh(2) by (intro filter_update_other [where k = "\<lambda>x. run_TenantID (rr_Run x)"]) (simp_all add: cancelled_row_def)
    ultimately show ?thesis by (simp add: untouched_def fresh(6))
  qed (simp add: untouched_refl)
qed

lemma untouched_Retry:
  assumes "store_inv d" "Repo_Retry L attemptV7 newV7 request d = (x, d')"
  shows "untouched (rrq_TenantID request) d d'"
proof (cases "Repo_Retry_tx L attemptV7 newV7 request d")
  case (Inl e)
  then show ?thesis using assms(2) by (simp add: Repo_Retry_def commits_def untouched_refl)
next
  case (Inr p)
  then obtain res where tx: "Repo_Retry_tx L attemptV7 newV7 request d = Inr (res, d')"
    using assms(2) by (cases p) (simp add: Repo_Retry_def commits_def)
  from assms(1) tx show ?thesis
  proof (cases rule: Repo_Retry_txE)
    case (fresh r attempt event)
    have "env_TenantID (oe_Envelope event) = rrq_TenantID request"
      using newEvent_names(1) [OF fresh(9) [unfolded NewAgentRunRetryRequested_def]] fresh(2) by (simp add: fresh(4))
    moreover have "att_TenantID attempt = rrq_TenantID request" using NewAgentRunAttempt_ok(1) [OF fresh(7)] fresh(2) by simp
    moreover have "filter (\<lambda>x. run_TenantID (rr_Run x) \<noteq> rrq_TenantID request)
        (sql_update (\<lambda>x. x = r) (retried_row request (rcr_Run res)) (db_runs d)) =
        filter (\<lambda>x. run_TenantID (rr_Run x) \<noteq> rrq_TenantID request) (db_runs d)"
      using fresh(2) by (intro filter_update_other [where k = "\<lambda>x. run_TenantID (rr_Run x)"]) (simp_all add: retried_row_def)
    ultimately show ?thesis by (simp add: untouched_def fresh(5))
  qed (simp add: untouched_refl)
qed

lemma untouched_Service_Create:
  "untouched (idn_TenantID caller) d (snd (Service_Create L marshal ids instants caller projectID input d))"
proof -
  have "untouched (idn_TenantID caller) d (snd (Repo_Create L newV7 run attempt d))"
    if "NewAgentRun v (run_input L marshal caller projectID input) now = Inr run" for newV7 run attempt v now
    using untouched_Create [of L newV7 run attempt d] NewAgentRun_fresh(2) [OF that]
    by (cases "Repo_Create L newV7 run attempt d") (simp add: run_input_def)
  then show ?thesis
    by (auto simp: Service_Create_def accepted_db untouched_refl split: sum.splits)
qed

lemma untouched_Service_Cancel:
  assumes "store_inv d"
  shows "untouched (idn_TenantID caller) d (snd (Service_Cancel L newV7 now caller runID commandID reason d))"
  using untouched_Cancel [OF assms surjective_pairing, where request = "\<lparr>crq_TenantID = idn_TenantID caller, crq_RunID = runID,
      crq_CommandID = commandID, crq_Reason = reason, crq_Actor = idn_Subject caller, crq_Now = now\<rparr>"]
  by (simp add: Service_Cancel_def authorized_db untouched_refl)

lemma untouched_Service_Retry:
  assumes "store_inv d"
  shows "untouched (idn_TenantID caller) d (snd (Service_Retry L ids now caller runID commandID d))"
  using untouched_Retry [OF assms surjective_pairing, where request = "\<lparr>rrq_TenantID = idn_TenantID caller, rrq_RunID = runID,
      rrq_CommandID = commandID, rrq_Actor = idn_Subject caller, rrq_Now = now\<rparr>"]
  by (simp add: Service_Retry_def authorized_db untouched_refl)

text \<open>What a tenant sees of the tables that hold its data.\<close>

definition view :: "uuid \<Rightarrow> db \<Rightarrow> db" where
  "view t d = d\<lparr>db_projects := filter (\<lambda>(p, t', s). t' = t) (db_projects d),
     db_runs := filter (\<lambda>r. run_TenantID (rr_Run r) = t) (db_runs d),
     db_attempts := filter (\<lambda>a. att_TenantID a = t) (db_attempts d)\<rparr>"

lemma sql_row_filter: "(\<And>x. P x \<Longrightarrow> Q x) \<Longrightarrow> sql_row P (filter Q xs) = sql_row P xs"
  by (metis (mono_tags, lifting) filter_cong filter_filter sql_row_def)

lemma Project_Get_view: "Project_Get t projectID (view t d) = Project_Get t projectID d"
proof -
  have "sql_row (\<lambda>(p, t', s). t' = t \<and> p = projectID) (filter (\<lambda>(p, t', s). t' = t) (db_projects d)) =
      sql_row (\<lambda>(p, t', s). t' = t \<and> p = projectID) (db_projects d)"
    by (rule sql_row_filter) auto
  then show ?thesis by (simp add: Project_Get_def view_def)
qed

lemma Repo_List_view: "Repo_List t page (view t d) = Repo_List t page d"
proof -
  have "filter (\<lambda>r. run_TenantID (rr_Run r) = t \<and> Q r) (filter (\<lambda>r. run_TenantID (rr_Run r) = t) (db_runs d)) =
      filter (\<lambda>r. run_TenantID (rr_Run r) = t \<and> Q r) (db_runs d)" for Q
    by (auto intro!: filter_cong)
  then show ?thesis unfolding Repo_List_def view_def by (cases "pg_AfterID page") simp_all
qed

lemma Repo_Get_view: "Repo_Get t runID (view t d) = Repo_Get t runID d"
proof -
  have "sql_row (run_key t runID) (filter (\<lambda>r. run_TenantID (rr_Run r) = t) (db_runs d)) = sql_row (run_key t runID) (db_runs d)"
    by (rule sql_row_filter) simp
  then show ?thesis by (simp add: Repo_Get_def view_def)
qed

text \<open>C39: Tenants are isolated.  An API call, whatever it is and whatever identifiers it carries, leaves every run, attempt
  and event of every other tenant and all the remaining tables as they were; and what a caller reads is
  determined by the rows of the caller's own tenant.\<close>

theorem api_tenant_isolation:
  assumes "store_inv d"
  shows "untouched (op_tenant oper) d (api_exec L marshal oper d) \<and>
    fst (Service_Get caller runID d) = fst (Service_Get caller runID (view (idn_TenantID caller) d)) \<and>
    fst (Service_List caller projectID page d) = fst (Service_List caller projectID page (view (idn_TenantID caller) d))"
proof -
  have "untouched (op_tenant oper) d (api_exec L marshal oper d)"
    by (cases oper) (simp_all add: op_tenant_def untouched_Service_Create untouched_Service_Cancel [OF assms]
      untouched_Service_Retry [OF assms] Service_Get_def Service_List_def authorized_db untouched_refl)
  then show ?thesis
    by (simp add: Service_Get_def Service_List_def authorized_def Repo_Get_view Repo_List_view Project_Get_view)
qed

definition ex_caller :: Identity where
  "ex_caller = \<lparr>idn_TenantID = 1, idn_Subject = ''dev'', idn_Role = ''developer''\<rparr>"

definition ex_guest :: Identity where
  "ex_guest = \<lparr>idn_TenantID = 5, idn_Subject = ''eve'', idn_Role = ''developer''\<rparr>"

lemma ex_guest_cancel:
  "fst (Service_Cancel ex_lib (Some 32) 200 ex_guest 7 ''cmd-1'' ''stop'' ex_db) = Inl (ApiFailed (Sentinel ErrNotFound))"
  by code_simp

theorem api_tenant_isolation_witness:
  "untouched 5 ex_db (api_exec ex_lib (\<lambda>_ _. []) (OpCancel (Some 32) 200 ex_guest 7 ''cmd-1'' ''stop'') ex_db) \<and>
   fst (Service_Get ex_guest 7 ex_db) = fst (Service_Get ex_guest 7 (view 5 ex_db))"
  using api_tenant_isolation [OF ex_store_inv, of "OpCancel (Some 32) 200 ex_guest 7 ''cmd-1'' ''stop''" ex_lib "\<lambda>_ _. []" ex_guest 7]
  by (simp add: op_tenant_def ex_guest_def)

section \<open>Receipts\<close>

text \<open>What a row keeps for ever of the request it was created for, and what it keeps until the next command.\<close>

definition acceptance :: "RunRow \<Rightarrow> AgentRun \<times> idempotencyResponse option" where
  "acceptance r = ((rr_Run r)\<lparr>run_AttemptCount := 0, run_Status := AgentRunQueued, run_FailureCategory := FailureNone,
     run_Version := 0, run_CancellationReason := [], run_CancellationRequestedBy := [],
     run_CancellationRequestedAt := None, run_UpdatedAt := 0, run_CompletedAt := None\<rparr>, rr_IdempotencyResponse r)"

definition receipt ::
  "RunRow \<Rightarrow> (AgentRun \<times> idempotencyResponse option) \<times> string option \<times> string option \<times> idempotencyResponse option" where
  "receipt r = (acceptance r, rr_LastCommandType r, rr_LastCommandID r, rr_LastCommandResponse r)"

lemma acceptance_eq:
  assumes "acceptance r = acceptance r'"
  shows "row_id r = row_id r'" "run_TenantID (rr_Run r) = run_TenantID (rr_Run r')"
    "run_ProjectID (rr_Run r) = run_ProjectID (rr_Run r')" "run_IdempotencyKey (rr_Run r) = run_IdempotencyKey (rr_Run r')"
    "run_RequestHash (rr_Run r) = run_RequestHash (rr_Run r')" "run_CreatedAt (rr_Run r) = run_CreatedAt (rr_Run r')"
    "rr_IdempotencyResponse r = rr_IdempotencyResponse r'"
  using assms by (cases "rr_Run r"; cases "rr_Run r'"; simp add: acceptance_def)+

lemma receipt_rows [simp]:
  "receipt (claimed_row q r) = receipt r" "receipt (scheduled_row q1 r) = receipt r"
  "receipt (deferred_row q2 r) = receipt r" "receipt (rejected_row q3 r) = receipt r"
  "receipt (r\<lparr>rr_LeaseExpiresAt := t, rr_Run := (rr_Run r)\<lparr>run_UpdatedAt := now, run_Version := v\<rparr>\<rparr>) = receipt r"
  by (cases "rr_Run r"; simp add: receipt_def acceptance_def claimed_row_def scheduled_row_def deferred_row_def rejected_row_def)+

lemma acceptance_rows [simp]:
  "acceptance (cancelled_row q run r) = acceptance r" "acceptance (retried_row q' run r) = acceptance r"
  by (cases "rr_Run r"; simp add: acceptance_def cancelled_row_def retried_row_def)+

lemma queue_receipts: "map receipt (db_runs (queue_exec L oper d)) = map receipt (db_runs d)"
proof (cases oper)
  case (OpClaim request busy)
  show ?thesis
  proof (cases "fst (Queue_Claim request busy d)")
    case (Inl e)
    then show ?thesis by (auto simp: OpClaim Queue_Claim_def Let_def split: if_splits)
  next
    case (Inr claims)
    then have "Queue_Claim request busy d = (Inr claims, snd (Queue_Claim request busy d))"
      by (metis surjective_pairing)
    then show ?thesis by (rule Queue_ClaimE) (simp add: OpClaim map_sql_update)
  qed
qed (simp add: Renew_def Let_def map_sql_update)

lemma intent_receipts: "map receipt (db_runs (intent_exec L oper d)) = map receipt (db_runs d)"
proof (cases oper)
  case (OpSchedule ids newV7 request)
  have "map receipt (db_runs d') = map receipt (db_runs d)" if "Schedule_tx L ids newV7 request d = Inr (res, d')" for res d'
    using that
  proof (cases rule: Schedule_txE)
    case (fresh run owner expiry profile attempt)
    from fresh(7) show ?thesis by (rule admit_writes) (simp add: map_sql_update)
  qed simp
  then show ?thesis by (auto simp: OpSchedule Schedule_def commits_def split: sum.splits)
next
  case (OpDefer newV7 request)
  have "map receipt (db_runs d') = map receipt (db_runs d)" if "DeferCapacity_tx L newV7 request d = Inr (res, d')" for res d'
    using that by (cases rule: DeferCapacity_txE) (simp_all add: map_sql_update)
  then show ?thesis by (auto simp: OpDefer DeferCapacity_def commits_def split: sum.splits)
next
  case (OpReject newV7 request)
  have "map receipt (db_runs d') = map receipt (db_runs d)" if "Reject_tx L newV7 request d = Inr (res, d')" for res d'
    using that by (cases rule: Reject_txE) (simp_all add: map_sql_update)
  then show ?thesis by (auto simp: OpReject Reject_def commits_def split: sum.splits)
qed

text \<open>Every operation of the API keeps what the rows were created for; the unique index keeps the keys apart.\<close>

definition run_name :: "RunRow \<Rightarrow> uuid \<times> string" where
  "run_name r = (run_TenantID (rr_Run r), run_IdempotencyKey (rr_Run r))"

definition accepts :: "db \<Rightarrow> db \<Rightarrow> bool" where
  "accepts d d' \<longleftrightarrow> (\<exists>new. map acceptance (db_runs d') = map acceptance (db_runs d) @ new) \<and>
     (distinct (map run_name (db_runs d)) \<longrightarrow> distinct (map run_name (db_runs d')))"

lemma accepts_refl: "accepts d d"
  by (simp add: accepts_def)

lemma accepts_trans: "accepts d d' \<Longrightarrow> accepts d' d'' \<Longrightarrow> accepts d d''"
  unfolding accepts_def by fastforce

lemma run_name_acceptance: "run_name r = (\<lambda>(run, _). (run_TenantID run, run_IdempotencyKey run)) (acceptance r)"
  by (simp add: run_name_def acceptance_def)

lemma accepts_same:
  assumes "map acceptance (db_runs d') = map acceptance (db_runs d)"
  shows "accepts d d'"
proof -
  have "map run_name (db_runs d') = map run_name (db_runs d)"
    using arg_cong [OF assms, of "map (\<lambda>(run, _). (run_TenantID run, run_IdempotencyKey run))"]
    by (simp add: comp_def flip: run_name_acceptance)
  then show ?thesis using assms by (simp add: accepts_def)
qed

lemma accepts_receipts: "map receipt (db_runs d') = map receipt (db_runs d) \<Longrightarrow> accepts d d'"
  by (rule accepts_same) (metis (no_types, lifting) ext comp_def fst_conv list.map_comp receipt_def)

lemma accepts_commits:
  assumes "\<And>x d'. tx d = Inr (x, d') \<Longrightarrow> accepts d d'"
  shows "accepts d (snd (commits tx d))"
  using assms by (auto simp: commits_def accepts_refl split: sum.splits)

lemma accepts_Create: "accepts d (snd (Repo_Create L newV7 run attempt d))"
  unfolding Repo_Create_def
proof (rule accepts_commits)
  fix u d' assume "Repo_Create_tx L newV7 run attempt d = Inr (u, d')"
  then show "accepts d d'"
  proof (cases rule: Repo_CreateE)
    case (1 event)
    have "run_name (new_row run) \<notin> run_name ` set (db_runs d)"
    proof
      assume "run_name (new_row run) \<in> run_name ` set (db_runs d)"
      then obtain x where "x \<in> set (db_runs d)" "run_name (new_row run) = run_name x" by blast
      then show False using 1(6) [of x] by (simp add: run_name_def new_row_def)
    qed
    then show ?thesis by (simp add: accepts_def 1(3))
  qed
qed

lemma accepts_Cancel: "store_inv d \<Longrightarrow> accepts d (snd (Repo_Cancel L newV7 request d))"
  unfolding Repo_Cancel_def
  by (rule accepts_commits, erule Repo_Cancel_txE, assumption) (simp_all add: accepts_refl accepts_same map_sql_update)

lemma accepts_Retry: "store_inv d \<Longrightarrow> accepts d (snd (Repo_Retry L attemptV7 newV7 request d))"
  unfolding Repo_Retry_def
  by (rule accepts_commits, erule Repo_Retry_txE, assumption) (simp_all add: accepts_refl accepts_same map_sql_update)

lemma accepts_api: "store_inv d \<Longrightarrow> accepts d (api_exec L marshal oper d)"
  by (cases oper)
    (auto simp: Service_Create_def accepted_db Service_Get_def Service_List_def Service_Cancel_def Service_Retry_def authorized_db
      accepts_refl accepts_Create accepts_Cancel accepts_Retry split: sum.splits)

end
