(* ===== verification/Platform.thy ===== *)
theory Platform
  imports Run_Repo
begin

text \<open>
  The processes that share the database: the API, the scheduler's queue and intents, and the
  reservation ledger.  One step of the platform is one committed or failed operation of any of
  them, in any order.  The contracts of \<open>run_machine\<close> and \<open>ledger_machine\<close> hold for the platform as a
  whole because each process keeps both.
\<close>

datatype platform_op = OpQueue queue_op | OpIntent intent_op | OpLedger ledger_op | OpApi api_op

fun platform_exec :: "lib \<Rightarrow> request_json \<Rightarrow> platform_op \<Rightarrow> db \<Rightarrow> db" where
  "platform_exec L marshal (OpQueue oper) = queue_exec L oper"
| "platform_exec L marshal (OpIntent oper) = intent_exec L oper"
| "platform_exec L marshal (OpLedger oper) = ledger_exec L oper"
| "platform_exec L marshal (OpApi oper) = api_exec L marshal oper"

section \<open>The ledger operations leave the runs alone\<close>

definition same_runs :: "db \<Rightarrow> db \<Rightarrow> bool" where
  "same_runs d d' \<longleftrightarrow> db_runs d' = db_runs d \<and> db_attempts d' = db_attempts d"

lemma same_runs_commits:
  assumes "\<And>x d'. tx d = Inr (x, d') \<Longrightarrow> same_runs d d'"
  shows "same_runs d (snd (commits tx d))"
  using assms by (auto simp: commits_def same_runs_def split: sum.splits)

lemma same_runs_Reserve: "same_runs d (snd (Reserve L ids request d))"
  unfolding Reserve_def
proof (rule same_runs_commits)
  fix rb d' assume "Reserve_tx L ids request d = Inr (rb, d')"
  then consider "d' = d" | snapshot l where "book L ids request snapshot l d = Inr (rb, d')"
    unfolding Reserve_tx_def by (auto simp: tx_simps split: option.splits if_splits)
  then show "same_runs d d'" by cases (auto simp: same_runs_def dest!: book_frame)
qed

lemma same_runs_transition: "same_runs d (snd (commits (reservation_transition t r a now target) d))"
  by (rule same_runs_commits)
    (auto simp: reservation_transition_def update_usage_def same_runs_def tx_simps Let_def split: if_splits prod.splits)

lemma same_runs_reclaim: "same_runs d (snd (reclaim_loop now items n d))"
proof (induction items arbitrary: n d)
  case (Cons item items)
  let ?tx = "commits (reservation_transition (cr_TenantID item) (cr_RunID item) (cr_AttemptNumber item) now ReservationExpired) d"
  show ?case
    using Cons.IH [of "snd ?tx"] same_runs_transition [of d "cr_TenantID item" "cr_RunID item" "cr_AttemptNumber item" now ReservationExpired]
    by (cases ?tx; cases "fst ?tx") (auto simp: same_runs_def)
qed (simp add: same_runs_def)

lemma same_runs_refl: "same_runs d d"
  by (simp add: same_runs_def)

lemma same_runs_ledger: "same_runs d (ledger_exec L oper d)"
  by (cases oper)
    (simp_all add: same_runs_Reserve same_runs_transition same_runs_reclaim same_runs_refl Release_def Settle_def commits_unit
      ReclaimExpired_def)

lemma kept_same_runs: "store_inv d \<Longrightarrow> same_runs d d' \<Longrightarrow> kept d d'"
  by (simp add: same_runs_def kept_def store_inv_def runs_inv_def attempts_inv_def waiting_inv_def runs_evolve_def
      attempts_evolve_def evolves_refl)

interpretation platform_runs: run_machine "platform_exec L marshal" for L marshal
proof
  fix d oper assume "store_inv d"
  then show "kept d (platform_exec L marshal oper d)"
    by (cases oper) (simp_all add: queue_runs.exec_kept intent_runs.exec_kept api_kept kept_same_runs same_runs_ledger)
qed

section \<open>The runs leave the ledger alone\<close>

lemma acts_queue: "ledger_inv d \<Longrightarrow> acts now d (queue_exec L oper d)"
  by (cases oper) (auto simp: Queue_Claim_def Renew_def Let_def intro!: acts_same_ledger)

definition same_ledger :: "db \<Rightarrow> db \<Rightarrow> bool" where
  "same_ledger d d' \<longleftrightarrow> db_capacity d' = db_capacity d \<and> db_budget d' = db_budget d \<and> db_usage d' = db_usage d \<and>
     db_policies d' = db_policies d \<and> db_snapshots d' = db_snapshots d"

lemma same_ledger_refl: "same_ledger d d"
  by (simp add: same_ledger_def)

lemma same_ledger_commits:
  assumes "\<And>x d'. tx d = Inr (x, d') \<Longrightarrow> same_ledger d d'"
  shows "same_ledger d (snd (commits tx d))"
  using assms by (auto simp: commits_def same_ledger_refl split: sum.splits)

lemma same_ledger_Create: "same_ledger d (snd (Repo_Create L newV7 run attempt d))"
  unfolding Repo_Create_def
  by (rule same_ledger_commits) (auto simp: same_ledger_def elim: Repo_CreateE)

lemma same_ledger_cancel: "cancel_run L newV7 request run d = Inr (res, d') \<Longrightarrow> same_ledger d d'"
  unfolding cancel_run_def
  by (auto simp: tx_simps Let_def same_ledger_def split: option.splits prod.splits dest!: update_run_ok(1) insertOutboxEvent_ok(1))

lemma same_ledger_retry: "retry_run L attemptV7 newV7 request run d = Inr (res, d') \<Longrightarrow> same_ledger d d'"
  unfolding retry_run_def
  by (auto simp: tx_simps Let_def same_ledger_def split: option.splits prod.splits
      dest!: update_run_ok(1) insertAttempt_ok(1) insertOutboxEvent_ok(1))

lemma same_ledger_Cancel: "same_ledger d (snd (Repo_Cancel L newV7 request d))"
  unfolding Repo_Cancel_def
  by (rule same_ledger_commits)
    (auto simp: Repo_Cancel_tx_def tx_simps split: option.splits if_splits intro: same_ledger_refl dest: same_ledger_cancel)

lemma same_ledger_Retry: "same_ledger d (snd (Repo_Retry L attemptV7 newV7 request d))"
  unfolding Repo_Retry_def
  by (rule same_ledger_commits)
    (auto simp: Repo_Retry_tx_def tx_simps split: option.splits if_splits intro: same_ledger_refl dest: same_ledger_retry)

lemma acts_api:
  assumes "ledger_inv d"
  shows "acts now d (api_exec L marshal oper d)"
proof -
  have "same_ledger d (api_exec L marshal oper d)"
    by (cases oper)
      (auto simp: Service_Create_def accepted_db Service_Get_def Service_List_def Service_Cancel_def Service_Retry_def
        authorized_db same_ledger_refl same_ledger_Create same_ledger_Cancel same_ledger_Retry split: sum.splits)
  then show ?thesis unfolding same_ledger_def by (intro acts_same_ledger [OF assms]) simp_all
qed

fun queue_op_time :: "queue_op \<Rightarrow> gtime" where
  "queue_op_time (OpClaim request busy) = scq_Now request"
| "queue_op_time (OpRenew tenantID runID owner version now lease) = now"

fun api_op_time :: "api_op \<Rightarrow> gtime" where
  "api_op_time (OpCreate ids instants caller projectID input) = fst instants"
| "api_op_time (OpGet now caller runID) = now"
| "api_op_time (OpList now caller projectID page) = now"
| "api_op_time (OpCancel newV7 now caller runID commandID reason) = now"
| "api_op_time (OpRetry ids now caller runID commandID) = now"

fun platform_op_time :: "platform_op \<Rightarrow> gtime" where
  "platform_op_time (OpQueue oper) = queue_op_time oper"
| "platform_op_time (OpIntent oper) = intent_op_time oper"
| "platform_op_time (OpLedger oper) = ledger_op_time oper"
| "platform_op_time (OpApi oper) = api_op_time oper"

lemma acts_platform:
  "ledger_inv d \<Longrightarrow> columns_ok d \<Longrightarrow> acts (platform_op_time oper) d (platform_exec L marshal oper d)"
  by (cases oper) (simp_all add: acts_queue acts_intent_exec acts_ledger_exec acts_api)

interpretation platform_ledger: ledger_machine "platform_exec L marshal" platform_op_time for L marshal
  using acts_platform by unfold_locales (auto simp: acts_def)

section \<open>What was accepted stays accepted\<close>

lemma accepts_platform: "store_inv d \<Longrightarrow> accepts d (platform_exec L marshal oper d)"
  by (cases oper)
    (use same_runs_ledger in \<open>auto simp: accepts_api accepts_receipts queue_receipts intent_receipts same_runs_def intro: accepts_same\<close>)

lemma accepts_history:
  assumes "store_inv d"
  shows "accepts d (fold (platform_exec L marshal) ops d)"
  using assms
proof (induction ops arbitrary: d)
  case (Cons oper ops)
  have "store_inv (platform_exec L marshal oper d)"
    using platform_runs.exec_kept [OF Cons.prems] by (simp add: kept_def)
  then have "accepts (platform_exec L marshal oper d) (fold (platform_exec L marshal) ops (platform_exec L marshal oper d))"
    by (rule Cons.IH)
  then show ?case using accepts_trans [OF accepts_platform [OF Cons.prems]] by simp
qed (simp add: accepts_refl)

text \<open>The operations that are commands on a run.  All the others keep the receipt of its last command.\<close>

fun commands_run :: "uuid \<Rightarrow> uuid \<Rightarrow> platform_op \<Rightarrow> bool" where
  "commands_run tenantID runID (OpApi (OpCancel newV7 now caller runID' commandID reason)) =
    (idn_TenantID caller = tenantID \<and> runID' = runID)"
| "commands_run tenantID runID (OpApi (OpRetry ids now caller runID' commandID)) =
    (idn_TenantID caller = tenantID \<and> runID' = runID)"
| "commands_run tenantID runID _ = False"

definition receipt_in :: "RunRow \<Rightarrow> db \<Rightarrow> bool" where
  "receipt_in r d \<longleftrightarrow> receipt r \<in> receipt ` set (db_runs d)"

lemma receipt_in_same: "map receipt (db_runs d') = map receipt (db_runs d) \<Longrightarrow> receipt_in r d \<Longrightarrow> receipt_in r d'"
  unfolding receipt_in_def by (metis list.set_map)

lemma receipt_in_commits:
  assumes "receipt_in r d" "\<And>x d'. tx d = Inr (x, d') \<Longrightarrow> receipt_in r d'"
  shows "receipt_in r (snd (commits tx d))"
  using assms by (auto simp: commits_def split: sum.splits)

lemma receipt_in_update:
  assumes "receipt_in r d" "row_id x \<noteq> row_id r \<or> run_TenantID (rr_Run x) \<noteq> run_TenantID (rr_Run r)"
    "db_runs d' = sql_update (\<lambda>y. y = x) f (db_runs d)"
  shows "receipt_in r d'"
proof -
  obtain r' where r': "r' \<in> set (db_runs d)" "receipt r' = receipt r" using assms(1) unfolding receipt_in_def by force
  then have "acceptance r' = acceptance r" by (simp add: receipt_def)
  then have "r' \<noteq> x" using acceptance_eq(1,2) assms(2) by metis
  then have "r' \<in> set (db_runs d')" using r'(1) by (force simp: assms(3) sql_update_def)
  then show ?thesis using r'(2) unfolding receipt_in_def by (metis imageI)
qed

lemma receipt_in_Create:
  assumes "receipt_in r d"
  shows "receipt_in r (snd (Repo_Create L newV7 run attempt d))"
  unfolding Repo_Create_def
proof (rule receipt_in_commits [OF assms])
  fix u d' assume "Repo_Create_tx L newV7 run attempt d = Inr (u, d')"
  then have "db_runs d' = db_runs d @ [new_row run]" by (rule Repo_CreateE) simp
  then show "receipt_in r d'" using assms by (auto simp: receipt_in_def)
qed

lemma receipt_in_Cancel:
  assumes "store_inv d" "receipt_in r d" "\<not> run_key (crq_TenantID request) (crq_RunID request) r"
  shows "receipt_in r (snd (Repo_Cancel L newV7 request d))"
  unfolding Repo_Cancel_def
proof (rule receipt_in_commits [OF assms(2)])
  fix res d' assume "Repo_Cancel_tx L newV7 request d = Inr (res, d')"
  with assms(1) show "receipt_in r d'"
  proof (cases rule: Repo_Cancel_txE)
    case (fresh x event)
    then show ?thesis using assms(3) by (intro receipt_in_update [OF assms(2), of x]) auto
  qed (use assms(2) in simp)
qed

lemma receipt_in_Retry:
  assumes "store_inv d" "receipt_in r d" "\<not> run_key (rrq_TenantID request) (rrq_RunID request) r"
  shows "receipt_in r (snd (Repo_Retry L attemptV7 newV7 request d))"
  unfolding Repo_Retry_def
proof (rule receipt_in_commits [OF assms(2)])
  fix res d' assume "Repo_Retry_tx L attemptV7 newV7 request d = Inr (res, d')"
  with assms(1) show "receipt_in r d'"
  proof (cases rule: Repo_Retry_txE)
    case (fresh x attempt event)
    then show ?thesis using assms(3) by (intro receipt_in_update [OF assms(2), of x]) auto
  qed (use assms(2) in simp)
qed

lemma receipt_in_platform:
  assumes "store_inv d" "receipt_in r d" "\<not> commands_run (run_TenantID (rr_Run r)) (row_id r) oper"
  shows "receipt_in r (platform_exec L marshal oper d)"
proof (cases oper)
  case (OpApi a)
  then show ?thesis
    using assms
    by (cases a)
      (auto simp: Service_Create_def accepted_db Service_Get_def Service_List_def Service_Cancel_def Service_Retry_def authorized_db
        receipt_in_Create intro!: receipt_in_Cancel receipt_in_Retry split: sum.splits)
qed (use assms(2) same_runs_ledger in
  \<open>auto simp: same_runs_def intro: receipt_in_same [OF queue_receipts] receipt_in_same [OF intent_receipts] receipt_in_same\<close>)

lemma receipt_in_history:
  assumes "store_inv d" "receipt_in r d" "\<forall>oper \<in> set ops. \<not> commands_run (run_TenantID (rr_Run r)) (row_id r) oper"
  shows "receipt_in r (fold (platform_exec L marshal) ops d)"
  using assms
proof (induction ops arbitrary: d)
  case (Cons oper ops)
  have "store_inv (platform_exec L marshal oper d)"
    using platform_runs.exec_kept [OF Cons.prems(1)] by (simp add: kept_def)
  then show ?case using Cons receipt_in_platform by simp
qed simp

section \<open>Accepted requests\<close>

lemma accepted_new:
  assumes "Service_Create L marshal ids instants caller projectID input d = (Inr (run, False), d')"
  obtains attempt where "CanManageRuns caller" "Project_Get (idn_TenantID caller) projectID d = Inr ()"
    "NewAgentRun (fst ids) (run_input L marshal caller projectID input) (fst instants) = Inr run"
    "NewAgentRunAttempt (fst (snd ids)) (idn_TenantID caller) (run_ID run) 1 (snd instants) = Inr attempt"
    "Repo_Create L (snd (snd ids)) run attempt d = (Inr (), d')"
proof -
  have c: "CanManageRuns caller" using assms by (auto simp: Service_Create_def split: if_splits)
  note s1 = assms [unfolded Service_Create_def if_not_P [OF iffD2 [OF not_not c]]]
  obtain p where p: "Project_Get (idn_TenantID caller) projectID d = Inr p" using s1 by (auto split: sum.splits)
  note s2 = s1 [unfolded p sum.case]
  obtain run0 where r: "NewAgentRun (fst ids) (run_input L marshal caller projectID input) (fst instants) = Inr run0"
    using s2 by (auto split: sum.splits)
  note s3 = s2 [unfolded r sum.case]
  obtain attempt where a: "NewAgentRunAttempt (fst (snd ids)) (idn_TenantID caller) (run_ID run0) 1 (snd instants) = Inr attempt"
    using s3 by (auto split: sum.splits)
  note s4 = s3 [unfolded a sum.case accepted_def]
  obtain x d1 where x: "Repo_Create L (snd (snd ids)) run0 attempt d = (x, d1)" by (cases "Repo_Create L (snd (snd ids)) run0 attempt d")
  have "x = Inr ()" "run0 = run" "d1 = d'"
    using s4 unfolding x by (cases x; auto split: if_splits sum.splits)+
  then show thesis using that c p r a x by simp
qed

lemma accepted_row:
  assumes "Service_Create L marshal ids instants caller projectID input d = (Inr (run, False), d')"
  shows "new_row run \<in> set (db_runs d')" "distinct (map run_name (db_runs d)) \<Longrightarrow> distinct (map run_name (db_runs d'))"
proof -
  obtain attempt where c: "Repo_Create L (snd (snd ids)) run attempt d = (Inr (), d')"
    using assms by (rule accepted_new)
  then have "Repo_Create_tx L (snd (snd ids)) run attempt d = Inr ((), d')" by (simp add: Repo_Create_def commits_Inr)
  then show "new_row run \<in> set (db_runs d')" by (rule Repo_CreateE) simp
  show "distinct (map run_name (db_runs d')) " if "distinct (map run_name (db_runs d))"
    using accepts_Create [of d L "snd (snd ids)" run attempt] that by (simp add: c accepts_def)
qed

text \<open>The row of an accepted run, found by its key at any later time.\<close>

lemma accepted_found:
  assumes "r \<in> set (db_runs d)" "distinct (map run_name (db_runs d))" "acceptance r = acceptance (new_row run)"
  shows "GetByIdempotencyKey (run_TenantID run) (run_IdempotencyKey run) d =
    applyIdempotencyResponse (Some (marshalIdempotencyResponse run)) (rr_Run r)"
proof -
  have k: "run_TenantID (rr_Run r) = run_TenantID run" "run_IdempotencyKey (rr_Run r) = run_IdempotencyKey run"
    "rr_IdempotencyResponse r = Some (marshalIdempotencyResponse run)"
    using acceptance_eq(2,4,7) [OF assms(3)] by (simp_all add: new_row_def)
  have "sql_row (\<lambda>r. run_TenantID (rr_Run r) = run_TenantID run \<and> run_IdempotencyKey (rr_Run r) = run_IdempotencyKey run) (db_runs d) = Some r"
  proof (rule sql_row_unique [OF assms(1)])
    fix x assume x: "x \<in> set (db_runs d)" "run_TenantID (rr_Run x) = run_TenantID run \<and> run_IdempotencyKey (rr_Run x) = run_IdempotencyKey run"
    then show "x = r" using assms(1,2) k by (intro distinct_map_eq [of run_name "db_runs d"]) (simp_all add: run_name_def)
  qed (use k in simp)
  then show ?thesis by (simp add: GetByIdempotencyKey_def k(3))
qed

lemma replayed_response:
  assumes "acceptance r = acceptance (new_row run)" "run_Status run = AgentRunQueued" "run_AttemptCount run = 1"
  shows "applyIdempotencyResponse (Some (marshalIdempotencyResponse run)) (rr_Run r) =
      (if IsZero (run_CreatedAt run) \<or> IsZero (run_UpdatedAt run) then Inl (Plain ''stored idempotency response is invalid'')
       else Inr (with_response (marshalIdempotencyResponse run) (rr_Run r)))"
    "marshalIdempotencyResponse (with_response (marshalIdempotencyResponse run) (rr_Run r)) = marshalIdempotencyResponse run"
    "run_RequestHash (with_response (marshalIdempotencyResponse run) (rr_Run r)) = run_RequestHash run"
proof -
  have k: "row_id r = run_ID run" "run_ProjectID (rr_Run r) = run_ProjectID run" "run_RequestHash (rr_Run r) = run_RequestHash run"
    using acceptance_eq(1,3,5) [OF assms(1)] by (simp_all add: new_row_def)
  show "applyIdempotencyResponse (Some (marshalIdempotencyResponse run)) (rr_Run r) =
      (if IsZero (run_CreatedAt run) \<or> IsZero (run_UpdatedAt run) then Inl (Plain ''stored idempotency response is invalid'')
       else Inr (with_response (marshalIdempotencyResponse run) (rr_Run r)))"
    using k(1,2) assms(2,3) by (simp add: applyIdempotencyResponse_def marshalIdempotencyResponse_def)
  show "marshalIdempotencyResponse (with_response (marshalIdempotencyResponse run) (rr_Run r)) = marshalIdempotencyResponse run"
    "run_RequestHash (with_response (marshalIdempotencyResponse run) (rr_Run r)) = run_RequestHash run"
    using k by (simp_all add: marshalIdempotencyResponse_def with_response_def)
qed

text \<open>A second run with the key of an accepted one is never created.\<close>

lemma key_taken:
  assumes "r \<in> set (db_runs d)" "run_TenantID (rr_Run r) = run_TenantID run" "run_IdempotencyKey (rr_Run r) = run_IdempotencyKey run"
  shows "\<exists>err. Repo_Create L newV7 run attempt d = (Inl err, d)"
proof (cases "Repo_Create_tx L newV7 run attempt d")
  case (Inr p)
  obtain u d' where p: "p = (u, d')" by (cases p)
  from Inr [unfolded p] have False by (rule Repo_CreateE) (use assms in blast)
  then show ?thesis ..
qed (simp add: Repo_Create_def commits_def)

lemma row_checks_new:
  assumes "NewAgentRun newV7 i now = Inr run"
  shows "row_checks (new_row run)"
proof -
  have "text_ok n (TrimSpace s)" if "TrimSpace s \<noteq> []" "\<not> n < length (TrimSpace s)" for n s
    using that by (intro text_ok_TrimSpace) (simp_all add: TrimSpace_idem)
  then show ?thesis
    using assms
    by (auto simp: NewAgentRun_def Let_def trim_input_def row_checks_def new_row_def request_checks_def status_checks_def
        lease_checks_def decision_checks_def command_checks_def optional_def failed_status_def split: if_splits option.splits)
qed

text \<open>A request with a key that is taken and with identities of its own is told about the conflict.\<close>

lemma key_conflict:
  assumes "r \<in> set (db_runs d)" "run_TenantID (rr_Run r) = run_TenantID run" "run_IdempotencyKey (rr_Run r) = run_IdempotencyKey run"
    "NewAgentRun v i now = Inr run" "NewAgentRunAttempt v' (run_TenantID run) (run_ID run) 1 now' = Inr attempt"
    "NewAgentRunRequested L newV7 run attempt = Inr event" "lib_Version L (run_ID run) = 7"
  shows "Repo_Create L newV7 run attempt d = (Inl (Sentinel ErrConflict), d)"
proof -
  have "validateInitialAttempt run attempt = None"
    using NewAgentRun_fresh(4,5) [OF assms(4)] NewAgentRunAttempt_ok [OF assms(5)] by (simp add: validateInitialAttempt_def)
  moreover have "rr_Run (new_row run) = run" by (simp add: new_row_def)
  then have "insert_run L (new_row run) d = Inl (Sentinel ErrConflict)"
    using row_checks_new [OF assms(4)] assms(1-3,7) by (auto simp: insert_run_def ensure_def)
  ultimately show ?thesis using assms(6) by (simp add: Repo_Create_def Repo_Create_tx_def commits_def)
qed

text \<open>The row of an accepted run is still there after any further history.\<close>

lemma accepted_later:
  assumes "store_inv d" "distinct (map run_name (db_runs d))"
    "Service_Create L marshal ids instants caller projectID input d = (Inr (run, False), d')"
  obtains r where "r \<in> set (db_runs (fold (platform_exec L marshal) ops d'))" "acceptance r = acceptance (new_row run)"
    "distinct (map run_name (db_runs (fold (platform_exec L marshal) ops d')))"
proof -
  have "kept d d'"
    using platform_runs.exec_kept [OF assms(1), of L marshal "OpApi (OpCreate ids instants caller projectID input)"] assms(3) by simp
  then have a: "accepts d' (fold (platform_exec L marshal) ops d')" by (intro accepts_history) (simp add: kept_def)
  have "acceptance (new_row run) \<in> set (map acceptance (db_runs (fold (platform_exec L marshal) ops d')))"
    using a accepted_row(1) [OF assms(3)] unfolding accepts_def by (metis Un_iff imageI list.set_map set_append)
  then show thesis using that a accepted_row(2) [OF assms(3,2)] by (auto simp: accepts_def)
qed

text \<open>What a request with the key of an accepted run gets.\<close>

lemma repeat_answer:
  assumes r: "r \<in> set (db_runs d)" "acceptance r = acceptance (new_row run)" "distinct (map run_name (db_runs d))"
    and run: "run_Status run = AgentRunQueued" "run_AttemptCount run = 1"
    and key: "run_TenantID run = idn_TenantID caller" "run_IdempotencyKey run = cin_IdempotencyKey input"
      "TrimSpace (cin_IdempotencyKey input) = cin_IdempotencyKey input"
  shows "snd (Service_Create L marshal ids instants caller projectID input d) = d"
    and "fst (Service_Create L marshal ids instants caller projectID input d) = Inr (run', replayed) \<Longrightarrow>
      replayed \<and> marshalIdempotencyResponse run' = marshalIdempotencyResponse run \<and>
      run_RequestHash run = hashRequest L marshal projectID input"
proof -
  have k: "run_TenantID (rr_Run r) = run_TenantID run" "run_IdempotencyKey (rr_Run r) = run_IdempotencyKey run"
    using acceptance_eq(2,4) [OF r(2)] by (simp_all add: new_row_def)
  have taken: "\<forall>attempt. \<exists>err. Repo_Create L (snd (snd ids)) new attempt d = (Inl err, d)"
    if "NewAgentRun i (run_input L marshal caller projectID input) t = Inr new" for i t new
    using NewAgentRun_fresh(2,6) [OF that] k key by (intro allI key_taken [OF r(1)]) (simp_all add: run_input_def)
  note found = accepted_found [OF r(1,3,2), unfolded key] replayed_response [OF r(2) run]
  show "snd (Service_Create L marshal ids instants caller projectID input d) = d"
    unfolding Service_Create_def by (auto simp: accepted_db dest!: taken split: sum.splits) (metis snd_conv)
  assume a: "fst (Service_Create L marshal ids instants caller projectID input d) = Inr (run', replayed)"
  then obtain new attempt where new: "NewAgentRun (fst ids) (run_input L marshal caller projectID input) (fst instants) = Inr new"
    and acc: "fst (accepted L marshal caller projectID input (Repo_Create L (snd (snd ids)) new attempt d) new) = Inr (run', replayed)"
    unfolding Service_Create_def by (auto split: if_splits sum.splits)
  obtain err where "Repo_Create L (snd (snd ids)) new attempt d = (Inl err, d)"
    using taken [OF new] by blast
  then show "replayed \<and> marshalIdempotencyResponse run' = marshalIdempotencyResponse run \<and>
      run_RequestHash run = hashRequest L marshal projectID input"
    using acc found by (auto simp: accepted_def split: if_splits sum.splits)
qed

text \<open>A request that could be accepted on its own is answered with the accepted run.\<close>

lemma repeat_replayed:
  assumes r: "r \<in> set (db_runs d)" "acceptance r = acceptance (new_row run)" "distinct (map run_name (db_runs d))"
    and run: "run_Status run = AgentRunQueued" "run_AttemptCount run = 1" "\<not> IsZero (run_CreatedAt run)" "\<not> IsZero (run_UpdatedAt run)"
    and key: "run_TenantID run = idn_TenantID caller" "run_IdempotencyKey run = cin_IdempotencyKey input"
      "TrimSpace (cin_IdempotencyKey input) = cin_IdempotencyKey input"
    and own: "Service_Create L marshal ids instants caller projectID input d0 = (Inr (run0, False), d0')"
    and "Project_Get (idn_TenantID caller) projectID d = Inr ()" "run_RequestHash run = hashRequest L marshal projectID input"
  shows "fst (Service_Create L marshal ids instants caller projectID input d) =
    Inr (with_response (marshalIdempotencyResponse run) (rr_Run r), True)"
proof -
  have k: "run_TenantID (rr_Run r) = run_TenantID run" "run_IdempotencyKey (rr_Run r) = run_IdempotencyKey run"
    using acceptance_eq(2,4) [OF r(2)] by (simp_all add: new_row_def)
  from own obtain attempt where c: "CanManageRuns caller"
    and new: "NewAgentRun (fst ids) (run_input L marshal caller projectID input) (fst instants) = Inr run0"
    and att: "NewAgentRunAttempt (fst (snd ids)) (idn_TenantID caller) (run_ID run0) 1 (snd instants) = Inr attempt"
    and cr: "Repo_Create L (snd (snd ids)) run0 attempt d0 = (Inr (), d0')" by (rule accepted_new) (rule that; assumption)
  have tx: "Repo_Create_tx L (snd (snd ids)) run0 attempt d0 = Inr ((), d0')" using cr by (simp add: Repo_Create_def commits_Inr)
  then obtain event where e: "NewAgentRunRequested L (snd (snd ids)) run0 attempt = Inr event" by (rule Repo_CreateE)
  have v: "lib_Version L (run_ID run0) = 7"
    using tx by (auto simp: Repo_Create_tx_def insert_run_def tx_simps new_row_def split: option.splits)
  have t: "run_TenantID run0 = idn_TenantID caller" "run_IdempotencyKey run0 = cin_IdempotencyKey input"
    using NewAgentRun_fresh(2,6) [OF new] key(3) by (simp_all add: run_input_def)
  have "Repo_Create L (snd (snd ids)) run0 attempt d = (Inl (Sentinel ErrConflict), d)"
    by (rule key_conflict [OF r(1) _ _ new _ e v]) (use k key t att in simp_all)
  then show ?thesis
    using c new att assms(12,13) accepted_found [OF r(1,3,2), unfolded key] replayed_response [OF r(2) run(1,2)] run(3,4)
    by (simp add: Service_Create_def accepted_def)
qed

section \<open>Commands\<close>

text \<open>A row that carries the receipt of a command answers the command with it.\<close>

lemma Cancel_receipt:
  assumes "store_inv d" "r \<in> set (db_runs d)" "run_key (crq_TenantID request) (crq_RunID request) r"
    "validateCancelRequest request = None" "rr_LastCommandType r = Some ''CANCEL''" "rr_LastCommandID r = Some (crq_CommandID request)"
  shows "Repo_Cancel L newV7 request d =
    (map_sum id (\<lambda>run. \<lparr>rcr_Run = run, rcr_Replayed = True\<rparr>) (applyCommandResponse (rr_LastCommandResponse r) (rr_Run r)), d)"
proof -
  note l = lockedCommandRun_unique [OF assms(1-3)]
  show ?thesis
    by (cases "applyCommandResponse (rr_LastCommandResponse r) (rr_Run r)")
      (simp_all add: Repo_Cancel_def commits_def Repo_Cancel_tx_def l assms(4-6) coalesce_def)
qed

lemma Retry_receipt:
  assumes "store_inv d" "r \<in> set (db_runs d)" "run_key (rrq_TenantID request) (rrq_RunID request) r"
    "validateRetryRequest request = None" "rr_LastCommandType r = Some ''RETRY''" "rr_LastCommandID r = Some (rrq_CommandID request)"
  shows "Repo_Retry L attemptV7 newV7 request d =
    (map_sum id (\<lambda>run. \<lparr>rcr_Run = run, rcr_Replayed = True\<rparr>) (applyCommandResponse (rr_LastCommandResponse r) (rr_Run r)), d)"
proof -
  note l = lockedCommandRun_unique [OF assms(1-3)]
  show ?thesis
    by (cases "applyCommandResponse (rr_LastCommandResponse r) (rr_Run r)")
      (simp_all add: Repo_Retry_def commits_def Repo_Retry_tx_def l assms(4-6) coalesce_def)
qed

lemma command_response:
  assumes "row_id r = run_ID run" "run_ProjectID (rr_Run r) = run_ProjectID run" "1 \<le> run_AttemptCount run"
    "named_status (run_Status run)" "\<not> IsZero (run_CreatedAt run)" "\<not> IsZero (run_UpdatedAt run)"
  shows "applyCommandResponse (Some (marshalIdempotencyResponse run)) (rr_Run r) = Inr (with_response (marshalIdempotencyResponse run) (rr_Run r))"
    "marshalIdempotencyResponse (with_response (marshalIdempotencyResponse run) (rr_Run r)) = marshalIdempotencyResponse run"
proof -
  have "AgentRunStatus_string (run_Status run) \<noteq> []" using assms(4) by (cases "run_Status run") auto
  then show "applyCommandResponse (Some (marshalIdempotencyResponse run)) (rr_Run r) = Inr (with_response (marshalIdempotencyResponse run) (rr_Run r))"
    using assms by (simp add: applyCommandResponse_def marshalIdempotencyResponse_def)
  show "marshalIdempotencyResponse (with_response (marshalIdempotencyResponse run) (rr_Run r)) = marshalIdempotencyResponse run"
    using assms by (simp add: marshalIdempotencyResponse_def with_response_def)
qed

text \<open>The row a command wrote answers it at any later time without another command on the run.\<close>

lemma command_later:
  assumes "store_inv d" "x \<in> set (db_runs d)" "run_key tenantID runID x" "\<forall>oper \<in> set ops. \<not> commands_run tenantID runID oper"
    "rr_LastCommandResponse x = Some (marshalIdempotencyResponse (rr_Run x))" "row_checks x"
    "\<not> IsZero (run_CreatedAt (rr_Run x))" "\<not> IsZero (run_UpdatedAt (rr_Run x))"
  obtains r run' where "store_inv (fold (platform_exec L marshal) ops d)" "r \<in> set (db_runs (fold (platform_exec L marshal) ops d))"
    "run_key tenantID runID r" "rr_LastCommandType r = rr_LastCommandType x" "rr_LastCommandID r = rr_LastCommandID x"
    "applyCommandResponse (rr_LastCommandResponse r) (rr_Run r) = Inr run'"
    "marshalIdempotencyResponse run' = marshalIdempotencyResponse (rr_Run x)"
proof -
  have "receipt_in x (fold (platform_exec L marshal) ops d)"
    using assms(1-4) by (intro receipt_in_history) (auto simp: receipt_in_def)
  then obtain r where r: "r \<in> set (db_runs (fold (platform_exec L marshal) ops d))" "receipt r = receipt x"
    unfolding receipt_in_def by force
  then have eq: "acceptance r = acceptance x" "rr_LastCommandType r = rr_LastCommandType x" "rr_LastCommandID r = rr_LastCommandID x"
    "rr_LastCommandResponse r = Some (marshalIdempotencyResponse (rr_Run x))"
    using assms(5) by (simp_all add: receipt_def)
  have checks: "1 \<le> run_AttemptCount (rr_Run x)" "named_status (rr_Status x)"
    using assms(6) by (simp_all add: row_checks_def status_checks_def)
  note resp = command_response [OF acceptance_eq(1,3) [OF eq(1)] checks assms(7,8)]
  show thesis
    using that [OF _ r(1) _ eq(2,3)] platform_runs.history [OF assms(1)] acceptance_eq(1,2) [OF eq(1)] assms(3) resp eq(4)
    by (simp add: kept_def)
qed

lemma cancel_again:
  assumes "store_inv d" "Repo_Cancel L newV7 request d = (Inr res, d1)" "\<not> rcr_Replayed res"
    "\<forall>oper \<in> set ops. \<not> commands_run (crq_TenantID request) (crq_RunID request) oper" "\<not> IsZero (crq_Now request)"
    "\<not> IsZero (run_CreatedAt (rcr_Run res))" "validateCancelRequest request' = None" "crq_TenantID request' = crq_TenantID request"
    "crq_RunID request' = crq_RunID request" "crq_CommandID request' = crq_CommandID request"
  shows "\<exists>run'. Repo_Cancel L newV7' request' (fold (platform_exec L marshal) ops d1) =
      (Inr \<lparr>rcr_Run = run', rcr_Replayed = True\<rparr>, fold (platform_exec L marshal) ops d1) \<and>
      marshalIdempotencyResponse run' = marshalIdempotencyResponse (rcr_Run res)"
proof -
  have tx: "Repo_Cancel_tx L newV7 request d = Inr (res, d1)" using assms(2) by (simp add: Repo_Cancel_def commits_Inr)
  have inv: "store_inv d1" using Repo_Cancel_kept [OF assms(1), of L newV7 request] assms(2) by (simp add: kept_def)
  from assms(1) tx show ?thesis
  proof (cases rule: Repo_Cancel_txE)
    case (fresh r event)
    let ?x = "cancelled_row request (rcr_Run res) r"
    have run: "rr_Run ?x = rcr_Run res" using cancelled_row_run [of request r] by (simp add: fresh(5))
    have x: "?x \<in> set (db_runs d1)" using fresh(1) by (force simp: fresh(6) sql_update_def)
    have k: "run_key (crq_TenantID request) (crq_RunID request) ?x" using fresh(2) by (simp add: cancelled_row_def)
    have c: "rr_LastCommandResponse ?x = Some (marshalIdempotencyResponse (rr_Run ?x))" "rr_LastCommandType ?x = Some ''CANCEL''"
      "rr_LastCommandID ?x = Some (crq_CommandID request)" unfolding run by (simp_all add: cancelled_row_def)
    have t: "\<not> IsZero (run_CreatedAt (rr_Run ?x))" "\<not> IsZero (run_UpdatedAt (rr_Run ?x))"
      using assms(5,6) unfolding run by (simp_all add: fresh(5) cancel_result_def)
    obtain r' run' where r': "store_inv (fold (platform_exec L marshal) ops d1)" "r' \<in> set (db_runs (fold (platform_exec L marshal) ops d1))"
      "run_key (crq_TenantID request) (crq_RunID request) r'" "rr_LastCommandType r' = rr_LastCommandType ?x"
      "rr_LastCommandID r' = rr_LastCommandID ?x" "applyCommandResponse (rr_LastCommandResponse r') (rr_Run r') = Inr run'"
      "marshalIdempotencyResponse run' = marshalIdempotencyResponse (rr_Run ?x)"
      using command_later [OF inv x k assms(4) c(1) fresh(7) t] .
    show ?thesis
      using Cancel_receipt [OF r'(1,2), of request' L newV7'] r'(3-7) c assms(7-10) by (simp add: run)
  qed (use assms(3) in simp)
qed

lemma retry_again:
  assumes "store_inv d" "Repo_Retry L attemptV7 newV7 request d = (Inr res, d1)" "\<not> rcr_Replayed res"
    "\<forall>oper \<in> set ops. \<not> commands_run (rrq_TenantID request) (rrq_RunID request) oper" "\<not> IsZero (rrq_Now request)"
    "\<not> IsZero (run_CreatedAt (rcr_Run res))" "validateRetryRequest request' = None" "rrq_TenantID request' = rrq_TenantID request"
    "rrq_RunID request' = rrq_RunID request" "rrq_CommandID request' = rrq_CommandID request"
  shows "\<exists>run'. Repo_Retry L attemptV7' newV7' request' (fold (platform_exec L marshal) ops d1) =
      (Inr \<lparr>rcr_Run = run', rcr_Replayed = True\<rparr>, fold (platform_exec L marshal) ops d1) \<and>
      marshalIdempotencyResponse run' = marshalIdempotencyResponse (rcr_Run res)"
proof -
  have tx: "Repo_Retry_tx L attemptV7 newV7 request d = Inr (res, d1)" using assms(2) by (simp add: Repo_Retry_def commits_Inr)
  have inv: "store_inv d1" using Repo_Retry_kept [OF assms(1), of L attemptV7 newV7 request] assms(2) by (simp add: kept_def)
  from assms(1) tx show ?thesis
  proof (cases rule: Repo_Retry_txE)
    case (fresh r attempt event)
    let ?x = "retried_row request (rcr_Run res) r"
    have run: "rr_Run ?x = rcr_Run res" using retried_row_run [of request r] by (simp add: fresh(4))
    have x: "?x \<in> set (db_runs d1)" using fresh(1) by (force simp: fresh(5) sql_update_def)
    have k: "run_key (rrq_TenantID request) (rrq_RunID request) ?x" using fresh(2) by (simp add: retried_row_def)
    have c: "rr_LastCommandResponse ?x = Some (marshalIdempotencyResponse (rr_Run ?x))" "rr_LastCommandType ?x = Some ''RETRY''"
      "rr_LastCommandID ?x = Some (rrq_CommandID request)" unfolding run by (simp_all add: retried_row_def)
    have t: "\<not> IsZero (run_CreatedAt (rr_Run ?x))" "\<not> IsZero (run_UpdatedAt (rr_Run ?x))"
      using assms(5,6) unfolding run by (simp_all add: fresh(4) retry_result_def)
    obtain r' run' where r': "store_inv (fold (platform_exec L marshal) ops d1)" "r' \<in> set (db_runs (fold (platform_exec L marshal) ops d1))"
      "run_key (rrq_TenantID request) (rrq_RunID request) r'" "rr_LastCommandType r' = rr_LastCommandType ?x"
      "rr_LastCommandID r' = rr_LastCommandID ?x" "applyCommandResponse (rr_LastCommandResponse r') (rr_Run r') = Inr run'"
      "marshalIdempotencyResponse run' = marshalIdempotencyResponse (rr_Run ?x)"
      using command_later [OF inv x k assms(4) c(1) fresh(6) t] .
    show ?thesis
      using Retry_receipt [OF r'(1,2), of request' L attemptV7' newV7'] r'(3-7) c assms(7-10) by (simp add: run)
  qed (use assms(3) in simp)
qed

end
