(* ===== verification/Operator_Types.thy ===== *)
theory Operator_Types
  imports Go_Regexp
begin

text \<open>
  The AgentRun resource of the operator (\<^verbatim>\<open>operator/api/v1alpha1/agentrun_types.go\<close>), the names of its
  children (\<^verbatim>\<open>operator/internal/naming/names.go\<close>), its validation and the classification of errors
  (\<^verbatim>\<open>operator/internal/controller/validation.go\<close>, \<^verbatim>\<open>errors.go\<close>).  What the operator takes from
  the Kubernetes libraries and the parsers of the standard library is the record \<open>oplib\<close>.
\<close>

section \<open>The resource\<close>

datatype DesiredState = DesiredStateRunning | DesiredStateCancelled | DesiredStateOther string

datatype NetworkProfile = NetworkProfileIsolated | NetworkProfileRestrictedEgress | NetworkProfileOther string

datatype WorkspaceRetentionPolicy =
  WorkspaceRetentionDelete | WorkspaceRetentionRetain | WorkspaceRetentionOther string

text \<open>The constants of a string type; \<open>Other []\<close> is the empty string, the zero value.\<close>

datatype RunFailureCategory =
    FailureCategoryValidation | FailureCategoryAuthentication | FailureCategoryAuthorization | FailureCategoryQuota
  | FailureCategoryConflict | FailureCategoryTransientDependency | FailureCategoryPermanentDependency
  | FailureCategoryExecution | FailureCategoryPolicy | FailureCategoryInternal | FailureCategoryOther string

datatype AgentRunPhase =
    AgentRunPhasePending | AgentRunPhaseProvisioning | AgentRunPhaseRunning | AgentRunPhaseSucceeded
  | AgentRunPhaseFailed | AgentRunPhaseCancelling | AgentRunPhaseCancelled | AgentRunPhaseOther string

abbreviation no_category :: RunFailureCategory where
  "no_category \<equiv> FailureCategoryOther []"

abbreviation no_phase :: AgentRunPhase where
  "no_phase \<equiv> AgentRunPhaseOther []"

record RetryPolicy =
  rp_MaxAttempts :: int
  rp_InitialBackoffSeconds :: int
  rp_MaxBackoffSeconds :: int
  rp_RetryableFailureCategories :: "RunFailureCategory list"

record ResourceValues =
  rv_CPUMillis :: int
  rv_MemoryMiB :: int

record ResourceRequirements =
  rq_Requests :: ResourceValues
  rq_Limits :: ResourceValues

record WorkspaceSpec =
  ws_SizeGiB :: int
  ws_StorageClassName :: string
  ws_RetentionPolicy :: WorkspaceRetentionPolicy

record NetworkSpec =
  nw_Profile :: NetworkProfile
  nw_AllowedDestinationsRef :: "string option"

record AgentRunSpec =
  sp_TenantID :: string
  sp_ProjectID :: string
  sp_RunID :: string
  sp_AttemptID :: string
  sp_Attempt :: int
  sp_RunnerImage :: string
  sp_Runtime :: string
  sp_ExecutionProfile :: string
  sp_TaskRef :: string
  sp_TimeoutSeconds :: int
  sp_RetryPolicy :: RetryPolicy
  sp_Resources :: ResourceRequirements
  sp_Workspace :: WorkspaceSpec
  sp_Network :: NetworkSpec
  sp_ArtifactDestinationRef :: string
  sp_ConfigurationRefs :: "string list"
  sp_SecretRefs :: "string list"
  sp_DesiredState :: DesiredState

record AttemptStatus =
  as_Attempt :: int
  as_JobName :: string
  as_PodName :: string
  as_Phase :: AgentRunPhase
  as_StartTime :: "gtime option"
  as_CompletionTime :: "gtime option"
  as_FailureCategory :: RunFailureCategory
  as_FailureReason :: string
  as_ArtifactManifestRef :: string

datatype ConditionStatus = ConditionTrue | ConditionFalse | ConditionUnknown

record Condition =
  cd_Type :: string
  cd_Status :: ConditionStatus
  cd_ObservedGeneration :: int
  cd_LastTransitionTime :: gtime
  cd_Reason :: string
  cd_Message :: string

record RunStatus =
  st_Phase :: AgentRunPhase
  st_ObservedGeneration :: int
  st_Attempt :: int
  st_Namespace :: string
  st_JobName :: string
  st_PodName :: string
  st_StartTime :: "gtime option"
  st_CompletionTime :: "gtime option"
  st_HeartbeatTime :: "gtime option"
  st_FailureCategory :: RunFailureCategory
  st_FailureReason :: string
  st_ArtifactManifestRef :: string
  st_Attempts :: "AttemptStatus list"
  st_Conditions :: "Condition list"

text \<open>The object with the metadata the operator reads.\<close>

record AgentRunCR =
  cr_Name :: string
  cr_Namespace :: string
  cr_UID :: string
  cr_Generation :: int
  cr_DeletionTimestamp :: "gtime option"
  cr_Finalizers :: "string list"
  cr_Spec :: AgentRunSpec
  cr_Status :: RunStatus

section \<open>Libraries\<close>

text \<open>
  \<open>ol_SetStatusCondition\<close> and \<open>ol_FindStatusCondition\<close> are the functions of
  \<^verbatim>\<open>k8s.io/apimachinery/pkg/api/meta\<close>; \<open>ol_urlParse\<close> gives the scheme, the host and the opaque part
  of a URL; \<open>ol_DecodeEvidence\<close> decodes the first JSON value of a text into the two fields of the
  termination evidence, refusing unknown fields, and tells whether the end of the text follows;
  \<open>ol_Sum256\<close> are the bytes of SHA-256.
\<close>

record oplib =
  ol_SetStatusCondition :: "Condition list \<Rightarrow> Condition \<Rightarrow> Condition list"
  ol_FindStatusCondition :: "Condition list \<Rightarrow> string \<Rightarrow> Condition option"
  ol_urlParse :: "string \<Rightarrow> (string \<times> string \<times> string) option"
  ol_DecodeEvidence :: "string \<Rightarrow> ((int \<times> string) \<times> bool) option"
  ol_Sum256 :: "string \<Rightarrow> string"

section \<open>Names\<close>

definition CurrentAttempt :: "AgentRunCR \<Rightarrow> int" where
  "CurrentAttempt run =
    (if st_Attempt (cr_Status run) \<ge> sp_Attempt (cr_Spec run) then st_Attempt (cr_Status run)
     else sp_Attempt (cr_Spec run))"

definition isLowerHex :: "string \<Rightarrow> bool" where
  "isLowerHex value \<longleftrightarrow>
     list_all (\<lambda>c. \<not> ((c < CHR ''0'' \<or> c > CHR ''9'') \<and> (c < CHR ''a'' \<or> c > CHR ''f''))) value"

definition IsUUIDv7 :: "string \<Rightarrow> bool" where
  "IsUUIDv7 value \<longleftrightarrow>
     \<not> (length value \<noteq> 36 \<or> value ! 8 \<noteq> CHR ''-'' \<or> value ! 13 \<noteq> CHR ''-'' \<or> value ! 18 \<noteq> CHR ''-'' \<or>
        value ! 23 \<noteq> CHR ''-'' \<or> value ! 14 \<noteq> CHR ''7'') \<and>
     value ! 19 \<in> set ''89ab'' \<and> isLowerHex (ReplaceAll value ''-'' '''')"

record ResourceNames =
  rn_ServiceAccount :: string
  rn_Configuration :: string
  rn_Workspace :: string
  rn_NetworkPolicy :: string
  rn_Job :: string

definition ForAgentRun :: "AgentRunCR \<Rightarrow> ResourceNames result" where
  "ForAgentRun run =
    (if \<not> IsUUIDv7 (sp_RunID (cr_Spec run)) then Inl (Plain ''invalid immutable run identity'')
     else
       let attempt = CurrentAttempt run in
       if attempt < 1 \<or> attempt > rp_MaxAttempts (sp_RetryPolicy (cr_Spec run)) \<or> attempt > 10 then
         Inl (Plain ''invalid current attempt'')
       else
         let runID = ReplaceAll (sp_RunID (cr_Spec run)) ''-'' '''';
             base = ''ar-'' @ runID @ ''-a'' @ Itoa attempt in
         Inr \<lparr>rn_ServiceAccount = base @ ''-sa'', rn_Configuration = base @ ''-config'',
              rn_Workspace = base @ ''-workspace'', rn_NetworkPolicy = base @ ''-network'', rn_Job = base @ ''-job''\<rparr>)"

section \<open>Errors\<close>

text \<open>The reasons of the errors of the Kubernetes API that \<^verbatim>\<open>k8s.io/apimachinery/pkg/api/errors\<close> tells apart.\<close>

datatype api_error_reason =
    NotFound | Conflict | ServerTimeout | Timeout | TooManyRequests | ServiceUnavailable | Invalid | BadRequest
  | Forbidden | Unauthorized | MethodNotSupported | UnknownReason string

text \<open>The error that a \<^verbatim>\<open>ReconcileError\<close> wraps goes to the log only.\<close>

datatype ErrorClass = ErrorClassTransient | ErrorClassPermanent

record ReconcileError =
  re_Class :: ErrorClass
  re_Reason :: string

definition newReconcileError :: "ErrorClass \<Rightarrow> string \<Rightarrow> ReconcileError" where
  "newReconcileError class reason = \<lparr>re_Class = class, re_Reason = reason\<rparr>"

definition classifyAPIError :: "string \<Rightarrow> api_error_reason \<Rightarrow> ReconcileError" where
  "classifyAPIError reason err =
    (if err = Conflict \<or> err = ServerTimeout \<or> err = Timeout \<or> err = TooManyRequests \<or> err = ServiceUnavailable then
       newReconcileError ErrorClassTransient reason
     else if err = Invalid \<or> err = BadRequest \<or> err = Forbidden \<or> err = Unauthorized \<or> err = MethodNotSupported then
       newReconcileError ErrorClassPermanent reason
     else newReconcileError ErrorClassTransient reason)"

section \<open>Validation\<close>

definition ContainsSpace :: "string \<Rightarrow> bool" where
  "ContainsSpace value \<longleftrightarrow> list_ex (\<lambda>c. c = CHR '' '' \<or> c = CHR 0x09 \<or> c = CHR 0x0D \<or> c = CHR 0x0A) value"

definition isDigestImage :: "string \<Rightarrow> bool" where
  "isDigestImage value =
    (case LastIndex value ''@sha256:'' of
       None \<Rightarrow> False
     | Some separator \<Rightarrow>
         \<not> (separator < 1 \<or> separator + 8 + 64 \<noteq> length value \<or> ContainsSpace (take separator value)) \<and>
         isLowerHex (drop (separator + 8) value))"

definition isSecureReference :: "oplib \<Rightarrow> string \<Rightarrow> bool" where
  "isSecureReference K value \<longleftrightarrow>
     \<not> (length value > 2048 \<or> ContainsSpace value) \<and>
     (case ol_urlParse K value of
        None \<Rightarrow> False
      | Some (scheme, host, opaque) \<Rightarrow>
          length scheme \<ge> 2 \<and> scheme = ToLower scheme \<and> (host \<noteq> [] \<or> opaque \<noteq> []))"

definition validateNetwork :: "NetworkSpec \<Rightarrow> error option" where
  "validateNetwork network =
    (case nw_Profile network of
       NetworkProfileIsolated \<Rightarrow>
         if nw_AllowedDestinationsRef network \<noteq> None then
           Some (Plain ''isolated network cannot include allowed destinations'') else None
     | NetworkProfileRestrictedEgress \<Rightarrow>
         if nw_AllowedDestinationsRef network = None then
           Some (Plain ''restricted egress requires an allowed destination reference'') else None
     | NetworkProfileOther _ \<Rightarrow> Some (Plain ''network profile is not supported''))"

definition identifier_error :: "(string \<times> string) list \<Rightarrow> error option" where
  "identifier_error identifiers =
    (case filter (\<lambda>(name, value). \<not> IsUUIDv7 value) identifiers of
       [] \<Rightarrow> None
     | (name, _) # _ \<Rightarrow> Some (Plain (name @ '' must be a lowercase UUIDv7'')))"

definition validateAgentRun :: "oplib \<Rightarrow> AgentRunCR \<Rightarrow> error option" where
  "validateAgentRun K run =
    (let spec = cr_Spec run in
     if cr_Generation run < 1 then Some (Plain ''metadata generation must be positive'')
     else (case identifier_error [(''tenantId'', sp_TenantID spec), (''projectId'', sp_ProjectID spec),
         (''runId'', sp_RunID spec), (''attemptId'', sp_AttemptID spec)] of Some err \<Rightarrow> Some err | None \<Rightarrow>
     if sp_Attempt spec < 1 \<or> sp_Attempt spec > 10 \<or> sp_Attempt spec > rp_MaxAttempts (sp_RetryPolicy spec) then
       Some (Plain ''attempt must be within the retry ceiling'')
     else if \<not> isDigestImage (sp_RunnerImage spec) then Some (Plain ''runnerImage must use a sha256 digest'')
     else if \<not> isSecureReference K (sp_TaskRef spec) then Some (Plain ''taskRef must be a secure reference'')
     else if sp_TimeoutSeconds spec < 1 \<or> sp_TimeoutSeconds spec > 86400 then
       Some (Plain ''timeoutSeconds is outside the approved range'')
     else if rv_CPUMillis (rq_Limits (sp_Resources spec)) < rv_CPUMillis (rq_Requests (sp_Resources spec)) \<or>
             rv_MemoryMiB (rq_Limits (sp_Resources spec)) < rv_MemoryMiB (rq_Requests (sp_Resources spec)) then
       Some (Plain ''resource limits must cover requests'')
     else (case validateNetwork (sp_Network spec) of Some err \<Rightarrow> Some err | None \<Rightarrow>
     if sp_DesiredState spec \<noteq> DesiredStateRunning \<and> sp_DesiredState spec \<noteq> DesiredStateCancelled then
       Some (Plain ''desiredState is not supported'')
     else (case ForAgentRun run of Inl err \<Rightarrow> Some err | Inr _ \<Rightarrow> None))))"

section \<open>Facts\<close>

lemma CurrentAttempt_ge: "sp_Attempt (cr_Spec run) \<le> CurrentAttempt run"
  by (simp add: CurrentAttempt_def)

lemma validateAgentRun_ok:
  assumes "validateAgentRun K run = None"
  shows "1 \<le> sp_Attempt (cr_Spec run)" "CurrentAttempt run \<le> rp_MaxAttempts (sp_RetryPolicy (cr_Spec run))" "CurrentAttempt run \<le> 10"
    "\<exists>names. ForAgentRun run = Inr names" "sp_DesiredState (cr_Spec run) \<in> {DesiredStateRunning, DesiredStateCancelled}"
  using assms unfolding validateAgentRun_def
  by (auto simp: Let_def ForAgentRun_def split: if_splits option.splits sum.splits)

text \<open>Children of different attempts of a run have different names.\<close>

lemma ForAgentRun_attempt:
  assumes "ForAgentRun run = Inr names" "ForAgentRun run' = Inr names'" "sp_RunID (cr_Spec run) = sp_RunID (cr_Spec run')"
    "rn_Job names = rn_Job names'"
  shows "CurrentAttempt run = CurrentAttempt run'"
proof -
  have "Itoa (CurrentAttempt run) = Itoa (CurrentAttempt run')" "in_i64 (CurrentAttempt run)" "in_i64 (CurrentAttempt run')"
    using assms by (auto simp: ForAgentRun_def Let_def in_i64_def split: if_splits)
  then show ?thesis using Atoi_Itoa by (metis option.inject)
qed

end
