(* ===== verification/Operator_Lifecycle.thy ===== *)
theory Operator_Lifecycle
  imports Operator_Types
begin

text \<open>
  The observation of a Job and its Pods and their projection into the status of the run
  (\<^verbatim>\<open>operator/internal/controller/lifecycle.go\<close>), and the retry of a failed attempt
  (\<^verbatim>\<open>retry.go\<close>).  \<open>now\<close> is the reading of the reconciler's clock \<^verbatim>\<open>r.now()\<close>.
\<close>

section \<open>Jobs and Pods\<close>

record OwnerReference =
  own_APIVersion :: string
  own_Kind :: string
  own_Name :: string
  own_UID :: string

record ContainerStateTerminated =
  tm_ExitCode :: int
  tm_Reason :: string
  tm_Message :: string
  tm_FinishedAt :: gtime

text \<open>The state of a container: the reason of waiting, the instant of the start, the termination.\<close>

record ContainerStatus =
  ct_Name :: string
  ct_Waiting :: "string option"
  ct_Running :: "gtime option"
  ct_Terminated :: "ContainerStateTerminated option"

record PodCondition =
  pc_Type :: string
  pc_Status :: ConditionStatus
  pc_Reason :: string

text \<open>\<open>pod_Controller\<close> is the owner that \<^verbatim>\<open>metav1.GetControllerOf\<close> finds.\<close>

record Pod =
  pod_Name :: string
  pod_CreationTimestamp :: gtime
  pod_Controller :: "OwnerReference option"
  pod_Phase :: string
  pod_Reason :: string
  pod_StartTime :: "gtime option"
  pod_ContainerStatuses :: "ContainerStatus list"
  pod_Conditions :: "PodCondition list"

record JobCondition =
  jc_Type :: string
  jc_Status :: ConditionStatus
  jc_Reason :: string
  jc_LastTransitionTime :: gtime

record Job =
  job_Name :: string
  job_UID :: string
  job_DeletionTimestamp :: "gtime option"
  job_StartTime :: "gtime option"
  job_CompletionTime :: "gtime option"
  job_Active :: int
  job_Succeeded :: int
  job_Failed :: int
  job_Conditions :: "JobCondition list"

section \<open>Reading Jobs and Pods\<close>

definition maximumTerminationEvidenceBytes :: nat where
  "maximumTerminationEvidenceBytes = 4096"

text \<open>The pattern \<^verbatim>\<open>^[a-z][a-z0-9+.-]{1,31}://[^\s]+$\<close>.\<close>

definition artifactManifestReferencePattern :: regexp where
  "artifactManifestReferencePattern =
    Seq (Cls False [(CHR ''a'', CHR ''z'')])
     (Seq (Rep (Cls False (az09 @ [(CHR ''+'', CHR ''+''), (CHR ''.'', CHR ''.''), (CHR ''-'', CHR ''-'')])) 1 31)
      (Seq (Str ''://'')
        (Plus (Cls True [(CHR 0x09, CHR 0x0A), (CHR 0x0C, CHR 0x0D), (CHR '' '', CHR '' '')]))))"

definition controlled_by :: "Job \<Rightarrow> Pod \<Rightarrow> bool" where
  "controlled_by job pod =
    (case pod_Controller pod of
       None \<Rightarrow> False
     | Some owner \<Rightarrow> own_APIVersion owner = ''batch/v1'' \<and> own_Kind owner = ''Job'' \<and>
         own_Name owner = job_Name job \<and> own_UID owner = job_UID job)"

definition pod_less :: "Pod \<Rightarrow> Pod \<Rightarrow> bool" where
  "pod_less left right \<longleftrightarrow>
     pod_CreationTimestamp left < pod_CreationTimestamp right \<or>
     pod_CreationTimestamp left = pod_CreationTimestamp right \<and> pod_Name left < pod_Name right"

definition selectLifecyclePod :: "Job \<Rightarrow> Pod list \<Rightarrow> Pod option" where
  "selectLifecyclePod job pods =
    (let candidates = filter (controlled_by job) pods in
     if candidates = [] then None else Some (last (sort_by pod_less candidates)))"

definition runnerContainerStatus :: "Pod \<Rightarrow> ContainerStatus option" where
  "runnerContainerStatus pod = find (\<lambda>container. ct_Name container = ''runner'') (pod_ContainerStatuses pod)"

definition runnerTermination :: "Pod \<Rightarrow> ContainerStateTerminated option" where
  "runnerTermination pod = Option.bind (runnerContainerStatus pod) ct_Terminated"

definition findJobCondition :: "Job \<Rightarrow> string \<Rightarrow> JobCondition option" where
  "findJobCondition job conditionType =
    find (\<lambda>condition. jc_Type condition = conditionType \<and> jc_Status condition = ConditionTrue) (job_Conditions job)"

definition findPodCondition :: "Pod \<Rightarrow> string \<Rightarrow> PodCondition option" where
  "findPodCondition pod conditionType = find (\<lambda>condition. pc_Type condition = conditionType) (pod_Conditions pod)"

definition jobCompletionTime :: "Job \<Rightarrow> gtime option" where
  "jobCompletionTime job =
    (case job_CompletionTime job of
       Some t \<Rightarrow> Some t
     | None \<Rightarrow>
        (case findJobCondition job ''Failed'' of
           Some condition \<Rightarrow> Some (jc_LastTransitionTime condition)
         | None \<Rightarrow> map_option jc_LastTransitionTime (findJobCondition job ''FailureTarget'')))"

fun firstTime :: "gtime option list \<Rightarrow> gtime option" where
  "firstTime [] = None"
| "firstTime (value # values) =
     (case value of Some t \<Rightarrow> if \<not> IsZero t then Some t else firstTime values | None \<Rightarrow> firstTime values)"

text \<open>The termination message of the runner: one JSON object with the schema version and the reference of the manifest.\<close>

definition parseTerminationEvidence :: "oplib \<Rightarrow> string \<Rightarrow> string result" where
  "parseTerminationEvidence K message =
    (if length message = 0 \<or> length message > maximumTerminationEvidenceBytes then
       Inl (Plain ''termination evidence size is invalid'')
     else (case ol_DecodeEvidence K message of
        None \<Rightarrow> Inl (Plain ''decode termination evidence'')
      | Some ((schemaVersion, artifactManifestRef), eof) \<Rightarrow>
          if \<not> eof then Inl (Plain ''termination evidence contains trailing data'')
          else if schemaVersion \<noteq> 1 \<or> length artifactManifestRef > 2048 \<or>
               \<not> MatchString artifactManifestReferencePattern artifactManifestRef then
            Inl (Plain ''termination evidence fields are invalid'')
          else Inr artifactManifestRef))"

section \<open>Observation\<close>

record lifecycleObservation =
  ob_phase :: AgentRunPhase
  ob_reason :: string
  ob_message :: string
  ob_podName :: string
  ob_startTime :: "gtime option"
  ob_completionTime :: "gtime option"
  ob_failureCategory :: RunFailureCategory
  ob_failureReason :: string
  ob_artifactManifestRef :: string

definition failedObservation :: "string \<Rightarrow> string \<Rightarrow> RunFailureCategory \<Rightarrow> Pod \<Rightarrow> lifecycleObservation" where
  "failedObservation reason message category pod =
    \<lparr>ob_phase = AgentRunPhaseFailed, ob_reason = reason, ob_message = message, ob_podName = [],
     ob_startTime = pod_StartTime pod,
     ob_completionTime = (case runnerTermination pod of
        Some terminated \<Rightarrow> if \<not> IsZero (tm_FinishedAt terminated) then Some (tm_FinishedAt terminated) else None
      | None \<Rightarrow> None),
     ob_failureCategory = category, ob_failureReason = message, ob_artifactManifestRef = []\<rparr>"

definition waitingObservation :: "string \<Rightarrow> Pod \<Rightarrow> lifecycleObservation option" where
  "waitingObservation reason pod =
    (if reason = ''ErrImagePull'' \<or> reason = ''ImagePullBackOff'' then
       Some (failedObservation ''ImagePullFailed'' ''Runner image could not be pulled'' FailureCategoryTransientDependency pod)
     else if reason = ''InvalidImageName'' then
       Some (failedObservation ''InvalidImage'' ''Runner image reference was rejected'' FailureCategoryPermanentDependency pod)
     else if reason = ''CreateContainerConfigError'' then
       Some (failedObservation ''ConfigurationError'' ''Runner container configuration was rejected'' FailureCategoryPolicy pod)
     else if reason = ''CreateContainerError'' \<or> reason = ''RunContainerError'' then
       Some (failedObservation ''ContainerStartFailed'' ''Runner container could not start'' FailureCategoryPermanentDependency pod)
     else None)"

definition terminatedObservation :: "ContainerStatus \<Rightarrow> Pod \<Rightarrow> lifecycleObservation option" where
  "terminatedObservation container pod =
    (case ct_Terminated container of
       None \<Rightarrow> None
     | Some terminated \<Rightarrow>
         if tm_ExitCode terminated = 0 then None
         else if tm_Reason terminated = ''OOMKilled'' then
           Some (failedObservation ''OOMKilled'' ''Runner exceeded its memory limit'' FailureCategoryExecution pod)
         else Some (failedObservation ''ProcessExitNonZero'' ''Runner process exited with a nonzero status''
           FailureCategoryExecution pod))"

definition terminalPodObservation :: "Pod \<Rightarrow> lifecycleObservation option" where
  "terminalPodObservation pod =
    (if pod_Reason pod = ''Evicted'' then
       Some (failedObservation ''PodEvicted'' ''Execution Pod was evicted'' FailureCategoryTransientDependency pod)
     else if pod_Reason pod = ''NodeLost'' then
       Some (failedObservation ''NodeLost'' ''Execution Pod was lost with its node'' FailureCategoryTransientDependency pod)
     else (case runnerContainerStatus pod of
        None \<Rightarrow> None
      | Some container \<Rightarrow>
          (case Option.bind (ct_Waiting container) (\<lambda>reason. waitingObservation reason pod) of
             Some failed \<Rightarrow> Some failed
           | None \<Rightarrow> terminatedObservation container pod)))"

definition pendingPodObservation :: "lifecycleObservation \<Rightarrow> Pod \<Rightarrow> lifecycleObservation" where
  "pendingPodObservation observation pod =
    (let running = (if pod_Phase pod = ''Running'' then observation\<lparr>ob_phase := AgentRunPhaseRunning,
         ob_reason := ''PodRunning'', ob_message := ''Execution Pod is running''\<rparr> else observation) in
     case findPodCondition pod ''PodScheduled'' of
       Some condition \<Rightarrow>
         if pc_Status condition = ConditionFalse \<and> pc_Reason condition = ''Unschedulable'' then
           observation\<lparr>ob_reason := ''PodUnschedulable'', ob_message := ''Execution Pod cannot currently be scheduled''\<rparr>
         else if pc_Status condition = ConditionTrue then
           observation\<lparr>ob_reason := ''PodScheduled'', ob_message := ''Execution Pod is scheduled and waiting for the runner''\<rparr>
         else running
     | None \<Rightarrow> running)"

definition observeNonTerminalPod :: "lifecycleObservation \<Rightarrow> Pod \<Rightarrow> lifecycleObservation" where
  "observeNonTerminalPod observation pod =
    (case runnerContainerStatus pod of
       None \<Rightarrow> pendingPodObservation observation pod
     | Some container \<Rightarrow>
        (case ct_Running container of
           Some startedAt \<Rightarrow> observation\<lparr>ob_phase := AgentRunPhaseRunning, ob_reason := ''RunnerActive'',
             ob_message := ''Runner container is active'',
             ob_startTime := (if \<not> IsZero startedAt then Some startedAt else ob_startTime observation)\<rparr>
         | None \<Rightarrow>
        (case ct_Waiting container of
           Some reason \<Rightarrow>
             if reason = ''ContainerCreating'' then
               observation\<lparr>ob_reason := ''ContainerCreating'', ob_message := ''Runner container is being created''\<rparr>
             else observation\<lparr>ob_reason := ''PodPending'', ob_message := ''Runner container is waiting''\<rparr>
         | None \<Rightarrow>
        (case ct_Terminated container of
           Some terminated \<Rightarrow>
             if tm_ExitCode terminated = 0 then
               observation\<lparr>ob_reason := ''JobCompletionPending'',
                 ob_message := ''Runner exited successfully and Job completion is pending''\<rparr>
             else pendingPodObservation observation pod
         | None \<Rightarrow> pendingPodObservation observation pod))))"

definition classifyJobFailure :: "string \<Rightarrow> RunFailureCategory \<times> string \<times> string" where
  "classifyJobFailure reason =
    (if reason = ''DeadlineExceeded'' then
       (FailureCategoryExecution, ''DeadlineExceeded'', ''Execution exceeded its active deadline'')
     else if reason = ''BackoffLimitExceeded'' then
       (FailureCategoryExecution, ''JobFailed'', ''Execution Job exhausted its zero-retry policy'')
     else (FailureCategoryExecution, ''JobFailed'', ''Execution Job reported failure''))"

text \<open>The branches of \<^verbatim>\<open>observeLifecycle\<close>: the Job has failed, it is complete, it is still active.\<close>

definition failedJobObservation :: "Job \<Rightarrow> lifecycleObservation \<Rightarrow> lifecycleObservation option" where
  "failedJobObservation job observation =
    (case (case findJobCondition job ''Failed'' of
             Some condition \<Rightarrow> Some condition | None \<Rightarrow> findJobCondition job ''FailureTarget'') of
       Some condition \<Rightarrow>
         (case classifyJobFailure (jc_Reason condition) of (category, reason, message) \<Rightarrow>
           Some \<lparr>ob_phase = AgentRunPhaseFailed, ob_reason = reason, ob_message = message,
             ob_podName = ob_podName observation, ob_startTime = ob_startTime observation,
             ob_completionTime = firstTime [job_CompletionTime job, Some (jc_LastTransitionTime condition)],
             ob_failureCategory = category, ob_failureReason = message, ob_artifactManifestRef = []\<rparr>)
     | None \<Rightarrow>
         if job_Failed job > 0 \<and> job_Active job = 0 then
           Some \<lparr>ob_phase = AgentRunPhaseFailed, ob_reason = ''JobFailed'', ob_message = ''Execution Job reported failure'',
             ob_podName = ob_podName observation, ob_startTime = ob_startTime observation,
             ob_completionTime = jobCompletionTime job, ob_failureCategory = FailureCategoryExecution,
             ob_failureReason = ''Execution Job reported failure'', ob_artifactManifestRef = []\<rparr>
         else None)"

definition completedJobObservation :: "oplib \<Rightarrow> Job \<Rightarrow> Pod option \<Rightarrow> lifecycleObservation \<Rightarrow> lifecycleObservation" where
  "completedJobObservation K job selected observation =
    (case selected of
       None \<Rightarrow> observation\<lparr>ob_reason := ''ResultEvidencePending'',
         ob_message := ''Completed Job is waiting for Pod result evidence''\<rparr>
     | Some pod \<Rightarrow>
        (case runnerTermination pod of
           None \<Rightarrow> observation\<lparr>ob_reason := ''ResultEvidencePending'',
             ob_message := ''Completed Job is waiting for runner termination evidence''\<rparr>
         | Some terminated \<Rightarrow>
            (case parseTerminationEvidence K (tm_Message terminated) of
               Inl _ \<Rightarrow> \<lparr>ob_phase = AgentRunPhaseFailed, ob_reason = ''ResultEvidenceInvalid'',
                 ob_message = ''Runner completed without valid mandatory result evidence'', ob_podName = pod_Name pod,
                 ob_startTime = ob_startTime observation,
                 ob_completionTime = firstTime [job_CompletionTime job, Some (tm_FinishedAt terminated)],
                 ob_failureCategory = FailureCategoryExecution,
                 ob_failureReason = ''Mandatory result evidence is missing or invalid'', ob_artifactManifestRef = []\<rparr>
             | Inr artifactManifestRef \<Rightarrow> \<lparr>ob_phase = AgentRunPhaseSucceeded, ob_reason = ''ResultEvidenceReady'',
                 ob_message = ''Execution completed with mandatory result evidence'', ob_podName = pod_Name pod,
                 ob_startTime = ob_startTime observation,
                 ob_completionTime = firstTime [job_CompletionTime job, Some (tm_FinishedAt terminated)],
                 ob_failureCategory = no_category, ob_failureReason = [],
                 ob_artifactManifestRef = artifactManifestRef\<rparr>)))"

definition initialObservation :: "Job \<Rightarrow> Pod option \<Rightarrow> lifecycleObservation" where
  "initialObservation job selected =
    \<lparr>ob_phase = AgentRunPhaseProvisioning, ob_reason = ''PodPending'',
     ob_message = ''Execution is waiting for an observed Pod'',
     ob_podName = (case selected of Some pod \<Rightarrow> pod_Name pod | None \<Rightarrow> []),
     ob_startTime = (case job_StartTime job of
        Some t \<Rightarrow> Some t | None \<Rightarrow> (case selected of Some pod \<Rightarrow> pod_StartTime pod | None \<Rightarrow> None)),
     ob_completionTime = None, ob_failureCategory = no_category, ob_failureReason = [], ob_artifactManifestRef = []\<rparr>"

definition observeLifecycle :: "oplib \<Rightarrow> Job \<Rightarrow> Pod list \<Rightarrow> lifecycleObservation" where
  "observeLifecycle K job pods =
    (let selected = selectLifecyclePod job pods; observation = initialObservation job selected in
     case Option.bind selected terminalPodObservation of
       Some failed \<Rightarrow> failed\<lparr>
         ob_completionTime := (case ob_completionTime failed of Some t \<Rightarrow> Some t | None \<Rightarrow> jobCompletionTime job),
         ob_startTime := (case ob_startTime failed of Some t \<Rightarrow> Some t | None \<Rightarrow> ob_startTime observation),
         ob_podName := ob_podName observation\<rparr>
     | None \<Rightarrow>
    (case failedJobObservation job observation of
       Some failed \<Rightarrow> failed
     | None \<Rightarrow>
         if findJobCondition job ''Complete'' \<noteq> None \<or> job_Succeeded job > 0 then
           completedJobObservation K job selected observation
         else (case selected of
            None \<Rightarrow>
              if job_Active job > 0 then observation\<lparr>ob_reason := ''JobActive'',
                ob_message := ''Execution Job is active and waiting for a Pod''\<rparr>
              else observation
          | Some pod \<Rightarrow> observeNonTerminalPod observation pod)))"

section \<open>Projection into the status\<close>

definition setCondition ::
  "oplib \<Rightarrow> gtime \<Rightarrow> string \<Rightarrow> ConditionStatus \<Rightarrow> string \<Rightarrow> string \<Rightarrow> AgentRunCR \<Rightarrow> AgentRunCR" where
  "setCondition K now conditionType status reason message run =
    run\<lparr>cr_Status := (cr_Status run)\<lparr>st_Conditions := ol_SetStatusCondition K (st_Conditions (cr_Status run))
      \<lparr>cd_Type = conditionType, cd_Status = status, cd_ObservedGeneration = cr_Generation run,
       cd_LastTransitionTime = now, cd_Reason = reason, cd_Message = message\<rparr>\<rparr>\<rparr>"

definition attemptStatus :: "AgentRunCR \<Rightarrow> AttemptStatus" where
  "attemptStatus run =
    \<lparr>as_Attempt = CurrentAttempt run, as_JobName = st_JobName (cr_Status run), as_PodName = st_PodName (cr_Status run),
     as_Phase = st_Phase (cr_Status run), as_StartTime = st_StartTime (cr_Status run),
     as_CompletionTime = st_CompletionTime (cr_Status run), as_FailureCategory = st_FailureCategory (cr_Status run),
     as_FailureReason = st_FailureReason (cr_Status run),
     as_ArtifactManifestRef = st_ArtifactManifestRef (cr_Status run)\<rparr>"

text \<open>The loop replaces the first entry of the attempt; \<open>None\<close> if there is none.\<close>

fun replaceAttempt :: "AttemptStatus \<Rightarrow> AttemptStatus list \<Rightarrow> AttemptStatus list option" where
  "replaceAttempt current [] = None"
| "replaceAttempt current (a # as) =
     (if as_Attempt a = as_Attempt current then Some (current # as)
      else map_option ((#) a) (replaceAttempt current as))"

definition attempt_less :: "AttemptStatus \<Rightarrow> AttemptStatus \<Rightarrow> bool" where
  "attempt_less left right \<longleftrightarrow> i32 (as_Attempt left - as_Attempt right) < 0"

definition upsertAttemptStatus :: "AgentRunCR \<Rightarrow> AgentRunCR" where
  "upsertAttemptStatus run =
    (let current = attemptStatus run;
         attempts = (case replaceAttempt current (st_Attempts (cr_Status run)) of
            Some as \<Rightarrow> as | None \<Rightarrow> st_Attempts (cr_Status run) @ [current]) in
     run\<lparr>cr_Status := (cr_Status run)\<lparr>st_Attempts := sort_by attempt_less attempts\<rparr>\<rparr>)"

definition projectLifecycle :: "oplib \<Rightarrow> gtime \<Rightarrow> lifecycleObservation \<Rightarrow> AgentRunCR \<Rightarrow> AgentRunCR" where
  "projectLifecycle K now observation run =
    upsertAttemptStatus (setCondition K now ''Ready''
      (if ob_phase observation = AgentRunPhaseSucceeded then ConditionTrue else ConditionFalse)
      (ob_reason observation) (ob_message observation)
      (run\<lparr>cr_Status := (cr_Status run)\<lparr>st_Phase := ob_phase observation, st_PodName := ob_podName observation,
         st_StartTime := ob_startTime observation, st_CompletionTime := ob_completionTime observation,
         st_FailureCategory := ob_failureCategory observation, st_FailureReason := ob_failureReason observation,
         st_ArtifactManifestRef := ob_artifactManifestRef observation\<rparr>\<rparr>))"

definition recordMissingJob :: "oplib \<Rightarrow> gtime \<Rightarrow> string \<Rightarrow> AgentRunCR \<Rightarrow> AgentRunCR" where
  "recordMissingJob K now jobName run =
    projectLifecycle K now
      \<lparr>ob_phase = AgentRunPhaseFailed, ob_reason = ''JobMissing'',
       ob_message = ''Previously observed execution Job is missing'', ob_podName = st_PodName (cr_Status run),
       ob_startTime = st_StartTime (cr_Status run), ob_completionTime = st_CompletionTime (cr_Status run),
       ob_failureCategory = FailureCategoryInternal,
       ob_failureReason = ''Previously observed execution Job was deleted'', ob_artifactManifestRef = []\<rparr>
      (run\<lparr>cr_Status := (cr_Status run)\<lparr>st_JobName := jobName\<rparr>\<rparr>)"

definition currentAttemptTerminal :: "AgentRunCR \<Rightarrow> bool" where
  "currentAttemptTerminal run \<longleftrightarrow> st_Attempt (cr_Status run) = CurrentAttempt run \<and>
     st_Phase (cr_Status run) \<in> {AgentRunPhaseSucceeded, AgentRunPhaseFailed, AgentRunPhaseCancelled}"

section \<open>Retry\<close>

definition retryAllowed :: "AgentRunCR \<Rightarrow> bool" where
  "retryAllowed run \<longleftrightarrow>
     \<not> (st_Phase (cr_Status run) \<noteq> AgentRunPhaseFailed \<or> st_Attempt (cr_Status run) \<noteq> CurrentAttempt run \<or>
        st_Attempt (cr_Status run) \<ge> rp_MaxAttempts (sp_RetryPolicy (cr_Spec run))) \<and>
     (st_FailureCategory (cr_Status run) = FailureCategoryTransientDependency \<or>
      st_FailureCategory (cr_Status run) = FailureCategoryInternal) \<and>
     st_FailureCategory (cr_Status run) \<in> set (rp_RetryableFailureCategories (sp_RetryPolicy (cr_Spec run)))"

text \<open>The anchor of the backoff; the zero time if there is none.\<close>

definition retryAnchor :: "AgentRunCR \<Rightarrow> gtime" where
  "retryAnchor run =
    (case st_CompletionTime (cr_Status run) of
       Some t \<Rightarrow> if \<not> IsZero t then t else
         (case find (\<lambda>c. cd_Type c = ''RetryReady'' \<and> cd_Status c = ConditionFalse) (st_Conditions (cr_Status run)) of
            Some c \<Rightarrow> cd_LastTransitionTime c | None \<Rightarrow> 0)
     | None \<Rightarrow>
         (case find (\<lambda>c. cd_Type c = ''RetryReady'' \<and> cd_Status c = ConditionFalse) (st_Conditions (cr_Status run)) of
            Some c \<Rightarrow> cd_LastTransitionTime c | None \<Rightarrow> 0))"

text \<open>The doubling loop; it ends because the exponent falls.\<close>

function doubling :: "duration \<Rightarrow> duration \<Rightarrow> int \<Rightarrow> duration" where
  "doubling base maximum exponent =
    (if exponent > 0 \<and> base < maximum then
       if base > maximum sdiv 2 then maximum
       else doubling (i64 (base * 2)) maximum (exponent - 1)
     else base)"
  by auto
termination
  by (relation "measure (\<lambda>(base, maximum, exponent). nat exponent)") auto

declare doubling.simps [simp del]

definition Uint64 :: "string \<Rightarrow> nat" where
  "Uint64 bytes = foldl (\<lambda>n c. 256 * n + of_char c) 0 (take 8 bytes)"

definition retryDelay :: "oplib \<Rightarrow> AgentRunCR \<Rightarrow> int \<Rightarrow> int \<Rightarrow> duration" where
  "retryDelay K run currentAttempt nextAttempt =
    (let policy = sp_RetryPolicy (cr_Spec run);
         base = i64 (rp_InitialBackoffSeconds policy * second);
         maximum = i64 (rp_MaxBackoffSeconds policy * second);
         doubled = doubling base maximum (i32 (currentAttempt - sp_Attempt (cr_Spec run)));
         capped = (if doubled > maximum then maximum else doubled);
         permille = int (500 + Uint64 (ol_Sum256 K (sp_RunID (cr_Spec run) @ '':'' @ Itoa nextAttempt)) mod 501) in
     i64 (capped * permille) sdiv 1000)"

text \<open>\<^verbatim>\<open>time.Time.Sub\<close> saturates.\<close>

definition time_Sub :: "gtime \<Rightarrow> gtime \<Rightarrow> duration" where
  "time_Sub t u = max (- (2 ^ 63)) (min (2 ^ 63 - 1) (t - u))"

definition startRetry :: "oplib \<Rightarrow> gtime \<Rightarrow> int \<Rightarrow> AgentRunCR \<Rightarrow> AgentRunCR" where
  "startRetry K now nextAttempt run =
    upsertAttemptStatus
     (setCondition K now ''Ready'' ConditionFalse ''RetryPending'' ''Execution retry resources have not been reconciled''
     (setCondition K now ''JobReady'' ConditionFalse ''RetryPending'' ''A new deterministic execution Job has not been created''
     (setCondition K now ''RetryReady'' ConditionTrue ''RetryStarted''
        (''Retry attempt '' @ Itoa nextAttempt @ '' is ready for reconciliation'')
     (run\<lparr>cr_Status := (cr_Status run)\<lparr>st_Attempt := nextAttempt, st_Phase := AgentRunPhasePending, st_JobName := [],
        st_PodName := [], st_StartTime := None, st_CompletionTime := None, st_HeartbeatTime := None,
        st_FailureCategory := no_category, st_FailureReason := [], st_ArtifactManifestRef := [],
        st_ObservedGeneration := cr_Generation run\<rparr>\<rparr>))))"

text \<open>The result is the delay after which the run is reconciled again.\<close>

definition reconcileRetry :: "oplib \<Rightarrow> gtime \<Rightarrow> AgentRunCR \<Rightarrow> duration \<times> AgentRunCR" where
  "reconcileRetry K now run =
    (let currentAttempt = CurrentAttempt run; nextAttempt = i32 (currentAttempt + 1);
         anchor = (if IsZero (retryAnchor run) then now else retryAnchor run);
         remaining = time_Sub (anchor + retryDelay K run currentAttempt nextAttempt) now in
     if remaining > 0 then
       (remaining,
        setCondition K now ''Ready'' ConditionFalse ''RetryBackoff'' ''Execution retry is waiting for bounded backoff''
         (setCondition K now ''RetryReady'' ConditionFalse ''BackoffPending''
           (''Retry attempt '' @ Itoa nextAttempt @ '' is waiting for bounded backoff'') run))
     else (millisecond, startRetry K now nextAttempt run))"

section \<open>The selected Pod\<close>

interpretation pods: go_less pod_less
  by unfold_locales (auto simp: pod_less_def)

lemma last_sorted: "sorted_wrt P xs \<Longrightarrow> x \<in> set xs \<Longrightarrow> x = last xs \<or> P x (last xs)"
  by (induction xs) (auto split: if_splits)

text \<open>It is the latest Pod of the Job, and the only one where the names differ.\<close>

lemma selectLifecyclePod_Some:
  assumes "selectLifecyclePod job pods = Some pod"
  shows "pod \<in> set pods" "controlled_by job pod" "\<And>p. p \<in> set pods \<Longrightarrow> controlled_by job p \<Longrightarrow> \<not> pod_less pod p"
proof -
  let ?s = "sort_by pod_less (filter (controlled_by job) pods)"
  have p: "pod = last ?s" "?s \<noteq> []" using assms by (auto simp: selectLifecyclePod_def Let_def split: if_splits)
  then have "pod \<in> set ?s" by (metis last_in_set)
  then show "pod \<in> set pods" "controlled_by job pod" by simp_all
  fix p assume "p \<in> set pods" "controlled_by job p"
  then have "p \<in> set ?s" by simp
  from last_sorted [OF pods.sorted_sort_by this] show "\<not> pod_less pod p"
    using p(1) pods.lt_irrefl by auto
qed

lemma selectLifecyclePod_eq:
  assumes "pod \<in> set pods" "controlled_by job pod" "\<And>p. p \<in> set pods \<Longrightarrow> controlled_by job p \<Longrightarrow> \<not> pod_less pod p"
    "distinct (map pod_Name pods)"
  shows "selectLifecyclePod job pods = Some pod"
proof -
  have "filter (controlled_by job) pods \<noteq> []" using assms(1,2) by (auto simp: filter_empty_conv)
  then obtain q where q: "selectLifecyclePod job pods = Some q" by (simp add: selectLifecyclePod_def Let_def)
  note sel = selectLifecyclePod_Some [OF q]
  have "pod_Name q = pod_Name pod"
    using sel(3) [OF assms(1,2)] assms(3) [OF sel(1,2)] by (auto simp: pod_less_def)
  then have "q = pod" using assms(1,4) sel(1) by (simp add: inj_on_eq_iff [of pod_Name "set pods"] distinct_map)
  then show ?thesis using q by simp
qed

section \<open>Success needs evidence\<close>

lemma failedObservation_phase [simp]: "ob_phase (failedObservation reason message category pod) = AgentRunPhaseFailed"
  by (simp add: failedObservation_def)

lemma waitingObservation_failed: "waitingObservation reason pod = Some ob \<Longrightarrow> ob_phase ob = AgentRunPhaseFailed"
  unfolding waitingObservation_def by (metis failedObservation_phase option.distinct(1) option.inject)

lemma terminatedObservation_failed: "terminatedObservation container pod = Some ob \<Longrightarrow> ob_phase ob = AgentRunPhaseFailed"
  unfolding terminatedObservation_def by (auto split: option.split_asm if_split_asm)

lemma terminalPodObservation_failed:
  assumes "terminalPodObservation pod = Some ob"
  shows "ob_phase ob = AgentRunPhaseFailed"
proof (cases "runnerContainerStatus pod")
  case (Some container)
  then show ?thesis
    using assms waitingObservation_failed terminatedObservation_failed unfolding terminalPodObservation_def
    by (cases "Option.bind (ct_Waiting container) (\<lambda>reason. waitingObservation reason pod)")
      (auto split: if_split_asm bind_split_asm)
qed (use assms in \<open>auto simp: terminalPodObservation_def split: if_split_asm\<close>)

lemma failedJobObservation_failed: "failedJobObservation job ob0 = Some ob \<Longrightarrow> ob_phase ob = AgentRunPhaseFailed"
  by (auto simp: failedJobObservation_def split: if_splits option.splits prod.splits)

lemma observeNonTerminalPod_open:
  "ob_phase ob \<in> {AgentRunPhaseProvisioning, AgentRunPhaseRunning} \<Longrightarrow>
   ob_phase (observeNonTerminalPod ob pod) \<in> {AgentRunPhaseProvisioning, AgentRunPhaseRunning}"
  by (auto simp: observeNonTerminalPod_def pendingPodObservation_def Let_def split: option.splits)

text \<open>A Job has failed when it says so or when its Pod failed and none is active.\<close>

definition job_failed :: "Job \<Rightarrow> bool" where
  "job_failed job \<longleftrightarrow> findJobCondition job ''Failed'' \<noteq> None \<or> findJobCondition job ''FailureTarget'' \<noteq> None \<or>
     job_Failed job > 0 \<and> job_Active job = 0"

definition job_complete :: "Job \<Rightarrow> bool" where
  "job_complete job \<longleftrightarrow> findJobCondition job ''Complete'' \<noteq> None \<or> job_Succeeded job > 0"

lemma failedJobObservation_None: "failedJobObservation job ob = None \<longleftrightarrow> \<not> job_failed job"
  by (auto simp: failedJobObservation_def job_failed_def split: option.splits prod.splits)

lemma observeLifecycle_succeeded:
  "ob_phase (observeLifecycle K job pods) = AgentRunPhaseSucceeded \<and> ob_artifactManifestRef (observeLifecycle K job pods) = ref \<longleftrightarrow>
   job_complete job \<and> \<not> job_failed job \<and>
   (\<exists>pod. selectLifecyclePod job pods = Some pod \<and> terminalPodObservation pod = None \<and>
      (\<exists>terminated. runnerTermination pod = Some terminated \<and> parseTerminationEvidence K (tm_Message terminated) = Inr ref))"
proof (cases "Option.bind (selectLifecyclePod job pods) terminalPodObservation")
  case (Some failed)
  then have "ob_phase failed = AgentRunPhaseFailed" "\<And>pod. selectLifecyclePod job pods = Some pod \<Longrightarrow> terminalPodObservation pod \<noteq> None"
    using terminalPodObservation_failed by (auto simp: bind_eq_Some_conv)
  then show ?thesis by (auto simp: observeLifecycle_def Let_def Some)
next
  case None
  let ?ob = "initialObservation job (selectLifecyclePod job pods)"
  have open_phase: "ob_phase ?ob = AgentRunPhaseProvisioning" by (simp add: initialObservation_def)
  show ?thesis
  proof (cases "failedJobObservation job ?ob")
    case (Some failed)
    then have "job_failed job" using failedJobObservation_None [of job ?ob] by simp
    then show ?thesis using failedJobObservation_failed [OF Some] by (simp add: observeLifecycle_def Let_def None Some)
  next
    case alive: None
    then have "\<not> job_failed job" by (simp add: failedJobObservation_None)
    then show ?thesis
    proof (cases "job_complete job")
      case True
      then have "observeLifecycle K job pods = completedJobObservation K job (selectLifecyclePod job pods) ?ob"
        by (simp add: observeLifecycle_def Let_def None alive job_complete_def)
      then show ?thesis
        using True \<open>\<not> job_failed job\<close> None open_phase
        by (auto simp: completedJobObservation_def bind_eq_None_conv split: option.splits sum.splits)
    next
      case False
      then show ?thesis
        using observeNonTerminalPod_open [of ?ob "the (selectLifecyclePod job pods)"] open_phase
        by (auto simp: observeLifecycle_def Let_def None alive job_complete_def split: option.splits)
    qed
  qed
qed

lemma healthy_termination:
  "terminalPodObservation pod = None \<and> runnerTermination pod = Some terminated \<longleftrightarrow>
   pod_Reason pod \<notin> {''Evicted'', ''NodeLost''} \<and>
   (\<exists>container. runnerContainerStatus pod = Some container \<and> ct_Terminated container = Some terminated \<and>
      tm_ExitCode terminated = 0 \<and> Option.bind (ct_Waiting container) (\<lambda>reason. waitingObservation reason pod) = None)"
  by (cases "runnerContainerStatus pod")
    (auto simp: terminalPodObservation_def runnerTermination_def terminatedObservation_def split: if_splits option.splits)

text \<open>C8: An attempt succeeds exactly when its Job is complete and has not failed, and the latest Pod of the Job
  shows no failure and a runner that ended with valid evidence, whose manifest reference is then the one
  that is reported.\<close>

theorem success_needs_evidence:
  assumes "distinct (map pod_Name pods)"
  shows "ob_phase (observeLifecycle K job pods) = AgentRunPhaseSucceeded \<and>
      ob_artifactManifestRef (observeLifecycle K job pods) = ref \<longleftrightarrow>
    job_complete job \<and> \<not> job_failed job \<and>
    (\<exists>pod \<in> set pods. controlled_by job pod \<and> (\<forall>p \<in> set pods. controlled_by job p \<longrightarrow> \<not> pod_less pod p) \<and>
       pod_Reason pod \<notin> {''Evicted'', ''NodeLost''} \<and>
       (\<exists>container terminated. runnerContainerStatus pod = Some container \<and> ct_Terminated container = Some terminated \<and>
          tm_ExitCode terminated = 0 \<and> Option.bind (ct_Waiting container) (\<lambda>reason. waitingObservation reason pod) = None \<and>
          parseTerminationEvidence K (tm_Message terminated) = Inr ref))"
    (is "?L \<longleftrightarrow> ?R")
proof -
  have "?L \<longleftrightarrow> job_complete job \<and> \<not> job_failed job \<and>
      (\<exists>pod. selectLifecyclePod job pods = Some pod \<and> terminalPodObservation pod = None \<and>
         (\<exists>terminated. runnerTermination pod = Some terminated \<and> parseTerminationEvidence K (tm_Message terminated) = Inr ref))"
    by (rule observeLifecycle_succeeded)
  also have "\<dots> \<longleftrightarrow> ?R"
    using selectLifecyclePod_Some selectLifecyclePod_eq [OF _ _ _ assms] healthy_termination by (smt (verit, best))
  finally show ?thesis .
qed

definition ex_oplib :: oplib where
  "ex_oplib = \<lparr>ol_SetStatusCondition = (\<lambda>conditions new.
       case find (\<lambda>c. cd_Type c = cd_Type new) conditions of
         None \<Rightarrow> conditions @ [new]
       | Some old \<Rightarrow> map (\<lambda>c. if cd_Type c = cd_Type new then
             new\<lparr>cd_LastTransitionTime := (if cd_Status old = cd_Status new then cd_LastTransitionTime old
               else cd_LastTransitionTime new)\<rparr> else c) conditions),
     ol_FindStatusCondition = (\<lambda>conditions type. find (\<lambda>c. cd_Type c = type) conditions),
     ol_urlParse = (\<lambda>_. Some (''s3'', ''tasks'', [])),
     ol_DecodeEvidence = (\<lambda>text. if text = ''evidence'' then Some ((1, ''s3://results/7''), True) else None),
     ol_Sum256 = (\<lambda>_. replicate 32 (CHR 0x01))\<rparr>"

definition ex_job :: Job where
  "ex_job = \<lparr>job_Name = ''job-1'', job_UID = ''u-1'', job_DeletionTimestamp = None, job_StartTime = Some 100,
     job_CompletionTime = Some 200, job_Active = 0, job_Succeeded = 1, job_Failed = 0,
     job_Conditions = [\<lparr>jc_Type = ''Complete'', jc_Status = ConditionTrue, jc_Reason = [], jc_LastTransitionTime = 200\<rparr>]\<rparr>"

definition ex_pod :: Pod where
  "ex_pod = \<lparr>pod_Name = ''job-1-x'', pod_CreationTimestamp = 101,
     pod_Controller = Some \<lparr>own_APIVersion = ''batch/v1'', own_Kind = ''Job'', own_Name = ''job-1'', own_UID = ''u-1''\<rparr>,
     pod_Phase = ''Succeeded'', pod_Reason = [], pod_StartTime = Some 102,
     pod_ContainerStatuses = [\<lparr>ct_Name = ''runner'', ct_Waiting = None, ct_Running = None,
       ct_Terminated = Some \<lparr>tm_ExitCode = 0, tm_Reason = ''Completed'', tm_Message = ''evidence'', tm_FinishedAt = 199\<rparr>\<rparr>],
     pod_Conditions = []\<rparr>"

theorem success_needs_evidence_witness:
  "ob_phase (observeLifecycle ex_oplib ex_job [ex_pod]) = AgentRunPhaseSucceeded \<and>
   ob_artifactManifestRef (observeLifecycle ex_oplib ex_job [ex_pod]) = ''s3://results/7''"
proof -
  have "distinct (map pod_Name [ex_pod])" by simp
  moreover have "job_complete ex_job" "\<not> job_failed ex_job" "controlled_by ex_job ex_pod" "\<not> pod_less ex_pod ex_pod"
    "pod_Reason ex_pod \<notin> {''Evicted'', ''NodeLost''}" by code_simp+
  moreover have "runnerContainerStatus ex_pod = Some (hd (pod_ContainerStatuses ex_pod))"
    "ct_Terminated (hd (pod_ContainerStatuses ex_pod)) = Some \<lparr>tm_ExitCode = 0, tm_Reason = ''Completed'', tm_Message = ''evidence'', tm_FinishedAt = 199\<rparr>"
    "Option.bind (ct_Waiting (hd (pod_ContainerStatuses ex_pod))) (\<lambda>reason. waitingObservation reason ex_pod) = None"
    "parseTerminationEvidence ex_oplib ''evidence'' = Inr ''s3://results/7''" by code_simp+
  ultimately show ?thesis
    using success_needs_evidence [of "[ex_pod]" ex_oplib ex_job "''s3://results/7''"] by (simp del: not_less)
qed

section \<open>Backoff\<close>

text \<open>The bounds that the schema of the resource puts on a retry policy.\<close>

definition policy_admitted :: "RetryPolicy \<Rightarrow> bool" where
  "policy_admitted policy \<longleftrightarrow> 1 \<le> rp_MaxAttempts policy \<and> rp_MaxAttempts policy \<le> 10 \<and>
     1 \<le> rp_InitialBackoffSeconds policy \<and> rp_InitialBackoffSeconds policy \<le> 3600 \<and>
     1 \<le> rp_MaxBackoffSeconds policy \<and> rp_MaxBackoffSeconds policy \<le> 21600 \<and>
     rp_MaxBackoffSeconds policy \<ge> rp_InitialBackoffSeconds policy"

lemma backoff_capped:
  assumes "0 \<le> base" "base \<le> maximum" "maximum \<le> 2 ^ 50" "0 \<le> exponent"
  shows "doubling base maximum exponent = min maximum (base * 2 ^ nat exponent)"
  using assms
proof (induction base maximum exponent rule: doubling.induct)
  case (1 base maximum exponent)
  have half: "maximum sdiv 2 = maximum div 2" using "1.prems" by (simp add: sdiv_nonneg)
  show ?case
  proof (cases "exponent > 0 \<and> base < maximum")
    case False
    then show ?thesis
    proof (cases "base = maximum")
      case True
      then have "maximum * 1 \<le> maximum * 2 ^ nat exponent" using "1.prems" by (intro mult_left_mono) simp_all
      then show ?thesis using True by (subst doubling.simps) simp
    qed (use "1.prems" False in \<open>subst doubling.simps, simp\<close>)
  next
    case True
    then have e: "nat exponent = Suc (nat (exponent - 1))" by arith
    show ?thesis
    proof (cases "base > maximum sdiv 2")
      case big: True
      have "maximum \<le> base * 2" using big half by simp
      also have "\<dots> \<le> base * 2 ^ nat exponent" using "1.prems" e by (simp add: mult_left_mono)
      finally show ?thesis using True big by (subst doubling.simps) simp
    next
      case False
      then have small: "base * 2 \<le> maximum" "i64 (base * 2) = base * 2"
        using half "1.prems" by (simp_all add: in_i64_def)
      have "doubling base maximum exponent = doubling (i64 (base * 2)) maximum (exponent - 1)"
        using True False by (subst doubling.simps) simp
      also have "\<dots> = min maximum (i64 (base * 2) * 2 ^ nat (exponent - 1))"
        using "1.IH" [OF True False] "1.prems" True small by simp
      finally show ?thesis using small e by simp
    qed
  qed
qed

text \<open>C40: The backoff before a retry is exponential, capped and jittered: with the capped delay doubling from the initial to
  the maximal backoff of the policy, the delay lies between half of it and all of it, and no
  intermediate result overflows.\<close>

theorem retryDelay_bounds:
  fixes run :: AgentRunCR
  defines "policy \<equiv> sp_RetryPolicy (cr_Spec run)"
  assumes "policy_admitted policy" "sp_Attempt (cr_Spec run) \<le> currentAttempt" "1 \<le> sp_Attempt (cr_Spec run)" "currentAttempt \<le> 10"
  defines "capped \<equiv> min (rp_MaxBackoffSeconds policy) (rp_InitialBackoffSeconds policy * 2 ^ nat (currentAttempt - sp_Attempt (cr_Spec run))) * second"
  shows "capped div 2 \<le> retryDelay K run currentAttempt nextAttempt \<and> retryDelay K run currentAttempt nextAttempt \<le> capped"
proof -
  let ?e = "currentAttempt - sp_Attempt (cr_Spec run)" and ?i = "rp_InitialBackoffSeconds policy" and ?m = "rp_MaxBackoffSeconds policy"
  define permille where "permille = int (500 + Uint64 (ol_Sum256 K (sp_RunID (cr_Spec run) @ '':'' @ Itoa nextAttempt)) mod 501)"
  have permille: "500 \<le> permille" "permille \<le> 1000" unfolding permille_def by simp_all
  have pol: "1 \<le> ?i" "?i \<le> ?m" "?m \<le> 21600" using assms(2) by (simp_all add: policy_admitted_def)
  have e: "i32 ?e = ?e" "0 \<le> ?e" using assms(3-5) by (simp_all add: in_i32_def)
  have in64: "i64 (?i * second) = ?i * second" "i64 (?m * second) = ?m * second"
    using pol by (simp_all add: in_i64_def second_def)
  have "doubling (?i * second) (?m * second) ?e = min (?m * second) (?i * second * 2 ^ nat ?e)"
    using pol e by (intro backoff_capped) (simp_all add: second_def)
  also have "\<dots> = capped" unfolding capped_def by (simp add: min_def second_def)
  finally have b: "doubling (?i * second) (?m * second) ?e = capped" .
  have c: "0 \<le> capped" "capped \<le> ?m * second" using pol by (simp_all add: capped_def second_def min_def)
  then have le: "capped \<le> 21600 * 1000000000" using pol by (simp add: second_def)
  have p: "0 \<le> capped * permille" "capped * permille \<le> capped * 1000" "capped * 500 \<le> capped * permille"
    using c permille by (simp_all add: mult_left_mono)
  then have i: "i64 (capped * permille) = capped * permille" using le by (simp add: in_i64_def)
  have "retryDelay K run currentAttempt nextAttempt = i64 (capped * permille) sdiv 1000"
    using c(2) by (simp add: retryDelay_def Let_def e in64 b permille_def [simplified, symmetric] flip: policy_def)
  also have "\<dots> = capped * permille div 1000" unfolding i using p(1) by (rule sdiv_nonneg) simp
  finally have "retryDelay K run currentAttempt nextAttempt = capped * permille div 1000" .
  then show ?thesis using p by linarith
qed

definition ex_policy_retry :: RetryPolicy where
  "ex_policy_retry = \<lparr>rp_MaxAttempts = 3, rp_InitialBackoffSeconds = 10, rp_MaxBackoffSeconds = 30,
     rp_RetryableFailureCategories = [FailureCategoryTransientDependency]\<rparr>"

definition ex_spec :: AgentRunSpec where
  "ex_spec = \<lparr>sp_TenantID = ''01890000-0000-7000-8000-000000000001'', sp_ProjectID = ''01890000-0000-7000-8000-000000000002'',
     sp_RunID = ''01890000-0000-7000-8000-000000000003'', sp_AttemptID = ''01890000-0000-7000-8000-000000000004'', sp_Attempt = 1,
     sp_RunnerImage = ''runner@sha256:'' @ replicate 64 (CHR ''a''), sp_Runtime = ''go1.24'', sp_ExecutionProfile = ''standard'',
     sp_TaskRef = ''s3://tasks/7'', sp_TimeoutSeconds = 60, sp_RetryPolicy = ex_policy_retry,
     sp_Resources = \<lparr>rq_Requests = \<lparr>rv_CPUMillis = 100, rv_MemoryMiB = 128\<rparr>, rq_Limits = \<lparr>rv_CPUMillis = 200, rv_MemoryMiB = 256\<rparr>\<rparr>,
     sp_Workspace = \<lparr>ws_SizeGiB = 1, ws_StorageClassName = [], ws_RetentionPolicy = WorkspaceRetentionDelete\<rparr>,
     sp_Network = \<lparr>nw_Profile = NetworkProfileIsolated, nw_AllowedDestinationsRef = None\<rparr>,
     sp_ArtifactDestinationRef = ''artifacts'', sp_ConfigurationRefs = [], sp_SecretRefs = [], sp_DesiredState = DesiredStateRunning\<rparr>"

definition ex_status :: RunStatus where
  "ex_status = \<lparr>st_Phase = no_phase, st_ObservedGeneration = 0, st_Attempt = 0, st_Namespace = [], st_JobName = [], st_PodName = [],
     st_StartTime = None, st_CompletionTime = None, st_HeartbeatTime = None, st_FailureCategory = no_category, st_FailureReason = [],
     st_ArtifactManifestRef = [], st_Attempts = [], st_Conditions = []\<rparr>"

definition ex_cr :: AgentRunCR where
  "ex_cr = \<lparr>cr_Name = ''run-3'', cr_Namespace = ''agents'', cr_UID = ''uid-3'', cr_Generation = 1, cr_DeletionTimestamp = None,
     cr_Finalizers = [], cr_Spec = ex_spec, cr_Status = ex_status\<rparr>"

theorem retryDelay_bounds_witness:
  "10 * second \<le> retryDelay ex_oplib ex_cr 2 3 \<and> retryDelay ex_oplib ex_cr 2 3 \<le> 20 * second"
  using retryDelay_bounds [of ex_cr 2 ex_oplib 3] by (simp add: ex_cr_def ex_spec_def ex_policy_retry_def policy_admitted_def second_def)

end
