(* ===== verification/Operator_Resources.thy ===== *)
theory Operator_Resources
  imports Operator_Lifecycle
begin

text \<open>
  The resources of an execution (\<^verbatim>\<open>operator/internal/resources/builder.go\<close>, \<^verbatim>\<open>profile.go\<close>,
  \<^verbatim>\<open>security.go\<close>): trusted profiles and egress policies with their validation, the objects built for a
  run, and the security checks on them.  A map of strings is an association list; the parsers and validators of
  the libraries are the record \<open>reslib\<close>.
\<close>

section \<open>Network prefixes\<close>

text \<open>
  A \<^verbatim>\<open>netip.Prefix\<close>: the family, the address as a number and the number of bits.  The methods are those of the
  package: an address of the other family is never contained.
\<close>

record Prefix =
  px_Is6 :: bool
  px_Addr :: int
  px_Bits :: nat

definition BitLen :: "bool \<Rightarrow> nat" where
  "BitLen is6 = (if is6 then 128 else 32)"

definition prefix_of :: "bool \<Rightarrow> nat \<Rightarrow> int \<Rightarrow> int" where
  "prefix_of is6 bits addr = addr div 2 ^ (BitLen is6 - bits)"

definition prefix_Contains :: "Prefix \<Rightarrow> bool \<times> int \<Rightarrow> bool" where
  "prefix_Contains p ip \<longleftrightarrow> px_Is6 p = fst ip \<and>
     prefix_of (fst ip) (px_Bits p) (snd ip) = prefix_of (fst ip) (px_Bits p) (px_Addr p)"

definition prefix_Overlaps :: "Prefix \<Rightarrow> Prefix \<Rightarrow> bool" where
  "prefix_Overlaps p q \<longleftrightarrow> px_Is6 p = px_Is6 q \<and>
     (let bits = min (px_Bits p) (px_Bits q) in
      prefix_of (px_Is6 p) bits (px_Addr p) = prefix_of (px_Is6 p) bits (px_Addr q))"

section \<open>Libraries\<close>

text \<open>The document that \<^verbatim>\<open>buildConfigMap\<close> encodes.\<close>

record runner_document =
  rd_artifactDestinationRef :: string
  rd_attempt :: int
  rd_attemptId :: string
  rd_configurationRefs :: "string list"
  rd_projectId :: string
  rd_runId :: string
  rd_schemaVersion :: int
  rd_secretRefs :: "string list"
  rd_taskRef :: string
  rd_tenantId :: string
  rd_timeoutSeconds :: int

record LabelSelector =
  ls_MatchLabels :: "(string \<times> string) list"
  ls_MatchExpressions :: "(string \<times> string \<times> string list) list"

text \<open>The validators of \<^verbatim>\<open>k8s.io/apimachinery\<close> as truth values, the parser of prefixes and its inverse, and the JSON encoder.\<close>

record reslib =
  rl_IsDNS1123Subdomain :: "string \<Rightarrow> bool"
  rl_IsQualifiedName :: "string \<Rightarrow> bool"
  rl_IsValidLabelValue :: "string \<Rightarrow> bool"
  rl_LabelSelectorAsSelector :: "LabelSelector \<Rightarrow> bool"
  rl_ParsePrefix :: "string \<Rightarrow> Prefix option"
  rl_PrefixString :: "Prefix \<Rightarrow> string"
  rl_Marshal :: "runner_document \<Rightarrow> string"
  rl_Sum256Hex :: "string \<Rightarrow> string"

section \<open>Profiles\<close>

definition requiredNodePoolLabel :: string where
  "requiredNodePoolLabel = ''agentforge.dev/node-pool''"

text \<open>\<^verbatim>\<open>0.0.0.0/0\<close>, \<^verbatim>\<open>::/0\<close>, \<^verbatim>\<open>169.254.0.0/16\<close> and \<^verbatim>\<open>fe80::/10\<close>.\<close>

definition prohibitedEgressPrefixes :: "Prefix list" where
  "prohibitedEgressPrefixes =
    [\<lparr>px_Is6 = False, px_Addr = 0, px_Bits = 0\<rparr>, \<lparr>px_Is6 = True, px_Addr = 0, px_Bits = 0\<rparr>,
     \<lparr>px_Is6 = False, px_Addr = 169 * 2 ^ 24 + 254 * 2 ^ 16, px_Bits = 16\<rparr>,
     \<lparr>px_Is6 = True, px_Addr = 0xfe80 * 2 ^ 112, px_Bits = 10\<rparr>]"

record Toleration =
  tl_Key :: string
  tl_Operator :: string
  tl_Value :: string
  tl_Effect :: string

record ExecutionProfile =
  pf_Name :: string
  pf_NodeSelector :: "(string \<times> string) list"
  pf_Tolerations :: "Toleration list"
  pf_TopologyKeys :: "string list"
  pf_RuntimeClassName :: string
  pf_PriorityClassName :: string
  pf_TerminationGracePeriodSeconds :: int

record IPBlock =
  ib_CIDR :: string
  ib_Except :: "string list"

record NetworkPolicyPeer =
  np_PodSelector :: "LabelSelector option"
  np_NamespaceSelector :: "LabelSelector option"
  np_IPBlock :: "IPBlock option"

datatype IntOrString = IntPort int | NamedPort string

record NetworkPolicyPort =
  pt_Protocol :: "string option"
  pt_Port :: "IntOrString option"
  pt_EndPort :: "int option"

record EgressRule =
  er_Ports :: "NetworkPolicyPort list"
  er_To :: "NetworkPolicyPeer list"

record EgressPolicy =
  ep_Name :: string
  ep_Rules :: "EgressRule list"

definition StandardProfile :: ExecutionProfile where
  "StandardProfile = \<lparr>pf_Name = ''standard'', pf_NodeSelector = [(requiredNodePoolLabel, ''agents'')],
     pf_Tolerations = [\<lparr>tl_Key = requiredNodePoolLabel, tl_Operator = ''Equal'', tl_Value = ''agents'', tl_Effect = ''NoSchedule''\<rparr>],
     pf_TopologyKeys = [''topology.kubernetes.io/zone'', ''kubernetes.io/hostname''], pf_RuntimeClassName = [],
     pf_PriorityClassName = ''agentforge-agent'', pf_TerminationGracePeriodSeconds = 30\<rparr>"

definition isControlPlaneKey :: "string \<Rightarrow> bool" where
  "isControlPlaneKey key \<longleftrightarrow>
     Contains key ''node-role.kubernetes.io/control-plane'' \<or> Contains key ''node-role.kubernetes.io/master''"

text \<open>The first error of a loop over a list.\<close>

fun first_error :: "('a \<Rightarrow> error option) \<Rightarrow> 'a list \<Rightarrow> error option" where
  "first_error check [] = None"
| "first_error check (x # xs) = (case check x of Some err \<Rightarrow> Some err | None \<Rightarrow> first_error check xs)"

definition selector_error :: "reslib \<Rightarrow> string \<times> string \<Rightarrow> error option" where
  "selector_error R entry =
    (if \<not> rl_IsQualifiedName R (fst entry) \<or> \<not> rl_IsValidLabelValue R (snd entry) then
       Some (Plain ''execution profile contains an invalid node selector'')
     else if isControlPlaneKey (fst entry) then Some (Plain ''execution profile cannot select control-plane nodes'')
     else None)"

definition toleration_error :: "reslib \<Rightarrow> Toleration \<Rightarrow> error option" where
  "toleration_error R toleration =
    (if tl_Key toleration = [] \<or> tl_Operator toleration = ''Exists'' \<or> isControlPlaneKey (tl_Key toleration) then
       Some (Plain ''execution profile contains a broad or control-plane toleration'')
     else if \<not> rl_IsQualifiedName R (tl_Key toleration) \<or> \<not> rl_IsValidLabelValue R (tl_Value toleration) then
       Some (Plain ''execution profile contains an invalid toleration'')
     else if tl_Effect toleration \<noteq> ''NoSchedule'' \<and> tl_Effect toleration \<noteq> ''NoExecute'' then
       Some (Plain ''execution profile toleration effect is not approved'')
     else None)"

fun topology_error :: "reslib \<Rightarrow> string list \<Rightarrow> string list \<Rightarrow> error option" where
  "topology_error R seen [] = None"
| "topology_error R seen (key # keys) =
    (if \<not> rl_IsQualifiedName R key then Some (Plain ''execution profile contains an invalid topology key'')
     else if key \<in> set seen then Some (Plain ''execution profile contains a duplicate topology key'')
     else topology_error R (key # seen) keys)"

definition validateProfile :: "reslib \<Rightarrow> ExecutionProfile \<Rightarrow> error option" where
  "validateProfile R profile =
    (if pf_Name profile = [] \<or> \<not> rl_IsDNS1123Subdomain R (pf_Name profile) then
       Some (Plain ''execution profile name must be a DNS subdomain'')
     else if map_of (pf_NodeSelector profile) requiredNodePoolLabel \<noteq> Some ''agents'' then
       Some (Plain ''execution profile must select the dedicated agents node pool'')
     else (case first_error (selector_error R) (pf_NodeSelector profile) of Some err \<Rightarrow> Some err | None \<Rightarrow>
          (case first_error (toleration_error R) (pf_Tolerations profile) of Some err \<Rightarrow> Some err | None \<Rightarrow>
     if pf_TerminationGracePeriodSeconds profile < 1 \<or> pf_TerminationGracePeriodSeconds profile > 300 then
       Some (Plain ''termination grace period must be between 1 and 300 seconds'')
     else if length (pf_TopologyKeys profile) > 8 then Some (Plain ''execution profile has too many topology constraints'')
     else (case topology_error R [] (pf_TopologyKeys profile) of Some err \<Rightarrow> Some err | None \<Rightarrow>
     if pf_RuntimeClassName profile \<noteq> [] \<and> \<not> rl_IsDNS1123Subdomain R (pf_RuntimeClassName profile) then
       Some (Plain ''runtime class must be a DNS subdomain'')
     else if pf_PriorityClassName profile \<noteq> [] \<and> \<not> rl_IsDNS1123Subdomain R (pf_PriorityClassName profile) then
       Some (Plain ''priority class must be a DNS subdomain'')
     else None))))"

section \<open>Egress policies\<close>

definition peer_selector_error :: "reslib \<Rightarrow> LabelSelector option \<Rightarrow> error option" where
  "peer_selector_error R selector =
    (case selector of
       None \<Rightarrow> None
     | Some s \<Rightarrow>
         if ls_MatchLabels s = [] \<and> ls_MatchExpressions s = [] then Some (Plain ''empty egress selectors are prohibited'')
         else if \<not> rl_LabelSelectorAsSelector R s then Some (Plain ''egress selector is invalid'')
         else None)"

definition prohibited_error :: "Prefix \<Rightarrow> Prefix \<Rightarrow> error option" where
  "prohibited_error cidr prohibited =
    (if px_Bits prohibited = 0 \<and> px_Bits cidr = 0 \<and> BitLen (px_Is6 prohibited) = BitLen (px_Is6 cidr) then
       Some (Plain ''internet-wide egress is prohibited'')
     else if px_Bits prohibited \<noteq> 0 \<and> prefix_Overlaps cidr prohibited then
       Some (Plain ''link-local and metadata-service egress is prohibited'')
     else None)"

definition exception_error :: "reslib \<Rightarrow> Prefix \<Rightarrow> string \<Rightarrow> error option" where
  "exception_error R cidr exception =
    (case rl_ParsePrefix R exception of
       None \<Rightarrow> Some (Plain ''egress IPBlock exception must be contained by its CIDR'')
     | Some e \<Rightarrow>
         if \<not> prefix_Contains cidr (px_Is6 e, px_Addr e) \<or> px_Bits e < px_Bits cidr then
           Some (Plain ''egress IPBlock exception must be contained by its CIDR'')
         else None)"

definition validateNetworkPeer :: "reslib \<Rightarrow> NetworkPolicyPeer \<Rightarrow> error option" where
  "validateNetworkPeer R peer =
    (if np_IPBlock peer = None \<and> np_NamespaceSelector peer = None \<and> np_PodSelector peer = None then
       Some (Plain ''wildcard egress peers are prohibited'')
     else if np_IPBlock peer \<noteq> None \<and> (np_NamespaceSelector peer \<noteq> None \<or> np_PodSelector peer \<noteq> None) then
       Some (Plain ''IPBlock cannot be combined with selector peers'')
     else (case np_IPBlock peer of
        None \<Rightarrow> first_error (peer_selector_error R) [np_NamespaceSelector peer, np_PodSelector peer]
      | Some block \<Rightarrow>
         (case rl_ParsePrefix R (ib_CIDR block) of
            None \<Rightarrow> Some (Plain ''egress IPBlock must use canonical CIDR notation'')
          | Some cidr \<Rightarrow>
              if rl_PrefixString R cidr \<noteq> ib_CIDR block then
                Some (Plain ''egress IPBlock must use canonical CIDR notation'')
              else if \<not> px_Is6 cidr \<and> px_Bits cidr < 8 \<or> px_Is6 cidr \<and> px_Bits cidr < 32 then
                Some (Plain ''egress IPBlock is broader than the approved minimum prefix'')
              else (case first_error (prohibited_error cidr) prohibitedEgressPrefixes of Some err \<Rightarrow> Some err | None \<Rightarrow>
                first_error (exception_error R cidr) (ib_Except block)))))"

definition port_error :: "NetworkPolicyPort \<Rightarrow> error option" where
  "port_error port =
    (if pt_Port port = None \<or> (pt_Protocol port \<noteq> None \<and> pt_Protocol port \<noteq> Some ''TCP'' \<and> pt_Protocol port \<noteq> Some ''UDP'') then
       Some (Plain ''egress rules require explicit TCP or UDP ports'')
     else if pt_EndPort port \<noteq> None \<and> (case pt_Port port of Some (IntPort _) \<Rightarrow> False | _ \<Rightarrow> True) then
       Some (Plain ''egress endPort requires a numeric port'')
     else None)"

definition rule_error :: "reslib \<Rightarrow> EgressRule \<Rightarrow> error option" where
  "rule_error R rule =
    (if er_To rule = [] \<or> er_Ports rule = [] then Some (Plain ''egress rules require bounded destinations and ports'')
     else (case first_error (validateNetworkPeer R) (er_To rule) of Some err \<Rightarrow> Some err | None \<Rightarrow>
       first_error port_error (er_Ports rule)))"

definition validateEgressPolicy :: "reslib \<Rightarrow> EgressPolicy \<Rightarrow> error option" where
  "validateEgressPolicy R policy =
    (if ep_Name policy = [] \<or> \<not> rl_IsDNS1123Subdomain R (ep_Name policy) then
       Some (Plain ''egress policy name must be a DNS subdomain'')
     else if ep_Rules policy = [] \<or> length (ep_Rules policy) > 32 then
       Some (Plain ''restricted egress policy must contain 1 through 32 rules'')
     else first_error (rule_error R) (ep_Rules policy))"

section \<open>The builder\<close>

record Builder =
  bd_profiles :: "(string \<times> ExecutionProfile) list"
  bd_egressPolicies :: "(string \<times> EgressPolicy) list"

fun add_profiles :: "reslib \<Rightarrow> ExecutionProfile list \<Rightarrow> (string \<times> ExecutionProfile) list \<Rightarrow> (string \<times> ExecutionProfile) list result" where
  "add_profiles R [] known = Inr known"
| "add_profiles R (profile # profiles) known =
    (case validateProfile R profile of
       Some err \<Rightarrow> Inl err
     | None \<Rightarrow>
         if map_of known (pf_Name profile) \<noteq> None then Inl (Plain ''duplicate execution profile'')
         else add_profiles R profiles ((pf_Name profile, profile) # known))"

fun add_policies :: "reslib \<Rightarrow> EgressPolicy list \<Rightarrow> (string \<times> EgressPolicy) list \<Rightarrow> (string \<times> EgressPolicy) list result" where
  "add_policies R [] known = Inr known"
| "add_policies R (policy # policies) known =
    (case validateEgressPolicy R policy of
       Some err \<Rightarrow> Inl err
     | None \<Rightarrow>
         if map_of known (ep_Name policy) \<noteq> None then Inl (Plain ''duplicate egress policy'')
         else add_policies R policies ((ep_Name policy, policy) # known))"

definition NewBuilder :: "reslib \<Rightarrow> ExecutionProfile list \<Rightarrow> EgressPolicy list \<Rightarrow> Builder result" where
  "NewBuilder R profiles egressPolicies =
    (if profiles = [] then Inl (Plain ''at least one execution profile is required'')
     else (case add_profiles R profiles [] of Inl err \<Rightarrow> Inl err | Inr known \<Rightarrow>
          (case add_policies R egressPolicies [] of Inl err \<Rightarrow> Inl err | Inr policies \<Rightarrow>
             Inr \<lparr>bd_profiles = known, bd_egressPolicies = policies\<rparr>)))"

section \<open>Objects\<close>

text \<open>\<open>om_Controller\<close> is the controlling owner, the only owner reference the builder sets.\<close>

record ObjectMeta =
  om_Name :: string
  om_Namespace :: string
  om_Labels :: "(string \<times> string) list"
  om_Annotations :: "(string \<times> string) list"
  om_Controller :: "OwnerReference option"

record ServiceAccount =
  sa_Meta :: ObjectMeta
  sa_AutomountServiceAccountToken :: "bool option"

record ConfigMap =
  cm_Meta :: ObjectMeta
  cm_Immutable :: "bool option"
  cm_Data :: "(string \<times> string) list"

record PersistentVolumeClaim =
  pvc_Meta :: ObjectMeta
  pvc_AccessModes :: "string list"
  pvc_Storage :: int
  pvc_StorageClassName :: "string option"

record NetworkPolicy =
  netp_Meta :: ObjectMeta
  netp_PodSelector :: "(string \<times> string) list"
  netp_PolicyTypes :: "string list"
  netp_Ingress :: "EgressRule list option"
  netp_Egress :: "EgressRule list"

datatype VolumeSource =
    ClaimVolume string
  | ConfigMapVolume string int
  | SecretVolume string int
  | EmptyDirVolume int
  | HostPathVolume string
  | ProjectedVolume "bool list" \<comment> \<open>whether each source is a service account token\<close>

record VolumeMount =
  vm_Name :: string
  vm_MountPath :: string
  vm_ReadOnly :: bool

record Capabilities =
  cap_Add :: "string list"
  cap_Drop :: "string list"

record SecurityContext =
  sc_RunAsNonRoot :: "bool option"
  sc_RunAsUser :: "int option"
  sc_RunAsGroup :: "int option"
  sc_Privileged :: "bool option"
  sc_AllowPrivilegeEscalation :: "bool option"
  sc_ReadOnlyRootFilesystem :: "bool option"
  sc_Capabilities :: "Capabilities option"
  sc_SeccompProfile :: "string option"

record PodSecurityContext =
  psc_RunAsNonRoot :: "bool option"
  psc_RunAsUser :: "int option"
  psc_RunAsGroup :: "int option"
  psc_FSGroup :: "int option"
  psc_FSGroupChangePolicy :: "string option"
  psc_SeccompProfile :: "string option"

record Container =
  co_Name :: string
  co_Image :: string
  co_ImagePullPolicy :: string
  co_Env :: "(string \<times> string) list"
  co_RequestCPUMillis :: int
  co_RequestMemory :: int
  co_LimitCPUMillis :: int
  co_LimitMemory :: int
  co_SecurityContext :: "SecurityContext option"
  co_VolumeMounts :: "VolumeMount list"
  co_TerminationMessagePolicy :: string

record TopologySpreadConstraint =
  ts_MaxSkew :: int
  ts_TopologyKey :: string
  ts_WhenUnsatisfiable :: string
  ts_MatchLabels :: "(string \<times> string) list"

record PodSpec =
  ps_ServiceAccountName :: string
  ps_AutomountServiceAccountToken :: "bool option"
  ps_RestartPolicy :: string
  ps_TerminationGracePeriodSeconds :: "int option"
  ps_EnableServiceLinks :: "bool option"
  ps_HostNetwork :: bool
  ps_HostPID :: bool
  ps_HostIPC :: bool
  ps_NodeSelector :: "(string \<times> string) list"
  ps_Tolerations :: "Toleration list"
  ps_TopologySpreadConstraints :: "TopologySpreadConstraint list"
  ps_PriorityClassName :: string
  ps_RequiredNodeAffinity :: "(string \<times> string) list"
  ps_SecurityContext :: "PodSecurityContext option"
  ps_Containers :: "Container list"
  ps_InitContainers :: "Container list"
  ps_EphemeralContainers :: "Container list"
  ps_Volumes :: "(string \<times> VolumeSource) list"
  ps_RuntimeClassName :: "string option"

record JobObject =
  jo_Meta :: ObjectMeta
  jo_Parallelism :: "int option"
  jo_Completions :: "int option"
  jo_BackoffLimit :: "int option"
  jo_ActiveDeadlineSeconds :: "int option"
  jo_TemplateLabels :: "(string \<times> string) list"
  jo_TemplateAnnotations :: "(string \<times> string) list"
  jo_Pod :: PodSpec

record ExecutionResources =
  xr_ServiceAccount :: ServiceAccount
  xr_Configuration :: ConfigMap
  xr_Workspace :: PersistentVolumeClaim
  xr_NetworkPolicy :: NetworkPolicy
  xr_Job :: JobObject

section \<open>Security\<close>

definition validateNetworkPolicySecurity :: "reslib \<Rightarrow> NetworkPolicy \<Rightarrow> error option" where
  "validateNetworkPolicySecurity R policy =
    (if length (netp_PolicyTypes policy) \<noteq> 2 \<or> ''Ingress'' \<notin> set (netp_PolicyTypes policy) \<or>
        ''Egress'' \<notin> set (netp_PolicyTypes policy) then
       Some (Plain ''NetworkPolicy must govern ingress and egress'')
     else if netp_Ingress policy \<noteq> Some [] then Some (Plain ''workload ingress must be denied'')
     else first_error (\<lambda>rule.
        if er_To rule = [] \<or> er_Ports rule = [] then Some (Plain ''wildcard egress is prohibited'')
        else first_error (validateNetworkPeer R) (er_To rule)) (netp_Egress policy))"

definition container_secure :: "Container \<Rightarrow> error option" where
  "container_secure container =
    (case co_SecurityContext container of
       None \<Rightarrow> Some (Plain ''runner security context violates the restricted policy'')
     | Some c \<Rightarrow>
         if sc_RunAsNonRoot c \<noteq> Some True \<or> sc_Privileged c \<noteq> Some False \<or> sc_AllowPrivilegeEscalation c \<noteq> Some False \<or>
            sc_ReadOnlyRootFilesystem c \<noteq> Some True \<or> sc_SeccompProfile c \<noteq> Some ''RuntimeDefault'' then
           Some (Plain ''runner security context violates the restricted policy'')
         else (case sc_Capabilities c of
            None \<Rightarrow> Some (Plain ''runner must drop all Linux capabilities'')
          | Some k \<Rightarrow>
              if cap_Add k \<noteq> [] \<or> cap_Drop k \<noteq> [''ALL''] then Some (Plain ''runner must drop all Linux capabilities'')
              else None))"

definition volume_error :: "string \<times> VolumeSource \<Rightarrow> error option" where
  "volume_error volume =
    (case snd volume of
       HostPathVolume _ \<Rightarrow> Some (Plain ''hostPath volumes are prohibited'')
     | ProjectedVolume tokens \<Rightarrow>
         if True \<in> set tokens then Some (Plain ''projected Kubernetes API tokens are prohibited'') else None
     | _ \<Rightarrow> None)"

definition mount_error :: "VolumeMount \<Rightarrow> error option" where
  "mount_error mount =
    (if Contains (ToLower (vm_MountPath mount)) ''docker.sock'' \<or> vm_MountPath mount = ''/var/run/docker'' then
       Some (Plain ''docker socket mounts are prohibited'')
     else None)"

definition pod_security :: "JobObject \<Rightarrow> error option" where
  "pod_security job =
    (let pod = jo_Pod job in
     if ps_HostNetwork pod \<or> ps_HostPID pod \<or> ps_HostIPC pod then Some (Plain ''host namespace access is prohibited'')
     else if ps_AutomountServiceAccountToken pod \<noteq> Some False then
       Some (Plain ''pod service account token automount must be disabled'')
     else if (case ps_SecurityContext pod of None \<Rightarrow> True | Some c \<Rightarrow>
          psc_RunAsNonRoot c \<noteq> Some True \<or> psc_SeccompProfile c \<noteq> Some ''RuntimeDefault'') then
       Some (Plain ''pod must run as non-root with RuntimeDefault seccomp'')
     else (case ps_Containers pod of
        [container] \<Rightarrow>
          if ps_InitContainers pod \<noteq> [] \<or> ps_EphemeralContainers pod \<noteq> [] then
            Some (Plain ''execution Pod must contain exactly one validated runner container'')
          else (case container_secure container of Some err \<Rightarrow> Some err | None \<Rightarrow>
          if (case jo_ActiveDeadlineSeconds job of None \<Rightarrow> True | Some n \<Rightarrow> n < 1) \<or> jo_BackoffLimit job \<noteq> Some 0 then
            Some (Plain ''job must have an active deadline and Kubernetes retries disabled'')
          else (case first_error volume_error (ps_Volumes pod) of Some err \<Rightarrow> Some err | None \<Rightarrow>
            first_error mount_error (co_VolumeMounts container)))
      | _ \<Rightarrow> Some (Plain ''execution Pod must contain exactly one validated runner container'')))"

definition ValidateSecurity :: "reslib \<Rightarrow> ServiceAccount \<Rightarrow> NetworkPolicy \<Rightarrow> JobObject \<Rightarrow> error option" where
  "ValidateSecurity R account policy job =
    (if sa_AutomountServiceAccountToken account \<noteq> Some False then
       Some (Plain ''workload ServiceAccount token automount must be disabled'')
     else (case validateNetworkPolicySecurity R policy of Some err \<Rightarrow> Some err | None \<Rightarrow> pod_security job))"

section \<open>Building\<close>

definition nonRootUID :: int where
  "nonRootUID = 65532"

definition safeLabelValue :: "reslib \<Rightarrow> string \<Rightarrow> string" where
  "safeLabelValue R value =
    (if rl_IsValidLabelValue R value then value else ''sha256-'' @ take 16 (rl_Sum256Hex R value))"

definition labelsForRun :: "reslib \<Rightarrow> AgentRunCR \<Rightarrow> (string \<times> string) list" where
  "labelsForRun R run =
    [(''app.kubernetes.io/name'', ''agentforge-runner''),
     (''app.kubernetes.io/managed-by'', ''agentforge-operator''),
     (''execution.agentforge.dev/tenant-id'', sp_TenantID (cr_Spec run)),
     (''execution.agentforge.dev/project-id'', sp_ProjectID (cr_Spec run)),
     (''execution.agentforge.dev/run-id'', sp_RunID (cr_Spec run)),
     (''execution.agentforge.dev/attempt'', Itoa (CurrentAttempt run)),
     (''execution.agentforge.dev/runtime'', safeLabelValue R (sp_Runtime (cr_Spec run))),
     (''execution.agentforge.dev/workload'', ''agent-run'')]"

definition workloadSelectorLabels :: "AgentRunCR \<Rightarrow> (string \<times> string) list" where
  "workloadSelectorLabels run =
    [(''execution.agentforge.dev/run-id'', sp_RunID (cr_Spec run)),
     (''execution.agentforge.dev/attempt'', Itoa (CurrentAttempt run))]"

fun NetworkProfile_string :: "NetworkProfile \<Rightarrow> string" where
  "NetworkProfile_string NetworkProfileIsolated = ''Isolated''"
| "NetworkProfile_string NetworkProfileRestrictedEgress = ''RestrictedEgress''"
| "NetworkProfile_string (NetworkProfileOther s) = s"

definition annotationsForRun :: "AgentRunCR \<Rightarrow> (string \<times> string) list" where
  "annotationsForRun run =
    [(''execution.agentforge.dev/attempt-id'', sp_AttemptID (cr_Spec run)),
     (''execution.agentforge.dev/execution-profile'', sp_ExecutionProfile (cr_Spec run)),
     (''execution.agentforge.dev/network-profile'', NetworkProfile_string (nw_Profile (sp_Network (cr_Spec run)))),
     (''execution.agentforge.dev/owner-uid'', cr_UID run)]"

definition ownerReference :: "AgentRunCR \<Rightarrow> OwnerReference" where
  "ownerReference run = \<lparr>own_APIVersion = ''execution.agentforge.dev/v1alpha1'', own_Kind = ''AgentRun'',
     own_Name = cr_Name run, own_UID = cr_UID run\<rparr>"

record buildContext =
  bc_run :: AgentRunCR
  bc_names :: ResourceNames
  bc_profile :: ExecutionProfile
  bc_egress :: "EgressPolicy option"

definition profileForRun :: "(string \<times> ExecutionProfile) list \<Rightarrow> AgentRunCR \<Rightarrow> ExecutionProfile result" where
  "profileForRun profiles run =
    (case map_of profiles (sp_ExecutionProfile (cr_Spec run)) of
       None \<Rightarrow> Inl (Plain ''execution profile is not configured'') | Some profile \<Rightarrow> Inr profile)"

definition egressForRun :: "(string \<times> EgressPolicy) list \<Rightarrow> AgentRunCR \<Rightarrow> EgressPolicy option result" where
  "egressForRun policies run =
    (let network = sp_Network (cr_Spec run) in
     if nw_Profile network = NetworkProfileIsolated then
       if nw_AllowedDestinationsRef network \<noteq> None then Inl (Plain ''isolated network cannot reference allowed destinations'')
       else Inr None
     else (case nw_AllowedDestinationsRef network of
        None \<Rightarrow> Inl (Plain ''network profile is not supported'')
      | Some reference \<Rightarrow>
          if nw_Profile network \<noteq> NetworkProfileRestrictedEgress then Inl (Plain ''network profile is not supported'')
          else (case map_of policies reference of
             None \<Rightarrow> Inl (Plain ''allowed destination policy is not configured'') | Some policy \<Rightarrow> Inr (Some policy))))"

definition validateRunForBuild :: "reslib \<Rightarrow> AgentRunCR \<Rightarrow> error option" where
  "validateRunForBuild R run =
    (let spec = cr_Spec run; resources = sp_Resources spec in
     case LastIndex (sp_RunnerImage spec) ''@sha256:'' of
       None \<Rightarrow> Some (Plain ''runner image must use an immutable sha256 digest'')
     | Some separator \<Rightarrow>
         if separator < 1 \<or> separator + 8 + 64 \<noteq> length (sp_RunnerImage spec) then
           Some (Plain ''runner image must use an immutable sha256 digest'')
         else if \<not> isLowerHex (drop (separator + 8) (sp_RunnerImage spec)) then
           Some (Plain ''runner image digest must be lowercase hexadecimal'')
         else if sp_TimeoutSeconds spec < 1 \<or> sp_TimeoutSeconds spec > 86400 \<or> ws_SizeGiB (sp_Workspace spec) < 1 then
           Some (Plain ''execution timeout and workspace size must be positive and bounded'')
         else if rv_CPUMillis (rq_Requests resources) < 1 \<or> rv_MemoryMiB (rq_Requests resources) < 1 \<or>
                 rv_CPUMillis (rq_Limits resources) < rv_CPUMillis (rq_Requests resources) \<or>
                 rv_MemoryMiB (rq_Limits resources) < rv_MemoryMiB (rq_Requests resources) then
           Some (Plain ''resource requests and limits are invalid'')
         else first_error (\<lambda>name.
             if \<not> rl_IsDNS1123Subdomain R name then Some (Plain ''resource reference is not a DNS subdomain'') else None)
           (sp_ConfigurationRefs spec @ sp_SecretRefs spec @ [sp_ArtifactDestinationRef spec]))"

text \<open>A builder that is nil is refused by the caller; \<open>run\<close> is never nil.\<close>

definition resolve :: "reslib \<Rightarrow> Builder \<Rightarrow> AgentRunCR \<Rightarrow> buildContext result" where
  "resolve R b run =
    (if cr_Namespace run = [] \<or> cr_Name run = [] \<or> cr_UID run = [] then
       Inl (Plain ''AgentRun must be persisted with namespace, name, and UID'')
     else if \<not> rl_IsDNS1123Subdomain R (cr_Namespace run) \<or> \<not> rl_IsDNS1123Subdomain R (cr_Name run) then
       Inl (Plain ''AgentRun metadata is not a valid Kubernetes identity'')
     else (case validateRunForBuild R run of Some err \<Rightarrow> Inl err | None \<Rightarrow>
          (case ForAgentRun run of Inl err \<Rightarrow> Inl err | Inr names \<Rightarrow>
          (case profileForRun (bd_profiles b) run of Inl err \<Rightarrow> Inl err | Inr profile \<Rightarrow>
          (case egressForRun (bd_egressPolicies b) run of Inl err \<Rightarrow> Inl err | Inr egress \<Rightarrow>
             Inr \<lparr>bc_run = run, bc_names = names, bc_profile = profile, bc_egress = egress\<rparr>)))))"

definition object_meta :: "reslib \<Rightarrow> string \<Rightarrow> buildContext \<Rightarrow> ObjectMeta" where
  "object_meta R name context =
    \<lparr>om_Name = name, om_Namespace = cr_Namespace (bc_run context), om_Labels = labelsForRun R (bc_run context),
     om_Annotations = annotationsForRun (bc_run context), om_Controller = Some (ownerReference (bc_run context))\<rparr>"

definition buildServiceAccount :: "reslib \<Rightarrow> buildContext \<Rightarrow> ServiceAccount" where
  "buildServiceAccount R context =
    \<lparr>sa_Meta = object_meta R (rn_ServiceAccount (bc_names context)) context, sa_AutomountServiceAccountToken = Some False\<rparr>"

definition sortedReferences :: "string list \<Rightarrow> string list" where
  "sortedReferences references = sort_by (<) references"

definition buildConfigMap :: "reslib \<Rightarrow> buildContext \<Rightarrow> ConfigMap" where
  "buildConfigMap R context =
    (let spec = cr_Spec (bc_run context) in
     \<lparr>cm_Meta = object_meta R (rn_Configuration (bc_names context)) context, cm_Immutable = Some True,
      cm_Data = [(''config.json'', rl_Marshal R
        \<lparr>rd_artifactDestinationRef = sp_ArtifactDestinationRef spec, rd_attempt = CurrentAttempt (bc_run context),
         rd_attemptId = sp_AttemptID spec, rd_configurationRefs = sortedReferences (sp_ConfigurationRefs spec),
         rd_projectId = sp_ProjectID spec, rd_runId = sp_RunID spec, rd_schemaVersion = 1,
         rd_secretRefs = sortedReferences (sp_SecretRefs spec), rd_taskRef = sp_TaskRef spec,
         rd_tenantId = sp_TenantID spec, rd_timeoutSeconds = sp_TimeoutSeconds spec\<rparr>)]\<rparr>)"

definition buildPVC :: "reslib \<Rightarrow> buildContext \<Rightarrow> PersistentVolumeClaim" where
  "buildPVC R context =
    (let workspace = sp_Workspace (cr_Spec (bc_run context));
         metadata = object_meta R (rn_Workspace (bc_names context)) context in
     \<lparr>pvc_Meta = (if ws_RetentionPolicy workspace = WorkspaceRetentionDelete then metadata
        else metadata\<lparr>om_Controller := None,
          om_Annotations := om_Annotations metadata @ [(''execution.agentforge.dev/retention-policy'', ''Retain'')]\<rparr>),
      pvc_AccessModes = [''ReadWriteOnce''],
      pvc_Storage = i64 (i64 (i64 (ws_SizeGiB workspace * 1024) * 1024) * 1024),
      pvc_StorageClassName = (if ws_StorageClassName workspace \<noteq> [] then Some (ws_StorageClassName workspace) else None)\<rparr>)"

definition buildNetworkPolicy :: "reslib \<Rightarrow> buildContext \<Rightarrow> NetworkPolicy" where
  "buildNetworkPolicy R context =
    \<lparr>netp_Meta = object_meta R (rn_NetworkPolicy (bc_names context)) context,
     netp_PodSelector = workloadSelectorLabels (bc_run context), netp_PolicyTypes = [''Ingress'', ''Egress''],
     netp_Ingress = Some [],
     netp_Egress = (case bc_egress context of None \<Rightarrow> [] | Some policy \<Rightarrow> ep_Rules policy)\<rparr>"

text \<open>The names \<^verbatim>\<open>external-config-00\<close> and so on, with two digits at least.\<close>

definition volume_name :: "string \<Rightarrow> nat \<Rightarrow> string" where
  "volume_name base index = base @ (if index < 10 then ''0'' else []) @ Itoa (int index)"

definition external :: "string \<Rightarrow> string \<Rightarrow> (string \<Rightarrow> VolumeSource) \<Rightarrow> string list \<Rightarrow> ((string \<times> VolumeSource) \<times> VolumeMount) list" where
  "external base root source references =
    map (\<lambda>(index, name). ((volume_name base index, source name),
        \<lparr>vm_Name = volume_name base index, vm_MountPath = root @ ''/'' @ name, vm_ReadOnly = True\<rparr>))
      (enumerate 0 (sortedReferences references))"

definition volumesAndMounts :: "buildContext \<Rightarrow> ((string \<times> VolumeSource) \<times> VolumeMount) list" where
  "volumesAndMounts context =
    [((''workspace'', ClaimVolume (rn_Workspace (bc_names context))),
        \<lparr>vm_Name = ''workspace'', vm_MountPath = ''/workspace'', vm_ReadOnly = False\<rparr>),
     ((''runtime-config'', ConfigMapVolume (rn_Configuration (bc_names context)) 292),
        \<lparr>vm_Name = ''runtime-config'', vm_MountPath = ''/etc/agentforge/runtime'', vm_ReadOnly = True\<rparr>),
     ((''artifact-destination'', ConfigMapVolume (sp_ArtifactDestinationRef (cr_Spec (bc_run context))) 292),
        \<lparr>vm_Name = ''artifact-destination'', vm_MountPath = ''/etc/agentforge/artifacts'', vm_ReadOnly = True\<rparr>),
     ((''tmp'', EmptyDirVolume (64 * 1024 * 1024)), \<lparr>vm_Name = ''tmp'', vm_MountPath = ''/tmp'', vm_ReadOnly = False\<rparr>),
     ((''home'', EmptyDirVolume (256 * 1024 * 1024)), \<lparr>vm_Name = ''home'', vm_MountPath = ''/home/agent'', vm_ReadOnly = False\<rparr>)] @
    external ''external-config-'' ''/etc/agentforge/config'' (\<lambda>name. ConfigMapVolume name 292)
      (sp_ConfigurationRefs (cr_Spec (bc_run context))) @
    external ''external-secret-'' ''/var/run/agentforge/secrets'' (\<lambda>name. SecretVolume name 288)
      (sp_SecretRefs (cr_Spec (bc_run context)))"

definition memory_bytes :: "int \<Rightarrow> int" where
  "memory_bytes mib = i64 (i64 (mib * 1024) * 1024)"

definition runnerContainer :: "buildContext \<Rightarrow> Container" where
  "runnerContainer context =
    (let resources = sp_Resources (cr_Spec (bc_run context)) in
     \<lparr>co_Name = ''runner'', co_Image = sp_RunnerImage (cr_Spec (bc_run context)), co_ImagePullPolicy = ''IfNotPresent'',
      co_Env = [(''AGENTFORGE_RUN_CONFIG'', ''/etc/agentforge/runtime/config.json''), (''AGENTFORGE_WORKSPACE'', ''/workspace'')],
      co_RequestCPUMillis = rv_CPUMillis (rq_Requests resources), co_RequestMemory = memory_bytes (rv_MemoryMiB (rq_Requests resources)),
      co_LimitCPUMillis = rv_CPUMillis (rq_Limits resources), co_LimitMemory = memory_bytes (rv_MemoryMiB (rq_Limits resources)),
      co_SecurityContext = Some \<lparr>sc_RunAsNonRoot = Some True, sc_RunAsUser = Some nonRootUID, sc_RunAsGroup = Some nonRootUID,
        sc_Privileged = Some False, sc_AllowPrivilegeEscalation = Some False, sc_ReadOnlyRootFilesystem = Some True,
        sc_Capabilities = Some \<lparr>cap_Add = [], cap_Drop = [''ALL'']\<rparr>, sc_SeccompProfile = Some ''RuntimeDefault''\<rparr>,
      co_VolumeMounts = map snd (volumesAndMounts context), co_TerminationMessagePolicy = ''File''\<rparr>)"

definition buildPod :: "buildContext \<Rightarrow> PodSpec" where
  "buildPod context =
    (let profile = bc_profile context in
     \<lparr>ps_ServiceAccountName = rn_ServiceAccount (bc_names context), ps_AutomountServiceAccountToken = Some False,
      ps_RestartPolicy = ''Never'', ps_TerminationGracePeriodSeconds = Some (pf_TerminationGracePeriodSeconds profile),
      ps_EnableServiceLinks = Some False, ps_HostNetwork = False, ps_HostPID = False, ps_HostIPC = False,
      ps_NodeSelector = pf_NodeSelector profile, ps_Tolerations = pf_Tolerations profile,
      ps_TopologySpreadConstraints = map (\<lambda>key. \<lparr>ts_MaxSkew = 1, ts_TopologyKey = key, ts_WhenUnsatisfiable = ''ScheduleAnyway'',
        ts_MatchLabels = workloadSelectorLabels (bc_run context)\<rparr>) (pf_TopologyKeys profile),
      ps_PriorityClassName = pf_PriorityClassName profile,
      ps_RequiredNodeAffinity = [(''node-role.kubernetes.io/control-plane'', ''DoesNotExist''), (''node-role.kubernetes.io/master'', ''DoesNotExist'')],
      ps_SecurityContext = Some \<lparr>psc_RunAsNonRoot = Some True, psc_RunAsUser = Some nonRootUID, psc_RunAsGroup = Some nonRootUID,
        psc_FSGroup = Some nonRootUID, psc_FSGroupChangePolicy = Some ''OnRootMismatch'', psc_SeccompProfile = Some ''RuntimeDefault''\<rparr>,
      ps_Containers = [runnerContainer context], ps_InitContainers = [], ps_EphemeralContainers = [],
      ps_Volumes = map fst (volumesAndMounts context),
      ps_RuntimeClassName = (if pf_RuntimeClassName profile \<noteq> [] then Some (pf_RuntimeClassName profile) else None)\<rparr>)"

definition buildJob :: "reslib \<Rightarrow> buildContext \<Rightarrow> JobObject" where
  "buildJob R context =
    \<lparr>jo_Meta = object_meta R (rn_Job (bc_names context)) context, jo_Parallelism = Some 1, jo_Completions = Some 1,
     jo_BackoffLimit = Some 0, jo_ActiveDeadlineSeconds = Some (sp_TimeoutSeconds (cr_Spec (bc_run context))),
     jo_TemplateLabels = labelsForRun R (bc_run context), jo_TemplateAnnotations = annotationsForRun (bc_run context),
     jo_Pod = buildPod context\<rparr>"

definition BuildAll :: "reslib \<Rightarrow> Builder \<Rightarrow> AgentRunCR \<Rightarrow> ExecutionResources result" where
  "BuildAll R b run =
    (case resolve R b run of Inl err \<Rightarrow> Inl err | Inr context \<Rightarrow>
       let result = \<lparr>xr_ServiceAccount = buildServiceAccount R context, xr_Configuration = buildConfigMap R context,
         xr_Workspace = buildPVC R context, xr_NetworkPolicy = buildNetworkPolicy R context, xr_Job = buildJob R context\<rparr> in
       (case ValidateSecurity R (xr_ServiceAccount result) (xr_NetworkPolicy result) (xr_Job result) of
          Some err \<Rightarrow> Inl err | None \<Rightarrow> Inr result))"

text \<open>The builders of single objects.\<close>

definition BuildServiceAccount :: "reslib \<Rightarrow> Builder \<Rightarrow> AgentRunCR \<Rightarrow> ServiceAccount result" where
  "BuildServiceAccount R b run = map_sum id (buildServiceAccount R) (resolve R b run)"

definition BuildConfigMap :: "reslib \<Rightarrow> Builder \<Rightarrow> AgentRunCR \<Rightarrow> ConfigMap result" where
  "BuildConfigMap R b run = map_sum id (buildConfigMap R) (resolve R b run)"

definition BuildPVC :: "reslib \<Rightarrow> Builder \<Rightarrow> AgentRunCR \<Rightarrow> PersistentVolumeClaim result" where
  "BuildPVC R b run = map_sum id (buildPVC R) (resolve R b run)"

definition BuildNetworkPolicy :: "reslib \<Rightarrow> Builder \<Rightarrow> AgentRunCR \<Rightarrow> NetworkPolicy result" where
  "BuildNetworkPolicy R b run = map_sum id (buildNetworkPolicy R) (resolve R b run)"

definition BuildJob :: "reslib \<Rightarrow> Builder \<Rightarrow> AgentRunCR \<Rightarrow> JobObject result" where
  "BuildJob R b run =
    (case resolve R b run of Inl err \<Rightarrow> Inl err | Inr context \<Rightarrow>
       (case ValidateSecurity R (buildServiceAccount R context) (buildNetworkPolicy R context) (buildJob R context) of
          Some err \<Rightarrow> Inl err | None \<Rightarrow> Inr (buildJob R context)))"

section \<open>Prefixes\<close>

lemma prefix_of_coarser:
  assumes "m \<le> bits"
  shows "prefix_of is6 m addr = prefix_of is6 bits addr div 2 ^ ((BitLen is6 - m) - (BitLen is6 - bits))"
proof -
  have "BitLen is6 - m = (BitLen is6 - bits) + ((BitLen is6 - m) - (BitLen is6 - bits))" using assms by simp
  then show ?thesis unfolding prefix_of_def by (metis power_add zdiv_zmult2_eq zero_le_numeral zero_le_power)
qed

lemma common_address_overlaps:
  assumes "prefix_Contains p ip" "prefix_Contains q ip"
  shows "prefix_Overlaps p q"
proof -
  let ?m = "min (px_Bits p) (px_Bits q)"
  have "prefix_of (px_Is6 p) ?m (px_Addr p) = prefix_of (px_Is6 p) ?m (snd ip)"
    using assms(1) prefix_of_coarser [of ?m "px_Bits p"] by (simp add: prefix_Contains_def)
  moreover have "prefix_of (px_Is6 p) ?m (px_Addr q) = prefix_of (px_Is6 p) ?m (snd ip)"
    using assms prefix_of_coarser [of ?m "px_Bits q"] by (simp add: prefix_Contains_def)
  ultimately show ?thesis using assms by (simp add: prefix_Overlaps_def prefix_Contains_def)
qed

text \<open>The link-local networks, which hold the metadata services of the cloud providers.\<close>

definition link_local :: "bool \<times> int \<Rightarrow> bool" where
  "link_local ip \<longleftrightarrow>
     prefix_Contains \<lparr>px_Is6 = False, px_Addr = 169 * 2 ^ 24 + 254 * 2 ^ 16, px_Bits = 16\<rparr> ip \<or>
     prefix_Contains \<lparr>px_Is6 = True, px_Addr = 0xfe80 * 2 ^ 112, px_Bits = 10\<rparr> ip"

lemma first_error_None: "first_error check xs = None \<longleftrightarrow> (\<forall>x \<in> set xs. check x = None)"
  by (induction xs) (auto split: option.splits)

lemma prohibited_link_local:
  assumes "first_error (prohibited_error cidr) prohibitedEgressPrefixes = None" "prefix_Contains cidr ip"
  shows "\<not> link_local ip"
proof
  assume "link_local ip"
  then consider "prefix_Overlaps cidr \<lparr>px_Is6 = False, px_Addr = 169 * 2 ^ 24 + 254 * 2 ^ 16, px_Bits = 16\<rparr>"
    | "prefix_Overlaps cidr \<lparr>px_Is6 = True, px_Addr = 0xfe80 * 2 ^ 112, px_Bits = 10\<rparr>"
    using common_address_overlaps [OF assms(2)] by (auto simp: link_local_def)
  then show False
    using assms(1) unfolding first_error_None prohibitedEgressPrefixes_def prohibited_error_def by cases force+
qed

text \<open>The addresses that a rule lets through by an IP block.\<close>

definition rule_allows :: "reslib \<Rightarrow> EgressRule \<Rightarrow> bool \<times> int \<Rightarrow> bool" where
  "rule_allows R rule ip \<longleftrightarrow> (\<exists>peer \<in> set (er_To rule). \<exists>block cidr.
     np_IPBlock peer = Some block \<and> rl_ParsePrefix R (ib_CIDR block) = Some cidr \<and> prefix_Contains cidr ip)"

lemma validateNetworkPeer_link_local:
  assumes "validateNetworkPeer R peer = None" "np_IPBlock peer = Some block" "rl_ParsePrefix R (ib_CIDR block) = Some cidr"
    "prefix_Contains cidr ip"
  shows "\<not> link_local ip"
  using assms prohibited_link_local by (auto simp: validateNetworkPeer_def split: if_splits option.splits)

section \<open>What is built is secure\<close>

lemma add_policies_valid:
  assumes "add_policies R policies known = Inr known'" "\<forall>(name, policy) \<in> set known. validateEgressPolicy R policy = None"
  shows "\<forall>(name, policy) \<in> set known'. validateEgressPolicy R policy = None"
  using assms
  by (induction R policies known rule: add_policies.induct) (auto split: option.splits if_splits)

lemma add_profiles_valid:
  assumes "add_profiles R profiles known = Inr known'" "\<forall>(name, profile) \<in> set known. validateProfile R profile = None"
  shows "\<forall>(name, profile) \<in> set known'. validateProfile R profile = None"
  using assms
  by (induction R profiles known rule: add_profiles.induct) (auto split: option.splits if_splits)

definition builder_valid :: "reslib \<Rightarrow> Builder \<Rightarrow> bool" where
  "builder_valid R b \<longleftrightarrow> (\<forall>(name, profile) \<in> set (bd_profiles b). validateProfile R profile = None) \<and>
     (\<forall>(name, policy) \<in> set (bd_egressPolicies b). validateEgressPolicy R policy = None)"

lemma NewBuilder_valid: "NewBuilder R profiles policies = Inr b \<Longrightarrow> builder_valid R b"
  using add_policies_valid [of R policies "[]"] add_profiles_valid [of R profiles "[]"]
  by (auto simp: NewBuilder_def builder_valid_def split: if_splits sum.splits)

lemma resolve_Inr:
  assumes "resolve R b run = Inr context"
  shows "bc_run context = run" "validateRunForBuild R run = None" "ForAgentRun run = Inr (bc_names context)"
    "profileForRun (bd_profiles b) run = Inr (bc_profile context)" "egressForRun (bd_egressPolicies b) run = Inr (bc_egress context)"
  using assms by (auto simp: resolve_def split: if_splits option.splits sum.splits)

lemma egress_valid:
  assumes "builder_valid R b" "egressForRun (bd_egressPolicies b) run = Inr (Some policy)"
  shows "validateEgressPolicy R policy = None"
  using assms map_of_SomeD
  by (fastforce simp: egressForRun_def builder_valid_def Let_def split: if_splits option.splits)

lemma profile_valid:
  assumes "builder_valid R b" "profileForRun (bd_profiles b) run = Inr profile"
  shows "validateProfile R profile = None"
  using assms map_of_SomeD by (fastforce simp: profileForRun_def builder_valid_def split: option.splits)

lemma set_sortedReferences [simp]: "set (sortedReferences references) = set references"
  by (simp add: sortedReferences_def)

lemma external_volumes: "volume \<in> set (map fst (external base root source references)) \<Longrightarrow> \<exists>name. snd volume = source name"
  by (auto simp: external_def)

lemma volumes_ok: "first_error volume_error (map fst (volumesAndMounts context)) = None"
  unfolding first_error_None volumesAndMounts_def
  using external_volumes by (fastforce simp: volume_error_def)

lemma external_mounts:
  "(\<forall>mount \<in> set (map snd (external base root source references)). mount_error mount = None) \<longleftrightarrow>
   (\<forall>name \<in> set references. \<not> Contains (ToLower (root @ ''/'' @ name)) ''docker.sock'' \<and> root @ ''/'' @ name \<noteq> ''/var/run/docker'')"
proof -
  have "map vm_MountPath (map snd (external base root source references)) =
      map (\<lambda>p. root @ ''/'' @ snd p) (enumerate 0 (sortedReferences references))"
    by (simp add: external_def comp_def case_prod_unfold)
  also have "\<dots> = map (\<lambda>name. root @ ''/'' @ name) (map snd (enumerate 0 (sortedReferences references)))"
    unfolding map_map comp_def ..
  also have "\<dots> = map (\<lambda>name. root @ ''/'' @ name) (sortedReferences references)" by (simp only: map_snd_enumerate)
  finally have "set (map vm_MountPath (map snd (external base root source references))) =
      set (map (\<lambda>name. root @ ''/'' @ name) (sortedReferences references))" by (rule arg_cong)
  then have "vm_MountPath ` set (map snd (external base root source references)) = (\<lambda>name. root @ ''/'' @ name) ` set references"
    unfolding set_map set_sortedReferences .
  then have "(\<forall>path \<in> vm_MountPath ` set (map snd (external base root source references)). \<not> Contains (ToLower path) ''docker.sock'' \<and> path \<noteq> ''/var/run/docker'') \<longleftrightarrow>
      (\<forall>name \<in> set references. \<not> Contains (ToLower (root @ ''/'' @ name)) ''docker.sock'' \<and> root @ ''/'' @ name \<noteq> ''/var/run/docker'')"
    by simp
  moreover have "mount_error mount = None \<longleftrightarrow> \<not> Contains (ToLower (vm_MountPath mount)) ''docker.sock'' \<and> vm_MountPath mount \<noteq> ''/var/run/docker''" for mount
    unfolding mount_error_def by (metis option.distinct(1))
  ultimately show ?thesis unfolding ball_simps(9) by metis
qed

text \<open>A reference whose mount path looks like the socket of Docker.\<close>

definition socket_reference :: "AgentRunSpec \<Rightarrow> bool" where
  "socket_reference spec \<longleftrightarrow>
     (\<exists>name \<in> set (sp_ConfigurationRefs spec). Contains (ToLower (''/etc/agentforge/config'' @ ''/'' @ name)) ''docker.sock'') \<or>
     (\<exists>name \<in> set (sp_SecretRefs spec). Contains (ToLower (''/var/run/agentforge/secrets'' @ ''/'' @ name)) ''docker.sock'')"

lemma mounts_ok:
  "first_error mount_error (map snd (volumesAndMounts context)) = None \<longleftrightarrow> \<not> socket_reference (cr_Spec (bc_run context))"
proof -
  have fixed: "mount_error \<lparr>vm_Name = ''workspace'', vm_MountPath = ''/workspace'', vm_ReadOnly = False\<rparr> = None"
    "mount_error \<lparr>vm_Name = ''runtime-config'', vm_MountPath = ''/etc/agentforge/runtime'', vm_ReadOnly = True\<rparr> = None"
    "mount_error \<lparr>vm_Name = ''artifact-destination'', vm_MountPath = ''/etc/agentforge/artifacts'', vm_ReadOnly = True\<rparr> = None"
    "mount_error \<lparr>vm_Name = ''tmp'', vm_MountPath = ''/tmp'', vm_ReadOnly = False\<rparr> = None"
    "mount_error \<lparr>vm_Name = ''home'', vm_MountPath = ''/home/agent'', vm_ReadOnly = False\<rparr> = None"
    by code_simp+
  show ?thesis
    unfolding first_error_None volumesAndMounts_def map_append set_append ball_Un external_mounts
    by (simp add: fixed socket_reference_def del: append.simps Contains.simps)
qed

lemma rules_ok:
  assumes "validateEgressPolicy R policy = None" "rule \<in> set (ep_Rules policy)"
  shows "er_To rule \<noteq> []" "er_Ports rule \<noteq> []" "first_error (validateNetworkPeer R) (er_To rule) = None"
proof -
  have "rule_error R rule = None"
    using assms by (auto simp: validateEgressPolicy_def first_error_None split: if_splits)
  then show "er_To rule \<noteq> []" "er_Ports rule \<noteq> []" "first_error (validateNetworkPeer R) (er_To rule) = None"
    by (auto simp: rule_error_def split: if_splits option.splits)
qed

lemma egress_rules:
  assumes "builder_valid R b" "resolve R b run = Inr context" "rule \<in> set (netp_Egress (buildNetworkPolicy R context))"
  shows "er_To rule \<noteq> []" "er_Ports rule \<noteq> []" "first_error (validateNetworkPeer R) (er_To rule) = None"
proof -
  obtain policy where p: "bc_egress context = Some policy" "rule \<in> set (ep_Rules policy)"
    using assms(3) by (cases "bc_egress context") (auto simp: buildNetworkPolicy_def)
  have "validateEgressPolicy R policy = None"
    using egress_valid [OF assms(1)] resolve_Inr(5) [OF assms(2)] p(1) by simp
  from rules_ok [OF this p(2)] show "er_To rule \<noteq> []" "er_Ports rule \<noteq> []" "first_error (validateNetworkPeer R) (er_To rule) = None" .
qed

lemma validate_built:
  assumes "builder_valid R b" "resolve R b run = Inr context"
  shows "ValidateSecurity R (buildServiceAccount R context) (buildNetworkPolicy R context) (buildJob R context) = None \<longleftrightarrow>
    \<not> socket_reference (cr_Spec run)"
proof -
  have run: "bc_run context = run" by (rule resolve_Inr(1) [OF assms(2)])
  have "validateNetworkPolicySecurity R (buildNetworkPolicy R context) = None"
    using egress_rules [OF assms]
    by (simp add: validateNetworkPolicySecurity_def first_error_None) (simp add: buildNetworkPolicy_def)
  moreover have "1 \<le> sp_TimeoutSeconds (cr_Spec run)"
    using resolve_Inr(2) [OF assms(2)] by (auto simp: validateRunForBuild_def Let_def split: option.splits if_splits)
  then have "pod_security (buildJob R context) = None \<longleftrightarrow> first_error mount_error (map snd (volumesAndMounts context)) = None"
    by (simp add: pod_security_def buildJob_def buildPod_def runnerContainer_def container_secure_def volumes_ok run Let_def)
  ultimately show ?thesis using mounts_ok [of "context"] by (simp add: ValidateSecurity_def buildServiceAccount_def run)
qed

text \<open>The restrictions on the Pod of a workload.\<close>

definition pod_confined :: "PodSpec \<Rightarrow> bool" where
  "pod_confined pod \<longleftrightarrow> \<not> ps_HostNetwork pod \<and> \<not> ps_HostPID pod \<and> \<not> ps_HostIPC pod \<and>
     ps_AutomountServiceAccountToken pod = Some False \<and> map_of (ps_NodeSelector pod) requiredNodePoolLabel = Some ''agents'' \<and>
     (\<forall>t \<in> set (ps_Tolerations pod). tl_Operator t \<noteq> ''Exists'' \<and> \<not> isControlPlaneKey (tl_Key t)) \<and>
     (\<forall>(name, source) \<in> set (ps_Volumes pod). \<forall>path. source \<noteq> HostPathVolume path) \<and>
     (\<exists>container. ps_Containers pod = [container] \<and> container_secure container = None)"

lemma buildPod_confined:
  assumes "validateProfile R (bc_profile context) = None"
  shows "pod_confined (buildPod context)"
proof -
  have "\<forall>t \<in> set (pf_Tolerations (bc_profile context)). toleration_error R t = None"
    "map_of (pf_NodeSelector (bc_profile context)) requiredNodePoolLabel = Some ''agents''"
    using assms by (auto simp: validateProfile_def first_error_None split: if_splits option.splits)
  moreover have "\<forall>t. toleration_error R t = None \<longrightarrow> tl_Operator t \<noteq> ''Exists'' \<and> \<not> isControlPlaneKey (tl_Key t)"
    unfolding toleration_error_def by (metis option.distinct(1))
  moreover have "snd (fst x) \<noteq> HostPathVolume path" if "x \<in> set (volumesAndMounts context)" for x path
    using volumes_ok [of "context"] that by (auto simp: first_error_None volume_error_def split: VolumeSource.splits)
  ultimately show ?thesis
    by (simp add: pod_confined_def buildPod_def runnerContainer_def container_secure_def Let_def case_prod_unfold)
qed


definition ex_reslib :: reslib where
  "ex_reslib = \<lparr>rl_IsDNS1123Subdomain = (\<lambda>s. s \<noteq> []), rl_IsQualifiedName = (\<lambda>_. True), rl_IsValidLabelValue = (\<lambda>_. True),
     rl_LabelSelectorAsSelector = (\<lambda>_. True),
     rl_ParsePrefix = (\<lambda>s. if s = ''10.0.0.0/8'' then Some \<lparr>px_Is6 = False, px_Addr = 10 * 2 ^ 24, px_Bits = 8\<rparr> else None),
     rl_PrefixString = (\<lambda>_. ''10.0.0.0/8''), rl_Marshal = (\<lambda>_. []), rl_Sum256Hex = (\<lambda>_. [])\<rparr>"

definition ex_egress :: EgressPolicy where
  "ex_egress = \<lparr>ep_Name = ''packages'', ep_Rules = [\<lparr>er_Ports = [\<lparr>pt_Protocol = Some ''TCP'', pt_Port = Some (IntPort 443), pt_EndPort = None\<rparr>],
     er_To = [\<lparr>np_PodSelector = None, np_NamespaceSelector = None, np_IPBlock = Some \<lparr>ib_CIDR = ''10.0.0.0/8'', ib_Except = []\<rparr>\<rparr>]\<rparr>]\<rparr>"

definition ex_builder :: Builder where
  "ex_builder = \<lparr>bd_profiles = [(''standard'', StandardProfile)], bd_egressPolicies = [(''packages'', ex_egress)]\<rparr>"

lemma ex_builder: "NewBuilder ex_reslib [StandardProfile] [ex_egress] = Inr ex_builder"
  by code_simp


end
