(* ===== verification/Operator_Reconcile.thy ===== *)
theory Operator_Reconcile
  imports Operator_Resources
begin

text \<open>
  The reconciler of the operator (\<^verbatim>\<open>operator/internal/controller\<close>: \<^verbatim>\<open>agentrun_controller.go\<close>,
  \<^verbatim>\<open>prerequisites.go\<close>, \<^verbatim>\<open>cancellation.go\<close>, \<^verbatim>\<open>cleanup.go\<close>).  The Kubernetes API server is a parameter: each
  answer is an arbitrary function of the request and of the requests before it, so a theorem about all servers
  covers every failure and every change by others between two calls.  The functions return the requests they made.
\<close>

section \<open>The API server\<close>

datatype kube_object =
    KServiceAccount ServiceAccount
  | KConfigMap ConfigMap
  | KPersistentVolumeClaim PersistentVolumeClaim
  | KNetworkPolicy NetworkPolicy
  | KJob JobObject

fun object_metadata :: "kube_object \<Rightarrow> ObjectMeta" where
  "object_metadata (KServiceAccount o1) = sa_Meta o1"
| "object_metadata (KConfigMap o2) = cm_Meta o2"
| "object_metadata (KPersistentVolumeClaim o3) = pvc_Meta o3"
| "object_metadata (KNetworkPolicy o4) = netp_Meta o4"
| "object_metadata (KJob o5) = jo_Meta o5"

fun resourceKind :: "kube_object \<Rightarrow> string" where
  "resourceKind (KServiceAccount _) = ''ServiceAccount''"
| "resourceKind (KConfigMap _) = ''ConfigMap''"
| "resourceKind (KPersistentVolumeClaim _) = ''PersistentVolumeClaim''"
| "resourceKind (KNetworkPolicy _) = ''NetworkPolicy''"
| "resourceKind (KJob _) = ''Job''"

text \<open>A claim as the reconciler reads it back.\<close>

record Workspace =
  wk_Controller :: "OwnerReference option"
  wk_Annotations :: "(string \<times> string) list"
  wk_StorageClassName :: "string option"
  wk_Phase :: string

datatype request =
    GetObject string string
  | ApplyObject kube_object
  | GetConfigMap string
  | GetSecret string
  | GetStorageClass string
  | GetWorkspace string
  | ReleaseWorkspace string
  | GetJob string
  | ListPods string
  | DeleteJob string bool \<comment> \<open>forced\<close>
  | DeletePod string
  | AddFinalizer
  | RemoveFinalizer
  | PatchStatus RunStatus

record server =
  sv_GetObject :: "request list \<Rightarrow> string \<Rightarrow> string \<Rightarrow> api_error_reason + kube_object"
  sv_GetReference :: "request list \<Rightarrow> request \<Rightarrow> api_error_reason option"
  sv_GetStorageClass :: "request list \<Rightarrow> string \<Rightarrow> api_error_reason + string option"
  sv_GetWorkspace :: "request list \<Rightarrow> string \<Rightarrow> api_error_reason + Workspace"
  sv_GetJob :: "request list \<Rightarrow> string \<Rightarrow> api_error_reason + Job"
  sv_ListPods :: "request list \<Rightarrow> string \<Rightarrow> api_error_reason + Pod list"
  sv_Write :: "request list \<Rightarrow> request \<Rightarrow> api_error_reason option"

text \<open>\<open>rc_DeepMatches\<close> compares the managed fields of two objects of a kind with \<^verbatim>\<open>equality.Semantic\<close>.\<close>

record AgentRunReconciler =
  rc_lib :: oplib
  rc_res :: reslib
  rc_ResourceBuilder :: "Builder option"
  rc_DeepMatches :: "kube_object \<Rightarrow> kube_object \<Rightarrow> bool"

type_synonym outcome = "(duration \<times> ReconcileError option) \<times> AgentRunCR \<times> request list"

text \<open>The negation of \<^verbatim>\<open>DeletionTimestamp.IsZero()\<close>, also for the nil pointer.\<close>

definition deleting :: "gtime option \<Rightarrow> bool" where
  "deleting timestamp \<longleftrightarrow> (case timestamp of None \<Rightarrow> False | Some t \<Rightarrow> \<not> IsZero t)"

section \<open>Prerequisites\<close>

datatype ensure_error = ResourceConflict | EnsureFailed api_error_reason

definition lookup :: "(string \<times> string) list \<Rightarrow> string \<Rightarrow> string" where
  "lookup m key = (case map_of m key of Some value \<Rightarrow> value | None \<Rightarrow> [])"

definition validateExistingOwnership :: "AgentRunCR \<Rightarrow> kube_object \<Rightarrow> kube_object \<Rightarrow> error option" where
  "validateExistingOwnership run desired existing =
    (let controller = om_Controller (object_metadata existing) in
     if om_Controller (object_metadata desired) \<noteq> None \<and>
        (case controller of None \<Rightarrow> True | Some owner \<Rightarrow> own_UID owner \<noteq> cr_UID run \<or> own_Name owner \<noteq> cr_Name run \<or>
           own_Kind owner \<noteq> ''AgentRun'' \<or> own_APIVersion owner \<noteq> ''execution.agentforge.dev/v1alpha1'') then
       Some (Plain ''resource is not controlled by this AgentRun'')
     else if om_Controller (object_metadata desired) = None \<and> controller \<noteq> None then
       Some (Plain ''retained resource has an unexpected controller owner'')
     else if lookup (om_Annotations (object_metadata existing)) ''execution.agentforge.dev/owner-uid'' \<noteq> cr_UID run then
       Some (Plain ''resource owner identity annotation does not match'')
     else None)"

definition entries_contained :: "(string \<times> string) list \<Rightarrow> (string \<times> string) list \<Rightarrow> bool" where
  "entries_contained existing desired \<longleftrightarrow> list_all (\<lambda>(key, value). lookup existing key = value) desired"

definition metadataContains :: "kube_object \<Rightarrow> kube_object \<Rightarrow> bool" where
  "metadataContains existing desired \<longleftrightarrow>
     entries_contained (om_Labels (object_metadata existing)) (om_Labels (object_metadata desired)) \<and>
     entries_contained (om_Annotations (object_metadata existing)) (om_Annotations (object_metadata desired))"

text \<open>For a Job the security of the existing one is checked again, with an account and a policy that pass.\<close>

definition job_matches :: "reslib \<Rightarrow> JobObject \<Rightarrow> JobObject \<Rightarrow> bool" where
  "job_matches R wanted actual \<longleftrightarrow>
     ValidateSecurity R \<lparr>sa_Meta = jo_Meta actual, sa_AutomountServiceAccountToken = Some False\<rparr>
       \<lparr>netp_Meta = jo_Meta actual, netp_PodSelector = [], netp_PolicyTypes = [''Ingress'', ''Egress''], netp_Ingress = Some [],
        netp_Egress = []\<rparr> actual = None \<and>
     entries_contained (jo_TemplateLabels actual) (jo_TemplateLabels wanted) \<and>
     entries_contained (jo_TemplateAnnotations actual) (jo_TemplateAnnotations wanted)"

definition managedObjectMatches :: "AgentRunReconciler \<Rightarrow> kube_object \<Rightarrow> kube_object \<Rightarrow> bool" where
  "managedObjectMatches r desired existing \<longleftrightarrow> metadataContains existing desired \<and>
     (case (desired, existing) of
        (KJob wanted, KJob actual) \<Rightarrow> job_matches (rc_res r) wanted actual
      | _ \<Rightarrow> True) \<and> rc_DeepMatches r desired existing"

definition applyObject :: "server \<Rightarrow> kube_object \<Rightarrow> request list \<Rightarrow> ensure_error option \<times> request list" where
  "applyObject S desired log =
    ((case sv_Write S log (ApplyObject desired) of
        None \<Rightarrow> None | Some err \<Rightarrow> if err = Conflict then Some ResourceConflict else Some (EnsureFailed err)),
     log @ [ApplyObject desired])"

definition ensureObject ::
  "AgentRunReconciler \<Rightarrow> server \<Rightarrow> AgentRunCR \<Rightarrow> kube_object \<Rightarrow> request list \<Rightarrow> ensure_error option \<times> request list" where
  "ensureObject r S run desired log =
    (let name = om_Name (object_metadata desired); log1 = log @ [GetObject (resourceKind desired) name] in
     case sv_GetObject S log (resourceKind desired) name of
       Inr existing \<Rightarrow>
         if validateExistingOwnership run desired existing \<noteq> None then (Some ResourceConflict, log1)
         else if managedObjectMatches r desired existing then (None, log1)
         else applyObject S desired log1
     | Inl err \<Rightarrow> if err \<noteq> NotFound then (Some (EnsureFailed err), log1) else applyObject S desired log1)"

definition recordPrerequisiteFailure ::
  "oplib \<Rightarrow> gtime \<Rightarrow> string \<Rightarrow> ReconcileError \<Rightarrow> RunFailureCategory \<Rightarrow> AgentRunCR \<Rightarrow> AgentRunCR" where
  "recordPrerequisiteFailure K now conditionType err category run =
    (let reason = conditionType @ '' could not be reconciled'' in
     setCondition K now ''Ready'' ConditionFalse (re_Reason err) ''Execution prerequisites are not ready''
      (setCondition K now conditionType ConditionFalse (re_Reason err) reason
       (run\<lparr>cr_Status := (cr_Status run)\<lparr>
          st_Phase := (if re_Class err = ErrorClassPermanent then AgentRunPhaseFailed else AgentRunPhaseProvisioning),
          st_FailureCategory := category, st_FailureReason := reason\<rparr>\<rparr>)))"

definition handlePrerequisiteError ::
  "oplib \<Rightarrow> gtime \<Rightarrow> string \<Rightarrow> string \<Rightarrow> ensure_error \<Rightarrow> AgentRunCR \<Rightarrow> ReconcileError \<times> AgentRunCR" where
  "handlePrerequisiteError K now conditionType reason err run =
    (case err of
       ResourceConflict \<Rightarrow>
         (let e = newReconcileError ErrorClassPermanent reason in
          (e, recordPrerequisiteFailure K now conditionType e FailureCategoryConflict run))
     | EnsureFailed api \<Rightarrow>
         (let e = classifyAPIError reason api in
          (e, recordPrerequisiteFailure K now conditionType e
            (if re_Class e = ErrorClassPermanent then FailureCategoryPolicy else FailureCategoryTransientDependency) run)))"

definition failed_prerequisite ::
  "oplib \<Rightarrow> gtime \<Rightarrow> string \<Rightarrow> string \<Rightarrow> ensure_error \<Rightarrow> AgentRunCR \<Rightarrow> request list \<Rightarrow> outcome" where
  "failed_prerequisite K now conditionType reason err run log =
    (case handlePrerequisiteError K now conditionType reason err run of (e, run') \<Rightarrow> ((0, Some e), run', log))"

text \<open>The condition of a prerequisite that waits for another one.\<close>

definition waits_for_configuration :: "oplib \<Rightarrow> gtime \<Rightarrow> string \<Rightarrow> AgentRunCR \<Rightarrow> AgentRunCR" where
  "waits_for_configuration K now message run =
    setCondition K now ''Ready'' ConditionFalse ''ConfigurationPending'' ''Execution configuration references are not ready''
    (setCondition K now ''JobReady'' ConditionFalse ''ConfigurationPending'' ''Execution Job waits for execution configuration''
    (setCondition K now ''NetworkPolicyReady'' ConditionFalse ''ConfigurationPending'' ''Network policy waits for execution configuration''
    (setCondition K now ''WorkspaceReady'' ConditionFalse ''ConfigurationPending'' ''Workspace waits for execution configuration''
    (setCondition K now ''ConfigurationReady'' ConditionFalse ''ReferenceNotFound'' message run))))"

datatype references = ReferencesReady | ReferenceMissing string | ReferenceFailed api_error_reason

text \<open>The two loops of \<^verbatim>\<open>configurationReferencesReady\<close>, over the requests for the references and their messages.\<close>

fun references_loop :: "server \<Rightarrow> (request \<times> string) list \<Rightarrow> request list \<Rightarrow> references \<times> request list" where
  "references_loop S [] log = (ReferencesReady, log)"
| "references_loop S ((req, message) # reqs) log =
    (case sv_GetReference S log req of
       None \<Rightarrow> references_loop S reqs (log @ [req])
     | Some err \<Rightarrow> (if err = NotFound then ReferenceMissing message else ReferenceFailed err, log @ [req]))"

definition reference_requests :: "AgentRunSpec \<Rightarrow> (request \<times> string) list" where
  "reference_requests spec =
    map (\<lambda>name. (GetConfigMap name, ''Required ConfigMap '' @ [CHR 0x22] @ name @ [CHR 0x22] @ '' is not available''))
      (remdups_adj (sort_by (<) (sp_ArtifactDestinationRef spec # sp_ConfigurationRefs spec))) @
    map (\<lambda>name. (GetSecret name, ''Required Secret '' @ [CHR 0x22] @ name @ [CHR 0x22] @ '' is not available''))
      (remdups_adj (sort_by (<) (sp_SecretRefs spec)))"

definition workspaceWaitsForFirstConsumer ::
  "server \<Rightarrow> Workspace \<Rightarrow> request list \<Rightarrow> (api_error_reason + bool) \<times> request list" where
  "workspaceWaitsForFirstConsumer S workspace log =
    (case wk_StorageClassName workspace of
       None \<Rightarrow> (Inr False, log)
     | Some name \<Rightarrow>
         if name = [] then (Inr False, log)
         else ((case sv_GetStorageClass S log name of
              Inl err \<Rightarrow> if err = NotFound then Inr False else Inl err
            | Inr mode \<Rightarrow> Inr (mode = Some ''WaitForFirstConsumer'')), log @ [GetStorageClass name]))"

definition prerequisiteRequeue :: duration where
  "prerequisiteRequeue = 5 * second"

definition set_phase :: "AgentRunPhase \<Rightarrow> AgentRunCR \<Rightarrow> AgentRunCR" where
  "set_phase phase run = run\<lparr>cr_Status := (cr_Status run)\<lparr>st_Phase := phase\<rparr>\<rparr>"

definition observeJob :: "AgentRunReconciler \<Rightarrow> server \<Rightarrow> gtime \<Rightarrow> Job \<Rightarrow> AgentRunCR \<Rightarrow> request list \<Rightarrow> outcome" where
  "observeJob r S now job run log =
    (case sv_ListPods S log (job_Name job) of
       Inl err \<Rightarrow> failed_prerequisite (rc_lib r) now ''JobReady'' ''PodListFailed'' (EnsureFailed err) run (log @ [ListPods (job_Name job)])
     | Inr pods \<Rightarrow>
         let observation = observeLifecycle (rc_lib r) job pods in
         ((if ob_phase observation = AgentRunPhaseProvisioning \<or> ob_phase observation = AgentRunPhaseRunning
             then prerequisiteRequeue else 0, None),
          projectLifecycle (rc_lib r) now observation run, log @ [ListPods (job_Name job)]))"

text \<open>From the network policy on; the Job is the last resource.\<close>

definition reconcileJob :: "AgentRunReconciler \<Rightarrow> server \<Rightarrow> gtime \<Rightarrow> JobObject \<Rightarrow> AgentRunCR \<Rightarrow> request list \<Rightarrow> outcome" where
  "reconcileJob r S now desired run log =
    (case ensureObject r S run (KJob desired) log of
       (Some err, log1) \<Rightarrow> failed_prerequisite (rc_lib r) now ''JobReady'' ''JobReconcileFailed'' err run log1
     | (None, log1) \<Rightarrow>
         let name = om_Name (jo_Meta desired);
             run1 = setCondition (rc_lib r) now ''JobReady'' ConditionTrue ''JobReady'' ''Execution Job is created''
               (run\<lparr>cr_Status := (cr_Status run)\<lparr>st_JobName := name\<rparr>\<rparr>) in
         (case sv_GetJob S log1 name of
            Inl err \<Rightarrow> failed_prerequisite (rc_lib r) now ''JobReady'' ''JobReadFailed'' (EnsureFailed err) run1 (log1 @ [GetJob name])
          | Inr job \<Rightarrow> observeJob r S now job run1 (log1 @ [GetJob name])))"

definition checkKnownJob :: "AgentRunReconciler \<Rightarrow> server \<Rightarrow> gtime \<Rightarrow> JobObject \<Rightarrow> AgentRunCR \<Rightarrow> request list \<Rightarrow> outcome" where
  "checkKnownJob r S now desired run log =
    (let name = om_Name (jo_Meta desired) in
     if st_JobName (cr_Status run) = [] then reconcileJob r S now desired run log
     else if st_JobName (cr_Status run) \<noteq> name then
       let e = newReconcileError ErrorClassPermanent ''JobIdentityConflict'' in
       ((0, Some e), recordPrerequisiteFailure (rc_lib r) now ''JobReady'' e FailureCategoryInternal run, log)
     else (case sv_GetJob S log name of
        Inl err \<Rightarrow>
          if err = NotFound then ((0, None), recordMissingJob (rc_lib r) now name run, log @ [GetJob name])
          else failed_prerequisite (rc_lib r) now ''JobReady'' ''JobReadFailed'' (EnsureFailed err) run (log @ [GetJob name])
      | Inr job \<Rightarrow>
          if deleting (job_DeletionTimestamp job) then ((0, None), recordMissingJob (rc_lib r) now name run, log @ [GetJob name])
          else reconcileJob r S now desired run (log @ [GetJob name])))"

definition reconcileNetworkAndJob ::
  "AgentRunReconciler \<Rightarrow> server \<Rightarrow> gtime \<Rightarrow> ExecutionResources \<Rightarrow> AgentRunCR \<Rightarrow> request list \<Rightarrow> outcome" where
  "reconcileNetworkAndJob r S now desired run log =
    (case ensureObject r S run (KNetworkPolicy (xr_NetworkPolicy desired)) log of
       (Some err, log1) \<Rightarrow> failed_prerequisite (rc_lib r) now ''NetworkPolicyReady'' ''NetworkPolicyReconcileFailed'' err run log1
     | (None, log1) \<Rightarrow> checkKnownJob r S now (xr_Job desired)
         (setCondition (rc_lib r) now ''NetworkPolicyReady'' ConditionTrue ''NetworkPolicyReady'' ''Workload network policy is ready'' run) log1)"

definition storage_pending :: "oplib \<Rightarrow> gtime \<Rightarrow> AgentRunCR \<Rightarrow> AgentRunCR" where
  "storage_pending K now run =
    setCondition K now ''Ready'' ConditionFalse ''StoragePending'' ''Execution is waiting for workspace storage''
    (setCondition K now ''JobReady'' ConditionFalse ''WorkspacePending'' ''Execution Job waits for workspace storage''
    (setCondition K now ''NetworkPolicyReady'' ConditionFalse ''WorkspacePending'' ''Network policy waits for workspace storage''
    (setCondition K now ''WorkspaceReady'' ConditionFalse ''StoragePending'' ''Workspace storage is not bound'' run)))"

definition reconcileWorkspace ::
  "AgentRunReconciler \<Rightarrow> server \<Rightarrow> gtime \<Rightarrow> ExecutionResources \<Rightarrow> AgentRunCR \<Rightarrow> request list \<Rightarrow> outcome" where
  "reconcileWorkspace r S now desired run log =
    (let K = rc_lib r; name = om_Name (pvc_Meta (xr_Workspace desired)) in
     case ensureObject r S run (KPersistentVolumeClaim (xr_Workspace desired)) log of
       (Some err, log1) \<Rightarrow> failed_prerequisite K now ''WorkspaceReady'' ''WorkspaceReconcileFailed'' err run log1
     | (None, log1) \<Rightarrow>
    (case sv_GetWorkspace S log1 name of
       Inl err \<Rightarrow> failed_prerequisite K now ''WorkspaceReady'' ''WorkspaceReadFailed'' (EnsureFailed err) run (log1 @ [GetWorkspace name])
     | Inr workspace \<Rightarrow>
         if wk_Phase workspace = ''Bound'' then
           reconcileNetworkAndJob r S now desired
             (setCondition K now ''WorkspaceReady'' ConditionTrue ''WorkspaceReady'' ''Workspace storage is bound'' run) (log1 @ [GetWorkspace name])
         else
           let run1 = set_phase AgentRunPhaseProvisioning run in
           (case workspaceWaitsForFirstConsumer S workspace (log1 @ [GetWorkspace name]) of
              (Inl err, log2) \<Rightarrow> failed_prerequisite K now ''WorkspaceReady'' ''StorageClassReadFailed'' (EnsureFailed err) run1 log2
            | (Inr False, log2) \<Rightarrow> ((prerequisiteRequeue, None), storage_pending K now run1, log2)
            | (Inr True, log2) \<Rightarrow> reconcileNetworkAndJob r S now desired
                (setCondition K now ''WorkspaceReady'' ConditionFalse ''FirstConsumerPending''
                  ''Workspace binding requires an execution Pod consumer'' run1) log2)))"

definition reconcileConfiguration ::
  "AgentRunReconciler \<Rightarrow> server \<Rightarrow> gtime \<Rightarrow> ExecutionResources \<Rightarrow> AgentRunCR \<Rightarrow> request list \<Rightarrow> outcome" where
  "reconcileConfiguration r S now desired run log =
    (let K = rc_lib r in
     case references_loop S (reference_requests (cr_Spec run)) log of
       (ReferenceFailed err, log1) \<Rightarrow>
         failed_prerequisite K now ''ConfigurationReady'' ''ConfigurationReadFailed'' (EnsureFailed err) run log1
     | (ReferenceMissing message, log1) \<Rightarrow>
         ((prerequisiteRequeue, None), set_phase AgentRunPhaseProvisioning (waits_for_configuration K now message run), log1)
     | (ReferencesReady, log1) \<Rightarrow>
        (case ensureObject r S run (KConfigMap (xr_Configuration desired)) log1 of
           (Some err, log2) \<Rightarrow> failed_prerequisite K now ''ConfigurationReady'' ''ConfigurationReconcileFailed'' err run log2
         | (None, log2) \<Rightarrow> reconcileWorkspace r S now desired
             (setCondition K now ''ConfigurationReady'' ConditionTrue ''ConfigurationReady''
               ''Execution configuration references are ready'' run) log2))"

definition reconcilePrerequisites :: "AgentRunReconciler \<Rightarrow> server \<Rightarrow> gtime \<Rightarrow> AgentRunCR \<Rightarrow> request list \<Rightarrow> outcome" where
  "reconcilePrerequisites r S now run log =
    (let K = rc_lib r in
     case rc_ResourceBuilder r of
       None \<Rightarrow>
         let e = newReconcileError ErrorClassPermanent ''ResourceBuilderMissing'' in
         ((0, Some e), recordPrerequisiteFailure K now ''ConfigurationReady'' e FailureCategoryInternal run, log)
     | Some b \<Rightarrow>
    (case BuildAll (rc_res r) b run of
       Inl _ \<Rightarrow>
         let e = newReconcileError ErrorClassPermanent ''ResourceBuildFailed'' in
         ((0, Some e), recordPrerequisiteFailure K now ''ConfigurationReady'' e FailureCategoryPolicy run, log)
     | Inr desired \<Rightarrow>
    (case ensureObject r S run (KServiceAccount (xr_ServiceAccount desired)) log of
       (Some err, log1) \<Rightarrow> failed_prerequisite K now ''ServiceAccountReady'' ''ServiceAccountReconcileFailed'' err run log1
     | (None, log1) \<Rightarrow> reconcileConfiguration r S now desired
         (setCondition K now ''ServiceAccountReady'' ConditionTrue ''ServiceAccountReady'' ''Workload ServiceAccount is ready'' run) log1)))"

section \<open>Cancellation\<close>

definition cancellationDeadline :: duration where
  "cancellationDeadline = 2 * minute"

definition cancellationRequeue :: duration where
  "cancellationRequeue = 5 * second"

definition projectCancelling :: "oplib \<Rightarrow> gtime \<Rightarrow> bool \<Rightarrow> AgentRunCR \<Rightarrow> AgentRunCR" where
  "projectCancelling K now forced run =
    upsertAttemptStatus
    (setCondition K now ''Ready'' ConditionFalse ''CancellationInProgress'' ''Cancellation is not yet complete''
    (setCondition K now ''JobReady'' ConditionFalse ''CancellationInProgress'' ''Execution Job is being terminated''
    (setCondition K now ''CancellationComplete'' ConditionFalse
       (if forced then ''ForcedTerminationPending'' else ''GracefulTerminationPending'')
       (if forced then ''Execution Job exceeded the cancellation deadline and is being forcibly terminated''
        else ''Execution Job is terminating within the cancellation deadline'')
    (set_phase AgentRunPhaseCancelling run))))"

definition completeCancellation :: "oplib \<Rightarrow> gtime \<Rightarrow> bool \<Rightarrow> AgentRunCR \<Rightarrow> AgentRunCR" where
  "completeCancellation K now forced run =
    upsertAttemptStatus
    (setCondition K now ''Ready'' ConditionFalse ''ExecutionCancelled'' ''Execution was cancelled''
    (setCondition K now ''JobReady'' ConditionFalse ''ExecutionCancelled'' ''Execution Job is absent after cancellation''
    (setCondition K now ''CancellationComplete'' ConditionTrue
       (if forced then ''ForcedCancellation'' else ''GracefulCancellation'')
       (if forced then ''Execution cancellation completed after forced termination''
        else ''Execution cancellation completed gracefully'')
    (run\<lparr>cr_Status := (cr_Status run)\<lparr>st_Phase := AgentRunPhaseCancelled,
       st_CompletionTime := (case st_CompletionTime (cr_Status run) of Some t \<Rightarrow> Some t | None \<Rightarrow> Some now)\<rparr>\<rparr>))))"

text \<open>The error is one of the reconciler's own or one of the API.\<close>

definition recordCancellationError ::
  "oplib \<Rightarrow> gtime \<Rightarrow> string \<Rightarrow> ReconcileError + api_error_reason \<Rightarrow> AgentRunCR \<Rightarrow> ReconcileError \<times> AgentRunCR" where
  "recordCancellationError K now reason err run =
    (let e = (case err of Inl existing \<Rightarrow> existing | Inr api \<Rightarrow> classifyAPIError reason api);
         category = (if reason = ''CancellationJobConflict'' \<or> reason = ''CancellationIdentityInvalid'' then FailureCategoryInternal
           else if re_Class e = ErrorClassPermanent then FailureCategoryPolicy else FailureCategoryTransientDependency) in
     (e, upsertAttemptStatus
        (setCondition K now ''Ready'' ConditionFalse reason ''Cancellation reconciliation could not make progress''
        (setCondition K now ''CancellationComplete'' ConditionFalse reason ''Cancellation reconciliation could not make progress''
        (run\<lparr>cr_Status := (cr_Status run)\<lparr>st_Phase := AgentRunPhaseCancelling, st_FailureCategory := category,
           st_FailureReason := ''Cancellation reconciliation could not make progress''\<rparr>\<rparr>)))))"

definition failed_cancellation ::
  "oplib \<Rightarrow> gtime \<Rightarrow> string \<Rightarrow> ReconcileError + api_error_reason \<Rightarrow> AgentRunCR \<Rightarrow> request list \<Rightarrow> outcome" where
  "failed_cancellation K now reason err run log =
    (case recordCancellationError K now reason err run of (e, run') \<Rightarrow> ((0, Some e), run', log))"

definition cancellationStartedAt :: "AgentRunCR \<Rightarrow> gtime" where
  "cancellationStartedAt run =
    (case find (\<lambda>c. cd_Type c = ''CancellationComplete'' \<and> cd_Status c = ConditionFalse) (st_Conditions (cr_Status run)) of
       Some c \<Rightarrow> cd_LastTransitionTime c | None \<Rightarrow> 0)"

definition cancellationWasForced :: "AgentRunCR \<Rightarrow> gtime \<Rightarrow> bool" where
  "cancellationWasForced run now =
    (case find (\<lambda>c. cd_Type c = ''CancellationComplete'') (st_Conditions (cr_Status run)) of
       Some c \<Rightarrow> cd_Reason c = ''ForcedTerminationPending'' \<or> cd_Reason c = ''ForcedCancellation'' \<or>
         (cd_Status c = ConditionFalse \<and> \<not> now < cd_LastTransitionTime c + cancellationDeadline)
     | None \<Rightarrow> False)"

text \<open>The loop over the Pods of the Job; Pods of others are left alone.\<close>

fun delete_pods :: "server \<Rightarrow> Job \<Rightarrow> Pod list \<Rightarrow> request list \<Rightarrow> api_error_reason option \<times> request list" where
  "delete_pods S job [] log = (None, log)"
| "delete_pods S job (pod # pods) log =
    (if \<not> controlled_by job pod then delete_pods S job pods log
     else (case sv_Write S log (DeletePod (pod_Name pod)) of
        Some err \<Rightarrow> if err \<noteq> NotFound then (Some err, log @ [DeletePod (pod_Name pod)])
          else delete_pods S job pods (log @ [DeletePod (pod_Name pod)])
      | None \<Rightarrow> delete_pods S job pods (log @ [DeletePod (pod_Name pod)])))"

definition deleteJob :: "server \<Rightarrow> Job \<Rightarrow> bool \<Rightarrow> request list \<Rightarrow> api_error_reason option \<times> request list" where
  "deleteJob S job forced log =
    ((case sv_Write S log (DeleteJob (job_Name job) forced) of
        Some err \<Rightarrow> if err \<noteq> NotFound then Some err else None | None \<Rightarrow> None), log @ [DeleteJob (job_Name job) forced])"

definition forceDeleteExecution :: "server \<Rightarrow> Job \<Rightarrow> request list \<Rightarrow> api_error_reason option \<times> request list" where
  "forceDeleteExecution S job log =
    (case sv_ListPods S log (job_Name job) of
       Inl err \<Rightarrow> (Some err, log @ [ListPods (job_Name job)])
     | Inr pods \<Rightarrow>
        (case delete_pods S job pods (log @ [ListPods (job_Name job)]) of
           (Some err, log1) \<Rightarrow> (Some err, log1)
         | (None, log1) \<Rightarrow> deleteJob S job True log1))"

definition terminateJob :: "AgentRunReconciler \<Rightarrow> server \<Rightarrow> gtime \<Rightarrow> Job \<Rightarrow> AgentRunCR \<Rightarrow> request list \<Rightarrow> outcome" where
  "terminateJob r S now job run log =
    (let K = rc_lib r;
         started = (if IsZero (cancellationStartedAt run) then now else cancellationStartedAt run);
         forced = (\<not> now < started + cancellationDeadline);
         run1 = projectCancelling K now forced run in
     if forced then
       (case forceDeleteExecution S job log of
          (Some err, log1) \<Rightarrow> failed_cancellation K now ''ForcedCancellationFailed'' (Inr err) run1 log1
        | (None, log1) \<Rightarrow> ((cancellationRequeue, None), run1, log1))
     else if \<not> deleting (job_DeletionTimestamp job) then
       (case deleteJob S job False log of
          (Some err, log1) \<Rightarrow> failed_cancellation K now ''GracefulCancellationFailed'' (Inr err) run1 log1
        | (None, log1) \<Rightarrow> ((cancellationRequeue, None), run1, log1))
     else ((cancellationRequeue, None), run1, log))"

definition cancelJob :: "AgentRunReconciler \<Rightarrow> server \<Rightarrow> gtime \<Rightarrow> Job \<Rightarrow> AgentRunCR \<Rightarrow> request list \<Rightarrow> outcome" where
  "cancelJob r S now job run log =
    (let K = rc_lib r in
     if deleting (job_DeletionTimestamp job) then terminateJob r S now job run log
     else (case sv_ListPods S log (job_Name job) of
        Inl err \<Rightarrow> failed_cancellation K now ''CancellationPodReadFailed'' (Inr err) run (log @ [ListPods (job_Name job)])
      | Inr pods \<Rightarrow>
          let observation = observeLifecycle K job pods in
          if ob_phase observation = AgentRunPhaseSucceeded \<or> ob_phase observation = AgentRunPhaseFailed then
            ((0, None), projectLifecycle K now observation run, log @ [ListPods (job_Name job)])
          else terminateJob r S now job run (log @ [ListPods (job_Name job)])))"

definition reconcileCancellation :: "AgentRunReconciler \<Rightarrow> server \<Rightarrow> gtime \<Rightarrow> AgentRunCR \<Rightarrow> request list \<Rightarrow> outcome" where
  "reconcileCancellation r S now run log =
    (let K = rc_lib r; jobName = st_JobName (cr_Status run) in
     if jobName = [] then ((0, None), completeCancellation K now False run, log)
     else (case ForAgentRun run of
        Inl _ \<Rightarrow> failed_cancellation K now ''CancellationIdentityInvalid''
          (Inl (newReconcileError ErrorClassPermanent ''CancellationIdentityInvalid'')) run log
      | Inr names \<Rightarrow>
          if jobName \<noteq> rn_Job names then
            failed_cancellation K now ''CancellationJobConflict''
              (Inl (newReconcileError ErrorClassPermanent ''CancellationJobConflict'')) run log
          else (case sv_GetJob S log jobName of
             Inl err \<Rightarrow>
               if err = NotFound then
                 ((0, None), completeCancellation K now (cancellationWasForced run now) run, log @ [GetJob jobName])
               else failed_cancellation K now ''CancellationJobReadFailed'' (Inr err) run (log @ [GetJob jobName])
           | Inr job \<Rightarrow> cancelJob r S now job run (log @ [GetJob jobName]))))"

section \<open>Cleanup\<close>

definition cleanupRequeue :: duration where
  "cleanupRequeue = 15 * second"

definition cleanupDeadline :: duration where
  "cleanupDeadline = 10 * minute"

definition initializeDeletingStatus :: "oplib \<Rightarrow> gtime \<Rightarrow> AgentRunCR \<Rightarrow> AgentRunCR" where
  "initializeDeletingStatus K now run =
    (let run1 = setCondition K now ''Ready'' ConditionFalse ''Deleting'' ''AgentRun deletion is in progress''
       (run\<lparr>cr_Status := (cr_Status run)\<lparr>st_ObservedGeneration := cr_Generation run\<rparr>\<rparr>) in
     if ol_FindStatusCondition K (st_Conditions (cr_Status run1)) ''CleanupPending'' = None then
       setCondition K now ''CleanupPending'' ConditionTrue ''CleanupStarted'' ''Retained workspace handoff is in progress'' run1
     else run1)"

definition cleanupStartedAt :: "AgentRunCR \<Rightarrow> gtime" where
  "cleanupStartedAt run =
    (if deleting (cr_DeletionTimestamp run) then the (cr_DeletionTimestamp run)
     else (case find (\<lambda>c. cd_Type c = ''CleanupPending'' \<and> cd_Status c = ConditionTrue) (st_Conditions (cr_Status run)) of
        Some c \<Rightarrow> cd_LastTransitionTime c | None \<Rightarrow> 0))"

definition completeCleanup :: "oplib \<Rightarrow> gtime \<Rightarrow> string \<Rightarrow> string \<Rightarrow> AgentRunCR \<Rightarrow> AgentRunCR" where
  "completeCleanup K now reason message run = setCondition K now ''CleanupPending'' ConditionFalse reason message run"

definition handleCleanupFailure ::
  "oplib \<Rightarrow> gtime \<Rightarrow> string \<Rightarrow> ReconcileError \<Rightarrow> AgentRunCR \<Rightarrow> (bool \<times> ReconcileError option) \<times> AgentRunCR" where
  "handleCleanupFailure K now reason cleanupErr run =
    (let started = cleanupStartedAt run in
     if \<not> IsZero started \<and> \<not> now < started + cleanupDeadline then
       ((True, None), completeCleanup K now ''CleanupEscalated''
          ''Cleanup deadline elapsed; finalizer release requires retained-resource operator review'' run)
     else ((False, Some cleanupErr),
       setCondition K now ''CleanupPending'' ConditionTrue reason ''Retained workspace handoff could not make progress'' run))"

definition workspaceNameForAttempt :: "AgentRunCR \<Rightarrow> int \<Rightarrow> string result" where
  "workspaceNameForAttempt run attempt =
    map_sum id rn_Workspace (ForAgentRun (run\<lparr>cr_Status := (cr_Status run)\<lparr>st_Attempt := attempt\<rparr>\<rparr>))"

definition validateRetainedWorkspace :: "AgentRunCR \<Rightarrow> Workspace \<Rightarrow> error option" where
  "validateRetainedWorkspace run workspace =
    (if wk_Controller workspace \<noteq> None then Some (Plain ''retained workspace unexpectedly has a controller owner'')
     else if lookup (wk_Annotations workspace) ''execution.agentforge.dev/owner-uid'' \<noteq> cr_UID run then
       Some (Plain ''retained workspace owner identity does not match'')
     else if lookup (wk_Annotations workspace) ''execution.agentforge.dev/retention-policy'' \<noteq> ''Retain'' then
       Some (Plain ''retained workspace policy marker does not match'')
     else None)"

text \<open>One round of the loop over the attempts: the reason and the error of a failure, if any.\<close>

definition release_workspace ::
  "server \<Rightarrow> AgentRunCR \<Rightarrow> int \<Rightarrow> request list \<Rightarrow> (string \<times> ReconcileError) option \<times> request list" where
  "release_workspace S run attempt log =
    (case workspaceNameForAttempt run attempt of
       Inl _ \<Rightarrow> (Some (''CleanupIdentityInvalid'', newReconcileError ErrorClassPermanent ''CleanupIdentityInvalid''), log)
     | Inr name \<Rightarrow>
        (case sv_GetWorkspace S log name of
           Inl err \<Rightarrow>
             (if err = NotFound then None
              else Some (''RetainedWorkspaceReadFailed'', classifyAPIError ''RetainedWorkspaceReadFailed'' err), log @ [GetWorkspace name])
         | Inr workspace \<Rightarrow>
             if validateRetainedWorkspace run workspace \<noteq> None then
               (Some (''RetainedWorkspaceConflict'', newReconcileError ErrorClassPermanent ''RetainedWorkspaceConflict''), log @ [GetWorkspace name])
             else if lookup (wk_Annotations workspace) ''execution.agentforge.dev/retention-state'' = ''Released'' then
               (None, log @ [GetWorkspace name])
             else (map_option (\<lambda>err. (''RetentionHandoffFailed'', classifyAPIError ''RetentionHandoffFailed'' err))
                 (sv_Write S (log @ [GetWorkspace name]) (ReleaseWorkspace name)), log @ [GetWorkspace name, ReleaseWorkspace name])))"

fun release_workspaces ::
  "server \<Rightarrow> AgentRunCR \<Rightarrow> int list \<Rightarrow> request list \<Rightarrow> (string \<times> ReconcileError) option \<times> request list" where
  "release_workspaces S run [] log = (None, log)"
| "release_workspaces S run (attempt # attempts) log =
    (case release_workspace S run attempt log of
       (Some failure, log1) \<Rightarrow> (Some failure, log1)
     | (None, log1) \<Rightarrow> release_workspaces S run attempts log1)"

definition reconcileCleanup ::
  "oplib \<Rightarrow> server \<Rightarrow> gtime \<Rightarrow> AgentRunCR \<Rightarrow> request list \<Rightarrow> (bool \<times> ReconcileError option) \<times> AgentRunCR \<times> request list" where
  "reconcileCleanup K S now run0 log =
    (let run = initializeDeletingStatus K now run0 in
     if ws_RetentionPolicy (sp_Workspace (cr_Spec run)) \<noteq> WorkspaceRetentionRetain then
       ((True, None), completeCleanup K now ''CleanupNotRequired'' ''No explicitly retained resource requires cleanup'' run, log)
     else (case release_workspaces S run [sp_Attempt (cr_Spec run) .. CurrentAttempt run] log of
        (Some (reason, err), log1) \<Rightarrow> (case handleCleanupFailure K now reason err run of (res, run1) \<Rightarrow> (res, run1, log1))
      | (None, log1) \<Rightarrow> ((True, None), completeCleanup K now ''CleanupComplete'' ''Retained workspace handoff is complete'' run, log1)))"

section \<open>Reconciliation\<close>

definition initializeCancellationStatus :: "oplib \<Rightarrow> gtime \<Rightarrow> AgentRunCR \<Rightarrow> AgentRunCR" where
  "initializeCancellationStatus K now run =
    (let status = cr_Status run in
     setCondition K now ''SpecValid'' ConditionTrue ''Accepted'' ''AgentRun desired state is valid''
      (run\<lparr>cr_Status := status\<lparr>
         st_Phase := (if st_Phase status = no_phase then AgentRunPhasePending else st_Phase status),
         st_Attempt := (if st_Attempt status = 0 then sp_Attempt (cr_Spec run) else st_Attempt status),
         st_Namespace := (if st_Namespace status = [] then cr_Namespace run else st_Namespace status),
         st_ObservedGeneration := cr_Generation run\<rparr>\<rparr>))"

definition pending_condition :: "oplib \<Rightarrow> gtime \<Rightarrow> AgentRunCR \<Rightarrow> string \<Rightarrow> AgentRunCR" where
  "pending_condition K now run conditionType =
    (if ol_FindStatusCondition K (st_Conditions (cr_Status run)) conditionType = None then
       setCondition K now conditionType ConditionFalse ''ReconciliationPending'' ''Prerequisite has not been reconciled'' run
     else run)"

definition initializeAcceptedStatus :: "oplib \<Rightarrow> gtime \<Rightarrow> AgentRunCR \<Rightarrow> AgentRunCR" where
  "initializeAcceptedStatus K now run =
    (let status = cr_Status run in
     foldl (pending_condition K now)
      (setCondition K now ''Ready'' ConditionFalse ''ReconciliationPending'' ''Execution resources have not been reconciled''
      (setCondition K now ''SpecValid'' ConditionTrue ''Accepted'' ''AgentRun desired state is valid''
       (run\<lparr>cr_Status := status\<lparr>
         st_Phase := (if st_Phase status = no_phase then AgentRunPhasePending else st_Phase status),
         st_Attempt := (if st_Attempt status = 0 then sp_Attempt (cr_Spec run) else st_Attempt status),
         st_Namespace := (if st_Namespace status = [] then cr_Namespace run else st_Namespace status),
         st_ObservedGeneration := cr_Generation run, st_FailureCategory := no_category, st_FailureReason := []\<rparr>\<rparr>)))
      [''ServiceAccountReady'', ''ConfigurationReady'', ''WorkspaceReady'', ''NetworkPolicyReady'', ''JobReady''])"

definition initializeInvalidStatus :: "oplib \<Rightarrow> gtime \<Rightarrow> AgentRunCR \<Rightarrow> AgentRunCR" where
  "initializeInvalidStatus K now run =
    setCondition K now ''Ready'' ConditionFalse ''InvalidSpec'' ''Execution resources will not be reconciled''
    (setCondition K now ''SpecValid'' ConditionFalse ''InvalidSpec'' ''AgentRun desired state is invalid''
     (run\<lparr>cr_Status := (cr_Status run)\<lparr>st_Phase := AgentRunPhaseFailed, st_ObservedGeneration := cr_Generation run,
        st_Attempt := sp_Attempt (cr_Spec run), st_Namespace := cr_Namespace run,
        st_FailureCategory := FailureCategoryValidation,
        st_FailureReason := ''AgentRun desired state failed controller validation''\<rparr>\<rparr>))"

definition acknowledgeTerminal :: "oplib \<Rightarrow> gtime \<Rightarrow> AgentRunCR \<Rightarrow> AgentRunCR" where
  "acknowledgeTerminal K now run =
    setCondition K now ''SpecValid'' ConditionTrue ''Accepted'' ''AgentRun desired state is valid''
     (run\<lparr>cr_Status := (cr_Status run)\<lparr>st_ObservedGeneration := cr_Generation run,
        st_Conditions := map (\<lambda>c. c\<lparr>cd_ObservedGeneration := cr_Generation run\<rparr>) (st_Conditions (cr_Status run))\<rparr>\<rparr>)"

text \<open>The object as the server keeps it: a status write that is refused changes nothing.\<close>

definition patchStatusIfChanged ::
  "server \<Rightarrow> AgentRunCR \<Rightarrow> AgentRunCR \<Rightarrow> request list \<Rightarrow> api_error_reason option \<times> AgentRunCR \<times> request list" where
  "patchStatusIfChanged S before after log =
    (if cr_Status before = cr_Status after then (None, before, log)
     else (case sv_Write S log (PatchStatus (cr_Status after)) of
        Some err \<Rightarrow> (Some err, before, log @ [PatchStatus (cr_Status after)])
      | None \<Rightarrow> (None, before\<lparr>cr_Status := cr_Status after\<rparr>, log @ [PatchStatus (cr_Status after)])))"

text \<open>The end of every branch: the status is written, and an error of the write comes before that of the branch.\<close>

definition finish :: "server \<Rightarrow> string \<Rightarrow> AgentRunCR \<Rightarrow> outcome \<Rightarrow> outcome" where
  "finish S reason before result =
    (case result of (res, after, log) \<Rightarrow>
     case patchStatusIfChanged S before after log of
       (Some err, stored, log1) \<Rightarrow> ((0, Some (classifyAPIError reason err)), stored, log1)
     | (None, stored, log1) \<Rightarrow> (res, stored, log1))"

definition RetainedResourcesFinalizer :: string where
  "RetainedResourcesFinalizer = ''execution.agentforge.dev/retained-resources''"

definition reconcileDeletion :: "AgentRunReconciler \<Rightarrow> server \<Rightarrow> gtime \<Rightarrow> AgentRunCR \<Rightarrow> outcome" where
  "reconcileDeletion r S now run =
    (if RetainedResourcesFinalizer \<notin> set (cr_Finalizers run) then ((0, None), run, [])
     else (case reconcileCleanup (rc_lib r) S now run [] of ((complete, cleanupErr), after, log) \<Rightarrow>
      (case patchStatusIfChanged S run after log of
         (Some _, stored, log1) \<Rightarrow> ((cleanupRequeue, None), stored, log1)
       | (None, stored, log1) \<Rightarrow>
           if cleanupErr \<noteq> None \<or> \<not> complete then ((cleanupRequeue, None), stored, log1)
           else (case sv_Write S log1 RemoveFinalizer of
              None \<Rightarrow> ((0, None), stored\<lparr>cr_Finalizers := removeAll RetainedResourcesFinalizer (cr_Finalizers stored)\<rparr>, log1 @ [RemoveFinalizer])
            | Some _ \<Rightarrow>
                (case patchStatusIfChanged S stored (setCondition (rc_lib r) now ''CleanupPending'' ConditionTrue ''FinalizerRemovalFailed''
                    ''Cleanup completed but finalizer removal could not make progress'' stored) (log1 @ [RemoveFinalizer]) of
                   (_, stored', log2) \<Rightarrow> ((cleanupRequeue, None), stored', log2))))))"

definition reconcileActive :: "AgentRunReconciler \<Rightarrow> server \<Rightarrow> gtime \<Rightarrow> AgentRunCR \<Rightarrow> request list \<Rightarrow> outcome" where
  "reconcileActive r S now run log =
    (let K = rc_lib r in
     if currentAttemptTerminal run then
       if sp_DesiredState (cr_Spec run) = DesiredStateRunning \<and> retryAllowed run then
         (case reconcileRetry K now run of (delay, after) \<Rightarrow> finish S ''RetryStatusWriteFailed'' run ((delay, None), after, log))
       else finish S ''TerminalStatusWriteFailed'' run ((0, None), acknowledgeTerminal K now run, log)
     else if sp_DesiredState (cr_Spec run) = DesiredStateCancelled then
       finish S ''CancellationStatusWriteFailed'' run (reconcileCancellation r S now (initializeCancellationStatus K now run) log)
     else
       (case reconcilePrerequisites r S now (initializeAcceptedStatus K now run) log of
          ((delay, err), after, log1) \<Rightarrow>
            if err = None \<and> retryAllowed after then
              (case reconcileRetry K now after of (delay', after') \<Rightarrow> finish S ''StatusWriteFailed'' run ((delay', None), after', log1))
            else finish S ''StatusWriteFailed'' run ((delay, err), after, log1)))"

definition Reconcile :: "AgentRunReconciler \<Rightarrow> server \<Rightarrow> gtime \<Rightarrow> AgentRunCR \<Rightarrow> outcome" where
  "Reconcile r S now run =
    (let K = rc_lib r in
     if deleting (cr_DeletionTimestamp run) then reconcileDeletion r S now run
     else if validateAgentRun K run \<noteq> None then
       finish S ''InvalidSpecStatusWriteFailed'' run
         ((0, Some (newReconcileError ErrorClassPermanent ''InvalidSpec'')), initializeInvalidStatus K now run, [])
     else if ws_RetentionPolicy (sp_Workspace (cr_Spec run)) = WorkspaceRetentionRetain \<and>
             RetainedResourcesFinalizer \<notin> set (cr_Finalizers run) then
       (case sv_Write S [] AddFinalizer of
          Some err \<Rightarrow> ((0, Some (classifyAPIError ''FinalizerWriteFailed'' err)), run, [AddFinalizer])
        | None \<Rightarrow> reconcileActive r S now (run\<lparr>cr_Finalizers := cr_Finalizers run @ [RetainedResourcesFinalizer]\<rparr>) [AddFinalizer])
     else reconcileActive r S now run [])"

end
