(* ===== verification/Operator_History.thy ===== *)
theory Operator_History
  imports Operator_Reconcile
begin

text \<open>
  What the reconciler does to a run over time.  \<open>evolve\<close> is the effect of all steps within an attempt: the
  specification and the attempt stay and only the entry of the current attempt changes.  A retry opens the next
  attempt.  The histories of a run are built from reconciliations against arbitrary servers and from the two changes
  that users can make.
\<close>

section \<open>Steps within an attempt\<close>

definition frame :: "AgentRunCR \<Rightarrow> string \<times> string \<times> string \<times> int \<times> gtime option \<times> string list \<times> AgentRunSpec \<times> int" where
  "frame run = (cr_Name run, cr_Namespace run, cr_UID run, cr_Generation run, cr_DeletionTimestamp run, cr_Finalizers run,
     cr_Spec run, CurrentAttempt run)"

definition attempts :: "AgentRunCR \<Rightarrow> AttemptStatus list" where
  "attempts run = st_Attempts (cr_Status run)"

definition good :: "AgentRunCR \<Rightarrow> bool" where
  "good run \<longleftrightarrow> 1 \<le> sp_Attempt (cr_Spec run) \<and> CurrentAttempt run \<le> 10 \<and>
     sorted_wrt (\<lambda>a b. as_Attempt a < as_Attempt b) (attempts run) \<and>
     (\<forall>e \<in> set (attempts run). 1 \<le> as_Attempt e \<and> as_Attempt e \<le> CurrentAttempt run)"

definition earlier :: "int \<Rightarrow> AgentRunCR \<Rightarrow> AttemptStatus list" where
  "earlier n run = filter (\<lambda>e. as_Attempt e < n) (attempts run)"

definition evolve :: "AgentRunCR \<Rightarrow> AgentRunCR \<Rightarrow> bool" where
  "evolve run run' \<longleftrightarrow> frame run' = frame run \<and> good run' \<and> earlier (CurrentAttempt run) run' = earlier (CurrentAttempt run) run"

lemma frameD:
  assumes "frame run' = frame run"
  shows "CurrentAttempt run' = CurrentAttempt run" "cr_Spec run' = cr_Spec run" "cr_Finalizers run' = cr_Finalizers run"
    "cr_DeletionTimestamp run' = cr_DeletionTimestamp run" "cr_Generation run' = cr_Generation run"
  using assms by (simp_all add: frame_def)

lemma evolve_refl: "good run \<Longrightarrow> evolve run run"
  by (simp add: evolve_def)

lemma evolve_trans: "evolve run run' \<Longrightarrow> evolve run' run'' \<Longrightarrow> evolve run run''"
  by (auto simp: evolve_def dest: frameD(1))

lemma evolve_same: "good run \<Longrightarrow> frame run' = frame run \<Longrightarrow> attempts run' = attempts run \<Longrightarrow> evolve run run'"
  by (auto simp: evolve_def good_def earlier_def dest: frameD)

lemma frame_status [simp]: "frame (run\<lparr>cr_Status := s\<rparr>) = frame run \<longleftrightarrow> CurrentAttempt (run\<lparr>cr_Status := s\<rparr>) = CurrentAttempt run"
  by (simp add: frame_def)

lemma CurrentAttempt_status [simp]:
  "st_Attempt s = st_Attempt (cr_Status run) \<Longrightarrow> CurrentAttempt (run\<lparr>cr_Status := s\<rparr>) = CurrentAttempt run"
  by (simp add: CurrentAttempt_def)

lemma setCondition_frame [simp]:
  "frame (setCondition K now t s r m run) = frame run" "attempts (setCondition K now t s r m run) = attempts run"
  by (simp_all add: setCondition_def attempts_def)

lemma setCondition_status [simp]:
  "st_Phase (cr_Status (setCondition K now t s r m run)) = st_Phase (cr_Status run)"
  "st_Attempt (cr_Status (setCondition K now t s r m run)) = st_Attempt (cr_Status run)"
  "st_ArtifactManifestRef (cr_Status (setCondition K now t s r m run)) = st_ArtifactManifestRef (cr_Status run)"
  "st_FailureCategory (cr_Status (setCondition K now t s r m run)) = st_FailureCategory (cr_Status run)"
  "cr_Spec (setCondition K now t s r m run) = cr_Spec run"
  by (simp_all add: setCondition_def)

section \<open>The list of attempts\<close>

lemma attempt_less_small:
  assumes "1 \<le> as_Attempt a" "as_Attempt a \<le> 10" "1 \<le> as_Attempt b" "as_Attempt b \<le> 10"
  shows "attempt_less a b \<longleftrightarrow> as_Attempt a < as_Attempt b"
proof -
  have "i32 (as_Attempt a - as_Attempt b) = as_Attempt a - as_Attempt b" using assms by (intro i32_id) (simp add: in_i32_def)
  then show ?thesis by (simp add: attempt_less_def)
qed

lemma sort_by_sorted: "sorted_wrt (\<lambda>a b. \<not> lt b a) xs \<Longrightarrow> sort_by lt xs = xs"
proof (induction xs)
  case (Cons x xs)
  then show ?case by (cases xs) auto
qed simp

lemma replaceAttempt_last:
  assumes "sorted_wrt (\<lambda>a b. as_Attempt a < as_Attempt b) es" "\<forall>e \<in> set es. as_Attempt e \<le> as_Attempt current"
  shows "(case replaceAttempt current es of Some as \<Rightarrow> as | None \<Rightarrow> es @ [current]) =
    filter (\<lambda>e. as_Attempt e < as_Attempt current) es @ [current]"
  using assms
proof (induction es)
  case (Cons e es)
  show ?case
  proof (cases "as_Attempt e = as_Attempt current")
    case True
    then have "es = []" using Cons.prems by (cases es) auto
    then show ?thesis using True by simp
  next
    case False
    then show ?thesis using Cons by (auto split: option.splits)
  qed
qed simp

lemma upsert_attempts:
  assumes "good run"
  shows "attempts (upsertAttemptStatus run) = earlier (CurrentAttempt run) run @ [attemptStatus run]"
proof -
  let ?es = "earlier (CurrentAttempt run) run @ [attemptStatus run]"
  have cur: "as_Attempt (attemptStatus run) = CurrentAttempt run" by (simp add: attemptStatus_def)
  have g: "sorted_wrt (\<lambda>a b. as_Attempt a < as_Attempt b) (attempts run)"
    "\<forall>e \<in> set (attempts run). 1 \<le> as_Attempt e \<and> as_Attempt e \<le> CurrentAttempt run" "1 \<le> CurrentAttempt run" "CurrentAttempt run \<le> 10"
    using assms CurrentAttempt_ge [of run] by (auto simp: good_def)
  have "(case replaceAttempt (attemptStatus run) (st_Attempts (cr_Status run)) of Some as \<Rightarrow> as | None \<Rightarrow> st_Attempts (cr_Status run) @ [attemptStatus run]) = ?es"
    unfolding attempts_def [symmetric] using replaceAttempt_last [of "attempts run" "attemptStatus run"] g by (simp add: cur earlier_def)
  moreover have "sort_by attempt_less ?es = ?es"
  proof (rule sort_by_sorted)
    have small: "\<forall>e \<in> set ?es. 1 \<le> as_Attempt e \<and> as_Attempt e \<le> 10" using g cur by (auto simp: earlier_def)
    have "sorted_wrt (\<lambda>a b. as_Attempt a < as_Attempt b) ?es"
      using g(1) cur by (auto simp: earlier_def sorted_wrt_append sorted_wrt_filter)
    then show "sorted_wrt (\<lambda>a b. \<not> attempt_less b a) ?es"
      by (rule sorted_wrt_mono_rel [rotated]) (use small attempt_less_small in force)
  qed
  ultimately show ?thesis by (simp add: upsertAttemptStatus_def Let_def attempts_def [of "run\<lparr>cr_Status := s\<rparr>" for s])
qed

lemma upsert_frame [simp]: "frame (upsertAttemptStatus run) = frame run"
  by (simp add: upsertAttemptStatus_def Let_def)

lemma upsert_status [simp]:
  "st_Phase (cr_Status (upsertAttemptStatus run)) = st_Phase (cr_Status run)"
  "st_Attempt (cr_Status (upsertAttemptStatus run)) = st_Attempt (cr_Status run)"
  "st_ArtifactManifestRef (cr_Status (upsertAttemptStatus run)) = st_ArtifactManifestRef (cr_Status run)"
  by (simp_all add: upsertAttemptStatus_def Let_def)

lemma upsert_good:
  assumes "good run"
  shows "good (upsertAttemptStatus run)" "earlier (CurrentAttempt run) (upsertAttemptStatus run) = earlier (CurrentAttempt run) run"
proof -
  have cur: "as_Attempt (attemptStatus run) = CurrentAttempt run" by (simp add: attemptStatus_def)
  note f = frameD [OF upsert_frame [of run]]
  have "1 \<le> CurrentAttempt run" using assms CurrentAttempt_ge [of run] by (auto simp: good_def)
  then show "good (upsertAttemptStatus run)"
    using assms f(1,2) cur
    by (auto simp: good_def upsert_attempts [OF assms] earlier_def sorted_wrt_append sorted_wrt_filter)
  show "earlier (CurrentAttempt run) (upsertAttemptStatus run) = earlier (CurrentAttempt run) run"
    using upsert_attempts [OF assms] cur by (simp add: earlier_def)
qed

lemma evolve_upsert:
  assumes "good run" "frame x = frame run" "attempts x = attempts run"
  shows "evolve run (upsertAttemptStatus x)"
proof -
  note e = evolve_same [OF assms]
  then have "good x" by (simp add: evolve_def)
  then have "evolve x (upsertAttemptStatus x)" using upsert_good by (simp add: evolve_def)
  then show ?thesis using e evolve_trans by blast
qed

section \<open>Projections\<close>

lemma evolve_status:
  assumes "good run" "st_Attempt s = st_Attempt (cr_Status run)" "st_Attempts s = st_Attempts (cr_Status run)"
  shows "evolve run (run\<lparr>cr_Status := s\<rparr>)"
  using assms by (intro evolve_same) (simp_all add: attempts_def)

lemma evolve_setCondition: "good run \<Longrightarrow> evolve run (setCondition K now t s rs m run)"
  by (rule evolve_same) simp_all

lemma attempts_status [simp]: "attempts (run\<lparr>cr_Status := s\<rparr>) = st_Attempts s"
  by (simp add: attempts_def)

lemma evolve_projections:
  assumes "good run"
  shows "evolve run (projectLifecycle K now ob run)" "evolve run (projectCancelling K now forced run)"
    "evolve run (completeCancellation K now forced run)" "evolve run (snd (recordCancellationError K now reason err run))"
  unfolding projectLifecycle_def projectCancelling_def completeCancellation_def recordCancellationError_def set_phase_def Let_def snd_conv
  by (rule evolve_upsert [OF assms]; simp add: attempts_def [symmetric])+

lemma evolve_conditions:
  assumes "good run"
  shows "evolve run (recordPrerequisiteFailure K now conditionType e category run)" "evolve run (set_phase phase run)"
    "evolve run (waits_for_configuration K now message run)" "evolve run (storage_pending K now run)"
    "evolve run (acknowledgeTerminal K now run)" "evolve run (initializeDeletingStatus K now run)"
  unfolding recordPrerequisiteFailure_def waits_for_configuration_def storage_pending_def set_phase_def acknowledgeTerminal_def
    initializeDeletingStatus_def Let_def
  by (rule evolve_same [OF assms]; simp add: attempts_def [symmetric])+

lemma evolve_recordMissingJob:
  assumes "good run"
  shows "evolve run (recordMissingJob K now name run)"
proof -
  have s: "evolve run (run\<lparr>cr_Status := (cr_Status run)\<lparr>st_JobName := name\<rparr>\<rparr>)" using assms by (rule evolve_status) simp_all
  then have "good (run\<lparr>cr_Status := (cr_Status run)\<lparr>st_JobName := name\<rparr>\<rparr>)" by (simp add: evolve_def)
  from evolve_trans [OF s evolve_projections(1) [OF this]] show ?thesis unfolding recordMissingJob_def .
qed

lemma CurrentAttempt_init:
  "1 \<le> sp_Attempt (cr_Spec run) \<Longrightarrow> st_Attempt s = (if st_Attempt (cr_Status run) = 0 then sp_Attempt (cr_Spec run) else st_Attempt (cr_Status run)) \<Longrightarrow>
   CurrentAttempt (run\<lparr>cr_Status := s\<rparr>) = CurrentAttempt run"
  by (auto simp: CurrentAttempt_def)

lemma evolve_initializeCancellation:
  assumes "good run"
  shows "evolve run (initializeCancellationStatus K now run)"
  unfolding initializeCancellationStatus_def Let_def
proof (rule evolve_same [OF assms])
  have "1 \<le> sp_Attempt (cr_Spec run)" using assms by (simp add: good_def)
  note CurrentAttempt_init [OF this]
  then show "frame (setCondition K now ''SpecValid'' ConditionTrue ''Accepted'' ''AgentRun desired state is valid''
      (run\<lparr>cr_Status := (cr_Status run)\<lparr>
         st_Phase := (if st_Phase (cr_Status run) = no_phase then AgentRunPhasePending else st_Phase (cr_Status run)),
         st_Attempt := (if st_Attempt (cr_Status run) = 0 then sp_Attempt (cr_Spec run) else st_Attempt (cr_Status run)),
         st_Namespace := (if st_Namespace (cr_Status run) = [] then cr_Namespace run else st_Namespace (cr_Status run)),
         st_ObservedGeneration := cr_Generation run\<rparr>\<rparr>)) = frame run" by simp
qed (simp add: attempts_def [symmetric])

lemma pending_conditions [simp]:
  "frame (foldl (pending_condition K now) run types) = frame run" "attempts (foldl (pending_condition K now) run types) = attempts run"
  by (induction types arbitrary: run) (simp_all add: pending_condition_def)

lemma evolve_initializeAccepted:
  assumes "good run"
  shows "evolve run (initializeAcceptedStatus K now run)"
proof (rule evolve_same [OF assms])
  have "1 \<le> sp_Attempt (cr_Spec run)" using assms by (simp add: good_def)
  note i = CurrentAttempt_init [OF this]
  show "frame (initializeAcceptedStatus K now run) = frame run"
    unfolding initializeAcceptedStatus_def Let_def pending_conditions setCondition_frame by (rule frame_status [THEN iffD2], rule i) simp
  show "attempts (initializeAcceptedStatus K now run) = attempts run"
    unfolding initializeAcceptedStatus_def Let_def pending_conditions setCondition_frame by (simp add: attempts_def)
qed

section \<open>Outcomes\<close>

text \<open>The Jobs that a log applies, and the name of the Job of the current attempt.\<close>

definition applied :: "request list \<Rightarrow> JobObject set" where
  "applied log = {j. ApplyObject (KJob j) \<in> set log}"

definition current_job :: "AgentRunCR \<Rightarrow> JobObject \<Rightarrow> bool" where
  "current_job run j \<longleftrightarrow> (\<exists>names. ForAgentRun run = Inr names \<and> om_Name (jo_Meta j) = rn_Job names)"

lemma applied_append [simp]: "applied (log @ log') = applied log \<union> applied log'"
  by (auto simp: applied_def)

lemma applied_single [simp]:
  "applied [] = {}" "applied [ApplyObject x] = {j. x = KJob j}" "applied (GetObject k n # log) = applied log" "applied (GetJob n # log) = applied log"
  "applied (ListPods n # log) = applied log" "applied (GetWorkspace n # log) = applied log" "applied (GetStorageClass n # log) = applied log"
  "applied (GetConfigMap n # log) = applied log" "applied (GetSecret n # log) = applied log" "applied (PatchStatus st # log) = applied log"
  "applied (DeleteJob n b # log) = applied log" "applied (DeletePod n # log) = applied log" "applied (ReleaseWorkspace n # log) = applied log"
  "applied (AddFinalizer # log) = applied log" "applied (RemoveFinalizer # log) = applied log"
  by (auto simp: applied_def)

definition stays :: "AgentRunCR \<Rightarrow> JobObject set \<Rightarrow> outcome \<Rightarrow> bool" where
  "stays run js out \<longleftrightarrow> evolve run (fst (snd out)) \<and> applied (snd (snd out)) \<subseteq> js"

lemma staysI: "evolve run run' \<Longrightarrow> applied log \<subseteq> js \<Longrightarrow> stays run js (res, run', log)"
  by (simp add: stays_def)

lemma stays_trans: "evolve run run' \<Longrightarrow> stays run' js out \<Longrightarrow> stays run js out"
  by (auto simp: stays_def intro: evolve_trans)

lemma ForAgentRun_frame: "frame run' = frame run \<Longrightarrow> ForAgentRun run' = ForAgentRun run"
  by (auto simp: ForAgentRun_def frame_def Let_def)

lemma current_job_frame:
  assumes "frame run' = frame run"
  shows "current_job run' = current_job run"
  by (rule ext) (simp only: current_job_def ForAgentRun_frame [OF assms])

lemma evolveD: "evolve run run' \<Longrightarrow> good run'" "evolve run run' \<Longrightarrow> frame run' = frame run"
  by (simp_all add: evolve_def)

lemma failed_prerequisite_stays:
  assumes "good run" "applied log \<subseteq> js"
  shows "stays run js (failed_prerequisite K now conditionType reason err run log)"
  using assms evolve_conditions(1) [OF assms(1)]
  by (cases err) (simp_all add: failed_prerequisite_def handlePrerequisiteError_def Let_def stays_def)

lemma ensureObject_applied:
  "applied (snd (ensureObject r S run desired log)) \<subseteq> applied log \<union> {j. desired = KJob j}"
  by (auto simp: ensureObject_def applyObject_def Let_def split: sum.splits option.splits)

lemma ensured:
  assumes "ensureObject r S run desired log = (err, log1)" "applied log \<subseteq> js" "{j. desired = KJob j} \<subseteq> js"
  shows "applied log1 \<subseteq> js"
  using ensureObject_applied [of r S run desired log] assms by auto

lemma observeJob_stays:
  assumes "good run" "applied log \<subseteq> js"
  shows "stays run js (observeJob r S now job run log)"
  using assms failed_prerequisite_stays [OF assms(1)] evolve_projections(1) [OF assms(1)]
  by (auto simp: observeJob_def Let_def stays_def split: sum.splits)

lemma reconcileJob_stays:
  assumes "good run" "applied log \<subseteq> js" "desired \<in> js"
  shows "stays run js (reconcileJob r S now desired run log)"
proof -
  obtain err log1 where e: "ensureObject r S run (KJob desired) log = (err, log1)" by fastforce
  have l: "applied log1 \<subseteq> js" using ensured [OF e assms(2)] assms(3) by simp
  let ?run1 = "setCondition (rc_lib r) now ''JobReady'' ConditionTrue ''JobReady'' ''Execution Job is created''
    (run\<lparr>cr_Status := (cr_Status run)\<lparr>st_JobName := om_Name (jo_Meta desired)\<rparr>\<rparr>)"
  have run1: "evolve run ?run1"
    by (rule evolve_same [OF assms(1)]) (simp_all add: attempts_def [symmetric])
  show ?thesis
  proof (cases err)
    case (Some x)
    then show ?thesis using failed_prerequisite_stays [OF assms(1) l] by (simp add: reconcileJob_def e)
  next
    case None
    have "stays ?run1 js (failed_prerequisite (rc_lib r) now ''JobReady'' ''JobReadFailed'' (EnsureFailed x) ?run1 (log1 @ [GetJob n]))" for x n
      using l by (intro failed_prerequisite_stays [OF evolveD(1) [OF run1]]) simp
    moreover have "stays ?run1 js (observeJob r S now job ?run1 (log1 @ [GetJob n]))" for job n
      using l by (intro observeJob_stays [OF evolveD(1) [OF run1]]) simp
    ultimately show ?thesis
      using stays_trans [OF run1] by (auto simp: reconcileJob_def e None Let_def split: sum.splits)
  qed
qed

lemma checkKnownJob_stays:
  assumes "good run" "applied log \<subseteq> js" "desired \<in> js"
  shows "stays run js (checkKnownJob r S now desired run log)"
  using assms reconcileJob_stays [OF assms(1) _ assms(3)] failed_prerequisite_stays [OF assms(1)]
    evolve_recordMissingJob [OF assms(1)] evolve_conditions(1) [OF assms(1)]
  by (auto simp: checkKnownJob_def Let_def intro!: staysI split: sum.splits)

lemma reconcileNetworkAndJob_stays:
  assumes "good run" "applied log \<subseteq> js" "xr_Job desired \<in> js"
  shows "stays run js (reconcileNetworkAndJob r S now desired run log)"
proof -
  obtain err log1 where e: "ensureObject r S run (KNetworkPolicy (xr_NetworkPolicy desired)) log = (err, log1)" by fastforce
  have l: "applied log1 \<subseteq> js" using ensured [OF e assms(2)] by simp
  note c = evolve_setCondition [OF assms(1)]
  show ?thesis
    using failed_prerequisite_stays [OF assms(1) l] stays_trans [OF c checkKnownJob_stays [OF evolveD(1) [OF c] l assms(3)]]
    by (cases err) (simp_all add: reconcileNetworkAndJob_def e)
qed

lemma workspaceWaits_applied: "applied (snd (workspaceWaitsForFirstConsumer S workspace log)) = applied log"
  by (simp add: workspaceWaitsForFirstConsumer_def split: option.splits)

lemma reconcileWorkspace_stays:
  assumes "good run" "applied log \<subseteq> js" "xr_Job desired \<in> js"
  shows "stays run js (reconcileWorkspace r S now desired run log)"
proof -
  obtain err log1 where e: "ensureObject r S run (KPersistentVolumeClaim (xr_Workspace desired)) log = (err, log1)" by fastforce
  have l: "applied log1 \<subseteq> js" using ensured [OF e assms(2)] by simp
  show ?thesis
  proof (cases err)
    case (Some x)
    then show ?thesis using failed_prerequisite_stays [OF assms(1) l] by (simp add: reconcileWorkspace_def Let_def e)
  next
    case None
    let ?n = "om_Name (pvc_Meta (xr_Workspace desired))" and ?log = "log1 @ [GetWorkspace (om_Name (pvc_Meta (xr_Workspace desired)))]"
    have l1: "applied ?log \<subseteq> js" using l by simp
    note p = evolve_conditions(2) [OF assms(1), of AgentRunPhaseProvisioning]
    note g = evolveD(1) [OF p]
    have next_step: "stays x js (reconcileNetworkAndJob r S now desired (setCondition K now t s rs m x) log')" if "good x" "applied log' \<subseteq> js" for x K t s rs m log'
      by (rule stays_trans [OF evolve_setCondition [OF that(1)] reconcileNetworkAndJob_stays [OF evolveD(1) [OF evolve_setCondition [OF that(1)]] that(2) assms(3)]])
    show ?thesis
    proof (cases "sv_GetWorkspace S log1 ?n")
      case (Inl x)
      then show ?thesis using failed_prerequisite_stays [OF assms(1) l1] by (simp add: reconcileWorkspace_def Let_def e None)
    next
      case (Inr workspace)
      obtain w log2 where w: "workspaceWaitsForFirstConsumer S workspace ?log = (w, log2)" by fastforce
      have l2: "applied log2 \<subseteq> js" using workspaceWaits_applied [of S workspace ?log] l1 w by simp
      have "stays run js (failed_prerequisite (rc_lib r) now ''WorkspaceReady'' ''StorageClassReadFailed'' (EnsureFailed x) (set_phase AgentRunPhaseProvisioning run) log2)" for x
        by (rule stays_trans [OF p failed_prerequisite_stays [OF g l2]])
      moreover have "stays run js ((prerequisiteRequeue, None), storage_pending (rc_lib r) now (set_phase AgentRunPhaseProvisioning run), log2)"
        by (rule stays_trans [OF p staysI [OF evolve_conditions(4) [OF g] l2]])
      ultimately show ?thesis
        using next_step [OF assms(1) l1] stays_trans [OF p next_step [OF g l2]]
        by (auto simp: reconcileWorkspace_def Let_def e None Inr w split: sum.splits bool.splits)
    qed
  qed
qed

lemma reference_requests_applied:
  "(req, message) \<in> set (reference_requests spec) \<Longrightarrow> applied [req] = {}"
  by (auto simp: reference_requests_def)

lemma references_loop_applied:
  "(\<And>req message. (req, message) \<in> set reqs \<Longrightarrow> applied [req] = {}) \<Longrightarrow> applied (snd (references_loop S reqs log)) = applied log"
proof (induction S reqs log rule: references_loop.induct)
  case (2 S req message reqs log)
  have "applied [req] = {}" by (rule "2.prems" [of req message]) simp
  then show ?case using "2.IH" "2.prems" by (auto split: option.splits)
qed simp

lemma reconcileConfiguration_stays:
  assumes "good run" "applied log \<subseteq> js" "xr_Job desired \<in> js"
  shows "stays run js (reconcileConfiguration r S now desired run log)"
proof -
  obtain c log1 where c: "references_loop S (reference_requests (cr_Spec run)) log = (c, log1)" by fastforce
  have l: "applied log1 \<subseteq> js"
    using references_loop_applied [of "reference_requests (cr_Spec run)" S log, OF reference_requests_applied] assms(2) c by simp
  obtain err log2 where e: "ensureObject r S run (KConfigMap (xr_Configuration desired)) log1 = (err, log2)" by fastforce
  have l2: "applied log2 \<subseteq> js" using ensured [OF e l] by simp
  note s = evolve_setCondition [OF assms(1)]
  show ?thesis
  proof (cases c)
    case ReferencesReady
    then show ?thesis
      using failed_prerequisite_stays [OF assms(1) l2] stays_trans [OF s reconcileWorkspace_stays [OF evolveD(1) [OF s] l2 assms(3)]]
      by (cases err) (simp_all add: reconcileConfiguration_def Let_def c e)
  next
    case (ReferenceMissing message)
    have "evolve run (set_phase AgentRunPhaseProvisioning (waits_for_configuration (rc_lib r) now message run))"
      by (rule evolve_trans [OF evolve_conditions(3) [OF assms(1)] evolve_conditions(2) [OF evolveD(1) [OF evolve_conditions(3) [OF assms(1)]]]])
    then show ?thesis using l by (simp add: reconcileConfiguration_def Let_def c ReferenceMissing staysI)
  next
    case (ReferenceFailed x)
    then show ?thesis using failed_prerequisite_stays [OF assms(1) l] by (simp add: reconcileConfiguration_def Let_def c)
  qed
qed

lemma BuildAll_job: "BuildAll R b run = Inr desired \<Longrightarrow> current_job run (xr_Job desired)"
proof -
  assume b: "BuildAll R b run = Inr desired"
  then obtain c where c: "resolve R b run = Inr c" by (auto simp: BuildAll_def split: sum.splits)
  then have "xr_Job desired = buildJob R c" using b by (auto simp: BuildAll_def Let_def split: option.splits)
  then show ?thesis using resolve_Inr(3) [OF c] by (simp add: current_job_def buildJob_def object_meta_def)
qed

lemma reconcilePrerequisites_stays:
  assumes "good run" "applied log \<subseteq> {j. current_job run j}"
  shows "stays run {j. current_job run j} (reconcilePrerequisites r S now run log)"
proof (cases "rc_ResourceBuilder r")
  case None
  then show ?thesis
    using evolve_conditions(1) [OF assms(1)] assms(2) by (simp add: reconcilePrerequisites_def Let_def staysI)
next
  case (Some b)
  show ?thesis
  proof (cases "BuildAll (rc_res r) b run")
    case (Inl x)
    then show ?thesis
      using evolve_conditions(1) [OF assms(1)] assms(2) by (simp add: reconcilePrerequisites_def Let_def Some staysI)
  next
    case (Inr desired)
    then have j: "xr_Job desired \<in> {j. current_job run j}" using BuildAll_job by simp
    obtain err log1 where e: "ensureObject r S run (KServiceAccount (xr_ServiceAccount desired)) log = (err, log1)" by fastforce
    have l: "applied log1 \<subseteq> {j. current_job run j}" using ensured [OF e assms(2)] by simp
    note s = evolve_setCondition [OF assms(1)]
    show ?thesis
      using failed_prerequisite_stays [OF assms(1) l] stays_trans [OF s reconcileConfiguration_stays [OF evolveD(1) [OF s] l j]]
      by (cases err) (simp_all add: reconcilePrerequisites_def Let_def Some Inr e)
  qed
qed

section \<open>Cancellation\<close>

lemma failed_cancellation_stays:
  assumes "good run" "applied log \<subseteq> js"
  shows "stays run js (failed_cancellation K now reason err run log)"
  using evolve_projections(4) [OF assms(1), of K now reason err] assms(2)
  by (cases "recordCancellationError K now reason err run") (simp add: failed_cancellation_def stays_def)

lemma delete_pods_applied: "applied (snd (delete_pods S job pods log)) = applied log"
  by (induction S job pods log rule: delete_pods.induct) (auto split: option.splits)

lemma deleteJob_applied: "applied (snd (deleteJob S job forced log)) = applied log"
  by (simp add: deleteJob_def)

lemma forceDelete_applied: "applied (snd (forceDeleteExecution S job log)) = applied log"
proof (cases "sv_ListPods S log (job_Name job)")
  case (Inr pods)
  obtain err log1 where "delete_pods S job pods (log @ [ListPods (job_Name job)]) = (err, log1)" by fastforce
  then show ?thesis
    using delete_pods_applied [of S job pods "log @ [ListPods (job_Name job)]"] deleteJob_applied [of S job True log1]
    by (cases err) (simp_all add: forceDeleteExecution_def Inr)
qed (simp add: forceDeleteExecution_def)

lemma terminateJob_stays:
  assumes "good run" "applied log \<subseteq> js"
  shows "stays run js (terminateJob r S now job run log)"
proof -
  obtain e1 log1 where f: "forceDeleteExecution S job log = (e1, log1)" by fastforce
  obtain e2 log2 where d: "deleteJob S job False log = (e2, log2)" by fastforce
  have l: "applied log1 \<subseteq> js" "applied log2 \<subseteq> js"
    using forceDelete_applied [of S job log] deleteJob_applied [of S job False log] f d assms(2) by simp_all
  note p = evolve_projections(2) [OF assms(1)]
  note c = stays_trans [OF p failed_cancellation_stays [OF evolveD(1) [OF p]]] and q = staysI [OF p]
  show ?thesis
    using c q l assms(2) by (auto simp: terminateJob_def Let_def f d split: option.splits)
qed

lemma cancelJob_stays:
  assumes "good run" "applied log \<subseteq> js"
  shows "stays run js (cancelJob r S now job run log)"
  using assms terminateJob_stays [OF assms(1)] failed_cancellation_stays [OF assms(1)] evolve_projections(1) [OF assms(1)]
  by (auto simp: cancelJob_def Let_def intro!: staysI split: sum.splits)

lemma reconcileCancellation_stays:
  assumes "good run" "applied log \<subseteq> js"
  shows "stays run js (reconcileCancellation r S now run log)"
  using assms cancelJob_stays [OF assms(1)] failed_cancellation_stays [OF assms(1)] evolve_projections(3) [OF assms(1)]
  by (auto simp: reconcileCancellation_def Let_def intro!: staysI split: sum.splits)

section \<open>One reconciliation\<close>

text \<open>
  What a reconciliation may do: the specification stays, the attempt stays or is followed by the next one within the
  ceiling, the entries of earlier attempts stay, and only the Job of the current attempt is applied.
\<close>

definition reconciled :: "AgentRunCR \<Rightarrow> request list \<Rightarrow> AgentRunCR \<Rightarrow> bool" where
  "reconciled run log run' \<longleftrightarrow> cr_Spec run' = cr_Spec run \<and> cr_Generation run' = cr_Generation run \<and>
     cr_DeletionTimestamp run' = cr_DeletionTimestamp run \<and> good run' \<and>
     (CurrentAttempt run' = CurrentAttempt run \<or>
      CurrentAttempt run' = CurrentAttempt run + 1 \<and> CurrentAttempt run' \<le> rp_MaxAttempts (sp_RetryPolicy (cr_Spec run))) \<and>
     earlier (CurrentAttempt run) run' = earlier (CurrentAttempt run) run \<and> applied log \<subseteq> {j. current_job run j}"

lemma reconciled_stays: "stays run {j. current_job run j} (res, run', log) \<Longrightarrow> reconciled run log run'"
  by (auto simp: stays_def reconciled_def evolve_def dest: frameD)

lemma reconciled_refl: "good run \<Longrightarrow> applied log \<subseteq> {j. current_job run j} \<Longrightarrow> reconciled run log run"
  by (simp add: reconciled_def)

lemma reconciled_log: "reconciled run log run' \<Longrightarrow> applied log' \<subseteq> applied log \<Longrightarrow> reconciled run log' run'"
  by (auto simp: reconciled_def)

lemma reconciled_after:
  assumes "evolve run run1" "reconciled run1 log run2"
  shows "reconciled run log run2"
  using assms frameD [OF evolveD(2) [OF assms(1)]] current_job_frame [OF evolveD(2) [OF assms(1)]]
  by (simp add: reconciled_def evolve_def)

lemma CurrentAttempt_next:
  "sp_Attempt (cr_Spec run) < n \<Longrightarrow> st_Attempt s = n \<Longrightarrow> CurrentAttempt (run\<lparr>cr_Status := s\<rparr>) = n"
  by (simp add: CurrentAttempt_def)

lemma startRetry_reconciled:
  assumes "good run" "n = CurrentAttempt run + 1" "n \<le> rp_MaxAttempts (sp_RetryPolicy (cr_Spec run))" "n \<le> 10"
  shows "reconciled run [] (startRetry K now n run)"
proof -
  obtain x where x: "startRetry K now n run = upsertAttemptStatus x" "attempts x = attempts run" "CurrentAttempt x = n"
    "cr_Spec x = cr_Spec run" "cr_Generation x = cr_Generation run" "cr_DeletionTimestamp x = cr_DeletionTimestamp run"
  proof
    let ?s = "(cr_Status run)\<lparr>st_Attempt := n, st_Phase := AgentRunPhasePending, st_JobName := [],
        st_PodName := [], st_StartTime := None, st_CompletionTime := None, st_HeartbeatTime := None,
        st_FailureCategory := no_category, st_FailureReason := [], st_ArtifactManifestRef := [],
        st_ObservedGeneration := cr_Generation run\<rparr>"
    let ?x = "setCondition K now ''Ready'' ConditionFalse ''RetryPending'' ''Execution retry resources have not been reconciled''
     (setCondition K now ''JobReady'' ConditionFalse ''RetryPending'' ''A new deterministic execution Job has not been created''
     (setCondition K now ''RetryReady'' ConditionTrue ''RetryStarted''
        (''Retry attempt '' @ Itoa n @ '' is ready for reconciliation'') (run\<lparr>cr_Status := ?s\<rparr>)))"
    show "startRetry K now n run = upsertAttemptStatus ?x" unfolding startRetry_def ..
    have f: "frame ?x = frame (run\<lparr>cr_Status := ?s\<rparr>)" by simp
    have "sp_Attempt (cr_Spec run) < n" using assms(2) CurrentAttempt_ge [of run] by simp
    then show "CurrentAttempt ?x = n" unfolding frameD(1) [OF f] by (rule CurrentAttempt_next) simp
    show "attempts ?x = attempts run" by (simp add: attempts_def [symmetric])
    show "cr_Spec ?x = cr_Spec run" "cr_Generation ?x = cr_Generation run" "cr_DeletionTimestamp ?x = cr_DeletionTimestamp run"
      using frameD [OF f] by simp_all
  qed
  have g: "good x" using assms x by (auto simp: good_def)
  have "as_Attempt (attemptStatus x) = n" using x(3) by (simp add: attemptStatus_def)
  then have "earlier (CurrentAttempt run) (upsertAttemptStatus x) = earlier (CurrentAttempt run) run"
    using upsert_attempts [OF g] x(2,3) assms(2) by (auto simp: earlier_def intro: filter_cong)
  then show ?thesis
    using upsert_good(1) [OF g] frameD [OF upsert_frame [of x]] x assms by (simp add: reconciled_def)
qed

lemma reconcileRetry_reconciled:
  assumes "good run" "retryAllowed run" "policy_admitted (sp_RetryPolicy (cr_Spec run))"
  shows "reconciled run [] (snd (reconcileRetry K now run))"
proof -
  have n: "1 \<le> CurrentAttempt run" "CurrentAttempt run + 1 \<le> rp_MaxAttempts (sp_RetryPolicy (cr_Spec run))" "CurrentAttempt run + 1 \<le> 10"
    using assms CurrentAttempt_ge [of run] by (auto simp: retryAllowed_def good_def policy_admitted_def)
  then have i: "i32 (CurrentAttempt run + 1) = CurrentAttempt run + 1" by (intro i32_id) (simp add: in_i32_def)
  note start = startRetry_reconciled [OF assms(1) refl n(2,3)]
  have "evolve run (setCondition K now t s rs m (setCondition K now t' s' rs' m' run))" for t s rs m t' s' rs' m'
    by (rule evolve_same [OF assms(1)]) simp_all
  then show ?thesis
    using start reconciled_stays [OF staysI] by (simp add: reconcileRetry_def Let_def i)
qed

lemma patched:
  assumes "patchStatusIfChanged S before after log = (err, stored, log1)"
  shows "stored = before \<or> stored = before\<lparr>cr_Status := cr_Status after\<rparr>" "applied log1 = applied log"
  using assms by (auto simp: patchStatusIfChanged_def split: if_splits option.splits)

lemma finish_cases:
  assumes "finish S reason before (res, after, log) = (res1, stored, log1)"
  shows "stored = before \<or> stored = before\<lparr>cr_Status := cr_Status after\<rparr>" "applied log1 = applied log"
proof -
  obtain err st l where p: "patchStatusIfChanged S before after log = (err, st, l)" by (metis prod_cases3)
  then have "stored = st" "log1 = l" using assms by (auto simp: finish_def split: option.splits)
  then show "stored = before \<or> stored = before\<lparr>cr_Status := cr_Status after\<rparr>" "applied log1 = applied log"
    using patched [OF p] by simp_all
qed

lemma patched_reconciled:
  assumes "good run" "reconciled run log after" "stored = run \<or> stored = run\<lparr>cr_Status := cr_Status after\<rparr>" "applied log1 = applied log"
  shows "reconciled run log1 stored"
  using assms(3)
proof
  assume "stored = run"
  then show ?thesis using assms reconciled_refl by (auto simp: reconciled_def)
next
  assume s: "stored = run\<lparr>cr_Status := cr_Status after\<rparr>"
  then have "CurrentAttempt stored = CurrentAttempt after" "attempts stored = attempts after" "cr_Spec stored = cr_Spec after"
    using assms(2) by (simp_all add: CurrentAttempt_def attempts_def reconciled_def)
  then show ?thesis using assms s by (simp add: reconciled_def good_def earlier_def)
qed

lemma finish_reconciled:
  assumes "good run" "reconciled run log after" "finish S reason run (res, after, log) = (res1, stored, log1)"
  shows "reconciled run log1 stored"
  using patched_reconciled [OF assms(1,2) finish_cases [OF assms(3)]] .

lemma reconcileActive_reconciled:
  assumes "good run" "policy_admitted (sp_RetryPolicy (cr_Spec run))" "applied log = {}"
    "reconcileActive r S now run log = (res, run', log')"
  shows "reconciled run log' run'"
proof -
  let ?K = "rc_lib r" and ?js = "{j. current_job run j}"
  note F = finish_reconciled [OF assms(1)]
  consider
      (retry) "retryAllowed run" "finish S ''RetryStatusWriteFailed'' run ((fst (reconcileRetry ?K now run), None), snd (reconcileRetry ?K now run), log) = (res, run', log')"
    | (terminal) "finish S ''TerminalStatusWriteFailed'' run ((0, None), acknowledgeTerminal ?K now run, log) = (res, run', log')"
    | (cancel) "finish S ''CancellationStatusWriteFailed'' run (reconcileCancellation r S now (initializeCancellationStatus ?K now run) log) = (res, run', log')"
    | (run) delay err after log1 where "reconcilePrerequisites r S now (initializeAcceptedStatus ?K now run) log = ((delay, err), after, log1)"
        "retryAllowed after \<and> finish S ''StatusWriteFailed'' run ((fst (reconcileRetry ?K now after), None), snd (reconcileRetry ?K now after), log1) = (res, run', log') \<or>
         finish S ''StatusWriteFailed'' run ((delay, err), after, log1) = (res, run', log')"
    using assms(4) by (cases "reconcilePrerequisites r S now (initializeAcceptedStatus ?K now run) log")
      (auto simp: reconcileActive_def Let_def split: if_splits prod.splits)
  then show ?thesis
  proof cases
    case retry
    have "reconciled run log (snd (reconcileRetry ?K now run))"
      by (rule reconciled_log [OF reconcileRetry_reconciled [OF assms(1) retry(1) assms(2)]]) (simp add: assms(3))
    from F [OF this retry(2)] show ?thesis .
  next
    case terminal
    have "stays run ?js ((0, None), acknowledgeTerminal ?K now run, log)"
      using evolve_conditions(5) [OF assms(1)] assms(3) by (intro staysI) simp_all
    from F [OF reconciled_stays [OF this] terminal] show ?thesis .
  next
    case cancel
    note e = evolve_initializeCancellation [OF assms(1), of ?K now]
    have s: "stays run ?js (reconcileCancellation r S now (initializeCancellationStatus ?K now run) log)"
      by (rule stays_trans [OF e reconcileCancellation_stays [OF evolveD(1) [OF e]]]) (simp add: assms(3))
    obtain a b c where o: "reconcileCancellation r S now (initializeCancellationStatus ?K now run) log = (a, b, c)" by (metis prod_cases3)
    show ?thesis by (rule F [OF reconciled_stays [OF s [unfolded o]] cancel [unfolded o]])
  next
    case run
    note e = evolve_initializeAccepted [OF assms(1), of ?K now]
    have s: "stays run ?js (reconcilePrerequisites r S now (initializeAcceptedStatus ?K now run) log)"
      using stays_trans [OF e reconcilePrerequisites_stays [OF evolveD(1) [OF e], of log r S now]] assms(3) current_job_frame [OF evolveD(2) [OF e]] by simp
    have w: "evolve run after" and l: "applied log1 \<subseteq> ?js" using s run(1) by (simp_all add: stays_def)
    have p: "policy_admitted (sp_RetryPolicy (cr_Spec after))" using frameD(2) [OF evolveD(2) [OF w]] assms(2) by simp
    have "reconciled run log1 (snd (reconcileRetry ?K now after))" if "retryAllowed after"
      using reconciled_after [OF w reconcileRetry_reconciled [OF evolveD(1) [OF w] that p, of ?K now]] l by (simp add: reconciled_def)
    then show ?thesis using F [OF _] reconciled_stays [OF staysI [OF w l]] run(2) by blast
  qed
qed

text \<open>Nothing is applied for a run that is finished or is to be cancelled.\<close>

lemma reconcileActive_idle:
  assumes "good run" "applied log = {}" "reconcileActive r S now run log = (res, run', log')"
    "currentAttemptTerminal run \<or> sp_DesiredState (cr_Spec run) = DesiredStateCancelled"
  shows "applied log' = {}"
proof -
  let ?out = "reconcileCancellation r S now (initializeCancellationStatus (rc_lib r) now run) log"
  have "stays (initializeCancellationStatus (rc_lib r) now run) {} ?out"
    using reconcileCancellation_stays [OF evolveD(1) [OF evolve_initializeCancellation [OF assms(1)]], of log "{}"] assms(2) by simp
  moreover obtain a b c where o: "?out = (a, b, c)" by (metis prod_cases3)
  ultimately have "applied c = {}" by (simp add: stays_def)
  then show ?thesis
    using assms(2,3,4) o by (auto simp: reconcileActive_def Let_def split: if_splits prod.splits dest!: finish_cases(2))
qed

definition finished :: "AgentRunCR \<Rightarrow> bool" where
  "finished run \<longleftrightarrow> st_Attempt (cr_Status run) = CurrentAttempt run \<and>
     (st_Phase (cr_Status run) = AgentRunPhaseSucceeded \<or> st_Phase (cr_Status run) = AgentRunPhaseCancelled)"

text \<open>What stays of a finished run.\<close>

definition result_of :: "AgentRunCR \<Rightarrow> int \<times> AgentRunPhase \<times> string \<times> AttemptStatus list" where
  "result_of run = (st_Attempt (cr_Status run), st_Phase (cr_Status run), st_ArtifactManifestRef (cr_Status run), attempts run)"

lemma finished_result: "result_of run' = result_of run \<Longrightarrow> cr_Spec run' = cr_Spec run \<Longrightarrow> finished run \<Longrightarrow> finished run'"
  by (auto simp: result_of_def finished_def CurrentAttempt_def split: if_splits)

lemma setCondition_result [simp]: "result_of (setCondition K now t s r m run) = result_of run"
  by (simp add: result_of_def)

lemma result_status:
  "result_of (run\<lparr>cr_Status := s\<rparr>) = (st_Attempt s, st_Phase s, st_ArtifactManifestRef s, st_Attempts s)"
  by (simp add: result_of_def)

lemma result_stored:
  "stored = run \<or> stored = run\<lparr>cr_Status := cr_Status after\<rparr> \<Longrightarrow> result_of after = result_of run \<Longrightarrow> result_of stored = result_of run"
  by (auto simp: result_of_def attempts_def)

lemma reconcileActive_finished:
  assumes "finished run" "reconcileActive r S now run log = (res, run', log')"
  shows "result_of run' = result_of run"
proof -
  have "currentAttemptTerminal run" "\<not> retryAllowed run"
    using assms(1) by (auto simp: finished_def currentAttemptTerminal_def retryAllowed_def)
  then have f: "finish S ''TerminalStatusWriteFailed'' run ((0, None), acknowledgeTerminal (rc_lib r) now run, log) = (res, run', log')"
    using assms(2) by (simp add: reconcileActive_def Let_def)
  have "result_of (acknowledgeTerminal (rc_lib r) now run) = result_of run"
    by (simp add: acknowledgeTerminal_def result_of_def attempts_def [symmetric])
  then show ?thesis by (rule result_stored [OF finish_cases(1) [OF f]])
qed

lemma reconcileCleanup_same:
  assumes "reconcileCleanup K S now run [] = (res, after, log)"
  shows "frame after = frame run" "result_of after = result_of run" "applied log = {}"
proof -
  have i: "frame (initializeDeletingStatus K now run) = frame run" "result_of (initializeDeletingStatus K now run) = result_of run"
    by (simp_all add: initializeDeletingStatus_def Let_def result_of_def attempts_def [symmetric])
  have a: "applied (snd (release_workspace S x n l)) = applied l" for x n l
    by (auto simp: release_workspace_def split: sum.splits)
  have w: "applied (snd (release_workspaces S x ns l)) = applied l" for x ns l
  proof (induction ns arbitrary: l)
    case (Cons n ns)
    then show ?case using a [of x n l] by (cases "release_workspace S x n l") (simp split: option.splits)
  qed simp
  show "frame after = frame run" "result_of after = result_of run" "applied log = {}"
    using assms i w [of "initializeDeletingStatus K now run" "[sp_Attempt (cr_Spec (initializeDeletingStatus K now run)) .. CurrentAttempt (initializeDeletingStatus K now run)]" "[]"]
    by (auto simp: reconcileCleanup_def completeCleanup_def handleCleanupFailure_def Let_def split: if_splits prod.splits option.splits)
qed

lemma reconcileDeletion_same:
  assumes "reconcileDeletion r S now run = (res, run', log)"
  shows "cr_Spec run' = cr_Spec run" "cr_Generation run' = cr_Generation run" "cr_DeletionTimestamp run' = cr_DeletionTimestamp run"
    "result_of run' = result_of run" "applied log = {}"
proof -
  have "cr_Spec run' = cr_Spec run \<and> cr_Generation run' = cr_Generation run \<and> cr_DeletionTimestamp run' = cr_DeletionTimestamp run \<and>
    result_of run' = result_of run \<and> applied log = {}"
  proof (cases "RetainedResourcesFinalizer \<in> set (cr_Finalizers run)")
    case False
    then show ?thesis using assms by (simp add: reconcileDeletion_def)
  next
    case True
    obtain c e after l where c: "reconcileCleanup (rc_lib r) S now run [] = ((c, e), after, l)" by (metis prod.exhaust)
    note a = reconcileCleanup_same [OF c]
    obtain err stored l1 where p: "patchStatusIfChanged S run after l = (err, stored, l1)" by (metis prod_cases3)
    have s: "cr_Spec stored = cr_Spec run" "cr_Generation stored = cr_Generation run" "cr_DeletionTimestamp stored = cr_DeletionTimestamp run"
      "result_of stored = result_of run" "applied l1 = {}"
      using patched [OF p] a(3) result_stored [OF patched(1) [OF p] a(2)] by auto
    let ?again = "setCondition (rc_lib r) now ''CleanupPending'' ConditionTrue ''FinalizerRemovalFailed''
      ''Cleanup completed but finalizer removal could not make progress'' stored"
    obtain err' stored' l2 where q: "patchStatusIfChanged S stored ?again (l1 @ [RemoveFinalizer]) = (err', stored', l2)" by (metis prod_cases3)
    have s': "cr_Spec stored' = cr_Spec run" "cr_Generation stored' = cr_Generation run" "cr_DeletionTimestamp stored' = cr_DeletionTimestamp run"
      "result_of stored' = result_of run" "applied l2 = {}"
      using patched [OF q] s result_stored [OF patched(1) [OF q]] by auto
    have "result_of (x\<lparr>cr_Finalizers := fs\<rparr>) = result_of x" for x fs by (simp add: result_of_def attempts_def)
    then show ?thesis
      using assms True s s' by (auto simp: reconcileDeletion_def c p q split: option.splits if_splits)
  qed
  then show "cr_Spec run' = cr_Spec run" "cr_Generation run' = cr_Generation run" "cr_DeletionTimestamp run' = cr_DeletionTimestamp run"
    "result_of run' = result_of run" "applied log = {}" by simp_all
qed

lemma result_good:
  assumes "cr_Spec run' = cr_Spec run" "result_of run' = result_of run"
  shows "good run' = good run" "CurrentAttempt run' = CurrentAttempt run" "earlier n run' = earlier n run"
  using assms by (simp_all add: result_of_def good_def CurrentAttempt_def earlier_def)

lemma ForAgentRun_spec:
  "cr_Spec run' = cr_Spec run \<Longrightarrow> CurrentAttempt run' = CurrentAttempt run \<Longrightarrow> ForAgentRun run' = ForAgentRun run"
  by (simp only: ForAgentRun_def)

lemma finalizers_same [simp]:
  "CurrentAttempt (run\<lparr>cr_Finalizers := fs\<rparr>) = CurrentAttempt run" "attempts (run\<lparr>cr_Finalizers := fs\<rparr>) = attempts run"
  "current_job (run\<lparr>cr_Finalizers := fs\<rparr>) = current_job run"
proof -
  show a: "CurrentAttempt (run\<lparr>cr_Finalizers := fs\<rparr>) = CurrentAttempt run" by (simp add: CurrentAttempt_def)
  show "attempts (run\<lparr>cr_Finalizers := fs\<rparr>) = attempts run" by (simp add: attempts_def)
  have "ForAgentRun (run\<lparr>cr_Finalizers := fs\<rparr>) = ForAgentRun run" by (rule ForAgentRun_spec [OF _ a]) simp
  then show "current_job (run\<lparr>cr_Finalizers := fs\<rparr>) = current_job run" by (simp add: current_job_def fun_eq_iff)
qed

lemma finalizers_kept [simp]:
  "result_of (run\<lparr>cr_Finalizers := fs\<rparr>) = result_of run" "good (run\<lparr>cr_Finalizers := fs\<rparr>) = good run" "finished (run\<lparr>cr_Finalizers := fs\<rparr>) = finished run"
  "currentAttemptTerminal (run\<lparr>cr_Finalizers := fs\<rparr>) = currentAttemptTerminal run" "reconciled (run\<lparr>cr_Finalizers := fs\<rparr>) log run' = reconciled run log run'"
  by (simp_all add: result_of_def good_def finished_def currentAttemptTerminal_def reconciled_def earlier_def)

text \<open>The branches of a reconciliation of a valid run.\<close>

lemma Reconcile_cases:
  assumes "validateAgentRun (rc_lib r) run = None" "Reconcile r S now run = (res, run', log)"
  obtains (deletion) "deleting (cr_DeletionTimestamp run)" "reconcileDeletion r S now run = (res, run', log)"
    | (refused) "run' = run" "applied log = {}"
    | (active) fs l where "\<not> deleting (cr_DeletionTimestamp run)" "applied l = {}"
        "reconcileActive r S now (run\<lparr>cr_Finalizers := fs\<rparr>) l = (res, run', log)"
proof -
  consider "deleting (cr_DeletionTimestamp run)" "reconcileDeletion r S now run = (res, run', log)"
    | "run' = run" "log = [AddFinalizer]"
    | "\<not> deleting (cr_DeletionTimestamp run)"
        "reconcileActive r S now (run\<lparr>cr_Finalizers := cr_Finalizers run @ [RetainedResourcesFinalizer]\<rparr>) [AddFinalizer] = (res, run', log)"
    | "\<not> deleting (cr_DeletionTimestamp run)" "reconcileActive r S now (run\<lparr>cr_Finalizers := cr_Finalizers run\<rparr>) [] = (res, run', log)"
    using assms by (auto simp: Reconcile_def Let_def split: if_splits option.splits)
  then show thesis
  proof cases
    case 1
    then show thesis by (rule that(1))
  next
    case 2
    then show thesis using that(2) by simp
  next
    case 3
    show thesis by (rule that(3) [OF 3(1) _ 3(2)]) simp
  next
    case 4
    show thesis by (rule that(3) [OF 4(1) _ 4(2)]) simp
  qed
qed

lemma Reconcile_reconciled:
  assumes "good run" "policy_admitted (sp_RetryPolicy (cr_Spec run))" "validateAgentRun (rc_lib r) run = None"
    "Reconcile r S now run = (res, run', log)"
  shows "reconciled run log run'"
  using assms(3,4)
proof (cases rule: Reconcile_cases)
  case deletion
  note d = reconcileDeletion_same [OF deletion(2)]
  show ?thesis using d result_good [OF d(1,4)] assms(1) by (simp add: reconciled_def)
next
  case refused
  then show ?thesis using assms(1) by (simp add: reconciled_refl)
next
  case (active fs l)
  then show ?thesis using reconcileActive_reconciled [of "run\<lparr>cr_Finalizers := fs\<rparr>"] assms(1,2) by simp
qed

lemma Reconcile_idle:
  assumes "good run" "validateAgentRun (rc_lib r) run = None" "Reconcile r S now run = (res, run', log)"
    "currentAttemptTerminal run \<or> sp_DesiredState (cr_Spec run) = DesiredStateCancelled \<or> deleting (cr_DeletionTimestamp run)"
  shows "applied log = {}"
  using assms(2,3)
proof (cases rule: Reconcile_cases)
  case deletion
  show ?thesis by (rule reconcileDeletion_same(5) [OF deletion(2)])
next
  case (active fs l)
  then show ?thesis using reconcileActive_idle [of "run\<lparr>cr_Finalizers := fs\<rparr>"] assms(1,4) by simp
qed

lemma Reconcile_finished:
  assumes "finished run" "validateAgentRun (rc_lib r) run = None" "Reconcile r S now run = (res, run', log)"
  shows "result_of run' = result_of run"
  using assms(2,3)
proof (cases rule: Reconcile_cases)
  case deletion
  show ?thesis by (rule reconcileDeletion_same(4) [OF deletion(2)])
next
  case (active fs l)
  then show ?thesis using reconcileActive_finished [of "run\<lparr>cr_Finalizers := fs\<rparr>"] assms(1) by simp
qed simp

section \<open>Histories\<close>

text \<open>
  Next to the reconciler, users change the object: the validation rules of the specification allow them to request the
  cancellation and nothing else, and they may delete it.
\<close>

definition request_cancellation :: "AgentRunCR \<Rightarrow> AgentRunCR" where
  "request_cancellation run =
    run\<lparr>cr_Spec := (cr_Spec run)\<lparr>sp_DesiredState := DesiredStateCancelled\<rparr>, cr_Generation := cr_Generation run + 1\<rparr>"

inductive operator_step :: "AgentRunReconciler \<Rightarrow> AgentRunCR \<Rightarrow> request list \<Rightarrow> AgentRunCR \<Rightarrow> bool" for r where
  reconcile: "Reconcile r S now run = (res, run', log) \<Longrightarrow> operator_step r run log run'"
| cancel: "operator_step r run [] (request_cancellation run)"
| delete: "\<not> deleting (cr_DeletionTimestamp run) \<Longrightarrow> t \<noteq> 0 \<Longrightarrow> operator_step r run [] (run\<lparr>cr_DeletionTimestamp := Some t\<rparr>)"

inductive operator_history :: "AgentRunReconciler \<Rightarrow> AgentRunCR \<Rightarrow> request list \<Rightarrow> AgentRunCR \<Rightarrow> bool" for r where
  start: "operator_history r run [] run"
| step: "operator_history r run log run' \<Longrightarrow> operator_step r run' log' run'' \<Longrightarrow> operator_history r run (log @ log') run''"

text \<open>A run as the API server admits it, with the checks of the reconciler on top, before its first attempt is recorded.\<close>

definition accepted_run :: "oplib \<Rightarrow> AgentRunCR \<Rightarrow> bool" where
  "accepted_run K run \<longleftrightarrow> policy_admitted (sp_RetryPolicy (cr_Spec run)) \<and> validateAgentRun K run = None \<and>
     st_Attempts (cr_Status run) = []"

definition sound :: "oplib \<Rightarrow> AgentRunCR \<Rightarrow> bool" where
  "sound K run \<longleftrightarrow> policy_admitted (sp_RetryPolicy (cr_Spec run)) \<and> validateAgentRun K run = None \<and> good run"

lemma accepted_sound: "accepted_run K run \<Longrightarrow> sound K run"
  using validateAgentRun_ok by (auto simp: accepted_run_def sound_def good_def attempts_def)

definition job_of :: "AgentRunCR \<Rightarrow> int \<Rightarrow> string" where
  "job_of run n = ''ar-'' @ ReplaceAll (sp_RunID (cr_Spec run)) ''-'' [] @ ''-a'' @ Itoa n @ ''-job''"

lemma current_job_of: "current_job run j \<Longrightarrow> om_Name (jo_Meta j) = job_of run (CurrentAttempt run)"
  by (auto simp: current_job_def job_of_def ForAgentRun_def Let_def split: if_splits)

text \<open>Nothing more is to be started for a run that has its result, is to be cancelled or is being deleted.\<close>

definition halted :: "AgentRunCR \<Rightarrow> bool" where
  "halted run \<longleftrightarrow> finished run \<or> sp_DesiredState (cr_Spec run) = DesiredStateCancelled \<or> deleting (cr_DeletionTimestamp run)"

definition same_spec :: "AgentRunCR \<Rightarrow> AgentRunCR \<Rightarrow> bool" where
  "same_spec run run' \<longleftrightarrow> (cr_Spec run')\<lparr>sp_DesiredState := DesiredStateRunning\<rparr> = (cr_Spec run)\<lparr>sp_DesiredState := DesiredStateRunning\<rparr>"

lemma same_specD:
  assumes "same_spec run run'"
  shows "sp_RunID (cr_Spec run') = sp_RunID (cr_Spec run)" "sp_RetryPolicy (cr_Spec run') = sp_RetryPolicy (cr_Spec run)"
    "sp_Attempt (cr_Spec run') = sp_Attempt (cr_Spec run)" "job_of run' = job_of run"
proof -
  have e: "f ((cr_Spec run')\<lparr>sp_DesiredState := DesiredStateRunning\<rparr>) = f ((cr_Spec run)\<lparr>sp_DesiredState := DesiredStateRunning\<rparr>)" for f :: "AgentRunSpec \<Rightarrow> 'a"
    using assms by (simp add: same_spec_def)
  show i: "sp_RunID (cr_Spec run') = sp_RunID (cr_Spec run)" using e [of sp_RunID] by simp
  show "sp_RetryPolicy (cr_Spec run') = sp_RetryPolicy (cr_Spec run)" using e [of sp_RetryPolicy] by simp
  show "sp_Attempt (cr_Spec run') = sp_Attempt (cr_Spec run)" using e [of sp_Attempt] by simp
  show "job_of run' = job_of run" by (rule ext) (simp add: job_of_def i)
qed

lemma validate_attempt:
  assumes "validateAgentRun K run = None" "cr_Spec run' = cr_Spec run" "cr_Generation run' = cr_Generation run"
    "CurrentAttempt run' \<le> rp_MaxAttempts (sp_RetryPolicy (cr_Spec run))" "CurrentAttempt run' \<le> 10"
  shows "validateAgentRun K run' = None"
proof -
  have "1 \<le> CurrentAttempt run'" using validateAgentRun_ok(1) [OF assms(1)] CurrentAttempt_ge [of run'] assms(2) by simp
  moreover have "IsUUIDv7 (sp_RunID (cr_Spec run))"
    using validateAgentRun_ok(4) [OF assms(1)] by (auto simp: ForAgentRun_def split: if_splits)
  ultimately have "\<exists>names. ForAgentRun run' = Inr names" using assms by (simp add: ForAgentRun_def Let_def)
  then show ?thesis using assms(1) unfolding validateAgentRun_def assms(2,3)
    by (auto simp: Let_def split: if_splits option.splits sum.splits)
qed

lemma validate_cancel:
  assumes "validateAgentRun K run = None"
  shows "validateAgentRun K (request_cancellation run) = None"
proof -
  have c: "CurrentAttempt (request_cancellation run) = CurrentAttempt run" by (simp add: CurrentAttempt_def request_cancellation_def)
  have i: "sp_RunID (cr_Spec (request_cancellation run)) = sp_RunID (cr_Spec run)"
    "sp_RetryPolicy (cr_Spec (request_cancellation run)) = sp_RetryPolicy (cr_Spec run)" by (simp_all add: request_cancellation_def)
  have "ForAgentRun (request_cancellation run) = ForAgentRun run" unfolding ForAgentRun_def c i ..
  then show ?thesis using assms unfolding validateAgentRun_def request_cancellation_def
    by (auto simp: Let_def split: if_splits option.splits sum.splits)
qed

definition follows :: "oplib \<Rightarrow> AgentRunCR \<Rightarrow> request list \<Rightarrow> AgentRunCR \<Rightarrow> bool" where
  "follows K run log run' \<longleftrightarrow> sound K run' \<and> same_spec run run' \<and> CurrentAttempt run \<le> CurrentAttempt run' \<and>
     earlier (CurrentAttempt run) run' = earlier (CurrentAttempt run) run \<and>
     (\<forall>j \<in> applied log. \<exists>n. CurrentAttempt run \<le> n \<and> n \<le> CurrentAttempt run' \<and> om_Name (jo_Meta j) = job_of run n) \<and>
     (finished run \<longrightarrow> finished run' \<and> result_of run' = result_of run) \<and> (halted run \<longrightarrow> halted run' \<and> applied log = {})"

lemma follows_refl: "sound K run \<Longrightarrow> follows K run [] run"
  by (simp add: follows_def same_spec_def)

lemma earlier_less: "n \<le> m \<Longrightarrow> earlier m run' = earlier m run \<Longrightarrow> earlier n run' = earlier n run"
proof -
  have "earlier n x = filter (\<lambda>e. as_Attempt e < n) (earlier m x)" if "n \<le> m" for x
    using that by (auto simp: earlier_def intro: filter_cong)
  then show "n \<le> m \<Longrightarrow> earlier m run' = earlier m run \<Longrightarrow> earlier n run' = earlier n run" by simp
qed

lemma follows_trans:
  assumes "follows K run log run'" "follows K run' log' run''"
  shows "follows K run (log @ log') run''"
proof -
  have j: "job_of run' = job_of run" using assms(1) same_specD(4) by (simp add: follows_def)
  have "\<exists>n. CurrentAttempt run \<le> n \<and> n \<le> CurrentAttempt run'' \<and> om_Name (jo_Meta x) = job_of run n" if "x \<in> applied (log @ log')" for x
  proof -
    have "x \<in> applied log \<or> x \<in> applied log'" using that by simp
    then obtain n where "CurrentAttempt run \<le> n \<and> n \<le> CurrentAttempt run' \<and> om_Name (jo_Meta x) = job_of run n \<or>
        CurrentAttempt run' \<le> n \<and> n \<le> CurrentAttempt run'' \<and> om_Name (jo_Meta x) = job_of run n"
      using assms j unfolding follows_def by metis
    then show ?thesis using assms unfolding follows_def by (intro exI [of _ n]) linarith
  qed
  moreover have "earlier (CurrentAttempt run) run'' = earlier (CurrentAttempt run) run"
    using assms earlier_less [of "CurrentAttempt run" "CurrentAttempt run'" run'' run'] by (simp add: follows_def)
  ultimately show ?thesis using assms unfolding follows_def same_spec_def applied_append by force
qed

lemma Reconcile_follows:
  assumes "sound (rc_lib r) run" "Reconcile r S now run = (res, run', log)"
  shows "follows (rc_lib r) run log run'"
proof -
  have g: "good run" "policy_admitted (sp_RetryPolicy (cr_Spec run))" "validateAgentRun (rc_lib r) run = None"
    using assms(1) by (simp_all add: sound_def)
  note R = Reconcile_reconciled [OF g assms(2), unfolded reconciled_def]
  have v: "validateAgentRun (rc_lib r) run' = None"
    using R validateAgentRun_ok(2,3) [OF g(3)] by (intro validate_attempt [OF g(3)]) (auto simp: good_def)
  have f: "finished run \<longrightarrow> finished run' \<and> result_of run' = result_of run"
    using Reconcile_finished [OF _ g(3) assms(2)] finished_result R by blast
  have h: "halted run \<longrightarrow> halted run' \<and> applied log = {}"
    using Reconcile_idle [OF g(1,3) assms(2)] f R by (auto simp: halted_def finished_def currentAttemptTerminal_def)
  have "om_Name (jo_Meta j) = job_of run (CurrentAttempt run)" if "j \<in> applied log" for j
    using that R current_job_of by blast
  then show ?thesis using R v f h g(2) by (auto simp: follows_def sound_def same_spec_def)
qed

lemma step_follows:
  assumes "operator_step r run log run'" "sound (rc_lib r) run"
  shows "follows (rc_lib r) run log run'"
  using assms
proof cases
  case (reconcile S now res)
  then show ?thesis using Reconcile_follows assms(2) by blast
next
  case cancel
  have c: "CurrentAttempt (request_cancellation run) = CurrentAttempt run" by (simp add: CurrentAttempt_def request_cancellation_def)
  then have "sound (rc_lib r) (request_cancellation run)"
    using assms(2) validate_cancel by (simp add: sound_def good_def) (simp add: request_cancellation_def attempts_def)
  then show ?thesis using c cancel
    by (simp add: follows_def same_spec_def earlier_def finished_def halted_def result_of_def) (simp add: request_cancellation_def attempts_def)
next
  case (delete t)
  have c: "CurrentAttempt (run\<lparr>cr_DeletionTimestamp := Some t\<rparr>) = CurrentAttempt run" by (simp add: CurrentAttempt_def)
  have "sound (rc_lib r) (run\<lparr>cr_DeletionTimestamp := Some t\<rparr>)"
    using assms(2) validate_attempt [of "rc_lib r" run "run\<lparr>cr_DeletionTimestamp := Some t\<rparr>"] validateAgentRun_ok(2,3) [of "rc_lib r" run] c
    by (simp add: sound_def good_def attempts_def)
  then show ?thesis using c delete
    by (simp add: follows_def same_spec_def earlier_def finished_def halted_def result_of_def attempts_def)
qed

lemma history_follows:
  "operator_history r run log run' \<Longrightarrow> sound (rc_lib r) run \<Longrightarrow> follows (rc_lib r) run log run'"
proof (induction rule: operator_history.induct)
  case (step run log run' log' run'')
  then have f: "follows (rc_lib r) run log run'" by simp
  then have "sound (rc_lib r) run'" by (simp add: follows_def)
  from follows_trans [OF f step_follows [OF step.hyps(2) this]] show ?case .
qed (rule follows_refl)


definition ex_reconciler :: AgentRunReconciler where
  "ex_reconciler = \<lparr>rc_lib = ex_oplib, rc_res = ex_reslib, rc_ResourceBuilder = Some ex_builder, rc_DeepMatches = (=)\<rparr>"

definition ex_server :: server where
  "ex_server = \<lparr>sv_GetObject = (\<lambda>_ _ _. Inl NotFound), sv_GetReference = (\<lambda>_ _. None), sv_GetStorageClass = (\<lambda>_ _. Inl NotFound),
     sv_GetWorkspace = (\<lambda>_ _. Inr \<lparr>wk_Controller = None, wk_Annotations = [], wk_StorageClassName = None, wk_Phase = ''Bound''\<rparr>),
     sv_GetJob = (\<lambda>_ _. Inr ex_job), sv_ListPods = (\<lambda>_ _. Inr [ex_pod]), sv_Write = (\<lambda>_ _. None)\<rparr>"

text \<open>The run is reconciled, its Job ends at once, and a cancellation comes too late.\<close>

definition ex_succeeded :: outcome where
  "ex_succeeded = Reconcile ex_reconciler ex_server 200 ex_cr"

definition ex_late :: outcome where
  "ex_late = Reconcile ex_reconciler ex_server 300 (request_cancellation (fst (snd ex_succeeded)))"

lemma ex_succeeded_job:
  "list_ex (\<lambda>x. case x of ApplyObject (KJob j) \<Rightarrow> om_Name (jo_Meta j) = job_of ex_cr 1 | _ \<Rightarrow> False) (snd (snd ex_succeeded))"
  by code_simp

lemma reconcile_history:
  assumes "out = Reconcile r S now run" "operator_history r run0 log run"
  shows "operator_history r run0 (log @ snd (snd out)) (fst (snd out))"
  using operator_history.step [OF assms(2) operator_step.reconcile [of r S now run "fst out" "fst (snd out)" "snd (snd out)"]] assms(1) by simp


end
