(* ===== verification/Spec2Isabelle.thy ===== *)
theory Spec2Isabelle
  imports Sched_Strategy Messaging Cluster_Registry Run_History Outbox Platform Operator_History
begin

text \<open>
  AgentForge runs agents on behalf of tenants.  A client creates an AgentRun through the platform API; the
  scheduler claims it from a queue in PostgreSQL, chooses a cluster, reserves capacity and budget and records an
  intent; the intent is handed off to the cluster, where an operator turns it into a Job; events about all of this
  leave the database through an outbox and reach their consumers over Kafka.  This development models the parts of
  the program that decide: the domain rules, the repositories with their transactions, the messaging, the scheduling,
  and the operator.  Paths below are relative to \<^verbatim>\<open>services/platform-api/internal\<close> unless they start with
  \<^verbatim>\<open>operator\<close>.

  \<^bold>\<open>How Go is read.\<close>  A struct is a record and a string type with constants a datatype.  A Go
  \<^verbatim>\<open>int\<close> is an \<open>int\<close> kept in range by \<open>i64\<close>, which writes the wrap-around out.  An instant is its
  number of nanoseconds, with \<open>IsZero\<close> for the zero time.  A string is its list of bytes.  A method with a pointer receiver
  returns the receiver after the call.  An error is a value: \<open>error + 'a\<close> for a result, \<open>errors_Is\<close> for
  \<^verbatim>\<open>errors.Is\<close>.  The clock and fresh identifiers are arguments.  What the program takes from other
  packages (UUID versions, URL parsing, hashing, JSON and time formats) is the record \<open>lib\<close>, an argument of
  every definition that uses it; \<open>ex_lib\<close> is one instance, used in the witnesses.

  \<^bold>\<open>How PostgreSQL is read.\<close>  The state of the repositories is one record \<open>db\<close> of row lists
  (\<open>Db_Schema\<close>).  A transaction is a function that returns an error or the new state, and \<open>commits\<close> keeps the old
  state on an error.  Statements become \<open>sql_update\<close>, \<open>sql_row\<close>, \<open>sql_sum\<close> and insertions guarded by the
  check constraints, keys and references of the migrations.  Transactions are serialized, which is what their row
  locks give on the rows they change; row level security is the tenant condition that each statement
  carries.  A JSON column holds the value that was encoded, and timestamps keep their nanoseconds, where the
  database rounds them to microseconds.

  \<^bold>\<open>How Kubernetes is read.\<close>  The API server is the record \<open>server\<close>, whose answers are arbitrary functions
  of the requests that a reconciliation has made so far, so that every failure and every change by others between two requests is
  covered.  A reconciliation returns its result, the object as it is stored afterwards and the log of its requests.  The
  functions of the Kubernetes libraries are the records \<open>oplib\<close> and \<open>reslib\<close>.  One reading of the clock serves a
  whole reconciliation, and an error keeps its class and reason and drops the text that is only logged.

  \<^bold>\<open>Theories.\<close>
  \<^item> \<open>Go_Prelude\<close>, \<open>Go_Strings\<close>, \<open>Go_Regexp\<close>: integers, time, errors, sorting (locale \<open>go_less\<close> for a
    comparison that Go's sort may rely on), strings and the regular expressions of the program with a matcher that is
    shown to decide them.
  \<^item> \<open>Domain_AgentRun\<close> (\<^verbatim>\<open>domain/agent_run.go\<close>): statuses, transitions, retries, attempts.  The
    transition table is the documented one, the invariant of a run holds in every history, final statuses are final, the number of attempts is bounded.
  \<^item> \<open>Domain_Policy\<close> (\<^verbatim>\<open>domain/scheduler_policy.go\<close>), \<open>Domain_Cluster\<close>
    (\<^verbatim>\<open>domain/cluster.go\<close>, \<^verbatim>\<open>reservation.go\<close>, \<^verbatim>\<open>execution_intent.go\<close>): eligibility decisions with
    their reasons and the next instant at which they may change; what a valid desired state guarantees.
  \<^item> \<open>Sched_Strategy\<close> (\<^verbatim>\<open>application/scheduler/strategy.go\<close>): scores in exact integer arithmetic and the
    optimality of the ranking.
  \<^item> \<open>Events\<close>, \<open>Messaging\<close> (\<^verbatim>\<open>events\<close>, \<^verbatim>\<open>adapters/kafka\<close>, \<^verbatim>\<open>application/consumer\<close>,
    \<^verbatim>\<open>adapters/postgres/processed_events.go\<close>): envelopes and their validation, the round trip from
    producer to consumer, exactly-once processing, the retry ladder and the dead letters.
  \<^item> \<open>Db_Schema\<close>, \<open>Reservations\<close>, \<open>Cluster_Registry\<close>, \<open>Sched_Queue\<close>, \<open>Outbox\<close>, \<open>Sched_Intent\<close>,
    \<open>Run_Repo\<close> (\<^verbatim>\<open>adapters/postgres\<close>, \<^verbatim>\<open>application/outbox\<close>, \<^verbatim>\<open>application/runs\<close>): one theory for each
    repository.  The ledger refines an abstract list of bookings (locale \<open>ledger_machine\<close>) and never exceeds
    budgets and capacity; claims are exclusive and fair; intents are atomic and idempotent; events are delivered at least
    once; lists are complete; tenants are isolated.
  \<^item> \<open>Run_History\<close>: the locale \<open>run_machine\<close>, the contract that every writer of the run tables keeps:
    rows stay well formed and change by transitions of the domain only.
  \<^item> \<open>Platform\<close>: all operations on the shared database in any order, with the interpretations of
    \<open>run_machine\<close> and \<open>ledger_machine\<close> for the whole.
  \<^item> \<open>Operator_Types\<close> (\<^verbatim>\<open>operator/api/v1alpha1\<close>, \<^verbatim>\<open>operator/internal/naming\<close>,
    \<^verbatim>\<open>controller/errors.go\<close>, \<^verbatim>\<open>validation.go\<close>), \<open>Operator_Lifecycle\<close> (\<^verbatim>\<open>controller/lifecycle.go\<close>,
    \<^verbatim>\<open>retry.go\<close>), \<open>Operator_Resources\<close> (\<^verbatim>\<open>operator/internal/resources\<close>), \<open>Operator_Reconcile\<close> (the rest of
    \<^verbatim>\<open>operator/internal/controller\<close>): the custom resource, what is concluded from a Job and its Pods, the objects
    of an attempt and their security, and the whole reconciliation.  Success needs evidence, workloads are confined, the
    delay of a retry is bounded.
  \<^item> \<open>Operator_History\<close>: all histories of a run in its cluster and the discipline of its attempts.
  This theory states the properties of the whole: histories of the platform, the ledger under all
  writers, requests accepted once and commands executed once.

  \<^bold>\<open>Loops.\<close>  Every loop of the modelled code consumes a list or a number and is a total function; no
  fuel is used anywhere.

  \<^bold>\<open>Not modelled.\<close>
  \<^item> the HTTP layer (\<^verbatim>\<open>httpapi\<close>), configuration, logging, metrics and the main programs: parsing, formatting and wiring;
  \<^item> the loops of the scheduler (\<^verbatim>\<open>application/scheduler/engine.go\<close>, \<^verbatim>\<open>claimer.go\<close>), which call the modelled
    operations on a timer; \<open>Platform\<close> covers every order of these calls;
  \<^item> the handoff to a cluster (\<^verbatim>\<open>application/handoff\<close>) and the agent runner (\<^verbatim>\<open>agent-runner\<close>): calls to the
    Kubernetes client, processes and the file system;
  \<^item> artifacts and projects, apart from the read of a project;
  \<^item> the deep copies that are generated for the custom resource, as values are immutable here.
\<close>

section \<open>Every history of the platform\<close>

text \<open>C1: The stored runs are always well formed.  Whatever sequence of operations the API, the scheduler and the ledger
  perform, in whatever order, every row satisfies the constraints of its table and the invariant of the domain, every
  run changes by transitions of the domain only, with a version that never falls, a run in a final status stays in
  it, and no run is ever stuck in the queue: as soon as it is due it can be claimed.\<close>

theorem platform_history:
  fixes L :: lib and marshal :: request_json and ops :: "platform_op list"
  assumes "store_inv d" "domain_inv d"
  defines "d' \<equiv> fold (platform_exec L marshal) ops d"
  shows "store_inv d' \<and> domain_inv d' \<and>
    (\<forall>r \<in> set (db_runs d). \<exists>r' \<in> set (db_runs d'). row_id r' = row_id r \<and> rr_Version r \<le> rr_Version r' \<and>
       run_step\<^sup>*\<^sup>* (rr_Run r) (rr_Run r') \<and> (run_final (rr_Status r) \<longrightarrow> rr_Status r' = rr_Status r)) \<and>
    (\<forall>r' \<in> set (db_runs d'). claimable now d' r' = due now r')"
proof -
  note k = platform_runs.history [OF assms(1), of L marshal ops, folded d'_def]
  then have inv: "store_inv d'" "runs_evolve d d'" by (simp_all add: kept_def)
  have "\<exists>r' \<in> set (db_runs d'). row_id r' = row_id r \<and> rr_Version r \<le> rr_Version r' \<and>
      run_step\<^sup>*\<^sup>* (rr_Run r) (rr_Run r') \<and> (run_final (rr_Status r) \<longrightarrow> rr_Status r' = rr_Status r)"
    if r: "r \<in> set (db_runs d)" for r
  proof -
    have "rr_Run r \<in> set (map rr_Run (db_runs d))" using r by simp
    from evolves_row [OF inv(2) [unfolded runs_evolve_def] this]
    obtain r' where "r' \<in> set (db_runs d')" "run_step\<^sup>*\<^sup>* (rr_Run r) (rr_Run r')" by auto
    then show ?thesis using run_steps_keep run_steps_final by blast
  qed
  then show ?thesis
    using inv(1) platform_runs.history_domain [OF assms(1,2), of L marshal ops, folded d'_def] waiting_claimable by blast
qed

definition ex_input' :: CreateInput where
  "ex_input' = \<lparr>cin_PromptReference = ''s3://prompts/9'', cin_Runtime = ''go1.24'', cin_CPUMillis = 100,
     cin_MemoryMiB = 128, cin_TimeoutSeconds = 60, cin_MaxAttempts = 2, cin_IdempotencyKey = ''key-3''\<rparr>"

definition ex_json :: request_json where
  "ex_json projectID input = cin_PromptReference input"

text \<open>The API accepts a run, the scheduler claims one and assigns it, and the API cancels it.\<close>

definition ex_history :: "platform_op list" where
  "ex_history = [OpApi (OpCreate (Some 40, Some 41, Some 42) (100, 100) ex_caller 2 ex_input'), OpQueue (OpClaim ex_claim []),
     OpIntent (OpSchedule (Some 30, Some 31) (Some 32) ex_intent), OpApi (OpCancel (Some 50) 140 ex_caller 7 ''cmd-1'' ''stop'')]"

lemma ex_domain_inv: "domain_inv ex_db"
  by (auto simp: domain_inv_def ex_db_def ex_row_def ex_run_def ex_attempt_def run_inv_def attempt_inv_def attempt_final_def
      failed_status_def)

lemma ex_history_run:
  "map (\<lambda>r. (row_id r, rr_Status r)) (db_runs (fold (platform_exec ex_lib ex_json) ex_history ex_db)) =
     [(7, AgentRunCancelling), (9, AgentRunQueued), (40, AgentRunQueued)]"
  by code_simp

theorem platform_history_witness:
  "store_inv (fold (platform_exec ex_lib ex_json) ex_history ex_db) \<and>
   domain_inv (fold (platform_exec ex_lib ex_json) ex_history ex_db)"
  using platform_history [OF ex_store_inv ex_domain_inv] by blast


lemma ex_history_ledger:
  "db_policies (fold (platform_exec ex_lib ex_json) ex_history ex_db) 1 = Some ex_policy"
  "sql_sum bu_Reserved (usage_key 1 0) (db_usage (fold (platform_exec ex_lib ex_json) ex_history ex_db)) = 60"
  by code_simp+



definition ex_ids :: "uuid option \<times> uuid option \<times> uuid option" where
  "ex_ids = (Some 40, Some 41, Some 42)"

definition ex_ids' :: "uuid option \<times> uuid option \<times> uuid option" where
  "ex_ids' = (Some 60, Some 61, Some 62)"


lemma authorized_Inr:
  "authorized caller outcome d = (Inr x, d') \<longleftrightarrow> CanManageRuns caller \<and> outcome = (Inr x, d')"
  by (cases outcome; cases "fst outcome") (auto simp: authorized_def)

lemma cancel_once:
  fixes L :: lib and marshal :: request_json and ops :: "platform_op list"
  assumes "store_inv d" "\<forall>oper \<in> set ops. \<not> commands_run (idn_TenantID caller) runID oper" "\<not> IsZero now" "\<not> IsZero now'"
    "Service_Cancel L newV7 now caller runID commandID reason d = (Inr res, d1)" "\<not> rcr_Replayed res"
    "\<not> IsZero (run_CreatedAt (rcr_Run res))"
  defines "d2 \<equiv> fold (platform_exec L marshal) ops d1"
  shows "\<exists>run'. Service_Cancel L newV7' now' caller runID commandID reason d2 =
      (Inr \<lparr>rcr_Run = run', rcr_Replayed = True\<rparr>, d2) \<and> marshalIdempotencyResponse run' = marshalIdempotencyResponse (rcr_Run res)"
proof -
  define request where "request = (\<lambda>t. \<lparr>crq_TenantID = idn_TenantID caller, crq_RunID = runID, crq_CommandID = commandID,
    crq_Reason = reason, crq_Actor = idn_Subject caller, crq_Now = t\<rparr>)"
  have run: "Repo_Cancel L newV7 (request now) d = (Inr res, d1)" "CanManageRuns caller"
    using assms(5) by (simp_all add: Service_Cancel_def authorized_Inr request_def)
  have v: "validateCancelRequest (request now) = None"
    using run(1) by (auto simp: Repo_Cancel_def commits_Inr Repo_Cancel_tx_def split: option.splits)
  then have "validateCancelRequest (request now') = None"
    using assms(4) by (simp add: validateCancelRequest_def request_def split: if_splits)
  then have "\<exists>run'. Repo_Cancel L newV7' (request now') d2 = (Inr \<lparr>rcr_Run = run', rcr_Replayed = True\<rparr>, d2) \<and>
      marshalIdempotencyResponse run' = marshalIdempotencyResponse (rcr_Run res)"
    unfolding d2_def using assms(2,3) by (intro cancel_again [OF assms(1) run(1) assms(6) _ _ assms(7)]) (simp_all add: request_def)
  then show ?thesis using run(2) by (auto simp: Service_Cancel_def authorized_Inr request_def)
qed

lemma retry_once:
  fixes L :: lib and marshal :: request_json and ops :: "platform_op list"
  assumes "store_inv d" "\<forall>oper \<in> set ops. \<not> commands_run (idn_TenantID caller) runID oper" "\<not> IsZero now" "\<not> IsZero now'"
    "Service_Retry L ids now caller runID commandID d = (Inr res, d1)" "\<not> rcr_Replayed res"
    "\<not> IsZero (run_CreatedAt (rcr_Run res))"
  defines "d2 \<equiv> fold (platform_exec L marshal) ops d1"
  shows "\<exists>run'. Service_Retry L ids' now' caller runID commandID d2 =
      (Inr \<lparr>rcr_Run = run', rcr_Replayed = True\<rparr>, d2) \<and> marshalIdempotencyResponse run' = marshalIdempotencyResponse (rcr_Run res)"
proof -
  define request where "request = (\<lambda>t. \<lparr>rrq_TenantID = idn_TenantID caller, rrq_RunID = runID, rrq_CommandID = commandID,
    rrq_Actor = idn_Subject caller, rrq_Now = t\<rparr>)"
  have run: "Repo_Retry L (fst ids) (snd ids) (request now) d = (Inr res, d1)" "CanManageRuns caller"
    using assms(5) by (simp_all add: Service_Retry_def authorized_Inr request_def)
  have v: "validateRetryRequest (request now) = None"
    using run(1) by (auto simp: Repo_Retry_def commits_Inr Repo_Retry_tx_def split: option.splits)
  then have "validateRetryRequest (request now') = None"
    using assms(4) by (simp add: validateRetryRequest_def request_def split: if_splits)
  then have "\<exists>run'. Repo_Retry L (fst ids') (snd ids') (request now') d2 = (Inr \<lparr>rcr_Run = run', rcr_Replayed = True\<rparr>, d2) \<and>
      marshalIdempotencyResponse run' = marshalIdempotencyResponse (rcr_Run res)"
    unfolding d2_def using assms(2,3) by (intro retry_again [OF assms(1) run(1) assms(6) _ _ assms(7)]) (simp_all add: request_def)
  then show ?thesis using run(2) by (auto simp: Service_Retry_def authorized_Inr request_def)
qed

text \<open>C5: Commands are executed once.  After a cancel or a retry has changed a run, and after any further history
  without another command on the run, the same command gets the response of the first time, is reported as a
  replay and changes nothing.\<close>

theorem commands_idempotent:
  fixes L :: lib and marshal :: request_json and ops :: "platform_op list"
  assumes "store_inv d" "\<forall>oper \<in> set ops. \<not> commands_run (idn_TenantID caller) runID oper" "\<not> IsZero now" "\<not> IsZero now'"
  defines "later \<equiv> fold (platform_exec L marshal) ops"
  shows "(\<forall>res d1. Service_Cancel L newV7 now caller runID commandID reason d = (Inr res, d1) \<longrightarrow> \<not> rcr_Replayed res \<longrightarrow>
      \<not> IsZero (run_CreatedAt (rcr_Run res)) \<longrightarrow>
      (\<exists>run'. Service_Cancel L newV7' now' caller runID commandID reason (later d1) =
         (Inr \<lparr>rcr_Run = run', rcr_Replayed = True\<rparr>, later d1) \<and>
         marshalIdempotencyResponse run' = marshalIdempotencyResponse (rcr_Run res))) \<and>
    (\<forall>res d1. Service_Retry L ids now caller runID commandID d = (Inr res, d1) \<longrightarrow> \<not> rcr_Replayed res \<longrightarrow>
      \<not> IsZero (run_CreatedAt (rcr_Run res)) \<longrightarrow>
      (\<exists>run'. Service_Retry L ids' now' caller runID commandID (later d1) =
         (Inr \<lparr>rcr_Run = run', rcr_Replayed = True\<rparr>, later d1) \<and>
         marshalIdempotencyResponse run' = marshalIdempotencyResponse (rcr_Run res)))"
  using cancel_once [OF assms(1-4)] retry_once [OF assms(1-4)] unfolding later_def by simp

text \<open>A run that waits in the queue is cancelled, the scheduler goes on with another one, and the client repeats the command.\<close>

theorem commands_idempotent_witness:
  "\<exists>run'. Service_Cancel ex_lib (Some 51) 150 ex_caller 7 ''cmd-1'' ''stop''
      (queue_exec ex_lib (OpClaim ex_claim []) (snd (Service_Cancel ex_lib (Some 50) 140 ex_caller 7 ''cmd-1'' ''stop'' ex_db))) =
    (Inr \<lparr>rcr_Run = run', rcr_Replayed = True\<rparr>,
     queue_exec ex_lib (OpClaim ex_claim []) (snd (Service_Cancel ex_lib (Some 50) 140 ex_caller 7 ''cmd-1'' ''stop'' ex_db)))"
proof -
  let ?first = "Service_Cancel ex_lib (Some 50) 140 ex_caller 7 ''cmd-1'' ''stop'' ex_db"
  obtain res d1 where first: "?first = (Inr res, d1)" "\<not> rcr_Replayed res" "\<not> IsZero (run_CreatedAt (rcr_Run res))"
  proof -
    have "case fst ?first of Inr res \<Rightarrow> \<not> rcr_Replayed res \<and> \<not> IsZero (run_CreatedAt (rcr_Run res)) | Inl e \<Rightarrow> False" by code_simp
    then show thesis using that by (cases ?first) (auto split: sum.splits)
  qed
  have other: "\<forall>oper \<in> set [OpQueue (OpClaim ex_claim [])]. \<not> commands_run (idn_TenantID ex_caller) 7 oper"
    and time: "\<not> IsZero 140" "\<not> IsZero 150"
    by (simp_all add: IsZero_def)
  note once = commands_idempotent [OF ex_store_inv other time, of ex_lib "Some 50" "''cmd-1''" "''stop''" "Some 51" ex_json,
    THEN conjunct1, rule_format, OF first]
  then show ?thesis unfolding first by (auto simp: first(1))
qed

end
